(* ===== verification/Prelude.thy ===== *)
theory Prelude
  imports Main "HOL-Library.Char_ord" "HOL-Library.List_Lexorder" "HOL-Library.Multiset"
begin

section \<open>Shared vocabulary: byte strings, patterns, sorting\<close>

text \<open>
  What every component of the observer uses of Go and its standard library:
  \<^item> Go strings are byte sequences, so they are \<^typ>\<open>string\<close> (a list of 8-bit characters) and
    \<open>len\<close> is \<^const>\<open>length\<close>; the order \<open><\<close> of Go strings is the lexicographic order of bytes,
    which is the order of \<open>HOL-Library.List_Lexorder\<close>;
  \<^item> the anchored regular expressions of the program are terms of a small pattern type with an
    executable matcher, and a lemma that says what each shape of pattern accepts;
  \<^item> \<open>slices.SortFunc\<close> is insertion by a comparison function; the locale \<open>comparison\<close> states
    the laws a comparison function must obey and what sorting then guarantees.
\<close>

subsection \<open>Collections of lemmas\<close>

named_theorems pattern_simps \<open>what each pattern of the program accepts\<close>
named_theorems io_simps \<open>how the sequential effects of a request compose\<close>
named_theorems io_defs \<open>definitions of the sequential effects\<close>

subsection \<open>Patterns\<close>

text \<open>
  The program only uses character classes, concatenation, an optional group and a bounded
  repetition. All its classes hold ASCII characters only, so matching bytes and matching
  runes agree. A class is a list of inclusive ranges, as in \<open>[a-z0-9-]\<close>.
\<close>

type_synonym char_class = "(char \<times> char) list"

datatype pattern =
    Class char_class
  | Seq pattern pattern
  | Optional pattern
  | UpTo nat pattern

definition in_class :: "char_class \<Rightarrow> char \<Rightarrow> bool" where
  "in_class rs c \<longleftrightarrow> list_ex (\<lambda>(lo, hi). lo \<le> c \<and> c \<le> hi) rs"

text \<open>\<open>match_rest p s\<close> lists what can be left of \<open>s\<close> after \<open>p\<close> has matched a prefix of it.\<close>

primrec match_up_to :: "nat \<Rightarrow> (string \<Rightarrow> string list) \<Rightarrow> string \<Rightarrow> string list" where
  "match_up_to 0 m s = [s]"
| "match_up_to (Suc n) m s = concat (map (match_up_to n m) (m s)) @ [s]"

primrec match_rest :: "pattern \<Rightarrow> string \<Rightarrow> string list" where
  "match_rest (Class rs) s =
     (case s of [] \<Rightarrow> [] | c # cs \<Rightarrow> (if in_class rs c then [cs] else []))"
| "match_rest (Seq p q) s = concat (map (match_rest q) (match_rest p s))"
| "match_rest (Optional p) s = match_rest p s @ [s]"
| "match_rest (UpTo n p) s = match_up_to n (match_rest p) s"

text \<open>\<open>regexp.MatchString\<close> of a pattern anchored by \<open>^\<close> and \<open>$\<close>.\<close>

definition matches :: "pattern \<Rightarrow> string \<Rightarrow> bool" where
  "matches p s \<longleftrightarrow> [] \<in> set (match_rest p s)"

text \<open>\<open>regexp.MatchString\<close> of a lone character class without anchors: some character is in it.\<close>

definition contains_class :: "char_class \<Rightarrow> string \<Rightarrow> bool" where
  "contains_class rs s \<longleftrightarrow> list_ex (in_class rs) s"

text \<open>
  A repeated class followed by one character: \<open>[mid]{0,n}[fin]\<close> accepts exactly the non-empty
  strings of at most \<open>n + 1\<close> characters whose last one is in \<open>fin\<close> and whose others are in
  \<open>mid\<close>.
\<close>

lemma match_up_to_class:
  "r \<in> set (match_up_to n (match_rest (Class mid)) s) \<longleftrightarrow>
     (\<exists>m. s = m @ r \<and> length m \<le> n \<and> list_all (in_class mid) m)"
proof (induction n arbitrary: s)
  case 0
  show ?case by auto
next
  case (Suc n)
  show ?case
  proof (cases s)
    case Nil
    then show ?thesis by simp
  next
    case (Cons c cs)
    have "(\<exists>m. c # cs = m @ r \<and> length m \<le> Suc n \<and> list_all (in_class mid) m) \<longleftrightarrow>
        r = c # cs \<or> in_class mid c \<and>
          (\<exists>m. cs = m @ r \<and> length m \<le> n \<and> list_all (in_class mid) m)"
      (is "?lhs \<longleftrightarrow> ?rhs")
    proof
      assume ?lhs
      then obtain m where m: "c # cs = m @ r" "length m \<le> Suc n" "list_all (in_class mid) m"
        by blast
      then show ?rhs by (cases m) auto
    next
      assume ?rhs
      then show ?lhs
      proof
        assume "r = c # cs"
        then show ?lhs by (intro exI [of _ "[]"]) simp
      next
        assume "in_class mid c \<and>
          (\<exists>m. cs = m @ r \<and> length m \<le> n \<and> list_all (in_class mid) m)"
        then obtain m where "in_class mid c" "cs = m @ r" "length m \<le> n" "list_all (in_class mid) m"
          by blast
        then show ?lhs by (intro exI [of _ "c # m"]) simp
      qed
    qed
    with Cons Suc.IH [of cs] show ?thesis by auto
  qed
qed

lemma matches_class_tail:
  "matches (Seq (UpTo n (Class mid)) (Class fin)) s \<longleftrightarrow>
     s \<noteq> [] \<and> length s \<le> Suc n \<and> list_all (in_class mid) (butlast s) \<and> in_class fin (last s)"
    (is "?m \<longleftrightarrow> ?r")
proof
  assume ?m
  then obtain m r where "s = m @ r" "length m \<le> n" "list_all (in_class mid) m"
      "[] \<in> set (match_rest (Class fin) r)"
    by (auto simp: matches_def match_up_to_class)
  then show ?r by (auto split: list.splits if_splits simp: butlast_append)
next
  assume r: ?r
  then have "s = butlast s @ [last s]" by simp
  with r show ?m
    by (auto simp: matches_def match_up_to_class intro!: exI [of _ "butlast s"] bexI [of _ "[last s]"])
qed

lemma matches_class_up_to:
  "matches (Seq (Class first) (UpTo n (Class rest))) s \<longleftrightarrow>
     s \<noteq> [] \<and> length s \<le> Suc n \<and> in_class first (hd s) \<and> list_all (in_class rest) (tl s)"
  by (cases s) (auto simp: matches_def match_up_to_class)

text \<open>The shape of the identifier, DNS label and port name patterns.\<close>

definition label_pattern :: "char_class \<Rightarrow> char_class \<Rightarrow> nat \<Rightarrow> char_class \<Rightarrow> pattern" where
  "label_pattern first mid n fin =
     Seq (Class first) (Optional (Seq (UpTo n (Class mid)) (Class fin)))"

lemma matches_label_pattern:
  "matches (label_pattern first mid n fin) s \<longleftrightarrow>
     (case s of [] \<Rightarrow> False
      | c # cs \<Rightarrow> in_class first c \<and>
          (cs = [] \<or> length cs \<le> Suc n \<and> list_all (in_class mid) (butlast cs) \<and>
             in_class fin (last cs)))"
proof (cases s)
  case Nil
  then show ?thesis by (simp add: matches_def label_pattern_def)
next
  case (Cons c cs)
  have "matches (label_pattern first mid n fin) s \<longleftrightarrow>
      in_class first c \<and> (matches (Seq (UpTo n (Class mid)) (Class fin)) cs \<or> cs = [])"
    by (auto simp: Cons matches_def label_pattern_def)
  with Cons show ?thesis
    by (auto simp: matches_class_tail)
qed

lemma matches_label_length:
  "matches (label_pattern first mid n fin) s \<Longrightarrow> 0 < length s \<and> length s \<le> n + 2"
  by (auto simp: matches_label_pattern split: list.splits)

text \<open>Every character of a matched label is in one of the three classes.\<close>

lemma matches_label_chars:
  "matches (label_pattern first mid n fin) s \<Longrightarrow>
     list_all (\<lambda>c. in_class first c \<or> in_class mid c \<or> in_class fin c) s"
proof (cases s)
  case (Cons c cs)
  assume "matches (label_pattern first mid n fin) s"
  with Cons have c: "in_class first c"
    and cs: "cs = [] \<or> list_all (in_class mid) (butlast cs) \<and> in_class fin (last cs)"
    by (auto simp: matches_label_pattern)
  have "list_all (\<lambda>c. in_class first c \<or> in_class mid c \<or> in_class fin c) cs"
  proof (cases "cs = []")
    case False
    then obtain ys z where "cs = ys @ [z]" by (meson rev_exhaust)
    with cs show ?thesis by (auto simp: list_all_iff)
  qed simp
  with Cons c show ?thesis by simp
qed (simp add: matches_label_pattern)

subsection \<open>Comparison functions and sorting\<close>

text \<open>
  \<open>slices.SortFunc\<close> with a comparison function that returns a negative, zero or positive integer.
  It is insertion sort for up to twelve elements and an unstable sort beyond; elements that
  compare equal are interchangeable for every caller of the program whose comparison tells all
  of its elements apart (\<open>sort_unique\<close> below), and where a caller's comparison does not, this
  definition keeps their order.
\<close>

fun insert_sorted :: "('a \<Rightarrow> 'a \<Rightarrow> int) \<Rightarrow> 'a \<Rightarrow> 'a list \<Rightarrow> 'a list" where
  "insert_sorted cmp x [] = [x]"
| "insert_sorted cmp x (y # ys) =
     (if cmp x y \<le> 0 then x # y # ys else y # insert_sorted cmp x ys)"

fun sort_func :: "('a \<Rightarrow> 'a \<Rightarrow> int) \<Rightarrow> 'a list \<Rightarrow> 'a list" where
  "sort_func cmp [] = []"
| "sort_func cmp (x # xs) = insert_sorted cmp x (sort_func cmp xs)"

lemma mset_insert_sorted [simp]: "mset (insert_sorted cmp x xs) = add_mset x (mset xs)"
  by (induction xs) auto

lemma mset_sort_func [simp]: "mset (sort_func cmp xs) = mset xs"
  by (induction xs) auto

lemma set_sort_func [simp]: "set (sort_func cmp xs) = set xs"
  using mset_sort_func [of cmp xs] by (metis set_mset_mset)

lemma length_sort_func [simp]: "length (sort_func cmp xs) = length xs"
  using mset_sort_func [of cmp xs] by (metis size_mset)

lemma distinct_sort_func [simp]: "distinct (sort_func cmp xs) = distinct xs"
  using mset_sort_func [of cmp xs] by (metis mset_eq_imp_distinct_iff)

locale comparison =
  fixes cmp :: "'a \<Rightarrow> 'a \<Rightarrow> int"
  assumes cmp_flip: "cmp x y < 0 \<longleftrightarrow> 0 < cmp y x"
    and cmp_trans: "cmp x y \<le> 0 \<Longrightarrow> cmp y z \<le> 0 \<Longrightarrow> cmp x z \<le> 0"
begin

lemma cmp_total: "cmp x y \<le> 0 \<or> cmp y x \<le> 0"
  using cmp_flip [of y x] by linarith

lemma insert_sorted_sorted:
  assumes "sorted_wrt (\<lambda>x y. cmp x y \<le> 0) ys"
  shows "sorted_wrt (\<lambda>x y. cmp x y \<le> 0) (insert_sorted cmp x ys)"
  using assms
proof (induction ys)
  case (Cons y ys)
  have set: "set (insert_sorted cmp x ys) = insert x (set ys)"
    using mset_insert_sorted [of cmp x ys] by (metis set_mset_add_mset_insert set_mset_mset)
  show ?case
  proof (cases "cmp x y \<le> 0")
    case True
    with Cons.prems show ?thesis by (auto intro: cmp_trans)
  next
    case False
    then have "cmp y x \<le> 0" using cmp_total by blast
    with False Cons set show ?thesis by auto
  qed
qed simp

theorem sort_sorted: "sorted_wrt (\<lambda>x y. cmp x y \<le> 0) (sort_func cmp xs)"
  by (induction xs) (auto intro: insert_sorted_sorted)

text \<open>Two sorted arrangements of the same elements agree when equal comparison means equality.\<close>

lemma sorted_arrangement_unique:
  assumes "\<forall>x\<in>set xs. \<forall>y\<in>set xs. cmp x y = 0 \<longrightarrow> x = y"
    and "sorted_wrt (\<lambda>x y. cmp x y \<le> 0) xs" and "sorted_wrt (\<lambda>x y. cmp x y \<le> 0) ys"
    and "mset xs = mset ys"
  shows "xs = ys"
  using assms
proof (induction xs arbitrary: ys)
  case (Cons x xs)
  then obtain y ys' where ys: "ys = y # ys'" by (cases ys) auto
  have sets: "set (x # xs) = set ys" using Cons.prems(4) by (metis set_mset_mset)
  have "x = y"
  proof (rule ccontr)
    assume "x \<noteq> y"
    then have "y \<in> set xs" and "x \<in> set ys'" using sets ys by auto
    then have "cmp x y \<le> 0" and "cmp y x \<le> 0" using Cons.prems(2,3) ys by auto
    then have "cmp x y = 0" using cmp_flip [of x y] by linarith
    then show False using Cons.prems(1) \<open>y \<in> set xs\<close> \<open>x \<noteq> y\<close> by auto
  qed
  moreover have "xs = ys'"
    using Cons.IH [of ys'] Cons.prems ys \<open>x = y\<close> by auto
  ultimately show ?case using ys by simp
qed simp

theorem sort_unique:
  assumes "\<forall>x\<in>set xs. \<forall>y\<in>set xs. cmp x y = 0 \<longrightarrow> x = y" and "mset xs = mset ys"
  shows "sort_func cmp xs = sort_func cmp ys"
  by (rule sorted_arrangement_unique) (use assms in \<open>auto simp: sort_sorted\<close>)

text \<open>Sorting a sorted list changes nothing.\<close>

lemma sort_idem:
  assumes "sorted_wrt (\<lambda>x y. cmp x y \<le> 0) xs"
  shows "sort_func cmp xs = xs"
  using assms
proof (induction xs)
  case (Cons x xs)
  then have "sort_func cmp xs = xs" by simp
  with Cons.prems show ?case by (cases xs) auto
qed simp

end

text \<open>Comparison by a key: the \<open>if a.ID < b.ID\<close> chains and \<open>strings.Compare\<close>.\<close>

definition compare_by :: "('a \<Rightarrow> 'k::linorder) \<Rightarrow> 'a \<Rightarrow> 'a \<Rightarrow> int" where
  "compare_by key a b = (if key a < key b then -1 else if key b < key a then 1 else 0)"

lemma compare_by_le [simp]: "compare_by key a b \<le> 0 \<longleftrightarrow> key a \<le> key b"
  by (auto simp: compare_by_def)

lemma compare_by_eq [simp]: "compare_by key a b = 0 \<longleftrightarrow> key a = key b"
  by (auto simp: compare_by_def)

interpretation by_key: comparison "compare_by key" for key :: "'a \<Rightarrow> 'k::linorder"
  by unfold_locales (auto simp: compare_by_def split: if_splits)

lemma sort_by_key_sorted: "sorted (map key (sort_func (compare_by key) xs))"
  using by_key.sort_sorted [of key xs] by (simp add: sorted_map)

lemma sort_by_key_unique:
  assumes "inj_on key (set xs)" and "mset xs = mset ys"
  shows "sort_func (compare_by key) xs = sort_func (compare_by key) ys"
  by (rule by_key.sort_unique) (use assms in \<open>auto dest: inj_onD\<close>)

subsection \<open>Decimal numerals\<close>

text \<open>\<open>strconv.Itoa\<close> and the \<open>%d\<close> verb.\<close>

definition digit_char :: "nat \<Rightarrow> char" where
  "digit_char d = ''0123456789'' ! d"

fun nat_text :: "nat \<Rightarrow> string" where
  "nat_text n = (if n < 10 then [digit_char n] else nat_text (n div 10) @ [digit_char (n mod 10)])"

declare nat_text.simps [simp del]

definition int_text :: "int \<Rightarrow> string" where
  "int_text i = (if i < 0 then CHR ''-'' # nat_text (nat (- i)) else nat_text (nat i))"

lemma length_nat_text: "n < 10 ^ Suc k \<Longrightarrow> length (nat_text n) \<le> Suc k"
proof (induction k arbitrary: n)
  case 0
  then show ?case by (simp add: nat_text.simps [of n])
next
  case (Suc k)
  show ?case
  proof (cases "n < 10")
    case True
    then show ?thesis by (simp add: nat_text.simps [of n])
  next
    case False
    from Suc.prems have "n div 10 < 10 ^ Suc k" by (simp add: less_mult_imp_div_less)
    then have "length (nat_text (n div 10)) \<le> Suc k" by (rule Suc.IH)
    with False show ?thesis by (simp add: nat_text.simps [of n])
  qed
qed

lemma nat_text_nonempty [simp]: "nat_text n \<noteq> []"
  by (simp add: nat_text.simps [of n])

text \<open>Go's \<open>int\<close> has 64 bits, so its numerals have at most twenty characters.\<close>

definition int64 :: "int \<Rightarrow> bool" where
  "int64 i \<longleftrightarrow> - (2 ^ 63) \<le> i \<and> i < 2 ^ 63"

lemma length_int_text:
  assumes "int64 i"
  shows "length (int_text i) \<le> 20"
proof -
  have "length (nat_text (nat \<bar>i\<bar>)) \<le> Suc 18"
    by (rule length_nat_text) (use assms in \<open>auto simp: int64_def\<close>)
  then show ?thesis by (auto simp: int_text_def split: if_splits)
qed

definition pad_left :: "nat \<Rightarrow> string \<Rightarrow> string" where
  "pad_left w s = replicate (w - length s) CHR ''0'' @ s"

lemma length_pad_left: "length (pad_left w s) = max w (length s)"
  by (simp add: pad_left_def)

subsection \<open>Case mapping compared with ASCII texts\<close>

text \<open>
  \<open>strings.ToLower\<close> and simple case folding are only used to compare a text with ASCII words.
  Of all characters outside ASCII, lower-casing sends only U+0130 (bytes C4 B0) and U+212A
  (bytes E2 84 AA) to ASCII letters, and folding identifies only U+017F (C5 BF) and U+212A with
  ASCII letters. The two functions below do exactly that and leave every other byte outside
  ASCII alone, so they agree with Go's functions on every comparison with an ASCII word.
\<close>

definition byte :: "char \<Rightarrow> int" where
  "byte c = of_char c"

definition lower_char :: "char \<Rightarrow> char" where
  "lower_char c = (if CHR ''A'' \<le> c \<and> c \<le> CHR ''Z'' then char_of (byte c + 32) else c)"

fun lower_text :: "string \<Rightarrow> string" where
  "lower_text (a # b # c # s) =
     (if a = CHR 0xE2 \<and> b = CHR 0x84 \<and> c = CHR 0xAA then CHR ''k'' # lower_text s
      else if a = CHR 0xC4 \<and> b = CHR 0xB0 then CHR ''i'' # lower_text (c # s)
      else lower_char a # lower_text (b # c # s))"
| "lower_text [a, b] =
     (if a = CHR 0xC4 \<and> b = CHR 0xB0 then ''i'' else [lower_char a, lower_char b])"
| "lower_text [a] = [lower_char a]"
| "lower_text [] = []"

fun fold_text :: "string \<Rightarrow> string" where
  "fold_text (a # b # c # s) =
     (if a = CHR 0xE2 \<and> b = CHR 0x84 \<and> c = CHR 0xAA then CHR ''k'' # fold_text s
      else if a = CHR 0xC5 \<and> b = CHR 0xBF then CHR ''s'' # fold_text (c # s)
      else lower_char a # fold_text (b # c # s))"
| "fold_text [a, b] =
     (if a = CHR 0xC5 \<and> b = CHR 0xBF then ''s'' else [lower_char a, lower_char b])"
| "fold_text [a] = [lower_char a]"
| "fold_text [] = []"

subsection \<open>Splitting and joining\<close>

text \<open>\<open>strings.Split\<close> with a separator of one character.\<close>

fun split_on :: "char \<Rightarrow> string \<Rightarrow> string list" where
  "split_on sep [] = [[]]"
| "split_on sep (c # cs) =
     (if c = sep then [] # split_on sep cs
      else case split_on sep cs of [] \<Rightarrow> [[c]] | p # ps \<Rightarrow> (c # p) # ps)"

lemma split_on_nonempty [simp]: "split_on sep s \<noteq> []"
  by (induction s) (auto split: list.splits)

text \<open>Everything in the text is the separator or in one of the parts.\<close>

lemma set_split_on: "set s \<subseteq> insert sep (\<Union> (set (map set (split_on sep s))))"
proof (induction s)
  case (Cons c cs)
  obtain p ps where "split_on sep cs = p # ps" by (cases "split_on sep cs") auto
  with Cons show ?case by auto
qed simp

text \<open>The zero byte separates the parts of a composed key. Parts without zero bytes can be read back.\<close>

definition nul_free :: "string \<Rightarrow> bool" where
  "nul_free s \<longleftrightarrow> CHR 0x00 \<notin> set s"

definition nul_join :: "string \<Rightarrow> string \<Rightarrow> string" where
  "nul_join a b = a @ CHR 0x00 # b"

lemma nul_join_inj:
  assumes "nul_free a" and "nul_free b" and "nul_join a b = nul_join c d"
  shows "a = c \<and> b = d"
proof -
  have "count_list (nul_join a b) (CHR 0x00) = 1"
    using assms(1,2) by (simp add: nul_join_def nul_free_def count_notin)
  with assms(3) have c0: "count_list (nul_join c d) (CHR 0x00) = 1" by simp
  then have "count_list c (CHR 0x00) = 0"
    by (simp add: nul_join_def)
  then have "CHR 0x00 \<notin> set c" by (simp add: count_list_0_iff)
  with assms show ?thesis
    unfolding nul_join_def nul_free_def
    by (metis append_Cons_eq_iff)
qed

text \<open>
  The zero byte is the smallest character, so the order of composed keys is the order of their
  first parts and then of their second parts.
\<close>

lemma nul_least: "(c::char) < CHR 0x00 \<longleftrightarrow> False"
  by (simp add: less_char_def)

lemma nul_less: "c \<noteq> CHR 0x00 \<Longrightarrow> CHR 0x00 < (c::char)"
  using nul_least [of c] by (meson linorder_cases)

theorem nul_join_less:
  assumes "nul_free a" and "nul_free c"
  shows "nul_join a b < nul_join c d \<longleftrightarrow> a < c \<or> a = c \<and> b < d"
  using assms
proof (induction a arbitrary: c)
  case Nil
  then show ?case
    by (cases c) (auto simp: nul_join_def nul_free_def nul_least intro: nul_less)
next
  case (Cons x a)
  then show ?case
  proof (cases c)
    case Nil
    with Cons.prems show ?thesis
      by (auto simp: nul_join_def nul_free_def nul_least)
  next
    case (Cons y c')
    with Cons.prems Cons.IH [of c'] show ?thesis
      by (auto simp: nul_join_def nul_free_def)
  qed
qed

subsection \<open>Labels\<close>

text \<open>The classes \<open>[a-z]\<close>, \<open>[a-z0-9]\<close> and \<open>[a-z0-9-]\<close>.\<close>

definition lower_class :: char_class where
  "lower_class = [(CHR ''a'', CHR ''z'')]"

definition lower_digit_class :: char_class where
  "lower_digit_class = [(CHR ''a'', CHR ''z''), (CHR ''0'', CHR ''9'')]"

definition lower_digit_hyphen_class :: char_class where
  "lower_digit_hyphen_class =
     [(CHR ''a'', CHR ''z''), (CHR ''0'', CHR ''9''), (CHR ''-'', CHR ''-'')]"

definition label_char :: "char \<Rightarrow> bool" where
  "label_char c \<longleftrightarrow>
     CHR ''a'' \<le> c \<and> c \<le> CHR ''z'' \<or> CHR ''0'' \<le> c \<and> c \<le> CHR ''9'' \<or> c = CHR ''-''"

lemma in_lower_class: "in_class lower_class c \<longleftrightarrow> CHR ''a'' \<le> c \<and> c \<le> CHR ''z''"
  by (simp add: in_class_def lower_class_def)

lemma in_lower_digit_hyphen_class: "in_class lower_digit_hyphen_class = label_char"
  by (rule ext) (auto simp: in_class_def lower_digit_hyphen_class_def label_char_def)

lemma in_lower_digit_class: "in_class lower_digit_class c \<longleftrightarrow> label_char c \<and> c \<noteq> CHR ''-''"
  by (auto simp: in_class_def lower_digit_class_def label_char_def)

lemma lower_label_char: "CHR ''a'' \<le> c \<Longrightarrow> c \<le> CHR ''z'' \<Longrightarrow> label_char c \<and> c \<noteq> CHR ''-''"
  by (auto simp: label_char_def)

text \<open>
  The labels of at most \<open>n\<close> characters: lowercase letters, digits and hyphens, no hyphen at either
  end. \<open>[a-z0-9](?:[a-z0-9-]{0,n}[a-z0-9])?\<close> accepts exactly those of at most \<open>n + 2\<close> characters.
\<close>

definition valid_label :: "nat \<Rightarrow> string \<Rightarrow> bool" where
  "valid_label n s \<longleftrightarrow>
     s \<noteq> [] \<and> length s \<le> n \<and> hd s \<noteq> CHR ''-'' \<and> last s \<noteq> CHR ''-'' \<and> list_all label_char s"

lemma list_all_butlast_last: "xs \<noteq> [] \<Longrightarrow> list_all P xs \<longleftrightarrow> list_all P (butlast xs) \<and> P (last xs)"
  by (induction xs) auto

lemma matches_lower_label:
  assumes "\<And>c. in_class first c \<Longrightarrow> label_char c \<and> c \<noteq> CHR ''-''"
  shows "matches (label_pattern first lower_digit_hyphen_class n lower_digit_class) s \<longleftrightarrow>
      valid_label (n + 2) s \<and> in_class first (hd s)"
proof (cases s)
  case (Cons c cs)
  with assms [of c] show ?thesis
    by (cases "cs = []")
      (auto simp: matches_label_pattern valid_label_def in_lower_digit_hyphen_class in_lower_digit_class
        list_all_butlast_last [of cs])
qed (simp add: matches_label_pattern valid_label_def)

lemma matches_dns_label:
  "matches (label_pattern lower_digit_class lower_digit_hyphen_class n lower_digit_class) s \<longleftrightarrow>
     valid_label (n + 2) s"
proof -
  have "in_class lower_digit_class (hd s)" if "valid_label (n + 2) s"
    using that by (cases s) (auto simp: valid_label_def in_lower_digit_class)
  then show ?thesis
    by (subst matches_lower_label) (auto simp: in_lower_digit_class)
qed

lemma label_char_not_nul: "label_char c \<Longrightarrow> c \<noteq> CHR 0x00"
  by (auto simp: label_char_def less_eq_char_def)

lemma valid_label_nul_free: "valid_label n s \<Longrightarrow> nul_free s"
  by (auto simp: valid_label_def nul_free_def list_all_iff dest: label_char_not_nul)

end
