(* ===== verification/Clock.thy ===== *)
theory Clock
  imports Prelude
begin

section \<open>Instants and their text\<close>

text \<open>
  A \<open>time.Time\<close> in UTC, as the program uses it: seconds since the Unix epoch and nanoseconds
  within the second. The text is the layout \<open>time.RFC3339Nano\<close>. \<open>time.Time.MarshalJSON\<close>
  refuses a year outside 0 to 9999, which is an error of \<open>json.Marshal\<close>.
\<close>

datatype time = Time (time_secs: int) (time_nanos: int)

text \<open>\<open>Time.Compare\<close> orders instants by seconds and then nanoseconds.\<close>

instantiation time :: linorder
begin

definition less_eq_time :: "time \<Rightarrow> time \<Rightarrow> bool" where
  "less_eq_time s t \<longleftrightarrow>
     time_secs s < time_secs t \<or> time_secs s = time_secs t \<and> time_nanos s \<le> time_nanos t"

definition less_time :: "time \<Rightarrow> time \<Rightarrow> bool" where
  "less_time s t \<longleftrightarrow>
     time_secs s < time_secs t \<or> time_secs s = time_secs t \<and> time_nanos s < time_nanos t"

instance
  by standard (auto simp: less_eq_time_def less_time_def time.expand)

end

text \<open>\<open>time.Unix(sec, nsec)\<close> brings the nanoseconds into range.\<close>

definition time_unix :: "int \<Rightarrow> int \<Rightarrow> time" where
  "time_unix sec nsec = Time (sec + nsec div 1000000000) (nsec mod 1000000000)"

text \<open>
  \<open>Time.Sub\<close> saturates at the bounds of a 64-bit duration in nanoseconds;
  \<open>Duration.Milliseconds\<close> truncates towards zero.
\<close>

definition time_sub :: "time \<Rightarrow> time \<Rightarrow> int" where
  "time_sub t u =
     (let d = (time_secs t - time_secs u) * 1000000000 + (time_nanos t - time_nanos u)
      in max (- (2 ^ 63)) (min (2 ^ 63 - 1) d))"

definition milliseconds :: "int \<Rightarrow> int" where
  "milliseconds d = sgn d * (\<bar>d\<bar> div 1000000)"

lemma milliseconds_nonneg: "0 \<le> d \<Longrightarrow> milliseconds d = d div 1000000"
  by (cases "d = 0") (auto simp: milliseconds_def)

lemma milliseconds_neg: "d < 0 \<Longrightarrow> milliseconds d \<le> 0"
  by (simp add: milliseconds_def)

lemma time_sub_bounds: "- (2 ^ 63) \<le> time_sub t u \<and> time_sub t u < 2 ^ 63"
  by (simp add: time_sub_def Let_def)

subsection \<open>Calendar dates\<close>

text \<open>
  The proleptic Gregorian date of a day counted from 1970-01-01, by 400-year eras that start on
  the first of March.
\<close>

definition day_of_era :: "int \<Rightarrow> int" where
  "day_of_era days = (days + 719468) mod 146097"

definition year_of_era :: "int \<Rightarrow> int" where
  "year_of_era doe = (doe - doe div 1460 + doe div 36524 - doe div 146096) div 365"

definition day_of_year :: "int \<Rightarrow> int" where
  "day_of_year doe =
     (let yoe = year_of_era doe in doe - (365 * yoe + yoe div 4 - yoe div 100))"

definition civil_date :: "int \<Rightarrow> int \<times> int \<times> int" where
  "civil_date days =
     (let doe = day_of_era days;
          doy = day_of_year doe;
          mp = (5 * doy + 2) div 153;
          d = doy - (153 * mp + 2) div 5 + 1;
          m = (if mp < 10 then mp + 3 else mp - 9);
          y = year_of_era doe + (days + 719468) div 146097 * 400
      in (if m \<le> 2 then y + 1 else y, m, d))"

definition time_year :: "time \<Rightarrow> int" where
  "time_year t = fst (civil_date (time_secs t div 86400))"

text \<open>Numbers padded with zeros on the left (\<open>appendInt\<close> of package \<open>time\<close>).\<close>

definition append_int :: "int \<Rightarrow> nat \<Rightarrow> string" where
  "append_int x w =
     (if x < 0 then CHR ''-'' # pad_left w (nat_text (nat (- x))) else pad_left w (nat_text (nat x)))"

definition fraction_text :: "int \<Rightarrow> string" where
  "fraction_text nanos =
     (let ds = rev (dropWhile (\<lambda>c. c = CHR ''0'') (rev (append_int nanos 9)))
      in if ds = [] then [] else CHR ''.'' # ds)"

definition rfc3339_nano :: "time \<Rightarrow> string" where
  "rfc3339_nano t =
     (let days = time_secs t div 86400; sod = time_secs t mod 86400; (y, m, d) = civil_date days
      in append_int y 4 @ ''-'' @ append_int m 2 @ ''-'' @ append_int d 2 @ ''T'' @
         append_int (sod div 3600) 2 @ '':'' @ append_int (sod div 60 mod 60) 2 @ '':'' @
         append_int (sod mod 60) 2 @ fraction_text (time_nanos t) @ ''Z'')"

definition time_encodable :: "time \<Rightarrow> bool" where
  "time_encodable t \<longleftrightarrow> 0 \<le> time_year t \<and> time_year t \<le> 9999"

text \<open>The fields of a date are in range: the month is 1 to 12 and the day 1 to 31.\<close>

lemma day_of_era_bounds: "0 \<le> day_of_era days \<and> day_of_era days < 146097"
  by (simp add: day_of_era_def)

lemma year_of_era_bounds:
  assumes "0 \<le> doe" and "doe < 146097"
  shows "0 \<le> year_of_era doe \<and> year_of_era doe < 400"
proof -
  define a where "a = doe div 1460"
  define b where "b = doe div 36524"
  define c where "c = doe div 146096"
  have a: "1460 * a \<le> doe" "doe < 1460 * a + 1460" unfolding a_def by linarith+
  have b: "36524 * b \<le> doe" "doe < 36524 * b + 36524" unfolding b_def by linarith+
  have c: "146096 * c \<le> doe" "doe < 146096 * c + 146096" unfolding c_def by linarith+
  have "0 \<le> doe - a + b - c"
    using a b c assms by linarith
  moreover have "doe - a + b - c < 146000"
  proof (cases "doe = 146096")
    case True
    then show ?thesis by (simp add: a_def b_def c_def)
  next
    case False
    with assms b have "b \<le> 3" by linarith
    moreover have "0 \<le> c" using c assms by linarith
    moreover have "doe - a < 145997" using a assms False by linarith
    ultimately show ?thesis by linarith
  qed
  ultimately have "0 \<le> (doe - a + b - c) div 365 \<and> (doe - a + b - c) div 365 < 400"
    by linarith
  then show ?thesis by (simp add: year_of_era_def a_def b_def c_def)
qed

text \<open>The seconds from the epoch to the end of the year 9999 are in the years 1969 to 9999.\<close>

lemma time_year_in_range:
  assumes "0 \<le> time_secs t" and "time_secs t \<le> 253402300799"
  shows "time_encodable t"
proof -
  define days where "days = time_secs t div 86400"
  define doe where "doe = day_of_era days"
  define yoe where "yoe = year_of_era doe"
  define doy where "doy = day_of_year doe"
  define era where "era = (days + 719468) div 146097"
  have days: "0 \<le> days" "days \<le> 2932896" using assms unfolding days_def by linarith+
  have era: "0 \<le> era" "era \<le> 24" unfolding era_def using days by linarith+
  have doe: "0 \<le> doe" "doe < 146097" using day_of_era_bounds by (auto simp: doe_def)
  then have yoe: "0 \<le> yoe" "yoe \<le> 399" using year_of_era_bounds [of doe] by (auto simp: yoe_def)
  have doy: "doy = doe - (365 * yoe + yoe div 4 - yoe div 100)"
    by (simp add: doy_def day_of_year_def yoe_def Let_def)
  have last: "doy \<le> 305" if "era = 24" and "yoe = 399"
  proof -
    have "days + 719468 = 146097 * era + doe"
      unfolding era_def doe_def day_of_era_def by simp
    with that days have "doe \<le> 146036" by linarith
    with that doy show ?thesis by simp
  qed
  have year: "time_year t = (if (if (5 * doy + 2) div 153 < 10 then (5 * doy + 2) div 153 + 3
        else (5 * doy + 2) div 153 - 9) \<le> 2 then yoe + era * 400 + 1 else yoe + era * 400)"
    by (simp only: time_year_def civil_date_def Let_def fst_conv days_def doe_def doy_def yoe_def era_def)
  have "time_year t \<le> 9999"
  proof (cases "era = 24 \<and> yoe = 399")
    case True
    then have "(5 * doy + 2) div 153 < 10" using last by linarith
    moreover have "0 \<le> doy"
    proof -
      have "365 * 399 \<le> doe - doe div 1460 + doe div 36524 - doe div 146096"
        using True unfolding yoe_def year_of_era_def by linarith
      moreover from this have "99 \<le> doe div 1460" using doe by linarith
      ultimately have "145731 \<le> doe" using doe by (cases "doe < 146096") linarith+
      with True doy show ?thesis by simp
    qed
    ultimately show ?thesis using True year by (simp split: if_splits)
  next
    case False
    with era yoe have "yoe + era * 400 + 1 \<le> 9999" by linarith
    with year show ?thesis by simp
  qed
  moreover have "0 \<le> time_year t" using year era yoe by simp
  ultimately show ?thesis by (simp add: time_encodable_def)
qed

lemma civil_2026: "civil_date 20668 = (2026, 8, 3)"
  by (simp add: civil_date_def day_of_era_def day_of_year_def year_of_era_def Let_def)

end
