(* ===== verification/Json.thy ===== *)
theory Json
  imports Clock
begin

section \<open>JSON texts and values\<close>

text \<open>
  What the program uses of \<open>encoding/json\<close>: values, \<open>json.Marshal\<close> (compact text with the HTML
  characters escaped), the syntax \<open>json.Unmarshal\<close> accepts, and the rules by which a value is
  stored into strings, integers, slices and structs. Numbers keep their literal.
\<close>

datatype json =
    JNull
  | JBool bool
  | JNumber string
  | JString string
  | JArray "json list"
  | JObject "(string \<times> json) list"

subsection \<open>UTF-8\<close>

text \<open>\<open>utf8.DecodeRuneInString\<close>: the width of the encoded rune at the start, 0 for an invalid one.\<close>

definition in_bytes :: "int \<Rightarrow> int \<Rightarrow> char \<Rightarrow> bool" where
  "in_bytes lo hi c \<longleftrightarrow> lo \<le> byte c \<and> byte c \<le> hi"

definition continuation :: "char \<Rightarrow> bool" where
  "continuation = in_bytes 0x80 0xBF"

fun rune_width :: "string \<Rightarrow> nat" where
  "rune_width [] = 0"
| "rune_width (a # s) =
     (if byte a < 0x80 then 1
      else (case s of [] \<Rightarrow> 0 | b # t \<Rightarrow>
        if in_bytes 0xC2 0xDF a \<and> continuation b then 2
        else (case t of [] \<Rightarrow> 0 | c # u \<Rightarrow>
          if (byte a = 0xE0 \<and> in_bytes 0xA0 0xBF b \<or>
              in_bytes 0xE1 0xEC a \<and> continuation b \<or>
              byte a = 0xED \<and> in_bytes 0x80 0x9F b \<or>
              in_bytes 0xEE 0xEF a \<and> continuation b) \<and> continuation c then 3
          else (case u of [] \<Rightarrow> 0 | d # _ \<Rightarrow>
            if (byte a = 0xF0 \<and> in_bytes 0x90 0xBF b \<or>
                in_bytes 0xF1 0xF3 a \<and> continuation b \<or>
                byte a = 0xF4 \<and> in_bytes 0x80 0x8F b) \<and> continuation c \<and> continuation d then 4
            else 0))))"

text \<open>\<open>utf8.AppendRune\<close>\<close>

definition utf8_encode :: "int \<Rightarrow> string" where
  "utf8_encode r =
     (if r < 0x80 then [char_of r]
      else if r < 0x800 then [char_of (0xC0 + r div 64), char_of (0x80 + r mod 64)]
      else if r < 0x10000 then
        [char_of (0xE0 + r div 4096), char_of (0x80 + r div 64 mod 64), char_of (0x80 + r mod 64)]
      else
        [char_of (0xF0 + r div 262144), char_of (0x80 + r div 4096 mod 64),
         char_of (0x80 + r div 64 mod 64), char_of (0x80 + r mod 64)])"

definition replacement :: string where
  "replacement = [CHR 0xEF, CHR 0xBF, CHR 0xBD]"

subsection \<open>Encoding\<close>

definition hex_char :: "int \<Rightarrow> char" where
  "hex_char d = ''0123456789abcdef'' ! nat d"

text \<open>One ASCII character inside a string: the short escapes, the HTML and control escapes, itself.\<close>

definition quote_char :: "char \<Rightarrow> string" where
  "quote_char c =
     (if c = CHR 0x22 \<or> c = CHR 0x5C then [CHR 0x5C, c]
      else if c = CHR 0x08 then [CHR 0x5C, CHR ''b'']
      else if c = CHR 0x0C then [CHR 0x5C, CHR ''f'']
      else if c = CHR 0x0A then [CHR 0x5C, CHR ''n'']
      else if c = CHR 0x0D then [CHR 0x5C, CHR ''r'']
      else if c = CHR 0x09 then [CHR 0x5C, CHR ''t'']
      else if byte c < 0x20 \<or> c = CHR ''<'' \<or> c = CHR ''>'' \<or> c = CHR ''&''
        then CHR 0x5C # ''u00'' @ [hex_char (byte c div 16), hex_char (byte c mod 16)]
      else [c])"

text \<open>One rune inside a string, given by its bytes; no bytes stand for an invalid rune.\<close>

definition quote_rune :: "string \<Rightarrow> string" where
  "quote_rune r =
     (case r of [] \<Rightarrow> CHR 0x5C # ''ufffd''
      | [c] \<Rightarrow> quote_char c
      | _ \<Rightarrow>
        if r = [CHR 0xE2, CHR 0x80, CHR 0xA8] then CHR 0x5C # ''u2028''
        else if r = [CHR 0xE2, CHR 0x80, CHR 0xA9] then CHR 0x5C # ''u2029''
        else r)"

function quote_chars :: "string \<Rightarrow> string" where
  "quote_chars [] = []"
| "quote_chars (c # cs) =
     quote_rune (take (rune_width (c # cs)) (c # cs)) @
     quote_chars (drop (rune_width (c # cs) - 1) cs)"
  by pat_completeness auto
termination by (relation "measure length") auto

definition json_quote :: "string \<Rightarrow> string" where
  "json_quote s = CHR 0x22 # quote_chars s @ [CHR 0x22]"

text \<open>Joining with commas.\<close>

fun comma_join :: "string list \<Rightarrow> string" where
  "comma_join [] = []"
| "comma_join [s] = s"
| "comma_join (s # t # ts) = s @ CHR '','' # comma_join (t # ts)"

fun json_text :: "json \<Rightarrow> string" where
  "json_text JNull = ''null''"
| "json_text (JBool b) = (if b then ''true'' else ''false'')"
| "json_text (JNumber lit) = lit"
| "json_text (JString s) = json_quote s"
| "json_text (JArray js) = CHR ''['' # comma_join (map json_text js) @ '']''"
| "json_text (JObject ms) =
     CHR ''{'' # comma_join (map (\<lambda>(k, v). json_quote k @ CHR '':'' # json_text v) ms) @ ''}''"

text \<open>
  \<open>json.Marshal\<close> of a struct: its fields in order. A field tagged \<open>omitempty\<close> is left out when
  it is empty. Encoding can only fail in a time (\<open>None\<close>).
\<close>

type_synonym marshalled = "json option"

fun marshal_fields :: "(string \<times> marshalled) list \<Rightarrow> (string \<times> json) list option" where
  "marshal_fields [] = Some []"
| "marshal_fields ((k, m) # ms) =
     (case m of None \<Rightarrow> None
      | Some j \<Rightarrow> map_option (\<lambda>rest. (k, j) # rest) (marshal_fields ms))"

fun marshal_all :: "('a \<Rightarrow> marshalled) \<Rightarrow> 'a list \<Rightarrow> json list option" where
  "marshal_all f [] = Some []"
| "marshal_all f (x # xs) =
     (case f x of None \<Rightarrow> None | Some j \<Rightarrow> map_option (\<lambda>rest. j # rest) (marshal_all f xs))"

definition marshal_struct :: "(string \<times> marshalled) list \<Rightarrow> marshalled" where
  "marshal_struct fs = map_option JObject (marshal_fields fs)"

definition marshal_list :: "('a \<Rightarrow> marshalled) \<Rightarrow> 'a list \<Rightarrow> marshalled" where
  "marshal_list f xs = map_option JArray (marshal_all f xs)"

definition marshal_string :: "string \<Rightarrow> marshalled" where
  "marshal_string s = Some (JString s)"

definition marshal_int :: "int \<Rightarrow> marshalled" where
  "marshal_int i = Some (JNumber (int_text i))"

definition marshal_bool :: "bool \<Rightarrow> marshalled" where
  "marshal_bool b = Some (JBool b)"

definition marshal_time :: "time \<Rightarrow> marshalled" where
  "marshal_time t = (if time_encodable t then Some (JString (rfc3339_nano t)) else None)"

definition omit_empty_string :: "string \<Rightarrow> string \<Rightarrow> (string \<times> marshalled) list" where
  "omit_empty_string k s = (if s = [] then [] else [(k, marshal_string s)])"

definition omit_nil :: "string \<Rightarrow> ('a \<Rightarrow> marshalled) \<Rightarrow> 'a option \<Rightarrow> (string \<times> marshalled) list" where
  "omit_nil k f v = (case v of None \<Rightarrow> [] | Some x \<Rightarrow> [(k, f x)])"

subsection \<open>The length of an encoded value\<close>

text \<open>Characters that are encoded as themselves.\<close>

definition plain_char :: "char \<Rightarrow> bool" where
  "plain_char c \<longleftrightarrow> byte c < 0x80 \<and> quote_char c = [c]"

lemma rune_width_ascii: "byte c < 0x80 \<Longrightarrow> rune_width (c # cs) = 1"
  by simp

lemma rune_width_le: "rune_width s \<le> 4"
  by (cases s) (auto split: list.splits)

declare rune_width.simps [simp del]

lemma quote_chars_ascii: "byte c < 0x80 \<Longrightarrow> quote_chars (c # cs) = quote_char c @ quote_chars cs"
  by (simp add: rune_width_ascii quote_rune_def)

lemma quote_chars_plain: "list_all plain_char s \<Longrightarrow> quote_chars s = s"
  by (induction s) (auto simp: plain_char_def quote_chars_ascii simp del: quote_chars.simps(2))

lemma length_json_quote_plain: "list_all plain_char s \<Longrightarrow> length (json_quote s) = length s + 2"
  by (simp add: json_quote_def quote_chars_plain)

lemma length_comma_join: "length (comma_join ss) \<le> (\<Sum>s\<leftarrow>ss. length s + 1)"
  by (induction ss rule: comma_join.induct) auto

lemma length_json_array:
  assumes "\<And>j. j \<in> set js \<Longrightarrow> length (json_text j) \<le> k"
  shows "length (json_text (JArray js)) \<le> 2 + length js * (k + 1)"
proof -
  have "(\<Sum>s\<leftarrow>map json_text js. length s + 1) \<le> length js * (k + 1)"
    using assms by (induction js) fastforce+
  with length_comma_join [of "map json_text js"] show ?thesis by simp
qed

lemma length_json_object:
  "length (json_text (JObject ms)) \<le>
     2 + (\<Sum>(k, v)\<leftarrow>ms. length (json_quote k) + length (json_text v) + 2)"
proof -
  have "length (comma_join (map (\<lambda>(k, v). json_quote k @ CHR '':'' # json_text v) ms)) \<le>
      (\<Sum>(k, v)\<leftarrow>ms. length (json_quote k) + length (json_text v) + 2)"
    by (rule order_trans [OF length_comma_join])
      (simp add: comp_def case_prod_unfold add.commute add.left_commute)
  then show ?thesis by simp
qed

lemma marshal_all_Some:
  "marshal_all f xs = Some js \<Longrightarrow> length js = length xs \<and> (\<forall>j\<in>set js. \<exists>x\<in>set xs. f x = Some j)"
  by (induction xs arbitrary: js) (auto split: option.splits, blast)

lemma marshal_all_None: "marshal_all f xs = None \<longleftrightarrow> (\<exists>x\<in>set xs. f x = None)"
  by (induction xs) (auto split: option.splits)

lemma length_marshal_list:
  assumes "marshal_list f xs = Some j"
    and "\<And>x i. x \<in> set xs \<Longrightarrow> f x = Some i \<Longrightarrow> length (json_text i) \<le> k"
  shows "length (json_text j) \<le> 2 + length xs * (k + 1)"
proof -
  obtain js where j: "j = JArray js" and js: "marshal_all f xs = Some js"
    using assms(1) by (auto simp: marshal_list_def)
  have "length (json_text i) \<le> k" if "i \<in> set js" for i
    using marshal_all_Some [OF js] that assms(2) by blast
  then show ?thesis
    using length_json_array [of js k] marshal_all_Some [OF js] j by simp
qed

text \<open>No byte of a string needs more than six bytes.\<close>

lemma length_quote_char: "length (quote_char c) \<le> 6"
  by (simp add: quote_char_def)

lemma length_quote_rune: "length r \<le> 4 \<Longrightarrow> length (quote_rune r) \<le> 6"
  by (auto simp: quote_rune_def length_quote_char split: list.splits)

lemma length_quote_chars: "length (quote_chars s) \<le> 6 * length s"
proof (induction s rule: quote_chars.induct)
  case (2 c cs)
  have "length (quote_rune (take (rune_width (c # cs)) (c # cs))) \<le> 6"
    by (rule length_quote_rune) (use rune_width_le [of "c # cs"] in simp)
  with 2 show ?case by simp
qed simp

lemma length_json_quote: "length (json_quote s) \<le> 6 * length s + 2"
  using length_quote_chars [of s] by (simp add: json_quote_def)

text \<open>The encoded length of an instant.\<close>

lemma length_append_int:
  assumes "\<bar>x\<bar> < 10 ^ Suc k"
  shows "length (append_int x w) \<le> max w (Suc k) + 1"
proof -
  have "length (nat_text (nat \<bar>x\<bar>)) \<le> Suc k"
    by (rule length_nat_text) (use assms in \<open>simp add: nat_less_iff\<close>)
  then show ?thesis by (auto simp: append_int_def length_pad_left split: if_splits)
qed

lemma length_fraction_text:
  assumes "0 \<le> n" and "n < 1000000000"
  shows "length (fraction_text n) \<le> 11"
proof -
  have "length (append_int n 9) \<le> 10"
    using length_append_int [of n 8 9] assms by simp
  then show ?thesis
    using length_dropWhile_le [of "\<lambda>c. c = CHR ''0''" "rev (append_int n 9)"]
    by (simp add: fraction_text_def Let_def)
qed

lemma civil_date_bounds:
  assumes "civil_date days = (y, m, d)"
  shows "\<bar>m\<bar> < 10000 \<and> 1 \<le> d \<and> d \<le> 31"
proof -
  define doe where "doe = day_of_era days"
  define yoe where "yoe = year_of_era doe"
  define doy where "doy = day_of_year doe"
  define mp where "mp = (5 * doy + 2) div 153"
  define q where "q = (153 * mp + 2) div 5"
  have doe: "0 \<le> doe" "doe < 146097" using day_of_era_bounds by (auto simp: doe_def)
  then have yoe: "0 \<le> yoe" "yoe < 400" using year_of_era_bounds by (auto simp: yoe_def)
  have "doy = doe - (365 * yoe + yoe div 4 - yoe div 100)"
    by (simp add: doy_def day_of_year_def yoe_def Let_def)
  then have doy: "\<bar>doy\<bar> < 200000" using doe yoe by linarith
  have mp: "153 * mp \<le> 5 * doy + 2" "5 * doy + 2 < 153 * mp + 153" unfolding mp_def by linarith+
  have q: "5 * q \<le> 153 * mp + 2" "153 * mp + 2 < 5 * q + 5" unfolding q_def by linarith+
  have "(y, m, d) = (if (if mp < 10 then mp + 3 else mp - 9) \<le> 2
        then yoe + (days + 719468) div 146097 * 400 + 1 else yoe + (days + 719468) div 146097 * 400,
      if mp < 10 then mp + 3 else mp - 9, doy - q + 1)"
    using assms [symmetric]
    by (simp only: civil_date_def Let_def doe_def doy_def mp_def q_def yoe_def)
  then have d: "d = doy - q + 1" and m: "m = (if mp < 10 then mp + 3 else mp - 9)"
    by (simp_all only: prod.inject)
  have "mp - 9 \<le> m" and "m \<le> mp + 3" by (simp_all add: m)
  moreover have "\<bar>mp\<bar> < 9000" using mp(1,2) doy by linarith
  ultimately have "\<bar>m\<bar> < 10000" by linarith
  moreover have "1 \<le> d" "d \<le> 31" using mp q d by linarith+
  ultimately show ?thesis by blast
qed

definition time_valid :: "time \<Rightarrow> bool" where
  "time_valid t \<longleftrightarrow> 0 \<le> time_nanos t \<and> time_nanos t < 1000000000"

lemma length_rfc3339_nano:
  assumes "time_valid t" and "time_encodable t"
  shows "length (rfc3339_nano t) \<le> 48"
proof -
  obtain y m d where c: "civil_date (time_secs t div 86400) = (y, m, d)"
    by (cases "civil_date (time_secs t div 86400)") auto
  have y: "0 \<le> y" "y \<le> 9999" using assms(2) c by (auto simp: time_encodable_def time_year_def)
  define sod where "sod = time_secs t mod 86400"
  have sod: "0 \<le> sod" "sod < 86400" by (auto simp: sod_def)
  have "length (append_int y 4) \<le> 5" using length_append_int [of y 3 4] y by simp
  moreover have "length (append_int m 2) \<le> 5" and "length (append_int d 2) \<le> 3"
    using length_append_int [of m 3 2] length_append_int [of d 1 2] civil_date_bounds [OF c] by auto
  moreover have "length (append_int x 2) \<le> 3" if "0 \<le> x" and "x < 60" for x
    using length_append_int [of x 1 2] that by simp
  then have "length (append_int (sod div 3600) 2) \<le> 3"
    and "length (append_int (sod div 60 mod 60) 2) \<le> 3" and "length (append_int (sod mod 60) 2) \<le> 3"
    using sod by (simp_all add: pos_imp_zdiv_nonneg_iff int_div_less_self [THEN order.strict_trans2])
  moreover have "length (fraction_text (time_nanos t)) \<le> 11"
    using length_fraction_text assms(1) by (simp add: time_valid_def)
  ultimately show ?thesis
    unfolding rfc3339_nano_def Let_def c prod.case sod_def [symmetric] length_append list.size
    by linarith
qed

lemma length_marshal_time:
  assumes "marshal_time t = Some j" and "time_valid t"
  shows "length (json_text j) \<le> 290"
  using assms length_json_quote [of "rfc3339_nano t"] length_rfc3339_nano [of t]
  by (auto simp: marshal_time_def split: if_splits)

end
