(* ===== verification/JsonRead.thy ===== *)
theory JsonRead
  imports Json
begin

section \<open>Reading JSON\<close>

text \<open>
  The syntax accepted by \<open>json.Unmarshal\<close> and the rules that store a value into Go data: a
  \<open>null\<close> leaves strings, numbers and structs as they are and empties pointers and slices; a
  member name is compared with the field names without regard to case; unknown members are
  ignored; a value of the wrong kind is an error of the whole call. A slice is filled from
  zero values.
\<close>

subsection \<open>Strings and numbers\<close>

definition is_space :: "char \<Rightarrow> bool" where
  "is_space c \<longleftrightarrow> c = CHR '' '' \<or> c = CHR 0x09 \<or> c = CHR 0x0D \<or> c = CHR 0x0A"

definition skip_space :: "string \<Rightarrow> string" where
  "skip_space s = dropWhile is_space s"

definition is_digit :: "char \<Rightarrow> bool" where
  "is_digit c \<longleftrightarrow> CHR ''0'' \<le> c \<and> c \<le> CHR ''9''"

definition hex_value :: "char \<Rightarrow> int option" where
  "hex_value c =
     (if is_digit c then Some (byte c - 48)
      else if CHR ''a'' \<le> c \<and> c \<le> CHR ''f'' then Some (byte c - 87)
      else if CHR ''A'' \<le> c \<and> c \<le> CHR ''F'' then Some (byte c - 55)
      else None)"

fun read_hex4 :: "string \<Rightarrow> (int \<times> string) option" where
  "read_hex4 (a # b # c # d # s) =
     (case (hex_value a, hex_value b, hex_value c, hex_value d) of
        (Some w, Some x, Some y, Some z) \<Rightarrow> Some (4096 * w + 256 * x + 16 * y + z, s)
      | _ \<Rightarrow> None)"
| "read_hex4 _ = None"

text \<open>The part of an escape sequence after the backslash.\<close>

definition read_unicode :: "string \<Rightarrow> (string \<times> string) option" where
  "read_unicode s =
     (case read_hex4 s of None \<Rightarrow> None
      | Some (u, r) \<Rightarrow>
          if 0xD800 \<le> u \<and> u < 0xE000 then
            (case r of
               x # y # r' \<Rightarrow>
                 if u < 0xDC00 \<and> x = CHR 0x5C \<and> y = CHR ''u'' then
                   (case read_hex4 r' of
                      Some (v, r'') \<Rightarrow>
                        if 0xDC00 \<le> v \<and> v < 0xE000
                          then Some (utf8_encode (0x10000 + (u - 0xD800) * 1024 + (v - 0xDC00)), r'')
                          else Some (replacement, r)
                    | None \<Rightarrow> Some (replacement, r))
                 else Some (replacement, r)
             | _ \<Rightarrow> Some (replacement, r))
          else Some (utf8_encode u, r))"

fun read_escape :: "string \<Rightarrow> (string \<times> string) option" where
  "read_escape [] = None"
| "read_escape (c # s) =
     (if c = CHR 0x22 \<or> c = CHR 0x5C \<or> c = CHR ''/'' then Some ([c], s)
      else if c = CHR ''b'' then Some ([CHR 0x08], s)
      else if c = CHR ''f'' then Some ([CHR 0x0C], s)
      else if c = CHR ''n'' then Some ([CHR 0x0A], s)
      else if c = CHR ''r'' then Some ([CHR 0x0D], s)
      else if c = CHR ''t'' then Some ([CHR 0x09], s)
      else if c = CHR ''u'' then read_unicode s
      else None)"

lemma read_hex4_length: "read_hex4 s = Some (u, r) \<Longrightarrow> length r < length s"
  by (cases s rule: read_hex4.cases) (auto split: option.splits)

lemma read_unicode_length: "read_unicode s = Some (t, r) \<Longrightarrow> length r < length s"
  by (auto simp: read_unicode_def dest!: read_hex4_length split: option.splits if_splits list.splits)

lemma read_escape_length: "read_escape s = Some (t, r) \<Longrightarrow> length r < length s"
  by (cases s) (auto dest: read_unicode_length split: if_splits)

text \<open>The rest of a string after its opening quotation mark.\<close>

function read_string :: "string \<Rightarrow> (string \<times> string) option" where
  "read_string [] = None"
| "read_string (c # s) =
     (if c = CHR 0x22 then Some ([], s)
      else if c = CHR 0x5C then
        (case read_escape s of None \<Rightarrow> None
         | Some (t, r) \<Rightarrow> map_option (apfst ((@) t)) (read_string r))
      else if byte c < 0x20 then None
      else let w = rune_width (c # s) in
        if w = 0 then map_option (apfst ((@) replacement)) (read_string s)
        else map_option (apfst ((@) (take w (c # s)))) (read_string (drop (w - 1) s)))"
  by pat_completeness auto
termination
  by (relation "measure length") (auto dest: read_escape_length)

definition read_digits :: "string \<Rightarrow> string \<times> string" where
  "read_digits s = (takeWhile is_digit s, dropWhile is_digit s)"

text \<open>The literal of a number and what follows it.\<close>

definition read_integer_part :: "string \<Rightarrow> (string \<times> string) option" where
  "read_integer_part s =
     (case s of [] \<Rightarrow> None
      | c # r \<Rightarrow>
          if c = CHR ''0'' then Some ([c], r)
          else if is_digit c then Some (read_digits s)
          else None)"

definition read_fraction :: "string \<Rightarrow> (string \<times> string) option" where
  "read_fraction s =
     (case s of c # r \<Rightarrow>
          if c = CHR ''.'' then
            (case read_digits r of (ds, r') \<Rightarrow> if ds = [] then None else Some (c # ds, r'))
          else Some ([], s)
      | [] \<Rightarrow> Some ([], s))"

definition read_exponent :: "string \<Rightarrow> (string \<times> string) option" where
  "read_exponent s =
     (case s of c # r \<Rightarrow>
          if c = CHR ''e'' \<or> c = CHR ''E'' then
            (let (sign, r') = (case r of d # r'' \<Rightarrow>
                   if d = CHR ''+'' \<or> d = CHR ''-'' then ([d], r'') else ([], r) | [] \<Rightarrow> ([], r));
                 (ds, r'') = read_digits r'
             in if ds = [] then None else Some (c # sign @ ds, r''))
          else Some ([], s)
      | [] \<Rightarrow> Some ([], s))"

definition read_number :: "string \<Rightarrow> (string \<times> string) option" where
  "read_number s =
     (let (sign, r) = (case s of c # r \<Rightarrow> if c = CHR ''-'' then ([c], r) else ([], s) | [] \<Rightarrow> ([], s))
      in case read_integer_part r of None \<Rightarrow> None
         | Some (ip, r1) \<Rightarrow>
             (case read_fraction r1 of None \<Rightarrow> None
              | Some (fp, r2) \<Rightarrow>
                  (case read_exponent r2 of None \<Rightarrow> None
                   | Some (ep, r3) \<Rightarrow> Some (sign @ ip @ fp @ ep, r3))))"

lemma read_string_length: "read_string s = Some (t, r) \<Longrightarrow> length r < length s"
proof (induction s arbitrary: t r rule: read_string.induct)
  case (2 c s)
  show ?case
  proof (cases "c = CHR 0x22")
    case True
    with "2.prems" show ?thesis by simp
  next
    case quote: False
    show ?thesis
    proof (cases "c = CHR 0x5C")
      case True
      with "2.prems" quote obtain e x t' where e: "read_escape s = Some (e, x)"
        and x: "read_string x = Some (t', r)"
        by (auto split: option.splits)
      from "2.IH"(1) [OF quote True e refl x] read_escape_length [OF e] show ?thesis by simp
    next
      case False
      let ?w = "rune_width (c # s)"
      show ?thesis
      proof (cases "?w = 0")
        case True
        with "2.prems" quote False obtain t' where "read_string s = Some (t', r)"
          by (auto simp: Let_def split: if_splits)
        with "2.IH"(2) quote False True "2.prems" show ?thesis by (fastforce split: if_splits)
      next
        case w: False
        with "2.prems" quote False obtain t' where "read_string (drop (?w - 1) s) = Some (t', r)"
          by (auto simp: Let_def split: if_splits)
        with "2.IH"(3) [OF quote False _ refl w] "2.prems" quote False
        have "length r < length (drop (?w - 1) s)" by (auto split: if_splits)
        then show ?thesis by simp
      qed
    qed
  qed
qed simp

lemma read_digits_length: "read_digits s = (ds, r) \<Longrightarrow> length s = length ds + length r"
  by (auto simp: read_digits_def simp flip: length_append)

lemma read_integer_part_length: "read_integer_part s = Some (t, r) \<Longrightarrow> length r < length s"
  by (auto simp: read_integer_part_def read_digits_def le_imp_less_Suc length_dropWhile_le
      split: list.splits if_splits)

lemma read_fraction_length: "read_fraction s = Some (t, r) \<Longrightarrow> length r \<le> length s"
  by (auto simp: read_fraction_def dest!: read_digits_length split: list.splits if_splits prod.splits)

lemma read_exponent_length: "read_exponent s = Some (t, r) \<Longrightarrow> length r \<le> length s"
  by (auto simp: read_exponent_def Let_def dest!: read_digits_length
      split: list.splits if_splits prod.splits)

lemma read_number_length: "read_number s = Some (t, r) \<Longrightarrow> length r < length s"
  by (fastforce simp: read_number_def Let_def
      dest!: read_integer_part_length read_fraction_length read_exponent_length
      split: list.splits if_splits prod.splits option.splits)

subsection \<open>Values\<close>

text \<open>
  Reading a value at nesting depth \<open>d\<close> (at most 10000 arrays and objects may be open). The
  first argument bounds the recursion; \<open>read_fuel_enough\<close> below shows that twice the length of
  the text is always enough, so the bound never decides the result.
\<close>

definition max_depth :: int where
  "max_depth = 10000"

definition read_literal :: "string \<Rightarrow> json \<Rightarrow> string \<Rightarrow> (json \<times> string) option" where
  "read_literal word v s =
     (if take (length word) s = word then Some (v, drop (length word) s) else None)"

fun read_value :: "nat \<Rightarrow> int \<Rightarrow> string \<Rightarrow> (json \<times> string) option"
  and read_elements :: "nat \<Rightarrow> int \<Rightarrow> string \<Rightarrow> (json list \<times> string) option"
  and read_members :: "nat \<Rightarrow> int \<Rightarrow> string \<Rightarrow> ((string \<times> json) list \<times> string) option"
where
  "read_value 0 d s = None"
| "read_value (Suc n) d s =
     (case skip_space s of [] \<Rightarrow> None
      | c # r \<Rightarrow>
          if c = CHR 0x22 then map_option (apfst JString) (read_string r)
          else if c = CHR ''['' then
            (if max_depth \<le> d then None
             else (case skip_space r of [] \<Rightarrow> None
               | e # r' \<Rightarrow>
                   if e = CHR '']'' then Some (JArray [], r')
                   else map_option (apfst JArray) (read_elements n (d + 1) (e # r'))))
          else if c = CHR ''{'' then
            (if max_depth \<le> d then None
             else (case skip_space r of [] \<Rightarrow> None
               | e # r' \<Rightarrow>
                   if e = CHR ''}'' then Some (JObject [], r')
                   else map_option (apfst JObject) (read_members n (d + 1) (e # r'))))
          else if c = CHR ''t'' then read_literal ''true'' (JBool True) (c # r)
          else if c = CHR ''f'' then read_literal ''false'' (JBool False) (c # r)
          else if c = CHR ''n'' then read_literal ''null'' JNull (c # r)
          else map_option (apfst JNumber) (read_number (c # r)))"
| "read_elements 0 d s = None"
| "read_elements (Suc n) d s =
     (case read_value n d s of None \<Rightarrow> None
      | Some (v, r) \<Rightarrow>
          (case skip_space r of [] \<Rightarrow> None
           | c # r' \<Rightarrow>
               if c = CHR '','' then map_option (apfst ((#) v)) (read_elements n d r')
               else if c = CHR '']'' then Some ([v], r')
               else None))"
| "read_members 0 d s = None"
| "read_members (Suc n) d s =
     (case skip_space s of [] \<Rightarrow> None
      | q # r \<Rightarrow>
          if q \<noteq> CHR 0x22 then None
          else (case read_string r of None \<Rightarrow> None
            | Some (k, r1) \<Rightarrow>
                (case skip_space r1 of [] \<Rightarrow> None
                 | c # r2 \<Rightarrow>
                     if c \<noteq> CHR '':'' then None
                     else (case read_value n d r2 of None \<Rightarrow> None
                       | Some (v, r3) \<Rightarrow>
                           (case skip_space r3 of [] \<Rightarrow> None
                            | e # r4 \<Rightarrow>
                                if e = CHR '','' then map_option (apfst ((#) (k, v))) (read_members n d r4)
                                else if e = CHR ''}'' then Some ([(k, v)], r4)
                                else None)))))"

text \<open>A value and the rest of the text, as \<open>json.Decoder.Decode\<close> reads them.\<close>

definition decode_next :: "string \<Rightarrow> (json \<times> string) option" where
  "decode_next s = read_value (2 * length s + 2) 0 s"

text \<open>\<open>json.Unmarshal\<close>: one value, then only white space.\<close>

definition unmarshal_json :: "string \<Rightarrow> json option" where
  "unmarshal_json s =
     (case decode_next s of None \<Rightarrow> None
      | Some (v, r) \<Rightarrow> if skip_space r = [] then Some v else None)"

subsection \<open>The recursion bound never matters\<close>

lemma skip_space_length: "length (skip_space s) \<le> length s"
  by (simp add: skip_space_def length_dropWhile_le)

lemma skip_space_Cons: "skip_space s = c # r \<Longrightarrow> length r < length s"
  using skip_space_length [of s] by simp

lemma read_literal_length: "read_literal w v s = Some (j, r) \<Longrightarrow> w \<noteq> [] \<Longrightarrow> s \<noteq> [] \<Longrightarrow> length r < length s"
  by (auto simp: read_literal_def split: if_splits)

lemma read_shorter:
  "read_value n d s = Some (v, r) \<Longrightarrow> length r < length s"
  "read_elements n d s = Some (vs, r) \<Longrightarrow> length r < length s"
  "read_members n d s = Some (ms, r) \<Longrightarrow> length r < length s"
proof (induction n d s and n d s and n d s arbitrary: v r and vs r and ms r
    rule: read_value_read_elements_read_members.induct)
  case (2 n d s)
  then show ?case
    by (fastforce split: list.splits if_splits
        dest: skip_space_Cons read_string_length read_literal_length read_number_length)
next
  case (4 n d s)
  then show ?case
    by (fastforce split: list.splits if_splits option.splits dest: skip_space_Cons)
next
  case (6 n d s)
  then show ?case
    by (fastforce split: list.splits if_splits option.splits
        dest: skip_space_Cons read_string_length)
qed auto

declare read_value.simps(2) [simp del] read_elements.simps(2) [simp del] read_members.simps(2) [simp del]

lemma read_fuel_enough:
  "(\<forall>d s. 2 * length s + 1 \<le> n \<longrightarrow> read_value (Suc n) d s = read_value n d s) \<and>
   (\<forall>d s. 2 * length s + 2 \<le> n \<longrightarrow> read_elements (Suc n) d s = read_elements n d s) \<and>
   (\<forall>d s. 2 * length s + 2 \<le> n \<longrightarrow> read_members (Suc n) d s = read_members n d s)"
proof (induction n)
  case (Suc n)
  then have V: "\<And>d s. 2 * length s + 1 \<le> n \<Longrightarrow> read_value (Suc n) d s = read_value n d s"
    and E: "\<And>d s. 2 * length s + 2 \<le> n \<Longrightarrow> read_elements (Suc n) d s = read_elements n d s"
    and M: "\<And>d s. 2 * length s + 2 \<le> n \<Longrightarrow> read_members (Suc n) d s = read_members n d s"
    by blast+
  have "read_value (Suc (Suc n)) d s = read_value (Suc n) d s" if n: "2 * length s + 1 \<le> Suc n" for d s
  proof (cases "skip_space s")
    case (Cons c r)
    have len: "2 * length (e # r') + 2 \<le> n" if "skip_space r = e # r'" for e r'
      using skip_space_Cons [OF Cons] skip_space_length [of r] that n by simp
    show ?thesis
      unfolding read_value.simps(2) Cons list.case
      by (cases "skip_space r") (simp_all only: list.case E [OF len] M [OF len])
  next
    case Nil
    then show ?thesis by (simp add: read_value.simps(2))
  qed
  moreover have "read_elements (Suc (Suc n)) d s = read_elements (Suc n) d s"
    if n: "2 * length s + 2 \<le> Suc n" for d s
  proof -
    have r': "2 * length r' + 2 \<le> n" if "read_value n d s = Some (v, r)" "skip_space r = e # r'" for v r e r'
      using read_shorter(1) [OF that(1)] skip_space_Cons [OF that(2)] n by simp
    moreover have "read_value (Suc n) d s = read_value n d s" using n by (intro V) simp
    ultimately show ?thesis
      unfolding read_elements.simps(2) [of "Suc n" d s] read_elements.simps(2) [of n d s]
      by (auto split: option.split list.split simp: E [OF r'])
  qed
  moreover have "read_members (Suc (Suc n)) d s = read_members (Suc n) d s"
    if n: "2 * length s + 2 \<le> Suc n" for d s
  proof -
    have r2: "2 * length r2 + 1 \<le> n"
      if "skip_space s = q # r" "read_string r = Some (k, r1)" "skip_space r1 = c # r2" for q r k r1 c r2
      using skip_space_Cons [OF that(1)] read_string_length [OF that(2)] skip_space_Cons [OF that(3)] n
      by simp
    have r4: "2 * length r4 + 2 \<le> n"
      if "skip_space s = q # r" "read_string r = Some (k, r1)" "skip_space r1 = c # r2"
        "read_value n d r2 = Some (v, r3)" "skip_space r3 = e # r4" for q r k r1 c r2 v r3 e r4
      using r2 [OF that(1-3)] read_shorter(1) [OF that(4)] skip_space_Cons [OF that(5)] n by simp
    show ?thesis
      unfolding read_members.simps(2) [of "Suc n" d s] read_members.simps(2) [of n d s]
      by (auto split: option.split list.split simp: V [OF r2] M [OF r4])
  qed
  ultimately show ?case by blast
qed simp

theorem read_value_bound:
  assumes "2 * length s + 1 \<le> n"
  shows "read_value n 0 s = decode_next s"
proof -
  have step: "read_value (Suc (2 * length s + 1 + k)) 0 s = read_value (2 * length s + 1) 0 s" for k
  proof (induction k)
    case 0
    show ?case using read_fuel_enough [of "2 * length s + 1"] by simp
  next
    case (Suc k)
    then show ?case using read_fuel_enough [of "2 * length s + 1 + Suc k"] by simp
  qed
  have "read_value n 0 s = read_value (2 * length s + 1) 0 s"
  proof (cases "n = 2 * length s + 1")
    case False
    with assms obtain k where "n = Suc (2 * length s + 1 + k)"
      by (metis le_neq_implies_less less_imp_Suc_add)
    then show ?thesis using step [of k] by simp
  qed simp
  moreover have "decode_next s = read_value (2 * length s + 1) 0 s"
    using step [of 0] by (simp add: decode_next_def)
  ultimately show ?thesis by simp
qed

subsection \<open>Storing values into Go data\<close>

text \<open>
  A decoder stores a value over an old one; \<open>None\<close> is the error of a value of the wrong kind.
\<close>

type_synonym 'a decoder = "json \<Rightarrow> 'a \<Rightarrow> 'a option"

definition into_string :: "string decoder" where
  "into_string j old = (case j of JString s \<Rightarrow> Some s | JNull \<Rightarrow> Some old | _ \<Rightarrow> None)"

text \<open>An integer field takes the literals of 64-bit integers only, without fraction or exponent.\<close>

definition digits_value :: "string \<Rightarrow> int" where
  "digits_value ds = foldl (\<lambda>n c. 10 * n + (byte c - 48)) 0 ds"

definition parse_int :: "string \<Rightarrow> int option" where
  "parse_int lit =
     (let (neg, ds) = (case lit of c # r \<Rightarrow> if c = CHR ''-'' then (True, r) else (False, lit)
                       | [] \<Rightarrow> (False, lit));
          n = (if neg then - digits_value ds else digits_value ds)
      in if ds \<noteq> [] \<and> list_all is_digit ds \<and> int64 n then Some n else None)"

lemma parse_int_int64: "parse_int lit = Some n \<Longrightarrow> int64 n"
  by (auto simp: parse_int_def Let_def split: prod.splits if_splits)

definition into_int :: "int decoder" where
  "into_int j old = (case j of JNumber lit \<Rightarrow> parse_int lit | JNull \<Rightarrow> Some old | _ \<Rightarrow> None)"

definition into_pointer :: "'a \<Rightarrow> 'a decoder \<Rightarrow> 'a option decoder" where
  "into_pointer zero d j old =
     (case j of JNull \<Rightarrow> Some None
      | _ \<Rightarrow> map_option Some (d j (case old of None \<Rightarrow> zero | Some x \<Rightarrow> x)))"

text \<open>
  An array is stored over the elements the slice already has, and over the zero value beyond them; a
  slice that is nil or was emptied has none. (What the capacity of a slice still holds beyond its
  length is not modelled: it shows only when a member occurs three times and the second is shorter
  than the others.)
\<close>

fun decode_items :: "'a decoder \<Rightarrow> 'a \<Rightarrow> json list \<Rightarrow> 'a list \<Rightarrow> 'a list option" where
  "decode_items d zero [] old = Some []"
| "decode_items d zero (j # js) old =
     (case d j (case old of [] \<Rightarrow> zero | x # _ \<Rightarrow> x) of None \<Rightarrow> None
      | Some y \<Rightarrow> map_option ((#) y) (decode_items d zero js (tl old)))"

definition into_list :: "'a \<Rightarrow> 'a decoder \<Rightarrow> 'a list decoder" where
  "into_list zero d j old =
     (case j of JArray js \<Rightarrow> decode_items d zero js old | JNull \<Rightarrow> Some [] | _ \<Rightarrow> None)"

text \<open>The members of an object are stored in order; \<open>f\<close> gets the folded member name.\<close>

fun store_members :: "(string \<Rightarrow> 'a decoder) \<Rightarrow> (string \<times> json) list \<Rightarrow> 'a \<Rightarrow> 'a option" where
  "store_members f [] old = Some old"
| "store_members f ((k, v) # ms) old =
     (case f (fold_text k) v old of None \<Rightarrow> None | Some new \<Rightarrow> store_members f ms new)"

definition into_struct :: "(string \<Rightarrow> 'a decoder) \<Rightarrow> 'a decoder" where
  "into_struct f j old = (case j of JObject ms \<Rightarrow> store_members f ms old | JNull \<Rightarrow> Some old | _ \<Rightarrow> None)"

lemma decode_items_length: "decode_items d zero js old = Some ys \<Longrightarrow> length ys = length js"
  by (induction js arbitrary: old ys) (auto split: option.splits)

subsection \<open>Fields\<close>

text \<open>The field of a record that a member name selects; a member without a field is skipped.\<close>

definition into_field :: "('r \<Rightarrow> 'a) \<Rightarrow> ('a \<Rightarrow> 'r \<Rightarrow> 'r) \<Rightarrow> 'a decoder \<Rightarrow> 'r decoder" where
  "into_field get put d j r = map_option (\<lambda>v. put v r) (d j (get r))"

definition skip_member :: "'r decoder" where
  "skip_member j r = Some r"

subsection \<open>Invariants of decoded data\<close>

text \<open>
  The weight of a value counts its parts; a text is at least as long as the weight of what it
  encodes, so it bounds the length of every decoded list.
\<close>

fun json_weight :: "json \<Rightarrow> nat" where
  "json_weight (JArray js) = Suc (sum_list (map json_weight js))"
| "json_weight (JObject ms) = Suc (sum_list (map (\<lambda>(k, v). json_weight v) ms))"
| "json_weight _ = 1"

lemma json_weight_pos: "0 < json_weight j"
  by (cases j) auto

lemma read_weight:
  "read_value n d s = Some (v, r) \<Longrightarrow> json_weight v + length r \<le> length s"
  "read_elements n d s = Some (vs, r) \<Longrightarrow> sum_list (map json_weight vs) + length r \<le> length s"
  "read_members n d s = Some (ms, r) \<Longrightarrow> sum_list (map (\<lambda>(k, v). json_weight v) ms) + length r \<le> length s"
proof (induction n d s and n d s and n d s arbitrary: v r and vs r and ms r
    rule: read_value_read_elements_read_members.induct)
  case (2 n d s)
  show ?case
  proof (cases "skip_space s")
    case Nil
    with "2.prems" show ?thesis by (simp add: read_value.simps(2))
  next
    case (Cons c r1)
    have len: "length r1 < length s" using Cons by (rule skip_space_Cons)
    consider (array) e r2 vs where "skip_space r1 = e # r2" "v = JArray vs"
        "read_elements n (d + 1) (e # r2) = Some (vs, r)" "c = CHR ''[''" "\<not> max_depth \<le> d" "e \<noteq> CHR '']''"
      | (object) e r2 ms where "skip_space r1 = e # r2" "v = JObject ms" "c = CHR ''{''"
        "read_members n (d + 1) (e # r2) = Some (ms, r)" "\<not> max_depth \<le> d" "e \<noteq> CHR ''}''"
      | (atom) "json_weight v = 1" "length r < length s"
      using "2.prems" read_shorter(1) [OF "2.prems"] Cons
      by (auto simp: read_value.simps(2) read_literal_def split: if_splits list.splits)
    then show ?thesis
    proof cases
      case array
      then have "sum_list (map json_weight vs) + length r \<le> length (e # r2)"
        using "2.IH"(1) [OF Cons _ _ _ array(1) array(6) array(3)] by simp
      with array len skip_space_length [of r1] show ?thesis by simp
    next
      case object
      then have "sum_list (map (\<lambda>(k, v). json_weight v) ms) + length r \<le> length (e # r2)"
        using "2.IH"(2) [OF Cons _ _ _ _ object(1) object(6) object(4)] by simp
      with object len skip_space_length [of r1] show ?thesis by simp
    qed simp
  qed
next
  case (4 n d s)
  from "4.prems" obtain v1 r1 c r2 where v1: "read_value n d s = Some (v1, r1)"
    and c: "skip_space r1 = c # r2"
    and more: "c = CHR '','' \<and> (\<exists>vs'. read_elements n d r2 = Some (vs', r) \<and> vs = v1 # vs') \<or> vs = [v1] \<and> r = r2"
    by (auto simp: read_elements.simps(2) split: option.splits list.splits if_splits)
  have "json_weight v1 + length r1 \<le> length s" using v1 by (rule "4.IH"(1))
  moreover have "length r2 < length r1" using c by (rule skip_space_Cons)
  ultimately show ?case
    using more "4.IH"(2) [OF v1 refl c] by auto
next
  case (6 n d s)
  from "6.prems" obtain q t k r1 c r2 v1 r3 e r4 where q: "skip_space s = q # t"
    and k: "\<not> q \<noteq> CHR 0x22" "read_string t = Some (k, r1)" and c: "skip_space r1 = c # r2" "\<not> c \<noteq> CHR '':''"
    and v1: "read_value n d r2 = Some (v1, r3)" and e: "skip_space r3 = e # r4"
    and more: "e = CHR '','' \<and> (\<exists>ms'. read_members n d r4 = Some (ms', r) \<and> ms = (k, v1) # ms') \<or>
      ms = [(k, v1)] \<and> r = r4"
    by (auto simp: read_members.simps(2) split: option.splits list.splits if_splits)
  have "json_weight v1 + length r3 \<le> length r2"
    using "6.IH"(1) [OF q k refl c v1] .
  moreover have "length r4 < length r3" using e by (rule skip_space_Cons)
  moreover have "length r2 < length s"
    using skip_space_Cons [OF q] read_string_length [OF k(2)] skip_space_Cons [OF c(1)] by simp
  ultimately show ?case
    using more "6.IH"(2) [OF q k refl c v1 refl e] by auto
qed (auto simp: read_value.simps)

lemma unmarshal_json_weight: "unmarshal_json s = Some v \<Longrightarrow> json_weight v \<le> length s"
  using read_weight(1) by (fastforce simp: unmarshal_json_def decode_next_def split: option.splits prod.splits if_splits)

text \<open>\<open>preserves W P d\<close>: storing any value of weight at most \<open>W\<close> keeps \<open>P\<close>.\<close>

definition preserves :: "nat \<Rightarrow> ('a \<Rightarrow> bool) \<Rightarrow> 'a decoder \<Rightarrow> bool" where
  "preserves W P d \<longleftrightarrow> (\<forall>j old new. json_weight j \<le> W \<longrightarrow> P old \<longrightarrow> d j old = Some new \<longrightarrow> P new)"

lemma preservesD: "preserves W P d \<Longrightarrow> d j old = Some new \<Longrightarrow> json_weight j \<le> W \<Longrightarrow> P old \<Longrightarrow> P new"
  by (auto simp: preserves_def)

lemma preserves_skip: "preserves W P skip_member"
  by (simp add: preserves_def skip_member_def)

lemma preserves_true: "preserves W (\<lambda>_. True) d"
  by (simp add: preserves_def)

lemma preserves_int: "preserves W int64 into_int"
  by (auto simp: preserves_def into_int_def parse_int_int64 split: json.splits)

lemma preserves_pointer:
  assumes "preserves W P d" and "P zero"
  shows "preserves W (pred_option P) (into_pointer zero d)"
  using assms by (auto simp: preserves_def into_pointer_def split: json.splits option.splits; blast)

lemma preserves_field:
  assumes "preserves W Q d" and "\<And>r. P r \<Longrightarrow> Q (get r)" and "\<And>r v. P r \<Longrightarrow> Q v \<Longrightarrow> P (put v r)"
  shows "preserves W P (into_field get put d)"
  using assms by (auto simp: into_field_def preserves_def) blast

text \<open>A field the invariant does not look at.\<close>

lemma preserves_other_field: "(\<And>r v. P r \<Longrightarrow> P (put v r)) \<Longrightarrow> preserves W P (into_field get put d)"
  by (auto simp: preserves_def into_field_def)

lemma preserves_if:
  "preserves W P d \<Longrightarrow> preserves W P e \<Longrightarrow> preserves W P (if c then d else e)"
  by simp

lemma preserves_list:
  assumes "preserves W P d" and "P zero"
  shows "preserves W (\<lambda>xs. list_all P xs \<and> length xs \<le> W) (into_list zero d)"
  unfolding preserves_def
proof (intro allI impI)
  fix j old new
  assume w: "json_weight j \<le> W" and old: "list_all P old \<and> length old \<le> W"
    and new: "into_list zero d j old = Some new"
  show "list_all P new \<and> length new \<le> W"
  proof (cases j)
    case (JArray js)
    have len: "length js \<le> sum_list (map json_weight js)"
    proof (induction js)
      case (Cons e js)
      then show ?case using json_weight_pos [of e] by simp
    qed simp
    have weights: "json_weight e \<le> W" if "e \<in> set js" for e
      using member_le_sum_list [of "json_weight e" "map json_weight js"] that w JArray by simp
    have items: "decode_items d zero js old = Some new" using new JArray by (simp add: into_list_def)
    then have "list_all P new"
      using weights old [THEN conjunct1]
    proof (induction js arbitrary: old new)
      case (Cons e js)
      then obtain y ys where y: "d e (case old of [] \<Rightarrow> zero | x # _ \<Rightarrow> x) = Some y"
        and ys: "decode_items d zero js (tl old) = Some ys" "new = y # ys"
        by (auto split: option.splits)
      have "P (case old of [] \<Rightarrow> zero | x # _ \<Rightarrow> x)" using Cons.prems(3) assms(2) by (cases old) simp_all
      with y Cons.prems(2) [of e] have "P y" using preservesD [OF assms(1) y] by simp
      moreover have "list_all P ys" using Cons.prems(2,3) by (intro Cons.IH [OF ys(1)]) (cases old; simp)+
      ultimately show ?case using ys(2) by simp
    qed simp
    with decode_items_length [OF items] len w JArray show ?thesis by simp
  qed (use new in \<open>auto simp: into_list_def\<close>)
qed

lemma preserves_struct:
  assumes "\<And>k. preserves W P (f k)"
  shows "preserves W P (into_struct f)"
  unfolding preserves_def
proof (intro allI impI)
  fix j old new
  assume w: "json_weight j \<le> W" and old: "P old" and new: "into_struct f j old = Some new"
  have members: "store_members f ms old' = Some new' \<Longrightarrow> P old' \<Longrightarrow>
      \<forall>(k, v) \<in> set ms. json_weight v \<le> W \<Longrightarrow> P new'" for ms old' new'
  proof (induction ms arbitrary: old')
    case (Cons m ms)
    obtain k v where m: "m = (k, v)" by (cases m)
    with Cons.prems(1) obtain mid where mid: "f (fold_text k) v old' = Some mid" "store_members f ms mid = Some new'"
      by (auto split: option.splits)
    have "P mid" using preservesD [OF assms mid(1)] Cons.prems m by simp
    with Cons mid show ?case by simp
  qed simp
  show "P new"
  proof (cases j)
    case (JObject ms)
    have "json_weight v \<le> W" if "(k, v) \<in> set ms" for k v
      using member_le_sum_list [of "json_weight v" "map (\<lambda>(k, v). json_weight v) ms"] that w JObject
      by force
    with members [of ms old new] new old JObject show ?thesis by (auto simp: into_struct_def)
  qed (use new old in \<open>auto simp: into_struct_def\<close>)
qed

lemmas preserves_members = preserves_struct preserves_if preserves_skip

end
