(* ===== verification/Errors.thy ===== *)
theory Errors
  imports Prelude
begin

section \<open>Error values\<close>

text \<open>
  The errors the program returns, as one type: the sentinel values of its packages
  (\<open>internal/observer/policy.go\<close>, \<open>internal/kubernetes/client.go\<close>,
  \<open>internal/sourcehttp/client.go\<close>, \<open>internal/flux/client.go\<close>, \<open>internal/mcpserver/server.go\<close>),
  the two errors of package \<open>context\<close>, errors that are only a text, and errors that wrap another
  one (\<open>fmt.Errorf\<close> with \<open>%w\<close>). \<open>errors.Is\<close> and \<open>errors.As\<close> follow the chain of wrapped errors.
\<close>

datatype source_error =
    SourceUnavailable
  | SourceTimeout
  | SourceRejected
  | CredentialUnavailable
  | InvalidSourceResponse

datatype go_error =
    ValidationError (validation_field: string) (validation_reason: string)
  | ErrResultTooLarge
  | KubernetesError source_error
  | KubernetesUnknownScope
  | SourceHttpError source_error
  | FluxUnknownScope
  | ErrTargetNotConfigured
  | ErrObservationFailed
  | ErrObservationCanceled
  | ContextCanceled
  | ContextDeadlineExceeded
  | ErrorText string
  | Wrapped string go_error string

text \<open>\<open>errors.Is\<close>\<close>

fun error_is :: "go_error \<Rightarrow> go_error \<Rightarrow> bool" where
  "error_is (Wrapped pre e post) t = (Wrapped pre e post = t \<or> error_is e t)"
| "error_is e t = (e = t)"

text \<open>\<open>errors.As\<close> with a target of type \<open>*observer.ValidationError\<close>\<close>

fun as_validation_error :: "go_error \<Rightarrow> go_error option" where
  "as_validation_error (ValidationError f r) = Some (ValidationError f r)"
| "as_validation_error (Wrapped pre e post) = as_validation_error e"
| "as_validation_error e = None"

lemma as_validation_error_Some:
  "as_validation_error e = Some v \<Longrightarrow> \<exists>f r. v = ValidationError f r"
  by (induction e) auto

text \<open>The text of an error (method \<open>Error\<close>).\<close>

fun source_error_text :: "string \<Rightarrow> source_error \<Rightarrow> string" where
  "source_error_text subj SourceUnavailable = subj @ '' is unavailable''"
| "source_error_text subj SourceTimeout = subj @ '' request timed out''"
| "source_error_text subj SourceRejected = subj @ '' rejected the request''"
| "source_error_text subj CredentialUnavailable = subj @ '' credential is unavailable''"
| "source_error_text subj InvalidSourceResponse = subj @ '' returned an invalid response''"

fun error_text :: "go_error \<Rightarrow> string" where
  "error_text (ValidationError f r) = ''invalid '' @ f @ '': '' @ r"
| "error_text ErrResultTooLarge = ''observation exceeds the encoded size limit''"
| "error_text (KubernetesError k) = source_error_text ''Kubernetes source'' k"
| "error_text KubernetesUnknownScope = ''Kubernetes scope is not configured''"
| "error_text (SourceHttpError k) = source_error_text ''source'' k"
| "error_text FluxUnknownScope = ''Flux scope is not configured''"
| "error_text ErrTargetNotConfigured = ''target is not configured''"
| "error_text ErrObservationFailed = ''observation failed''"
| "error_text ErrObservationCanceled = ''observation canceled''"
| "error_text ContextCanceled = ''context canceled''"
| "error_text ContextDeadlineExceeded = ''context deadline exceeded''"
| "error_text (ErrorText t) = t"
| "error_text (Wrapped pre e post) = pre @ error_text e @ post"

subsection \<open>Results\<close>

text \<open>A Go function that returns a value and an error returns \<open>Inl\<close> the error or \<open>Inr\<close> the value.\<close>

type_synonym 'a result = "go_error + 'a"

fun result_bind :: "'a result \<Rightarrow> ('a \<Rightarrow> 'b result) \<Rightarrow> 'b result" where
  "result_bind (Inl e) k = Inl e"
| "result_bind (Inr x) k = k x"

lemma result_bind_Inr [simp]:
  "result_bind r k = Inr y \<longleftrightarrow> (\<exists>x. r = Inr x \<and> k x = Inr y)"
  by (cases r) auto

lemma result_bind_cong [fundef_cong]:
  "r = r' \<Longrightarrow> (\<And>x. r' = Inr x \<Longrightarrow> k x = k' x) \<Longrightarrow> result_bind r k = result_bind r' k'"
  by (cases r') auto

end
