(* ===== verification/Effects.thy ===== *)
theory Effects
  imports Errors Clock
begin

section \<open>Sequential effects of an observation\<close>

text \<open>
  An observation issues requests one after the other. Its effects are recorded in a history: the
  reads of the bearer token and the requests handed to the HTTP client, in order. What the
  surroundings do during one request (the request slot, the token, the reply) is an
  \<open>exchange\<close>; the surroundings are a function from the history and the requested path and query
  to the exchange that happens, so they may answer in any way and change their answers over
  time. An effectful computation takes the history and returns a result and the new history.
\<close>

subsection \<open>Requests, replies and the surroundings\<close>

text \<open>The fields of a parsed URL the program reads (\<open>net/url.URL\<close>).\<close>

record url =
  url_scheme :: string
  url_host :: string
  url_user :: "string option"
  url_path :: string
  url_raw_query :: string
  url_fragment :: string

record request =
  req_method :: string
  req_scheme :: string
  req_host :: string
  req_path :: string
  req_query :: string
  req_accept :: string
  req_authorization :: "string option"

text \<open>A stream delivers its bytes and then ends, or breaks with an error.\<close>

record stream =
  stream_bytes :: string
  stream_broken :: bool

text \<open>\<open>io.ReadAll(io.LimitReader(r, n))\<close>: at most \<open>n\<close> bytes, or the error of the reader.\<close>

definition read_limited :: "int \<Rightarrow> stream \<Rightarrow> string option" where
  "read_limited n s =
     (if n \<le> int (length (stream_bytes s)) then Some (take (nat n) (stream_bytes s))
      else if stream_broken s then None
      else Some (stream_bytes s))"

lemma read_limited_length: "read_limited n s = Some b \<Longrightarrow> 0 \<le> n \<Longrightarrow> int (length b) \<le> n"
  by (auto simp: read_limited_def split: if_splits)

text \<open>Reading one byte more than a limit tells whether the stream fits: within the limit nothing is cut.\<close>

lemma read_limited_whole:
  "read_limited (n + 1) s = Some b \<Longrightarrow> 0 \<le> n \<Longrightarrow> int (length b) \<le> n \<Longrightarrow> b = stream_bytes s"
  by (auto simp: read_limited_def split: if_splits)

record http_response =
  resp_status :: int
  resp_content_type :: string
  resp_body :: stream

text \<open>
  \<open>http.Client.Do\<close> fails, with the error of the request context at that moment (\<open>None\<close> for
  \<open>nil\<close>), or returns a response.
\<close>

datatype http_reply =
    DoFailed "go_error option"
  | Responded http_response

text \<open>
  One exchange: whether a request slot was taken before the request context was done (else the
  error of the context), whether \<open>http.NewRequestWithContext\<close> accepted the URL, what the
  credential source returned (\<open>None\<close> for an error), the reply, and, when the reply is a redirect,
  the requests that following it and the redirects after it would send, with the final reply.
\<close>

record exchange =
  ex_slot_done :: "go_error option"
  ex_request_ok :: bool
  ex_token :: "string option"
  ex_reply :: http_reply
  ex_redirect :: "(request list \<times> http_reply) option"

datatype event = TokenRead | Sent request

type_synonym history = "event list"
type_synonym world = "history \<Rightarrow> string \<Rightarrow> string \<Rightarrow> exchange"

subsection \<open>Computations with a history\<close>

type_synonym 'a io = "history \<Rightarrow> 'a result \<times> history"

definition io_return :: "'a \<Rightarrow> 'a io" where
  "io_return x h = (Inr x, h)"

definition io_fail :: "go_error \<Rightarrow> 'a io" where
  "io_fail e h = (Inl e, h)"

definition io_bind :: "'a io \<Rightarrow> ('a \<Rightarrow> 'b io) \<Rightarrow> 'b io" where
  "io_bind m k h = (case m h of (Inl e, h') \<Rightarrow> (Inl e, h') | (Inr x, h') \<Rightarrow> k x h')"

definition io_lift :: "'a result \<Rightarrow> 'a io" where
  "io_lift r h = (r, h)"

text \<open>Replacing the error of a computation, as \<open>fmt.Errorf\<close> and \<open>safeToolError\<close> do.\<close>

definition io_map_error :: "(go_error \<Rightarrow> go_error) \<Rightarrow> 'a io \<Rightarrow> 'a io" where
  "io_map_error f m h = (case m h of (Inl e, h') \<Rightarrow> (Inl (f e), h') | (Inr x, h') \<Rightarrow> (Inr x, h'))"

text \<open>The clock the adapters read (\<open>now\<close>), which may depend on everything that happened before.\<close>

type_synonym clock = "history \<Rightarrow> time"

definition io_now :: "clock \<Rightarrow> time io" where
  "io_now clock h = (Inr (clock h), h)"

declare io_now_def [io_defs]
declare io_return_def [io_defs] io_fail_def [io_defs] io_bind_def [io_defs]
  io_lift_def [io_defs] io_map_error_def [io_defs]

text \<open>\<open>for _, x := range xs { ... }\<close> over a loop state, leaving the loop at the first error.\<close>

fun for_each :: "('a \<Rightarrow> 's \<Rightarrow> 's io) \<Rightarrow> 'a list \<Rightarrow> 's \<Rightarrow> 's io" where
  "for_each f [] s = io_return s"
| "for_each f (x # xs) s = io_bind (f x s) (for_each f xs)"

text \<open>The abstract counterpart: collect one result per element.\<close>

fun collect :: "('a \<Rightarrow> 'b io) \<Rightarrow> 'a list \<Rightarrow> 'b list io" where
  "collect f [] = io_return []"
| "collect f (x # xs) = io_bind (f x) (\<lambda>y. io_bind (collect f xs) (\<lambda>ys. io_return (y # ys)))"

lemma io_bind_return_left [simp, io_simps]: "io_bind (io_return x) k = k x"
  by (rule ext) (simp add: io_defs)

lemma io_bind_return_right [simp, io_simps]: "io_bind m io_return = m"
  by (rule ext) (auto simp: io_defs split: prod.splits sum.splits)

lemma io_bind_fail [simp, io_simps]: "io_bind (io_fail e) k = io_fail e"
  by (rule ext) (simp add: io_defs)

lemma io_bind_lift [simp, io_simps]:
  "io_bind (io_lift (Inr x)) k = k x" "io_bind (io_lift (Inl e)) k = io_fail e"
  by (simp_all add: io_defs fun_eq_iff)

lemma io_bind_assoc [io_simps]: "io_bind (io_bind m k) l = io_bind m (\<lambda>x. io_bind (k x) l)"
  by (rule ext) (auto simp: io_defs split: prod.splits sum.splits)

lemma io_bind_Inr:
  "io_bind m k h = (Inr y, h'') \<longleftrightarrow> (\<exists>x h'. m h = (Inr x, h') \<and> k x h' = (Inr y, h''))"
  by (auto simp: io_defs split: prod.splits sum.splits)

lemma io_bind_Inl:
  "io_bind m k h = (Inl e, h'') \<longleftrightarrow>
     m h = (Inl e, h'') \<or> (\<exists>x h'. m h = (Inr x, h') \<and> k x h' = (Inl e, h''))"
  by (auto simp: io_defs split: prod.splits sum.splits)

lemma io_now_Inl [simp]: "io_now clock h = (Inl e, h') \<longleftrightarrow> False"
  by (simp add: io_defs)

lemma io_lift_Inl [simp]: "io_lift r h = (Inl e, h') \<longleftrightarrow> r = Inl e \<and> h' = h"
  by (auto simp: io_defs)

lemma io_fail_Inl [simp]: "io_fail e h = (Inl e', h') \<longleftrightarrow> e' = e \<and> h' = h"
  by (auto simp: io_defs)

lemma io_return_Inl [simp]: "io_return x h = (Inl e, h') \<longleftrightarrow> False"
  by (simp add: io_defs)

lemma io_return_Inr [simp]: "io_return x h = (Inr y, h') \<longleftrightarrow> y = x \<and> h' = h"
  by (auto simp: io_defs)

lemma io_fail_Inr [simp]: "io_fail e h = (Inr y, h') \<longleftrightarrow> False"
  by (auto simp: io_defs)

lemma io_lift_Inr [simp]: "io_lift r h = (Inr y, h') \<longleftrightarrow> r = Inr y \<and> h' = h"
  by (auto simp: io_defs)

lemma io_now_Inr [simp]: "io_now clock h = (Inr y, h') \<longleftrightarrow> y = clock h \<and> h' = h"
  by (auto simp: io_defs)

lemma io_map_error_Inr [simp]: "io_map_error f m h = (Inr y, h') \<longleftrightarrow> m h = (Inr y, h')"
  by (auto simp: io_defs split: prod.splits sum.splits)

text \<open>
  A loop whose body fetches something and then updates the loop state purely is the pure fold
  over everything fetched: the interleaved loops of the adapters refine a collecting pass.
\<close>

theorem for_each_collect:
  "for_each (\<lambda>x s. io_bind (fetch x) (\<lambda>y. io_return (upd x y s))) xs s =
     io_bind (collect fetch xs) (\<lambda>ys. io_return (fold (\<lambda>(x, y). upd x y) (zip xs ys) s))"
proof (induction xs arbitrary: s)
  case (Cons x xs)
  then show ?case by (simp add: io_bind_assoc)
qed simp

text \<open>Nested loops are one loop over the pairs.\<close>

lemma for_each_append: "for_each f (xs @ ys) s = io_bind (for_each f xs s) (for_each f ys)"
proof (induction xs arbitrary: s)
  case (Cons x xs)
  then have "for_each f (xs @ ys) = (\<lambda>s. io_bind (for_each f xs s) (for_each f ys))"
    by (intro ext) simp
  then show ?case by (simp add: io_bind_assoc)
qed simp

lemma for_each_map: "for_each f (map g xs) s = for_each (\<lambda>x. f (g x)) xs s"
proof (induction xs arbitrary: s)
  case (Cons x xs)
  then have "for_each f (map g xs) = for_each (\<lambda>x. f (g x)) xs" by (intro ext) simp
  then show ?case by simp
qed simp

theorem for_each_nested:
  "for_each (\<lambda>x. for_each (f x) ys) xs s = for_each (\<lambda>(x, y). f x y) (List.product xs ys) s"
proof (induction xs arbitrary: s)
  case (Cons x xs)
  then have "for_each (\<lambda>x. for_each (f x) ys) xs = for_each (\<lambda>(x, y). f x y) (List.product xs ys)"
    by (intro ext) simp
  then show ?case by (simp add: for_each_append for_each_map)
qed simp

text \<open>Together: a nested loop of requests with pure updates is one collecting pass and one fold.\<close>

lemma nested_loop_collect:
  "for_each (\<lambda>x. for_each (\<lambda>y s. io_bind (fetch (x, y)) (\<lambda>p. io_return (upd (x, y) p s))) ys) xs s =
     io_bind (collect fetch (List.product xs ys))
       (\<lambda>ps. io_return (fold (\<lambda>(q, p). upd q p) (zip (List.product xs ys) ps) s))"
proof -
  have "(\<lambda>(x, y) s. io_bind (fetch (x, y)) (\<lambda>p. io_return (upd (x, y) p s))) =
      (\<lambda>q s. io_bind (fetch q) (\<lambda>p. io_return (upd q p s)))"
    by (auto simp: fun_eq_iff)
  then show ?thesis by (simp only: for_each_nested for_each_collect)
qed

lemma length_collect: "collect f xs h = (Inr ys, h') \<Longrightarrow> length ys = length xs"
  by (induction xs arbitrary: h ys) (auto simp: io_bind_Inr)

subsection \<open>What a computation does to the history\<close>

text \<open>
  \<open>emits P m\<close>: whatever the outcome, \<open>m\<close> only appends events, all of which satisfy \<open>P\<close>.
\<close>

definition emits :: "(event \<Rightarrow> bool) \<Rightarrow> 'a io \<Rightarrow> bool" where
  "emits P m \<longleftrightarrow> (\<forall>h. \<exists>es. snd (m h) = h @ es \<and> list_all P es)"

lemma emitsI: "(\<And>h. \<exists>es. snd (m h) = h @ es \<and> list_all P es) \<Longrightarrow> emits P m"
  by (simp add: emits_def)

lemma emitsD: "emits P m \<Longrightarrow> \<exists>es. snd (m h) = h @ es \<and> list_all P es"
  by (simp add: emits_def)

lemma emits_return [simp, intro]: "emits P (io_return x)"
  by (auto simp: emits_def io_defs)

lemma emits_fail [simp, intro]: "emits P (io_fail e)"
  by (auto simp: emits_def io_defs)

lemma emits_now [simp, intro]: "emits P (io_now clock)"
  by (auto simp: emits_def io_defs)

lemma emits_lift [simp, intro]: "emits P (io_lift r)"
  by (auto simp: emits_def io_defs)

lemma emits_bind [intro]:
  assumes "emits P m" and "\<And>x. emits P (k x)"
  shows "emits P (io_bind m k)"
proof (rule emitsI)
  fix h
  obtain es where es: "snd (m h) = h @ es" "list_all P es" using assms(1) by (auto dest: emitsD)
  show "\<exists>es. snd (io_bind m k h) = h @ es \<and> list_all P es"
  proof (cases "fst (m h)")
    case (Inl e)
    with es show ?thesis by (cases "m h") (auto simp: io_defs)
  next
    case (Inr x)
    obtain es' where "snd (k x (h @ es)) = (h @ es) @ es'" "list_all P es'"
      using emitsD [OF assms(2), of x "h @ es"] by blast
    with es Inr show ?thesis by (cases "m h") (auto simp: io_defs)
  qed
qed

lemma emits_map_error [intro]: "emits P m \<Longrightarrow> emits P (io_map_error f m)"
proof (rule emitsI)
  fix h
  assume "emits P m"
  then show "\<exists>es. snd (io_map_error f m h) = h @ es \<and> list_all P es"
    using emitsD [of P m h] by (auto simp: io_defs split: prod.splits sum.splits)
qed

lemma emits_for_each [intro]:
  "(\<And>x s. x \<in> set xs \<Longrightarrow> emits P (f x s)) \<Longrightarrow> emits P (for_each f xs s)"
  by (induction xs arbitrary: s) auto

lemma emits_collect [intro]: "(\<And>x. x \<in> set xs \<Longrightarrow> emits P (f x)) \<Longrightarrow> emits P (collect f xs)"
  by (induction xs) auto

lemma emits_mono: "emits P m \<Longrightarrow> (\<And>e. P e \<Longrightarrow> Q e) \<Longrightarrow> emits Q m"
  by (fastforce simp: emits_def list_all_iff)

end
