(* ===== verification/Contracts.thy ===== *)
theory Contracts
  imports JsonRead Effects
begin

section \<open>Observation contracts (\<open>internal/observer/contracts.go\<close>)\<close>

text \<open>
  The limits, identifiers, inputs and outputs every tool shares. A typed string whose values
  come from outside (target kinds and capabilities) stays a string; one whose values are only
  ever the constants of the file is a datatype with its text. Each output has the function
  that \<open>json.Marshal\<close> computes from its struct tags.
\<close>

subsection \<open>Limits\<close>

definition max_encoded_result_bytes :: int where
  "max_encoded_result_bytes = 64 * 1024"

definition max_targets :: int where
  "max_targets = 32"

definition default_list_limit :: int where
  "default_list_limit = 20"

definition max_list_limit :: int where
  "max_list_limit = 50"

definition max_warnings :: int where
  "max_warnings = 20"

subsection \<open>Targets\<close>

type_synonym target_kind = string
type_synonym capability = string

definition target_kind_kubernetes :: target_kind where
  "target_kind_kubernetes = ''kubernetes''"

definition target_kind_monitoring :: target_kind where
  "target_kind_monitoring = ''monitoring''"

definition target_kind_flux :: target_kind where
  "target_kind_flux = ''flux''"

definition capability_kubernetes_cluster_health :: capability where
  "capability_kubernetes_cluster_health = ''kubernetes.cluster-health''"

definition capability_kubernetes_unhealthy_workloads :: capability where
  "capability_kubernetes_unhealthy_workloads = ''kubernetes.unhealthy-workloads''"

definition capability_monitoring_active_alerts :: capability where
  "capability_monitoring_active_alerts = ''monitoring.active-alerts''"

definition capability_monitoring_scrape_health :: capability where
  "capability_monitoring_scrape_health = ''monitoring.scrape-health''"

definition capability_flux_unhealthy_reconciliations :: capability where
  "capability_flux_unhealthy_reconciliations = ''flux.unhealthy-reconciliations''"

lemmas target_kind_defs =
  target_kind_kubernetes_def target_kind_monitoring_def target_kind_flux_def

lemmas capability_defs =
  capability_kubernetes_cluster_health_def capability_kubernetes_unhealthy_workloads_def
  capability_monitoring_active_alerts_def capability_monitoring_scrape_health_def
  capability_flux_unhealthy_reconciliations_def

record target =
  target_id :: string
  target_kind :: target_kind
  target_capabilities :: "capability list"

record list_targets_output =
  lto_targets :: "target list"

definition marshal_target :: "target \<Rightarrow> marshalled" where
  "marshal_target t = marshal_struct
     [(''id'', marshal_string (target_id t)),
      (''kind'', marshal_string (target_kind t)),
      (''capabilities'', marshal_list marshal_string (target_capabilities t))]"

definition marshal_list_targets_output :: "list_targets_output \<Rightarrow> marshalled" where
  "marshal_list_targets_output out = marshal_struct
     [(''targets'', marshal_list marshal_target (lto_targets out))]"

subsection \<open>Cluster health\<close>

record get_cluster_health_input =
  gch_target :: string

datatype health_status = HealthStatusHealthy | HealthStatusDegraded | HealthStatusUnknown

fun health_status_text :: "health_status \<Rightarrow> string" where
  "health_status_text HealthStatusHealthy = ''healthy''"
| "health_status_text HealthStatusDegraded = ''degraded''"
| "health_status_text HealthStatusUnknown = ''unknown''"

record node_health =
  nodes_total :: int
  nodes_ready :: int

record workload_summary =
  workloads_total :: int
  workloads_ready :: int
  workloads_unhealthy :: int

datatype warning_code = WarningNodesNotReady | WarningWorkloadsNotReady | WarningPartialObservation

fun warning_code_text :: "warning_code \<Rightarrow> string" where
  "warning_code_text WarningNodesNotReady = ''nodes-not-ready''"
| "warning_code_text WarningWorkloadsNotReady = ''workloads-not-ready''"
| "warning_code_text WarningPartialObservation = ''partial-observation''"

record health_warning =
  hw_code :: warning_code
  hw_count :: int

record cluster_health_output =
  cho_target :: string
  cho_observed_at :: time
  cho_status :: health_status
  cho_nodes :: node_health
  cho_workloads :: workload_summary
  cho_warnings :: "health_warning list"
  cho_partial :: bool

definition marshal_health_warning :: "health_warning \<Rightarrow> marshalled" where
  "marshal_health_warning w = marshal_struct
     [(''code'', marshal_string (warning_code_text (hw_code w))),
      (''count'', marshal_int (hw_count w))]"

definition marshal_cluster_health_output :: "cluster_health_output \<Rightarrow> marshalled" where
  "marshal_cluster_health_output out = marshal_struct
     [(''target'', marshal_string (cho_target out)),
      (''observedAt'', marshal_time (cho_observed_at out)),
      (''status'', marshal_string (health_status_text (cho_status out))),
      (''nodes'', marshal_struct
         [(''total'', marshal_int (nodes_total (cho_nodes out))),
          (''ready'', marshal_int (nodes_ready (cho_nodes out)))]),
      (''workloads'', marshal_struct
         [(''total'', marshal_int (workloads_total (cho_workloads out))),
          (''ready'', marshal_int (workloads_ready (cho_workloads out))),
          (''unhealthy'', marshal_int (workloads_unhealthy (cho_workloads out)))]),
      (''warnings'', marshal_list marshal_health_warning (cho_warnings out)),
      (''partial'', marshal_bool (cho_partial out))]"

subsection \<open>Unhealthy workloads\<close>

record list_unhealthy_workloads_input =
  luw_target :: string
  luw_scope :: string
  luw_limit :: int

datatype workload_kind = Deployment | StatefulSet | DaemonSet

fun workload_kind_text :: "workload_kind \<Rightarrow> string" where
  "workload_kind_text Deployment = ''Deployment''"
| "workload_kind_text StatefulSet = ''StatefulSet''"
| "workload_kind_text DaemonSet = ''DaemonSet''"

datatype workload_reason =
    WorkloadReasonNotReady
  | WorkloadReasonReplicaFailure
  | WorkloadReasonProgressDeadline
  | WorkloadReasonUnschedulable
  | WorkloadReasonUnknown

fun workload_reason_text :: "workload_reason \<Rightarrow> string" where
  "workload_reason_text WorkloadReasonNotReady = ''not-ready''"
| "workload_reason_text WorkloadReasonReplicaFailure = ''replica-failure''"
| "workload_reason_text WorkloadReasonProgressDeadline = ''progress-deadline-exceeded''"
| "workload_reason_text WorkloadReasonUnschedulable = ''unschedulable''"
| "workload_reason_text WorkloadReasonUnknown = ''unknown''"

lemma workload_kind_text_inj: "workload_kind_text a = workload_kind_text b \<longleftrightarrow> a = b"
  by (cases a; cases b) auto

lemma workload_reason_text_inj: "workload_reason_text a = workload_reason_text b \<longleftrightarrow> a = b"
  by (cases a; cases b) auto

text \<open>Reasons are strings in Go, and \<open>slices.Sort\<close> orders them by their text.\<close>

instantiation workload_reason :: linorder
begin

definition less_eq_workload_reason :: "workload_reason \<Rightarrow> workload_reason \<Rightarrow> bool" where
  "less_eq_workload_reason a b \<longleftrightarrow> workload_reason_text a \<le> workload_reason_text b"

definition less_workload_reason :: "workload_reason \<Rightarrow> workload_reason \<Rightarrow> bool" where
  "less_workload_reason a b \<longleftrightarrow> workload_reason_text a < workload_reason_text b"

instance
  by standard (auto simp: less_eq_workload_reason_def less_workload_reason_def workload_reason_text_inj
      dest: antisym)

end

record workload_health =
  wh_scope :: string
  wh_kind :: workload_kind
  wh_name :: string
  wh_ready :: int
  wh_desired :: int
  wh_reasons :: "workload_reason list"

record list_unhealthy_workloads_output =
  luwo_target :: string
  luwo_observed_at :: time
  luwo_workloads :: "workload_health list"
  luwo_truncated :: bool

definition marshal_workload_health :: "workload_health \<Rightarrow> marshalled" where
  "marshal_workload_health w = marshal_struct
     [(''scope'', marshal_string (wh_scope w)),
      (''kind'', marshal_string (workload_kind_text (wh_kind w))),
      (''name'', marshal_string (wh_name w)),
      (''ready'', marshal_int (wh_ready w)),
      (''desired'', marshal_int (wh_desired w)),
      (''reasons'', marshal_list (\<lambda>r. marshal_string (workload_reason_text r)) (wh_reasons w))]"

definition marshal_list_unhealthy_workloads_output ::
    "list_unhealthy_workloads_output \<Rightarrow> marshalled" where
  "marshal_list_unhealthy_workloads_output out = marshal_struct
     [(''target'', marshal_string (luwo_target out)),
      (''observedAt'', marshal_time (luwo_observed_at out)),
      (''workloads'', marshal_list marshal_workload_health (luwo_workloads out)),
      (''truncated'', marshal_bool (luwo_truncated out))]"

subsection \<open>Active alerts\<close>

record list_active_alerts_input =
  laa_target :: string
  laa_limit :: int

datatype alert_severity =
    AlertSeverityCritical
  | AlertSeverityWarning
  | AlertSeverityInfo
  | AlertSeverityUnknown

fun alert_severity_text :: "alert_severity \<Rightarrow> string" where
  "alert_severity_text AlertSeverityCritical = ''critical''"
| "alert_severity_text AlertSeverityWarning = ''warning''"
| "alert_severity_text AlertSeverityInfo = ''info''"
| "alert_severity_text AlertSeverityUnknown = ''unknown''"

record active_alert =
  alert_name :: string
  alert_severity :: alert_severity
  alert_component :: string
  alert_started_at :: "time option"

record list_active_alerts_output =
  laao_target :: string
  laao_observed_at :: time
  laao_alerts :: "active_alert list"
  laao_truncated :: bool

definition marshal_active_alert :: "active_alert \<Rightarrow> marshalled" where
  "marshal_active_alert a = marshal_struct
     ([(''name'', marshal_string (alert_name a)),
       (''severity'', marshal_string (alert_severity_text (alert_severity a)))] @
      omit_empty_string ''component'' (alert_component a) @
      omit_nil ''startedAt'' marshal_time (alert_started_at a))"

definition marshal_list_active_alerts_output :: "list_active_alerts_output \<Rightarrow> marshalled" where
  "marshal_list_active_alerts_output out = marshal_struct
     [(''target'', marshal_string (laao_target out)),
      (''observedAt'', marshal_time (laao_observed_at out)),
      (''alerts'', marshal_list marshal_active_alert (laao_alerts out)),
      (''truncated'', marshal_bool (laao_truncated out))]"

subsection \<open>Scrape health\<close>

record get_scrape_health_input =
  gsh_target :: string

datatype scrape_state = ScrapeStateUp | ScrapeStateDown | ScrapeStateMissing

fun scrape_state_text :: "scrape_state \<Rightarrow> string" where
  "scrape_state_text ScrapeStateUp = ''up''"
| "scrape_state_text ScrapeStateDown = ''down''"
| "scrape_state_text ScrapeStateMissing = ''missing''"

record scrape_health =
  sh_id :: string
  sh_state :: scrape_state
  sh_sampled_at :: "time option"

record get_scrape_health_output =
  gsho_target :: string
  gsho_observed_at :: time
  gsho_scrapes :: "scrape_health list"
  gsho_partial :: bool

definition marshal_scrape_health :: "scrape_health \<Rightarrow> marshalled" where
  "marshal_scrape_health s = marshal_struct
     ([(''id'', marshal_string (sh_id s)),
       (''state'', marshal_string (scrape_state_text (sh_state s)))] @
      omit_nil ''sampledAt'' marshal_time (sh_sampled_at s))"

definition marshal_get_scrape_health_output :: "get_scrape_health_output \<Rightarrow> marshalled" where
  "marshal_get_scrape_health_output out = marshal_struct
     [(''target'', marshal_string (gsho_target out)),
      (''observedAt'', marshal_time (gsho_observed_at out)),
      (''scrapes'', marshal_list marshal_scrape_health (gsho_scrapes out)),
      (''partial'', marshal_bool (gsho_partial out))]"

subsection \<open>Unhealthy reconciliations\<close>

record list_unhealthy_reconciliations_input =
  lur_target :: string
  lur_scope :: string
  lur_limit :: int

datatype reconciliation_kind =
    ReconciliationKindKustomization
  | ReconciliationKindHelmRelease
  | ReconciliationKindGitRepository

fun reconciliation_kind_text :: "reconciliation_kind \<Rightarrow> string" where
  "reconciliation_kind_text ReconciliationKindKustomization = ''Kustomization''"
| "reconciliation_kind_text ReconciliationKindHelmRelease = ''HelmRelease''"
| "reconciliation_kind_text ReconciliationKindGitRepository = ''GitRepository''"

datatype readiness_state = ReadinessStateFalse | ReadinessStateUnknown

fun readiness_state_text :: "readiness_state \<Rightarrow> string" where
  "readiness_state_text ReadinessStateFalse = ''false''"
| "readiness_state_text ReadinessStateUnknown = ''unknown''"

datatype reconciliation_reason =
    ReconciliationReasonDependencyNotReady
  | ReconciliationReasonHealthCheckFailed
  | ReconciliationReasonReconciliationFailed
  | ReconciliationReasonArtifactFailed
  | ReconciliationReasonAuthenticationFailed
  | ReconciliationReasonSourceUnavailable
  | ReconciliationReasonSuspended
  | ReconciliationReasonUnknown

fun reconciliation_reason_text :: "reconciliation_reason \<Rightarrow> string" where
  "reconciliation_reason_text ReconciliationReasonDependencyNotReady = ''dependency-not-ready''"
| "reconciliation_reason_text ReconciliationReasonHealthCheckFailed = ''health-check-failed''"
| "reconciliation_reason_text ReconciliationReasonReconciliationFailed = ''reconciliation-failed''"
| "reconciliation_reason_text ReconciliationReasonArtifactFailed = ''artifact-failed''"
| "reconciliation_reason_text ReconciliationReasonAuthenticationFailed = ''authentication-failed''"
| "reconciliation_reason_text ReconciliationReasonSourceUnavailable = ''source-unavailable''"
| "reconciliation_reason_text ReconciliationReasonSuspended = ''suspended''"
| "reconciliation_reason_text ReconciliationReasonUnknown = ''unknown''"

lemma reconciliation_kind_text_inj:
  "reconciliation_kind_text a = reconciliation_kind_text b \<longleftrightarrow> a = b"
  by (cases a; cases b) auto

record unhealthy_reconciliation =
  ur_scope :: string
  ur_kind :: reconciliation_kind
  ur_name :: string
  ur_state :: readiness_state
  ur_reason :: reconciliation_reason
  ur_transitioned_at :: "time option"

record list_unhealthy_reconciliations_output =
  luro_target :: string
  luro_observed_at :: time
  luro_reconciliations :: "unhealthy_reconciliation list"
  luro_truncated :: bool

definition marshal_unhealthy_reconciliation :: "unhealthy_reconciliation \<Rightarrow> marshalled" where
  "marshal_unhealthy_reconciliation r = marshal_struct
     ([(''scope'', marshal_string (ur_scope r)),
       (''kind'', marshal_string (reconciliation_kind_text (ur_kind r))),
       (''name'', marshal_string (ur_name r)),
       (''state'', marshal_string (readiness_state_text (ur_state r))),
       (''reason'', marshal_string (reconciliation_reason_text (ur_reason r)))] @
      omit_nil ''transitionedAt'' marshal_time (ur_transitioned_at r))"

definition marshal_list_unhealthy_reconciliations_output ::
    "list_unhealthy_reconciliations_output \<Rightarrow> marshalled" where
  "marshal_list_unhealthy_reconciliations_output out = marshal_struct
     [(''target'', marshal_string (luro_target out)),
      (''observedAt'', marshal_time (luro_observed_at out)),
      (''reconciliations'', marshal_list marshal_unhealthy_reconciliation (luro_reconciliations out)),
      (''truncated'', marshal_bool (luro_truncated out))]"

end
