(* ===== verification/Policy.thy ===== *)
theory Policy
  imports Contracts
begin

section \<open>Input validation, normalization and the result limit (\<open>internal/observer/policy.go\<close>)\<close>

text \<open>
  What is checked at the application boundary: identifiers, list limits, the mapping of source
  texts to the public constants, and the size of an encoded result.
\<close>

subsection \<open>Identifiers\<close>

text \<open>\<open>^[a-z](?:[a-z0-9-]{0,30}[a-z0-9])?$\<close>\<close>

definition identifier_pattern :: pattern where
  "identifier_pattern = label_pattern lower_class lower_digit_hyphen_class 30 lower_digit_class"

definition validate_identifier :: "string \<Rightarrow> string \<Rightarrow> go_error option" where
  "validate_identifier field value =
     (if \<not> matches identifier_pattern value
      then Some (ValidationError field ''must be 1 to 32 lowercase letters, digits, or hyphens'')
      else None)"

subsection \<open>Inputs\<close>

definition validate_get_cluster_health_input :: "get_cluster_health_input \<Rightarrow> go_error option" where
  "validate_get_cluster_health_input inp = validate_identifier ''target'' (gch_target inp)"

definition limit_error :: go_error where
  "limit_error = ValidationError ''limit'' ''must be from 1 to 50''"

definition normalize_list_unhealthy_workloads_input ::
    "list_unhealthy_workloads_input \<Rightarrow> list_unhealthy_workloads_input result" where
  "normalize_list_unhealthy_workloads_input inp =
     (case validate_identifier ''target'' (luw_target inp) of Some e \<Rightarrow> Inl e
      | None \<Rightarrow>
        (case (if luw_scope inp \<noteq> [] then validate_identifier ''scope'' (luw_scope inp) else None) of
           Some e \<Rightarrow> Inl e
         | None \<Rightarrow>
             (let inp' = (if luw_limit inp = 0 then inp\<lparr>luw_limit := default_list_limit\<rparr> else inp)
              in if luw_limit inp' < 1 \<or> max_list_limit < luw_limit inp' then Inl limit_error
                 else Inr inp')))"

definition normalize_list_limit :: "int \<Rightarrow> int result" where
  "normalize_list_limit limit =
     (if limit = 0 then Inr default_list_limit
      else if limit < 1 \<or> max_list_limit < limit then Inl limit_error
      else Inr limit)"

definition normalize_list_active_alerts_input ::
    "list_active_alerts_input \<Rightarrow> list_active_alerts_input result" where
  "normalize_list_active_alerts_input inp =
     (case validate_identifier ''target'' (laa_target inp) of Some e \<Rightarrow> Inl e
      | None \<Rightarrow>
          result_bind (normalize_list_limit (laa_limit inp))
            (\<lambda>limit. Inr (inp\<lparr>laa_limit := limit\<rparr>)))"

definition validate_get_scrape_health_input :: "get_scrape_health_input \<Rightarrow> go_error option" where
  "validate_get_scrape_health_input inp = validate_identifier ''target'' (gsh_target inp)"

definition normalize_list_unhealthy_reconciliations_input ::
    "list_unhealthy_reconciliations_input \<Rightarrow> list_unhealthy_reconciliations_input result" where
  "normalize_list_unhealthy_reconciliations_input inp =
     (case validate_identifier ''target'' (lur_target inp) of Some e \<Rightarrow> Inl e
      | None \<Rightarrow>
        (case (if lur_scope inp \<noteq> [] then validate_identifier ''scope'' (lur_scope inp) else None) of
           Some e \<Rightarrow> Inl e
         | None \<Rightarrow>
             result_bind (normalize_list_limit (lur_limit inp))
               (\<lambda>limit. Inr (inp\<lparr>lur_limit := limit\<rparr>))))"

subsection \<open>Source texts\<close>

definition normalize_alert_severity :: "string \<Rightarrow> alert_severity" where
  "normalize_alert_severity severity =
     (let s = lower_text severity in
      if s = ''critical'' then AlertSeverityCritical
      else if s = ''warning'' \<or> s = ''warn'' then AlertSeverityWarning
      else if s = ''info'' \<or> s = ''informational'' then AlertSeverityInfo
      else AlertSeverityUnknown)"

definition normalize_reconciliation_reason :: "string \<Rightarrow> reconciliation_reason" where
  "normalize_reconciliation_reason reason =
     (if reason = ''DependencyNotReady'' then ReconciliationReasonDependencyNotReady
      else if reason = ''HealthCheckFailed'' then ReconciliationReasonHealthCheckFailed
      else if reason = ''ReconciliationFailed'' \<or> reason = ''BuildFailed''
        then ReconciliationReasonReconciliationFailed
      else if reason = ''ArtifactFailed'' then ReconciliationReasonArtifactFailed
      else if reason = ''AuthenticationFailed'' then ReconciliationReasonAuthenticationFailed
      else if reason = ''SourceUnavailable'' \<or> reason = ''GitOperationFailed''
        then ReconciliationReasonSourceUnavailable
      else if reason = ''Suspended'' then ReconciliationReasonSuspended
      else ReconciliationReasonUnknown)"

definition normalize_workload_reason :: "string \<Rightarrow> workload_reason" where
  "normalize_workload_reason reason =
     (if reason = ''NotReady'' \<or> reason = ''MinimumReplicasUnavailable'' then WorkloadReasonNotReady
      else if reason = ''ReplicaFailure'' \<or> reason = ''FailedCreate''
        then WorkloadReasonReplicaFailure
      else if reason = ''ProgressDeadlineExceeded'' then WorkloadReasonProgressDeadline
      else if reason = ''Unschedulable'' then WorkloadReasonUnschedulable
      else WorkloadReasonUnknown)"

subsection \<open>The result limit\<close>

text \<open>
  \<open>CheckResultSize\<close>, given what \<open>json.Marshal\<close> makes of the value. The only values the program
  passes that cannot be encoded hold a time outside the years 0 to 9999.
\<close>

definition encode_error :: go_error where
  "encode_error = Wrapped ''encode observation: '' (ErrorText ''json: error calling MarshalJSON'') []"

definition check_result_size :: "marshalled \<Rightarrow> go_error option" where
  "check_result_size m =
     (case m of None \<Rightarrow> Some encode_error
      | Some j \<Rightarrow>
          if max_encoded_result_bytes < int (length (json_text j)) then Some ErrResultTooLarge else None)"

subsection \<open>What a valid identifier is\<close>

definition valid_identifier :: "string \<Rightarrow> bool" where
  "valid_identifier v \<longleftrightarrow> valid_label 32 v \<and> CHR ''a'' \<le> hd v \<and> hd v \<le> CHR ''z''"

lemma matches_identifier [pattern_simps]: "matches identifier_pattern v \<longleftrightarrow> valid_identifier v"
proof -
  have "matches identifier_pattern v \<longleftrightarrow> valid_label (30 + 2) v \<and> in_class lower_class (hd v)"
    unfolding identifier_pattern_def
    by (rule matches_lower_label) (simp add: in_lower_class lower_label_char)
  then show ?thesis by (simp add: valid_identifier_def in_lower_class)
qed

text \<open>
  \<open>ValidateIdentifier\<close> accepts exactly the non-empty texts of at most 32 lowercase letters, digits
  and hyphens that start with a letter and do not end with a hyphen.
\<close>

theorem validate_identifier_eq:
  "validate_identifier field v =
     (if valid_identifier v then None
      else Some (ValidationError field ''must be 1 to 32 lowercase letters, digits, or hyphens''))"
  by (simp add: validate_identifier_def pattern_simps)

lemma validate_identifier_None: "validate_identifier field v = None \<longleftrightarrow> valid_identifier v"
  by (simp add: validate_identifier_eq)

lemma validate_identifier_Some:
  "validate_identifier field v = Some e \<Longrightarrow> \<exists>r. e = ValidationError field r"
  by (auto simp: validate_identifier_def split: if_splits)

text \<open>Identifiers and labels are encoded as they are.\<close>

lemma plain_char_iff:
  "plain_char c \<longleftrightarrow> 0x20 \<le> byte c \<and> byte c < 0x80 \<and> byte c \<notin> {0x22, 0x5C, 0x3C, 0x3E, 0x26}"
proof -
  have eq: "c = d \<longleftrightarrow> byte c = byte d" for d :: char
    by (simp add: byte_def)
  show ?thesis
    unfolding plain_char_def quote_char_def eq
    by (simp add: byte_def split: if_split)
qed

lemma byte_mono: "c \<le> d \<longleftrightarrow> byte c \<le> byte d"
proof -
  have "byte x = int (of_char x)" for x
    by (simp add: byte_def of_nat_of_char)
  then show ?thesis by (simp add: less_eq_char_def)
qed

lemma label_char_plain: "label_char c \<Longrightarrow> plain_char c"
  by (auto simp: label_char_def plain_char_iff byte_mono) (simp_all add: byte_def)

subsection \<open>Normalized inputs\<close>

lemma normalize_list_limit_Inr:
  "normalize_list_limit l = Inr m \<longleftrightarrow>
     l = 0 \<and> m = default_list_limit \<or> l = m \<and> 1 \<le> m \<and> m \<le> max_list_limit"
  by (auto simp: normalize_list_limit_def default_list_limit_def max_list_limit_def)

lemma normalize_list_limit_bounds:
  "normalize_list_limit l = Inr m \<Longrightarrow> 1 \<le> m \<and> m \<le> max_list_limit"
  by (auto simp: normalize_list_limit_Inr default_list_limit_def max_list_limit_def)

lemma normalize_list_limit_idem:
  "normalize_list_limit l = Inr m \<Longrightarrow> normalize_list_limit m = Inr m"
  by (auto simp: normalize_list_limit_Inr default_list_limit_def max_list_limit_def)

text \<open>The workload input has its own copy of the limit rule; it is the same rule.\<close>

lemma normalize_workloads_Inr:
  "normalize_list_unhealthy_workloads_input inp = Inr out \<longleftrightarrow>
     valid_identifier (luw_target inp) \<and> (luw_scope inp = [] \<or> valid_identifier (luw_scope inp)) \<and>
     normalize_list_limit (luw_limit inp) = Inr (luw_limit out) \<and>
     out = inp\<lparr>luw_limit := luw_limit out\<rparr>"
  by (cases inp; cases out; cases "luw_scope inp = []"; cases "luw_limit inp = 0")
    (auto simp: normalize_list_unhealthy_workloads_input_def validate_identifier_eq Let_def
      normalize_list_limit_Inr default_list_limit_def max_list_limit_def split: if_splits)

lemma normalize_alerts_Inr:
  "normalize_list_active_alerts_input inp = Inr out \<longleftrightarrow>
     valid_identifier (laa_target inp) \<and>
     normalize_list_limit (laa_limit inp) = Inr (laa_limit out) \<and>
     out = inp\<lparr>laa_limit := laa_limit out\<rparr>"
  by (auto simp: normalize_list_active_alerts_input_def validate_identifier_eq)

lemma normalize_reconciliations_Inr:
  "normalize_list_unhealthy_reconciliations_input inp = Inr out \<longleftrightarrow>
     valid_identifier (lur_target inp) \<and> (lur_scope inp = [] \<or> valid_identifier (lur_scope inp)) \<and>
     normalize_list_limit (lur_limit inp) = Inr (lur_limit out) \<and>
     out = inp\<lparr>lur_limit := lur_limit out\<rparr>"
  by (auto simp: normalize_list_unhealthy_reconciliations_input_def validate_identifier_eq)

end
