(* ===== verification/Sizes.thy ===== *)
theory Sizes
  imports Policy
begin

section \<open>Bounds on encoded sizes\<close>

text \<open>
  \<open>fits n m\<close>: if the marshalled value \<open>m\<close> encodes at all, its text has at most \<open>n\<close> bytes. The
  rules follow the shape of the values, so the bound of an output is computed from the bounds of
  its fields; they show that the outputs of the adapters never reach the limit of
  \<open>CheckResultSize\<close>.
\<close>

definition fits :: "nat \<Rightarrow> marshalled \<Rightarrow> bool" where
  "fits n m \<longleftrightarrow> (\<forall>j. m = Some j \<longrightarrow> length (json_text j) \<le> n)"

definition fields_fit :: "nat \<Rightarrow> (string \<times> marshalled) list \<Rightarrow> bool" where
  "fields_fit n fs \<longleftrightarrow>
     (\<forall>ms. marshal_fields fs = Some ms \<longrightarrow>
        (\<Sum>(k, v)\<leftarrow>ms. length (json_quote k) + length (json_text v) + 2) \<le> n)"

lemma fits_mono: "fits m v \<Longrightarrow> m \<le> n \<Longrightarrow> fits n v"
  by (auto simp: fits_def)

lemma fits_plain_string:
  assumes "list_all plain_char s" and "length s \<le> n"
  shows "fits (n + 2) (marshal_string s)"
  using assms by (simp add: fits_def marshal_string_def length_json_quote_plain)

lemma fits_string: "length s \<le> n \<Longrightarrow> fits (6 * n + 2) (marshal_string s)"
  using length_json_quote [of s] by (simp add: fits_def marshal_string_def)

lemma fits_int: "int64 i \<Longrightarrow> fits 20 (marshal_int i)"
  by (simp add: fits_def marshal_int_def length_int_text)

lemma fits_bool: "fits 5 (marshal_bool b)"
  by (simp add: fits_def marshal_bool_def)

lemma fits_time: "time_valid t \<Longrightarrow> fits 290 (marshal_time t)"
  by (simp add: fits_def length_marshal_time)

lemma fits_list:
  assumes "\<And>x. x \<in> set xs \<Longrightarrow> fits k (f x)" and "length xs \<le> n"
  shows "fits (2 + n * (k + 1)) (marshal_list f xs)"
  unfolding fits_def
proof (intro allI impI)
  fix j
  assume j: "marshal_list f xs = Some j"
  have "length (json_text j) \<le> 2 + length xs * (k + 1)"
    by (rule length_marshal_list [OF j]) (use assms(1) in \<open>auto simp: fits_def\<close>)
  also have "\<dots> \<le> 2 + n * (k + 1)"
    by (intro add_left_mono mult_le_mono1 assms(2))
  finally show "length (json_text j) \<le> 2 + n * (k + 1)" .
qed

lemma fields_fit_Nil: "fields_fit 0 []"
  by (simp add: fields_fit_def)

lemma fields_fit_Cons:
  assumes "fits n m" and "fields_fit r fs"
  shows "fields_fit (6 * length k + 4 + n + r) ((k, m) # fs)"
  unfolding fields_fit_def
proof (intro allI impI)
  fix ms
  assume "marshal_fields ((k, m) # fs) = Some ms"
  then obtain j rest where j: "m = Some j" and rest: "marshal_fields fs = Some rest"
    and ms: "ms = (k, j) # rest"
    by (auto split: option.splits)
  from assms(1) j have "length (json_text j) \<le> n" by (simp add: fits_def)
  moreover from assms(2) rest have
    "(\<Sum>(k, v)\<leftarrow>rest. length (json_quote k) + length (json_text v) + 2) \<le> r"
    by (simp add: fields_fit_def)
  ultimately show "(\<Sum>(k, v)\<leftarrow>ms. length (json_quote k) + length (json_text v) + 2) \<le>
      6 * length k + 4 + n + r"
    using length_json_quote [of k] ms by simp
qed

lemma fields_fit_append:
  assumes "fields_fit m fs" and "fields_fit n gs"
  shows "fields_fit (m + n) (fs @ gs)"
  using assms
proof (induction fs arbitrary: m)
  case Nil
  then show ?case by (auto simp: fields_fit_def)
next
  case (Cons f fs)
  obtain k v where f: "f = (k, v)" by (cases f)
  show ?case unfolding fields_fit_def
  proof (intro allI impI)
    fix ms
    assume "marshal_fields ((f # fs) @ gs) = Some ms"
    then obtain j rest where j: "v = Some j" and rest: "marshal_fields (fs @ gs) = Some rest"
      and ms: "ms = (k, j) # rest"
      by (auto simp: f split: option.splits)
    let ?c = "length (json_quote k) + length (json_text j) + 2"
    have parts: "marshal_fields fs \<noteq> None"
      using rest by (induction fs arbitrary: rest) (auto split: option.splits)
    then have "fields_fit (m - ?c) fs" "?c \<le> m"
      using Cons.prems(1) j by (auto simp: fields_fit_def f)
    with Cons.IH Cons.prems(2) rest ms show
      "(\<Sum>(k, v)\<leftarrow>ms. length (json_quote k) + length (json_text v) + 2) \<le> m + n"
      by (fastforce simp: fields_fit_def)
  qed
qed

lemma fields_fit_omit_empty:
  assumes "list_all plain_char s" and "length s \<le> n"
  shows "fields_fit (6 * length k + 6 + n) (omit_empty_string k s)"
  using fields_fit_Cons [OF fits_plain_string [OF assms] fields_fit_Nil, of k]
  by (auto simp: omit_empty_string_def fields_fit_def)

lemma fields_fit_omit_nil:
  assumes "\<And>x. v = Some x \<Longrightarrow> fits n (f x)"
  shows "fields_fit (6 * length k + 4 + n) (omit_nil k f v)"
proof (cases v)
  case None
  then show ?thesis by (simp add: omit_nil_def fields_fit_def)
next
  case (Some x)
  with fields_fit_Cons [OF assms fields_fit_Nil, of x k] show ?thesis
    by (simp add: omit_nil_def)
qed

lemma fits_struct:
  assumes "fields_fit n fs"
  shows "fits (n + 2) (marshal_struct fs)"
  unfolding fits_def
proof (intro allI impI)
  fix j
  assume "marshal_struct fs = Some j"
  then obtain ms where ms: "marshal_fields fs = Some ms" and j: "j = JObject ms"
    by (auto simp: marshal_struct_def)
  show "length (json_text j) \<le> n + 2"
    using length_json_object [of ms] assms ms unfolding fields_fit_def j by fastforce
qed

lemmas fits_intros = fits_struct fields_fit_append fields_fit_omit_empty fields_fit_omit_nil
  fields_fit_Cons fields_fit_Nil fits_list fits_plain_string fits_int fits_bool fits_time

text \<open>An output that fits is accepted unless it cannot be encoded.\<close>

lemma check_result_size_fits:
  assumes "fits n m" and "n \<le> 64 * 1024"
  shows "check_result_size m = (if m = None then Some encode_error else None)"
  using assms by (auto simp: check_result_size_def max_encoded_result_bytes_def fits_def split: option.splits)

lemma marshal_struct_None: "marshal_struct fs = None \<longleftrightarrow> (\<exists>(k, m)\<in>set fs. m = None)"
proof -
  have "marshal_fields fs = None \<longleftrightarrow> (\<exists>(k, m)\<in>set fs. m = None)"
    by (induction fs) (auto split: option.splits)
  then show ?thesis by (simp add: marshal_struct_def)
qed

lemma marshal_list_None: "marshal_list f xs = None \<longleftrightarrow> (\<exists>x\<in>set xs. f x = None)"
  by (simp add: marshal_list_def marshal_all_None)

lemmas marshal_total = marshal_struct_None marshal_list_None marshal_string_def marshal_int_def
  marshal_bool_def marshal_time_def

lemma valid_label_plain: "valid_label n s \<Longrightarrow> list_all plain_char s \<and> length s \<le> n"
  by (auto simp: valid_label_def list_all_iff dest: label_char_plain)

lemma valid_identifier_plain: "valid_identifier s \<Longrightarrow> list_all plain_char s \<and> length s \<le> 32"
  by (auto simp: valid_identifier_def dest: valid_label_plain)

text \<open>Every operation ends with the check of its output.\<close>

definition checked :: "('a \<Rightarrow> marshalled) \<Rightarrow> 'a \<Rightarrow> 'a result" where
  "checked marshal result = (case check_result_size (marshal result) of Some e \<Rightarrow> Inl e | None \<Rightarrow> Inr result)"

lemma checked_Inr: "checked marshal result = Inr out \<longleftrightarrow> out = result \<and> check_result_size (marshal result) = None"
  by (auto simp: checked_def split: option.splits)

lemma checked_fits:
  assumes "fits n (marshal result)" and "n \<le> 64 * 1024"
  shows "checked marshal result = (if marshal result = None then Inl encode_error else Inr result)"
  using check_result_size_fits [OF assms] by (simp add: checked_def)

end
