(* ===== verification/SourceHttp.thy ===== *)
theory SourceHttp
  imports Sizes Complex_Main
begin

section \<open>The bounded HTTPS request boundary (\<open>internal/sourcehttp/client.go\<close>)\<close>

text \<open>
  Validation of the source configuration, one bounded JSON \<open>GET\<close>, and the request slots that
  bound the number of concurrent requests of a client. The texts handled by parsers of the
  standard library with a grammar of their own are turned into data by the functions of a record
  \<open>stdlib\<close>, an argument of every definition that needs them; no theorem assumes more about them
  than it says.
\<close>

subsection \<open>Parsers of the standard library\<close>

text \<open>A 64-bit float is a rational number or one of the special values.\<close>

datatype float64 = NaN | Infinite bool | Finite rat

text \<open>
  \<open>url.Parse\<close>, the media type of \<open>mime.ParseMediaType\<close>, \<open>time.Parse(time.RFC3339Nano, _)\<close>
  followed by \<open>UTC()\<close>, \<open>strconv.ParseFloat(_, 64)\<close>, \<open>time.ParseDuration\<close> (\<open>None\<close> is their
  error) and the rounding of a real product to a 64-bit float.
\<close>

record stdlib =
  lib_parse_url :: "string \<Rightarrow> url option"
  lib_media_type :: "string \<Rightarrow> string option"
  lib_parse_time :: "string \<Rightarrow> time option"
  lib_parse_float :: "string \<Rightarrow> float64 option"
  lib_parse_duration :: "string \<Rightarrow> int option"
  lib_round :: "rat \<Rightarrow> rat"

text \<open>The nanoseconds of a parsed instant are within the second, as those of every \<open>time.Time\<close> are.\<close>

definition sane_times :: "stdlib \<Rightarrow> bool" where
  "sane_times lib \<longleftrightarrow> (\<forall>s t. lib_parse_time lib s = Some t \<longrightarrow> time_valid t)"

subsection \<open>Escaping\<close>

definition unreserved :: "char \<Rightarrow> bool" where
  "unreserved c \<longleftrightarrow>
     in_class (lower_digit_hyphen_class @ [(CHR ''A'', CHR ''Z'')]) c \<or> c \<in> set ''_.~''"

definition percent :: "char \<Rightarrow> string" where
  "percent c = [CHR ''%'', ''0123456789ABCDEF'' ! nat (byte c div 16),
     ''0123456789ABCDEF'' ! nat (byte c mod 16)]"

text \<open>\<open>url.QueryEscape\<close> and \<open>url.PathEscape\<close>\<close>

definition query_escape :: "string \<Rightarrow> string" where
  "query_escape s = concat (map (\<lambda>c.
     if unreserved c then [c] else if c = CHR '' '' then ''+'' else percent c) s)"

definition path_escape :: "string \<Rightarrow> string" where
  "path_escape s = concat (map (\<lambda>c. if unreserved c \<or> c \<in> set ''$&+=:@'' then [c] else percent c) s)"

lemma path_escape_label: "list_all label_char s \<Longrightarrow> path_escape s = s"
  by (induction s) (auto simp: path_escape_def unreserved_def in_class_def simp flip: in_lower_digit_hyphen_class)

text \<open>\<open>url.Values.Encode\<close>: the values of each key, the keys in order.\<close>

type_synonym query_values = "(string \<times> string list) list"

fun join_with :: "string \<Rightarrow> string list \<Rightarrow> string" where
  "join_with sep [] = []"
| "join_with sep [s] = s"
| "join_with sep (s # t # ts) = s @ sep @ join_with sep (t # ts)"

definition encode_query :: "query_values \<Rightarrow> string" where
  "encode_query vs =
     join_with ''&'' (concat (map (\<lambda>(k, xs). map (\<lambda>x. query_escape k @ ''='' @ query_escape x) xs)
       (sort_func (compare_by fst) vs)))"

subsection \<open>Configuration\<close>

text \<open>Durations are in nanoseconds.\<close>

definition millisecond :: int where
  "millisecond = 1000000"

definition second :: int where
  "second = 1000000000"

definition default_request_timeout :: int where
  "default_request_timeout = 5 * second"

definition max_concurrent_requests :: int where
  "max_concurrent_requests = 4"

definition max_source_response_bytes :: int where
  "max_source_response_bytes = 2 * 1024 * 1024"

definition max_bearer_token_bytes :: int where
  "max_bearer_token_bytes = 16 * 1024"

text \<open>
  An \<open>http.Client\<close>, by its redirect policy: follow redirects (the default), or return the
  redirect response itself (\<open>http.ErrUseLastResponse\<close>).
\<close>

record http_client =
  hc_follow_redirects :: bool

record source_config =
  sc_base_url :: string
  sc_credential :: bool
  sc_http_client :: "http_client option"
  sc_request_timeout :: int

record source_client =
  src_base_url :: url
  src_credential :: bool
  src_http_client :: http_client
  src_request_timeout :: int

text \<open>The check every source makes of its base URL.\<close>

definition https_origin :: "url \<Rightarrow> bool" where
  "https_origin u \<longleftrightarrow>
     url_scheme u = ''https'' \<and> url_host u \<noteq> [] \<and> url_user u = None \<and>
     (url_path u = [] \<or> url_path u = ''/'') \<and> url_raw_query u = [] \<and> url_fragment u = []"

definition source_new :: "stdlib \<Rightarrow> source_config \<Rightarrow> source_client result" where
  "source_new lib cfg =
     (case lib_parse_url lib (sc_base_url cfg) of
        None \<Rightarrow> Inl (ErrorText ''source base URL must be an HTTPS origin'')
      | Some u \<Rightarrow>
          if \<not> https_origin u then Inl (ErrorText ''source base URL must be an HTTPS origin'')
          else
            (let http = (case sc_http_client cfg of None \<Rightarrow> \<lparr>hc_follow_redirects = True\<rparr> | Some c \<Rightarrow> c);
                 copied = http\<lparr>hc_follow_redirects := False\<rparr>;
                 timeout = (if sc_request_timeout cfg = 0 then default_request_timeout
                            else sc_request_timeout cfg)
             in if timeout < millisecond \<or> 30 * second < timeout
                  then Inl (ErrorText ''source request timeout must be from 1ms to 30s'')
                else Inr \<lparr>src_base_url = u, src_credential = sc_credential cfg,
                       src_http_client = copied, src_request_timeout = timeout\<rparr>))"

subsection \<open>One request\<close>

definition context_error :: "go_error \<Rightarrow> go_error" where
  "context_error e =
     (if error_is e ContextCanceled then ContextCanceled
      else if error_is e ContextDeadlineExceeded then SourceHttpError SourceTimeout
      else SourceHttpError SourceUnavailable)"

definition valid_bearer_token :: "string \<Rightarrow> bool" where
  "valid_bearer_token token \<longleftrightarrow>
     token \<noteq> [] \<and> int (length token) \<le> max_bearer_token_bytes \<and>
     \<not> list_ex (\<lambda>c. c \<in> {CHR '' '', CHR 0x09, CHR 0x0D, CHR 0x0A}) token"

text \<open>
  The \<open>Authorization\<close> header: without a credential source there is none, else the token is read
  anew and must be valid.
\<close>

definition authorize :: "bool \<Rightarrow> (string \<Rightarrow> bool) \<Rightarrow> go_error \<Rightarrow> exchange \<Rightarrow> string option io" where
  "authorize credential valid err x h =
     (if \<not> credential then (Inr None, h)
      else case ex_token x of
        None \<Rightarrow> (Inl err, h @ [TokenRead])
      | Some token \<Rightarrow>
          if valid token then (Inr (Some (''Bearer '' @ token)), h @ [TokenRead])
          else (Inl err, h @ [TokenRead]))"

text \<open>\<open>http.Client.Do\<close> under the redirect policy of the client.\<close>

definition http_do :: "http_client \<Rightarrow> exchange \<Rightarrow> request \<Rightarrow> http_reply io" where
  "http_do client x req h =
     (case ex_redirect x of
        Some (reqs, reply) \<Rightarrow>
          if hc_follow_redirects client then (Inr reply, h @ Sent req # map Sent reqs)
          else (Inr (ex_reply x), h @ [Sent req])
      | None \<Rightarrow> (Inr (ex_reply x), h @ [Sent req]))"

definition source_accept :: "stdlib \<Rightarrow> http_reply \<Rightarrow> string result" where
  "source_accept lib reply =
     (case reply of
        DoFailed None \<Rightarrow> Inl (SourceHttpError SourceUnavailable)
      | DoFailed (Some e) \<Rightarrow> Inl (context_error e)
      | Responded r \<Rightarrow>
          if resp_status r < 200 \<or> 300 \<le> resp_status r
            then Inl (Wrapped [] (SourceHttpError SourceRejected) ('': status '' @ int_text (resp_status r)))
          else if lib_media_type lib (resp_content_type r) \<noteq> Some ''application/json''
            then Inl (SourceHttpError InvalidSourceResponse)
          else (case read_limited (max_source_response_bytes + 1) (resp_body r) of
            None \<Rightarrow> Inl (SourceHttpError SourceUnavailable)
          | Some body \<Rightarrow>
              if max_source_response_bytes < int (length body)
                then Inl (SourceHttpError InvalidSourceResponse)
              else Inr body))"

definition source_get :: "stdlib \<Rightarrow> world \<Rightarrow> source_client \<Rightarrow> string \<Rightarrow> query_values \<Rightarrow> string io" where
  "source_get lib w c path query h =
     (let raw_query = encode_query query; x = w h path raw_query in
      case ex_slot_done x of
        Some e \<Rightarrow> io_fail (context_error e) h
      | None \<Rightarrow>
          if \<not> ex_request_ok x then io_fail (SourceHttpError SourceUnavailable) h
          else io_bind
            (authorize (src_credential c) valid_bearer_token (SourceHttpError CredentialUnavailable) x)
            (\<lambda>authorization. io_bind
               (http_do (src_http_client c) x
                  \<lparr>req_method = ''GET'', req_scheme = url_scheme (src_base_url c),
                   req_host = url_host (src_base_url c), req_path = path, req_query = raw_query,
                   req_accept = ''application/json'', req_authorization = authorization\<rparr>)
               (\<lambda>reply. io_lift (source_accept lib reply))) h)"

subsection \<open>What a request does and returns\<close>

lemma https_origin_scheme: "https_origin u \<Longrightarrow> url_scheme u = ''https'' \<and> url_host u \<noteq> []"
  by (simp add: https_origin_def)

text \<open>An invariant of every client \<open>source_new\<close> returns.\<close>

definition source_client_inv :: "source_client \<Rightarrow> bool" where
  "source_client_inv c \<longleftrightarrow>
     https_origin (src_base_url c) \<and> \<not> hc_follow_redirects (src_http_client c) \<and>
     millisecond \<le> src_request_timeout c \<and> src_request_timeout c \<le> 30 * second"

lemma source_new_inv: "source_new lib cfg = Inr c \<Longrightarrow> source_client_inv c"
  by (auto simp: source_new_def source_client_inv_def Let_def split: option.splits if_splits)

text \<open>The requests a bounded \<open>GET\<close> may issue: one shape of request, always with a valid token when
  the client has a credential.\<close>

definition request_event :: "(string \<Rightarrow> bool) \<Rightarrow> url \<Rightarrow> bool \<Rightarrow> (string \<Rightarrow> string \<Rightarrow> bool) \<Rightarrow> event \<Rightarrow> bool" where
  "request_event valid origin credential allowed e \<longleftrightarrow>
     (case e of
        TokenRead \<Rightarrow> credential
      | Sent r \<Rightarrow>
          req_method r = ''GET'' \<and> req_scheme r = url_scheme origin \<and> req_host r = url_host origin \<and>
          allowed (req_path r) (req_query r) \<and>
          (if credential then \<exists>token. valid token \<and> req_authorization r = Some (''Bearer '' @ token)
           else req_authorization r = None))"

lemma authorize_Inr:
  "authorize credential valid err x h = (Inr a, h') \<longleftrightarrow>
     (if credential then \<exists>token. ex_token x = Some token \<and> valid token \<and> a = Some (''Bearer '' @ token) \<and>
        h' = h @ [TokenRead]
      else a = None \<and> h' = h)"
  by (auto simp: authorize_def split: option.splits if_splits)

lemma authorize_Inl:
  "authorize credential valid err x h = (Inl e, h') \<Longrightarrow> e = err \<and> h' = h @ [TokenRead] \<and> credential"
  by (auto simp: authorize_def split: option.splits if_splits)

text \<open>The events of one request, for any continuation that only looks at the reply.\<close>

lemma emits_request:
  assumes "\<And>a. (if credential then \<exists>token. valid token \<and> a = Some (''Bearer '' @ token) else a = None) \<Longrightarrow>
      \<not> hc_follow_redirects client \<and> P (Sent (req a))" and "credential \<Longrightarrow> P TokenRead"
  shows "emits P (io_bind (authorize credential valid err x)
    (\<lambda>a. io_bind (http_do client x (req a)) (\<lambda>reply. io_lift (f reply))))"
proof (rule emitsI)
  fix h
  show "\<exists>es. snd (io_bind (authorize credential valid err x)
    (\<lambda>a. io_bind (http_do client x (req a)) (\<lambda>reply. io_lift (f reply))) h) = h @ es \<and> list_all P es"
  proof (cases "authorize credential valid err x h")
    case (Pair r h')
    show ?thesis
    proof (cases r)
      case (Inl e)
      with Pair authorize_Inl [of credential valid err x h e h'] assms(2) show ?thesis
        by (simp add: io_bind_def)
    next
      case (Inr a)
      with Pair have a: "if credential then \<exists>token. valid token \<and> a = Some (''Bearer '' @ token) else a = None"
        and h': "h' = (if credential then h @ [TokenRead] else h)"
        by (auto simp: authorize_Inr split: if_splits)
      with Pair Inr assms show ?thesis
        by (auto simp: io_bind_def io_lift_def http_do_def split: option.split)
    qed
  qed
qed

lemma emits_source_get:
  assumes "source_client_inv c" and "allowed path (encode_query query)"
  shows "emits (request_event valid_bearer_token (src_base_url c) (src_credential c) allowed)
    (source_get lib w c path query)"
proof (rule emitsI)
  fix h
  let ?P = "request_event valid_bearer_token (src_base_url c) (src_credential c) allowed"
  let ?x = "w h path (encode_query query)"
  let ?req = "\<lambda>a. \<lparr>req_method = ''GET'', req_scheme = url_scheme (src_base_url c),
                   req_host = url_host (src_base_url c), req_path = path, req_query = encode_query query,
                   req_accept = ''application/json'', req_authorization = a\<rparr>"
  have "emits ?P (io_bind
            (authorize (src_credential c) valid_bearer_token (SourceHttpError CredentialUnavailable) ?x)
            (\<lambda>a. io_bind (http_do (src_http_client c) ?x (?req a)) (\<lambda>reply. io_lift (source_accept lib reply))))"
    by (rule emits_request) (use assms in \<open>auto simp: request_event_def source_client_inv_def split: if_splits\<close>)
  from emitsD [OF this, of h]
  show "\<exists>es. snd (source_get lib w c path query h) = h @ es \<and> list_all ?P es"
    by (auto simp: source_get_def Let_def io_fail_def split: option.split)
qed

text \<open>A request succeeds only with the whole body of a small JSON success response.\<close>

lemma source_accept_Inr:
  "source_accept lib reply = Inr body \<longleftrightarrow>
     (\<exists>r. reply = Responded r \<and> 200 \<le> resp_status r \<and> resp_status r < 300 \<and>
        lib_media_type lib (resp_content_type r) = Some ''application/json'' \<and>
        \<not> stream_broken (resp_body r) \<and> body = stream_bytes (resp_body r) \<and>
        int (length body) \<le> max_source_response_bytes)"
  by (auto simp: source_accept_def read_limited_def max_source_response_bytes_def
      split: http_reply.splits option.splits if_splits)

definition source_get_error :: "go_error \<Rightarrow> bool" where
  "source_get_error e \<longleftrightarrow>
     e = ContextCanceled \<or>
     e \<in> SourceHttpError ` {SourceUnavailable, SourceTimeout, CredentialUnavailable, InvalidSourceResponse} \<or>
     (\<exists>n. e = Wrapped [] (SourceHttpError SourceRejected) ('': status '' @ int_text n))"

lemma context_error_cases: "source_get_error (context_error e)"
  by (simp add: source_get_error_def context_error_def)

lemma source_accept_Inl: "source_accept lib reply = Inl e \<Longrightarrow> source_get_error e"
  using context_error_cases
  by (auto simp: source_accept_def source_get_error_def split: http_reply.splits option.splits if_splits)

lemma source_get_Inl:
  assumes "source_get lib w c path query h = (Inl e, h')"
  shows "source_get_error e"
proof -
  let ?x = "w h path (encode_query query)"
  show ?thesis
  proof (cases "ex_slot_done ?x")
    case (Some d)
    with assms context_error_cases show ?thesis by (auto simp: source_get_def io_fail_def)
  next
    case None
    show ?thesis
    proof (cases "ex_request_ok ?x")
      case False
      with None assms show ?thesis
        by (auto simp: source_get_def io_fail_def source_get_error_def)
    next
      case True
      with None assms show ?thesis
        by (auto simp: source_get_def io_bind_def io_lift_def Let_def split: prod.splits sum.splits
            dest: source_accept_Inl authorize_Inl)
          (auto simp: source_get_error_def http_do_def dest: authorize_Inl split: option.splits if_splits)
    qed
  qed
qed

lemma source_get_Inr:
  assumes "source_get lib w c path query h = (Inr body, h')"
  shows "int (length body) \<le> max_source_response_bytes \<and> (\<exists>reply. source_accept lib reply = Inr body)"
  using assms
  by (auto simp: source_get_def io_bind_Inr Let_def io_fail_def source_accept_Inr split: option.splits if_splits)

end
