(* ===== verification/Slots.thy ===== *)
theory Slots
  imports SourceHttp
begin

section \<open>Request slots: bounded concurrency of one client\<close>

text \<open>
  Every request of a client first sends into the buffered channel \<open>requestSlots\<close> of capacity
  \<open>maxConcurrentRequests\<close>, unless its context is done first, and receives from it again when it
  returns, on every path (\<open>defer\<close>). Any number of calls, numbered by \<open>nat\<close>, interleave. The state
  holds the number of values in the channel and the phase of each call.
\<close>

datatype call_phase = NotCalled | WaitingForSlot | HoldingSlot | CallReturned

record slot_state =
  slot_channel :: int
  slot_phase :: "nat \<Rightarrow> call_phase"

definition slot_init :: slot_state where
  "slot_init = \<lparr>slot_channel = 0, slot_phase = (\<lambda>_. NotCalled)\<rparr>"

definition set_phase :: "nat \<Rightarrow> call_phase \<Rightarrow> slot_state \<Rightarrow> slot_state" where
  "set_phase i p s = s\<lparr>slot_phase := (slot_phase s)(i := p)\<rparr>"

inductive slot_step :: "slot_state \<Rightarrow> slot_state \<Rightarrow> bool" where
  call: "slot_phase s i = NotCalled \<Longrightarrow> slot_step s (set_phase i WaitingForSlot s)"
| acquire: "slot_phase s i = WaitingForSlot \<Longrightarrow> slot_channel s < max_concurrent_requests \<Longrightarrow>
    slot_step s (set_phase i HoldingSlot (s\<lparr>slot_channel := slot_channel s + 1\<rparr>))"
| context_done: "slot_phase s i = WaitingForSlot \<Longrightarrow> slot_step s (set_phase i CallReturned s)"
| return: "slot_phase s i = HoldingSlot \<Longrightarrow> 0 < slot_channel s \<Longrightarrow>
    slot_step s (set_phase i CallReturned (s\<lparr>slot_channel := slot_channel s - 1\<rparr>))"

inductive slot_reachable :: "slot_state \<Rightarrow> bool" where
  start: "slot_reachable slot_init"
| step: "slot_reachable s \<Longrightarrow> slot_step s t \<Longrightarrow> slot_reachable t"

inductive_cases slot_stepE: "slot_step s t"

text \<open>The calls that hold a slot, and the invariant: the channel counts exactly them.\<close>

definition slot_holders :: "slot_state \<Rightarrow> nat set" where
  "slot_holders s = {i. slot_phase s i = HoldingSlot}"

definition slot_inv :: "slot_state \<Rightarrow> bool" where
  "slot_inv s \<longleftrightarrow>
     finite (slot_holders s) \<and> slot_channel s = int (card (slot_holders s)) \<and>
     slot_channel s \<le> max_concurrent_requests"

lemma slot_holders_set_phase:
  "slot_holders (set_phase i p s) =
     (if p = HoldingSlot then insert i (slot_holders s) else slot_holders s - {i})"
  by (auto simp: slot_holders_def set_phase_def)

lemma set_phase_simps [simp]:
  "slot_channel (set_phase i p s) = slot_channel s"
  "slot_holders (s\<lparr>slot_channel := n\<rparr>) = slot_holders s"
  by (simp_all add: set_phase_def slot_holders_def)

lemma slot_inv_init: "slot_inv slot_init"
  by (simp add: slot_inv_def slot_init_def slot_holders_def max_concurrent_requests_def)

lemma slot_step_inv: "slot_step s t \<Longrightarrow> slot_inv s \<Longrightarrow> slot_inv t"
proof (induction rule: slot_step.induct)
  case (call s i)
  then have "i \<notin> slot_holders s" by (simp add: slot_holders_def)
  with call show ?case by (simp add: slot_inv_def slot_holders_set_phase)
next
  case (acquire s i)
  then have "i \<notin> slot_holders s" by (simp add: slot_holders_def)
  with acquire show ?case by (simp add: slot_inv_def slot_holders_set_phase)
next
  case (context_done s i)
  then have "i \<notin> slot_holders s" by (simp add: slot_holders_def)
  with context_done show ?case by (simp add: slot_inv_def slot_holders_set_phase)
next
  case (return s i)
  then have "i \<in> slot_holders s" by (simp add: slot_holders_def)
  with return show ?case
    by (simp add: slot_inv_def slot_holders_set_phase card_Diff_singleton of_nat_diff)
qed

lemma slot_reachable_inv: "slot_reachable s \<Longrightarrow> slot_inv s"
  by (induction rule: slot_reachable.induct) (auto intro: slot_inv_init slot_step_inv)

text \<open>A call that holds a slot can return it: the receive from the channel never blocks.\<close>

lemma slot_return_possible:
  assumes "slot_reachable s" and "slot_phase s i = HoldingSlot"
  shows "slot_step s (set_phase i CallReturned (s\<lparr>slot_channel := slot_channel s - 1\<rparr>))"
proof -
  have inv: "slot_inv s" using assms(1) by (rule slot_reachable_inv)
  have "i \<in> slot_holders s" using assms(2) by (simp add: slot_holders_def)
  with inv have "0 < card (slot_holders s)" by (auto simp: slot_inv_def card_gt_0_iff)
  with inv have "0 < slot_channel s" by (simp add: slot_inv_def)
  with assms(2) show ?thesis by (rule slot_step.return)
qed

text \<open>
  C19: in every reachable state at most four requests of a client are in flight, the channel
  counts exactly them, and returning a slot never blocks: a call that holds a slot can always
  return it.
\<close>

theorem slots_bounded:
  assumes "slot_reachable s"
  shows "card (slot_holders s) \<le> 4 \<and> slot_channel s = int (card (slot_holders s)) \<and>
    (\<forall>i. slot_phase s i = HoldingSlot \<longrightarrow>
       slot_step s (set_phase i CallReturned (s\<lparr>slot_channel := slot_channel s - 1\<rparr>)))"
  using slot_reachable_inv [OF assms] slot_return_possible [OF assms]
  by (simp add: slot_inv_def max_concurrent_requests_def)

text \<open>
  C20: no deadlock: whenever a call waits for a slot, it can take one at once, or one of the calls
  in flight can return and after that the waiting call can take the slot.
\<close>

theorem slots_progress:
  assumes "slot_reachable s" and "slot_phase s i = WaitingForSlot"
  shows "slot_step s (set_phase i HoldingSlot (s\<lparr>slot_channel := slot_channel s + 1\<rparr>)) \<or>
    (\<exists>j t. slot_phase s j = HoldingSlot \<and> slot_step s t \<and> slot_phase t i = WaitingForSlot \<and>
       slot_channel t < max_concurrent_requests)"
proof (cases "slot_channel s < max_concurrent_requests")
  case True
  with assms(2) show ?thesis by (auto intro: slot_step.acquire)
next
  case False
  have inv: "slot_inv s" using assms(1) by (rule slot_reachable_inv)
  with False have "slot_holders s \<noteq> {}"
    by (auto simp: slot_inv_def max_concurrent_requests_def)
  then obtain j where j: "slot_phase s j = HoldingSlot" by (auto simp: slot_holders_def)
  let ?t = "set_phase j CallReturned (s\<lparr>slot_channel := slot_channel s - 1\<rparr>)"
  have "slot_step s ?t" using assms(1) j by (rule slot_return_possible)
  moreover have "slot_phase ?t i = WaitingForSlot"
    using assms(2) j by (auto simp: set_phase_def)
  moreover have "slot_channel ?t < max_concurrent_requests"
    using inv by (simp add: slot_inv_def)
  ultimately show ?thesis using j by blast
qed

subsection \<open>A run\<close>

definition one_waiting :: slot_state where
  "one_waiting = set_phase 0 WaitingForSlot slot_init"

definition one_holding :: slot_state where
  "one_holding = set_phase 0 HoldingSlot (one_waiting\<lparr>slot_channel := slot_channel one_waiting + 1\<rparr>)"

lemma one_waiting_reachable: "slot_reachable one_waiting"
  unfolding one_waiting_def
  by (rule slot_reachable.step [OF slot_reachable.start slot_step.call]) (simp add: slot_init_def)

lemma one_holding_reachable: "slot_reachable one_holding"
  unfolding one_holding_def
  by (rule slot_reachable.step [OF one_waiting_reachable slot_step.acquire])
    (simp_all add: one_waiting_def set_phase_def slot_init_def max_concurrent_requests_def)

theorem slots_bounded_witness:
  "card (slot_holders one_holding) \<le> 4 \<and> slot_phase one_holding 0 = HoldingSlot"
  using slots_bounded [OF one_holding_reachable] by (simp add: one_holding_def set_phase_def)

lemma one_waiting_phase:
  "slot_phase one_waiting 0 = WaitingForSlot"
  by (simp add: one_waiting_def set_phase_def)

theorem slots_progress_witness:
  "slot_step one_waiting one_holding \<or> (\<exists>j. slot_phase one_waiting j = HoldingSlot)"
  using slots_progress [OF one_waiting_reachable one_waiting_phase, folded one_holding_def] by blast

end
