(* ===== verification/Catalog.thy ===== *)
theory Catalog
  imports Sizes "HOL-Library.AList"
begin

section \<open>The target catalog (\<open>internal/observer/catalog.go\<close>)\<close>

text \<open>
  The endpoint-free inventory of targets. The Go map from identifiers to targets is an
  association list whose keys are distinct; its order stands for the unspecified iteration order
  of the map, and the listing is shown not to depend on it.
\<close>

subsection \<open>Operations\<close>

type_synonym catalog = "(string \<times> target) list"

definition capability_matches_kind :: "target_kind \<Rightarrow> capability \<Rightarrow> bool" where
  "capability_matches_kind kind capability =
     (if kind = target_kind_kubernetes then
        capability = capability_kubernetes_cluster_health \<or>
        capability = capability_kubernetes_unhealthy_workloads
      else if kind = target_kind_monitoring then
        capability = capability_monitoring_active_alerts \<or>
        capability = capability_monitoring_scrape_health
      else if kind = target_kind_flux then
        capability = capability_flux_unhealthy_reconciliations
      else False)"

text \<open>The loop over the capabilities of a target, with the set of those already seen.\<close>

fun check_capabilities :: "target_kind \<Rightarrow> capability set \<Rightarrow> capability list \<Rightarrow> go_error option" where
  "check_capabilities kind seen [] = None"
| "check_capabilities kind seen (c # cs) =
     (if \<not> capability_matches_kind kind c
        then Some (ValidationError ''capabilities'' ''contains an unsupported value'')
      else if c \<in> seen
        then Some (ValidationError ''capabilities'' ''contains a duplicate value'')
      else check_capabilities kind (insert c seen) cs)"

definition validate_target :: "target \<Rightarrow> go_error option" where
  "validate_target t =
     (case validate_identifier ''target'' (target_id t) of Some e \<Rightarrow> Some e
      | None \<Rightarrow>
          if target_kind t \<noteq> target_kind_kubernetes \<and> target_kind t \<noteq> target_kind_monitoring \<and>
             target_kind t \<noteq> target_kind_flux
            then Some (ValidationError ''kind'' ''is not supported'')
          else if target_capabilities t = []
            then Some (ValidationError ''capabilities'' ''must not be empty'')
          else check_capabilities (target_kind t) {} (target_capabilities t))"

text \<open>\<open>slices.Sort\<close> on strings.\<close>

definition sort_strings :: "string list \<Rightarrow> string list" where
  "sort_strings = sort_func (compare_by (\<lambda>s. s))"

fun add_targets :: "target list \<Rightarrow> catalog \<Rightarrow> catalog result" where
  "add_targets [] catalog = Inr catalog"
| "add_targets (t # ts) catalog =
     (case validate_target t of Some e \<Rightarrow> Inl e
      | None \<Rightarrow>
          if map_of catalog (target_id t) \<noteq> None
            then Inl (ErrorText ''target catalog: duplicate target identifier'')
          else add_targets ts
            (catalog @ [(target_id t, t\<lparr>target_capabilities := sort_strings (target_capabilities t)\<rparr>)]))"

definition new_catalog :: "target list \<Rightarrow> catalog result" where
  "new_catalog targets =
     (if max_targets < int (length targets)
        then Inl (ErrorText (''target catalog: maximum is '' @ int_text max_targets))
      else add_targets targets [])"

definition catalog_list :: "catalog \<Rightarrow> list_targets_output" where
  "catalog_list catalog = \<lparr>lto_targets = sort_func (compare_by target_id) (map snd catalog)\<rparr>"

definition catalog_lookup :: "catalog \<Rightarrow> string \<Rightarrow> target option" where
  "catalog_lookup catalog tid = map_of catalog tid"

subsection \<open>Invariant\<close>

definition valid_target :: "target \<Rightarrow> bool" where
  "valid_target t \<longleftrightarrow>
     valid_identifier (target_id t) \<and> target_capabilities t \<noteq> [] \<and> distinct (target_capabilities t) \<and>
     list_all (capability_matches_kind (target_kind t)) (target_capabilities t)"

definition catalog_inv :: "catalog \<Rightarrow> bool" where
  "catalog_inv catalog \<longleftrightarrow>
     distinct (map fst catalog) \<and>
     list_all (\<lambda>(k, t). target_id t = k \<and> valid_target t \<and> sorted (target_capabilities t)) catalog"

lemma check_capabilities_None:
  "check_capabilities kind seen cs = None \<longleftrightarrow>
     list_all (capability_matches_kind kind) cs \<and> distinct cs \<and> set cs \<inter> seen = {}"
  by (induction cs arbitrary: seen) auto

lemma validate_target_None: "validate_target t = None \<longleftrightarrow> valid_target t"
proof -
  have "capability_matches_kind (target_kind t) c \<Longrightarrow>
      target_kind t = target_kind_kubernetes \<or> target_kind t = target_kind_monitoring \<or>
      target_kind t = target_kind_flux" for c
    by (auto simp: capability_matches_kind_def split: if_splits)
  then show ?thesis
    by (auto simp: validate_target_def valid_target_def validate_identifier_eq check_capabilities_None
        neq_Nil_conv)
qed

lemma sort_strings_props [simp]:
  "set (sort_strings cs) = set cs" "distinct (sort_strings cs) = distinct cs"
  "length (sort_strings cs) = length cs" "mset (sort_strings cs) = mset cs"
  by (simp_all add: sort_strings_def)

lemma sort_strings_sorted: "sorted (sort_strings cs)"
  using sort_by_key_sorted [of "\<lambda>s. s" cs] by (simp add: sort_strings_def)

lemma sort_strings_Nil [simp]: "sort_strings cs = [] \<longleftrightarrow> cs = []"
  by (metis length_0_conv sort_strings_props(3))

lemma add_targets_Inr:
  assumes "add_targets ts catalog = Inr catalog'" and "catalog_inv catalog"
  shows "catalog_inv catalog' \<and>
    catalog' = catalog @ map (\<lambda>t. (target_id t, t\<lparr>target_capabilities := sort_strings (target_capabilities t)\<rparr>)) ts"
  using assms
proof (induction ts arbitrary: catalog)
  case (Cons t ts)
  let ?entry = "(target_id t, t\<lparr>target_capabilities := sort_strings (target_capabilities t)\<rparr>)"
  from Cons.prems have v: "valid_target t" and fresh: "target_id t \<notin> fst ` set catalog"
    and rest: "add_targets ts (catalog @ [?entry]) = Inr catalog'"
    by (auto simp: validate_target_None [symmetric] map_of_eq_None_iff split: option.splits if_splits)
  have "catalog_inv (catalog @ [?entry])"
    using Cons.prems(2) v fresh
    by (auto simp: catalog_inv_def valid_target_def sort_strings_sorted list_all_iff)
  from Cons.IH [OF rest this] show ?case by auto
qed simp

lemma new_catalog_Inr:
  assumes "new_catalog targets = Inr catalog"
  shows "catalog_inv catalog" and "length catalog = length targets" and "int (length targets) \<le> max_targets"
    and "map snd catalog = map (\<lambda>t. t\<lparr>target_capabilities := sort_strings (target_capabilities t)\<rparr>) targets"
proof -
  have add: "add_targets targets [] = Inr catalog" and "int (length targets) \<le> max_targets"
    using assms by (auto simp: new_catalog_def split: if_splits)
  from add_targets_Inr [OF add] \<open>int (length targets) \<le> max_targets\<close>
  show "catalog_inv catalog" and "length catalog = length targets" and "int (length targets) \<le> max_targets"
    and "map snd catalog = map (\<lambda>t. t\<lparr>target_capabilities := sort_strings (target_capabilities t)\<rparr>) targets"
    by (auto simp: catalog_inv_def)
qed

lemma add_targets_complete:
  assumes "list_all valid_target ts" and "distinct (map target_id ts)"
    and "target_id ` set ts \<inter> fst ` set catalog = {}"
  shows "\<exists>catalog'. add_targets ts catalog = Inr catalog'"
  using assms
proof (induction ts arbitrary: catalog)
  case (Cons t ts)
  let ?entry = "(target_id t, t\<lparr>target_capabilities := sort_strings (target_capabilities t)\<rparr>)"
  have "validate_target t = None" using Cons.prems(1) by (simp add: validate_target_None)
  moreover have "map_of catalog (target_id t) = None"
    using Cons.prems(3) by (auto simp: map_of_eq_None_iff)
  moreover have "\<exists>catalog'. add_targets ts (catalog @ [?entry]) = Inr catalog'"
    by (rule Cons.IH) (use Cons.prems in auto)
  ultimately show ?case by simp
qed simp

lemma catalog_lookup_list:
  assumes "catalog_inv catalog"
  shows "catalog_lookup catalog tid = Some t \<longleftrightarrow>
    t \<in> set (lto_targets (catalog_list catalog)) \<and> target_id t = tid"
proof -
  have "distinct (map fst catalog)" and keys: "\<forall>(k, u) \<in> set catalog. target_id u = k"
    using assms by (auto simp: catalog_inv_def list_all_iff)
  then have "map_of catalog tid = Some t \<longleftrightarrow> (tid, t) \<in> set catalog"
    by (simp add: map_of_eq_Some_iff)
  with keys show ?thesis
    by (force simp: catalog_lookup_def catalog_list_def)
qed

lemma new_catalog_accepts:
  "(\<exists>catalog. new_catalog targets = Inr catalog) \<longleftrightarrow>
     length targets \<le> 32 \<and> list_all valid_target targets \<and> distinct (map target_id targets)"
proof
  assume "\<exists>catalog. new_catalog targets = Inr catalog"
  then obtain catalog where c: "new_catalog targets = Inr catalog" ..
  then have add: "add_targets targets [] = Inr catalog"
    by (auto simp: new_catalog_def split: if_splits)
  have inv: "catalog_inv catalog" and len: "int (length targets) \<le> max_targets"
    using new_catalog_Inr [OF c] by auto
  have cat: "catalog = map (\<lambda>t. (target_id t, t\<lparr>target_capabilities := sort_strings (target_capabilities t)\<rparr>)) targets"
    using add_targets_Inr [OF add] by (simp add: catalog_inv_def)
  have "distinct (map target_id targets)"
    using inv by (simp add: cat catalog_inv_def comp_def)
  moreover have "list_all valid_target targets"
    using inv by (auto simp: cat catalog_inv_def valid_target_def list_all_iff)
  ultimately show "length targets \<le> 32 \<and> list_all valid_target targets \<and> distinct (map target_id targets)"
    using len by (simp add: max_targets_def)
next
  assume "length targets \<le> 32 \<and> list_all valid_target targets \<and> distinct (map target_id targets)"
  then show "\<exists>catalog. new_catalog targets = Inr catalog"
    using add_targets_complete [of targets "[]"] by (simp add: new_catalog_def max_targets_def)
qed

subsection \<open>Properties of the catalog\<close>

text \<open>
  C16: \<open>NewCatalog\<close> accepts exactly the inventories of at most 32 targets that are all valid and
  have pairwise different identifiers; anything else is refused (fail closed).
\<close>

theorem new_catalog_accepts_iff:
  "(\<exists>catalog. new_catalog targets = Inr catalog) \<longleftrightarrow>
     length targets \<le> 32 \<and> list_all valid_target targets \<and> distinct (map target_id targets)"
  by (rule new_catalog_accepts)

text \<open>
  C17: the target listing is sorted strictly by identifier, and looking an identifier up finds
  exactly the listed target with that identifier.
\<close>

theorem catalog_list_sorted_lookup:
  assumes "new_catalog targets = Inr catalog"
  shows "sorted_wrt (<) (map target_id (lto_targets (catalog_list catalog))) \<and>
    (\<forall>tid t. catalog_lookup catalog tid = Some t \<longleftrightarrow>
       t \<in> set (lto_targets (catalog_list catalog)) \<and> target_id t = tid)"
proof -
  let ?ts = "lto_targets (catalog_list catalog)"
  have inv: "catalog_inv catalog" using new_catalog_Inr [OF assms] by simp
  have sorted: "sorted (map target_id ?ts)"
    by (simp add: catalog_list_def sort_by_key_sorted)
  have "distinct (map fst catalog)" using inv by (simp add: catalog_inv_def)
  moreover have "map fst catalog = map target_id (map snd catalog)"
    using inv by (auto simp: catalog_inv_def list_all_iff)
  moreover have "mset (map target_id ?ts) = mset (map target_id (map snd catalog))"
    by (simp add: catalog_list_def multiset.map_comp)
  ultimately have "distinct (map target_id ?ts)"
    by (metis mset_eq_imp_distinct_iff)
  with sorted have "sorted_wrt (<) (map target_id ?ts)"
    by (simp add: strict_sorted_iff)
  with catalog_lookup_list [OF inv] show ?thesis by blast
qed

text \<open>
  C18: the listing does not depend on the order in which the targets are configured, nor on the
  iteration order of the map: inventories with the same targets in another order give the same
  listing.
\<close>

theorem catalog_list_order_independent:
  assumes "new_catalog targets = Inr catalog" and "mset targets' = mset targets"
  shows "\<exists>catalog'. new_catalog targets' = Inr catalog' \<and> catalog_list catalog' = catalog_list catalog"
proof -
  have ok: "length targets \<le> 32 \<and> list_all valid_target targets \<and> distinct (map target_id targets)"
    using assms(1) by (simp flip: new_catalog_accepts)
  have "set targets' = set targets" and "length targets' = length targets"
    using assms(2) by (metis set_mset_mset, metis size_mset)
  moreover have "distinct (map target_id targets')"
    using assms(2) ok by (metis mset_eq_imp_distinct_iff mset_map)
  ultimately obtain catalog' where c': "new_catalog targets' = Inr catalog'"
    using ok new_catalog_accepts [of targets'] by (auto simp: list_all_iff)
  let ?norm = "\<lambda>t. t\<lparr>target_capabilities := sort_strings (target_capabilities t)\<rparr>"
  have "map snd catalog' = map ?norm targets'" and cat: "map snd catalog = map ?norm targets"
    using new_catalog_Inr(4) c' assms(1) by blast+
  moreover have "inj_on target_id (set (map ?norm targets'))"
    using \<open>distinct (map target_id targets')\<close> by (auto simp: distinct_map inj_on_def)
  ultimately have "catalog_list catalog' = catalog_list catalog"
    using assms(2) by (simp add: catalog_list_def sort_by_key_unique)
  with c' show ?thesis by blast
qed

text \<open>The encoded listing is small.\<close>

lemma capability_matches_length:
  "capability_matches_kind kind c \<Longrightarrow> list_all plain_char c \<and> length c \<le> 30"
  by (auto simp: capability_matches_kind_def capability_defs plain_char_iff byte_def split: if_splits)

lemma capability_matches_bound:
  assumes "distinct cs" and "list_all (capability_matches_kind kind) cs"
  shows "length cs \<le> 2"
proof -
  have "\<exists>a b. \<forall>c. capability_matches_kind kind c \<longrightarrow> c = a \<or> c = b"
    unfolding capability_matches_kind_def by metis
  then obtain a b where "set cs \<subseteq> {a, b}"
    using assms(2) unfolding list_all_iff by blast
  then have "card (set cs) \<le> card {a, b}" by (intro card_mono) auto
  also have "\<dots> \<le> 2" by (simp add: card_insert_if)
  finally show ?thesis using assms(1) by (simp add: distinct_card)
qed

lemma valid_target_kind:
  "valid_target t \<Longrightarrow> list_all plain_char (target_kind t) \<and> length (target_kind t) \<le> 10"
  by (cases "target_capabilities t")
    (auto simp: valid_target_def capability_matches_kind_def target_kind_defs plain_char_iff byte_def
      split: if_splits)

lemma target_fits:
  assumes "valid_target t"
  shows "fits 400 (marshal_target t)"
proof -
  have i: "fits 34 (marshal_string (target_id t))"
    using fits_plain_string [of "target_id t" 32] assms valid_identifier_plain
    by (simp add: valid_target_def)
  have k: "fits 12 (marshal_string (target_kind t))"
    using fits_plain_string [of "target_kind t" 10] valid_target_kind [OF assms] by simp
  have "fits (30 + 2) (marshal_string c)" if "c \<in> set (target_capabilities t)" for c
    by (rule fits_plain_string)
      (use assms that capability_matches_length in \<open>auto simp: valid_target_def list_all_iff\<close>)
  then have c: "fits (2 + 2 * (32 + 1)) (marshal_list marshal_string (target_capabilities t))"
    by (intro fits_list)
      (use assms capability_matches_bound in \<open>auto simp: valid_target_def\<close>)
  show ?thesis unfolding marshal_target_def
    by (rule fits_mono, rule fits_struct, (rule fields_fit_Cons fields_fit_Nil i k c)+) simp
qed

text \<open>
  The listing of an accepted inventory always encodes within the result limit, so target
  discovery never fails.
\<close>

theorem catalog_list_within_limit:
  assumes "new_catalog targets = Inr catalog"
  shows "check_result_size (marshal_list_targets_output (catalog_list catalog)) = None"
proof -
  let ?ts = "lto_targets (catalog_list catalog)"
  have inv: "catalog_inv catalog" and "length catalog \<le> 32"
    using new_catalog_Inr [OF assms] by (auto simp: max_targets_def)
  then have "length ?ts \<le> 32" and "\<And>t. t \<in> set ?ts \<Longrightarrow> fits 400 (marshal_target t)"
    by (auto simp: catalog_list_def catalog_inv_def list_all_iff intro!: target_fits)
  then have l: "fits (2 + 32 * (400 + 1)) (marshal_list marshal_target ?ts)"
    by (intro fits_list)
  have "fits 13000 (marshal_list_targets_output (catalog_list catalog))"
    unfolding marshal_list_targets_output_def
    by (rule fits_mono, rule fits_struct, (rule fields_fit_Cons fields_fit_Nil l)+) simp
  moreover have "marshal_list_targets_output (catalog_list catalog) \<noteq> None"
    by (auto simp: marshal_list_targets_output_def marshal_target_def marshal_total)
  ultimately show ?thesis by (simp add: check_result_size_fits)
qed

subsection \<open>An example inventory\<close>

definition example_cluster :: target where
  "example_cluster = \<lparr>target_id = ''cluster-a'', target_kind = target_kind_kubernetes,
     target_capabilities = [capability_kubernetes_unhealthy_workloads, capability_kubernetes_cluster_health]\<rparr>"

definition example_flux :: target where
  "example_flux = \<lparr>target_id = ''b'', target_kind = target_kind_flux,
     target_capabilities = [capability_flux_unhealthy_reconciliations]\<rparr>"

lemma example_catalog:
  "new_catalog [example_cluster, example_flux] =
     Inr [(''cluster-a'', example_cluster\<lparr>target_capabilities :=
            [capability_kubernetes_cluster_health, capability_kubernetes_unhealthy_workloads]\<rparr>),
          (''b'', example_flux)]"
  by code_simp

theorem catalog_list_sorted_lookup_witness:
  "\<exists>catalog. new_catalog [example_cluster, example_flux] = Inr catalog \<and>
     catalog_lookup catalog ''b'' = Some example_flux \<and>
     example_flux \<in> set (lto_targets (catalog_list catalog))"
  using catalog_list_sorted_lookup [OF example_catalog, THEN conjunct2, rule_format, of "''b''" example_flux]
    example_catalog by (simp add: catalog_lookup_def)

theorem catalog_list_order_independent_witness:
  "\<exists>catalog catalog'. new_catalog [example_cluster, example_flux] = Inr catalog \<and>
     new_catalog [example_flux, example_cluster] = Inr catalog' \<and>
     catalog_list catalog' = catalog_list catalog"
  using catalog_list_order_independent [OF example_catalog, of "[example_flux, example_cluster]"]
    example_catalog by auto

theorem catalog_list_within_limit_witness:
  "\<exists>catalog. new_catalog [example_cluster, example_flux] = Inr catalog \<and>
     check_result_size (marshal_list_targets_output (catalog_list catalog)) = None"
  using catalog_list_within_limit [OF example_catalog] example_catalog by blast

end
