(* ===== verification/McpServer.thy ===== *)
theory McpServer
  imports Catalog Effects
begin

section \<open>The MCP server (\<open>internal/mcpserver/server.go\<close>)\<close>

text \<open>
  The server holds the catalog, the registered tools and, for every tool, the sources that serve
  it by target identifier. A source is a record of the methods its Go interface names; a method
  with effects is a computation with a history. Each typed tool handler is the function the code
  passes to \<open>mcp.AddTool\<close>: it returns the fixed summary text with the output, or an error. The SDK
  that decodes the arguments and calls the handlers is not part of the repository.
\<close>

subsection \<open>Tools and their input schemas\<close>

definition tool_list_targets :: string where
  "tool_list_targets = ''observer_list_targets''"

definition tool_get_cluster_health :: string where
  "tool_get_cluster_health = ''kubernetes_get_cluster_health''"

definition tool_list_unhealthy_workloads :: string where
  "tool_list_unhealthy_workloads = ''kubernetes_list_unhealthy_workloads''"

definition tool_list_active_alerts :: string where
  "tool_list_active_alerts = ''monitoring_list_active_alerts''"

definition tool_get_scrape_health :: string where
  "tool_get_scrape_health = ''monitoring_get_scrape_health''"

definition tool_list_unhealthy_reconciliations :: string where
  "tool_list_unhealthy_reconciliations = ''flux_list_unhealthy_reconciliations''"

lemmas tool_names = tool_list_targets_def tool_get_cluster_health_def tool_list_unhealthy_workloads_def
  tool_list_active_alerts_def tool_get_scrape_health_def tool_list_unhealthy_reconciliations_def

record annotations =
  ann_title :: string
  ann_read_only_hint :: bool
  ann_destructive_hint :: "bool option"
  ann_idempotent_hint :: bool
  ann_open_world_hint :: "bool option"

record tool =
  tool_name :: string
  tool_title :: string
  tool_description :: string
  tool_input_schema :: json
  tool_annotations :: annotations

definition read_only_annotations :: "string \<Rightarrow> annotations" where
  "read_only_annotations title = \<lparr>ann_title = title, ann_read_only_hint = True,
     ann_destructive_hint = Some False, ann_idempotent_hint = True, ann_open_world_hint = Some False\<rparr>"

text \<open>A schema is a \<open>map[string]any\<close>; its members are listed in the order of the source.\<close>

definition json_int :: "int \<Rightarrow> json" where
  "json_int i = JNumber (int_text i)"

definition identifier_schema :: "string \<Rightarrow> json" where
  "identifier_schema description = JObject
     [(''type'', JString ''string''),
      (''pattern'', JString ''^[a-z](?:[a-z0-9-]{0,30}[a-z0-9])?$''),
      (''maxLength'', json_int 32),
      (''description'', JString description)]"

definition limit_schema :: "string \<Rightarrow> json" where
  "limit_schema description = JObject
     [(''type'', JString ''integer''),
      (''minimum'', json_int 1),
      (''maximum'', json_int max_list_limit),
      (''default'', json_int default_list_limit),
      (''description'', JString description)]"

definition object_schema :: "(string \<times> json) list \<Rightarrow> (string \<times> json) list \<Rightarrow> json" where
  "object_schema properties required = JObject
     ([(''type'', JString ''object''), (''properties'', JObject properties)] @ required @
      [(''additionalProperties'', JBool False)])"

definition target_required :: "(string \<times> json) list" where
  "target_required = [(''required'', JArray [JString ''target''])]"

definition empty_input_schema :: json where
  "empty_input_schema = object_schema [] []"

definition target_input_schema :: json where
  "target_input_schema = object_schema
     [(''target'', identifier_schema ''Opaque configured target identifier.'')] target_required"

definition cluster_health_input_schema :: json where
  "cluster_health_input_schema = target_input_schema"

definition bounded_target_list_input_schema :: "string \<Rightarrow> json" where
  "bounded_target_list_input_schema limit_description = object_schema
     [(''target'', identifier_schema ''Opaque configured target identifier.''),
      (''limit'', limit_schema limit_description)] target_required"

definition unhealthy_workloads_input_schema :: json where
  "unhealthy_workloads_input_schema = object_schema
     [(''target'', identifier_schema ''Opaque configured target identifier.''),
      (''scope'', identifier_schema ''Optional configured scope identifier.''),
      (''limit'', limit_schema ''Maximum number of workloads to return.'')] target_required"

text \<open>Updating one member of a map that has it.\<close>

fun update_member :: "string \<Rightarrow> (json \<Rightarrow> json) \<Rightarrow> json \<Rightarrow> json" where
  "update_member k f (JObject ms) = JObject (map (\<lambda>(k', v). (k', if k' = k then f v else v)) ms)"
| "update_member k f j = j"

definition flux_reconciliations_input_schema :: json where
  "flux_reconciliations_input_schema =
     update_member ''properties'' (update_member ''limit'' (update_member ''description''
       (\<lambda>_. JString ''Maximum number of reconciliations to return.''))) unhealthy_workloads_input_schema"

definition registered_tool :: "string \<Rightarrow> string \<Rightarrow> string \<Rightarrow> json \<Rightarrow> tool" where
  "registered_tool name title description schema =
     \<lparr>tool_name = name, tool_title = title, tool_description = description, tool_input_schema = schema,
      tool_annotations = read_only_annotations title\<rparr>"

definition registered_tools :: "tool list" where
  "registered_tools =
     [registered_tool tool_list_targets ''List observer targets''
        ''List opaque configured target identifiers and capabilities without endpoints.'' empty_input_schema,
      registered_tool tool_get_cluster_health ''Get Kubernetes cluster health''
        ''Return bounded node and workload readiness totals for one configured target.''
        cluster_health_input_schema,
      registered_tool tool_list_unhealthy_workloads ''List unhealthy Kubernetes workloads''
        ''List at most 50 unhealthy controllers from configured scopes.'' unhealthy_workloads_input_schema,
      registered_tool tool_list_active_alerts ''List active monitoring alerts''
        ''List at most 50 active, non-silenced, non-inhibited alerts without raw labels or annotations.''
        (bounded_target_list_input_schema ''Maximum number of alerts to return.''),
      registered_tool tool_get_scrape_health ''Get monitoring scrape health''
        ''Return normalized up, down, or missing state for configured opaque scrape identities.''
        target_input_schema,
      registered_tool tool_list_unhealthy_reconciliations ''List unhealthy Flux reconciliations''
        ''List at most 50 non-ready Flux resources from configured scopes without raw objects or condition messages.''
        flux_reconciliations_input_schema]"

subsection \<open>Sources\<close>

record kubernetes_source =
  ks_target :: target
  ks_cluster_health :: "cluster_health_output io"
  ks_list_unhealthy_workloads :: "list_unhealthy_workloads_input \<Rightarrow> list_unhealthy_workloads_output io"

record monitoring_source =
  ms_target :: target
  ms_list_active_alerts :: "list_active_alerts_input \<Rightarrow> list_active_alerts_output io"
  ms_get_scrape_health :: "get_scrape_health_input \<Rightarrow> get_scrape_health_output io"

record flux_source =
  fx_target :: target
  fx_list_unhealthy_reconciliations ::
    "list_unhealthy_reconciliations_input \<Rightarrow> list_unhealthy_reconciliations_output io"

text \<open>Each family is a slice of interface values, \<open>None\<close> for a nil one.\<close>

record source_set =
  set_kubernetes :: "kubernetes_source option list"
  set_monitoring :: "monitoring_source option list"
  set_flux :: "flux_source option list"

record mcp_server =
  srv_version :: string
  srv_catalog :: catalog
  srv_audited :: bool
  srv_tools :: "tool list"
  srv_cluster_health :: "string \<rightharpoonup> kubernetes_source"
  srv_unhealthy_workloads :: "string \<rightharpoonup> kubernetes_source"
  srv_active_alerts :: "string \<rightharpoonup> monitoring_source"
  srv_scrape_health :: "string \<rightharpoonup> monitoring_source"
  srv_flux :: "string \<rightharpoonup> flux_source"

subsection \<open>Construction\<close>

text \<open>A source is entered in the map of a capability its target has.\<close>

definition enter_source :: "capability \<Rightarrow> target \<Rightarrow> 's \<Rightarrow> (string \<rightharpoonup> 's) \<Rightarrow> (string \<rightharpoonup> 's)" where
  "enter_source capability t s m =
     (if capability \<in> set (target_capabilities t) then m(target_id t \<mapsto> s) else m)"

fun add_kubernetes_sources :: "kubernetes_source option list \<Rightarrow> target list \<Rightarrow>
    (string \<rightharpoonup> kubernetes_source) \<Rightarrow> (string \<rightharpoonup> kubernetes_source) \<Rightarrow>
    (target list \<times> (string \<rightharpoonup> kubernetes_source) \<times> (string \<rightharpoonup> kubernetes_source)) result" where
  "add_kubernetes_sources [] targets health workloads = Inr (targets, health, workloads)"
| "add_kubernetes_sources (s # ss) targets health workloads =
     (case s of None \<Rightarrow> Inl (ErrorText ''Kubernetes source must not be nil'')
      | Some s \<Rightarrow>
          (let t = ks_target s in
           if target_kind t \<noteq> target_kind_kubernetes
             then Inl (ErrorText ''Kubernetes source has the wrong target kind'')
           else add_kubernetes_sources ss (targets @ [t])
             (enter_source capability_kubernetes_cluster_health t s health)
             (enter_source capability_kubernetes_unhealthy_workloads t s workloads)))"

fun add_monitoring_sources :: "monitoring_source option list \<Rightarrow> target list \<Rightarrow>
    (string \<rightharpoonup> monitoring_source) \<Rightarrow> (string \<rightharpoonup> monitoring_source) \<Rightarrow>
    (target list \<times> (string \<rightharpoonup> monitoring_source) \<times> (string \<rightharpoonup> monitoring_source)) result" where
  "add_monitoring_sources [] targets alerts scrapes = Inr (targets, alerts, scrapes)"
| "add_monitoring_sources (s # ss) targets alerts scrapes =
     (case s of None \<Rightarrow> Inl (ErrorText ''monitoring source must not be nil'')
      | Some s \<Rightarrow>
          (let t = ms_target s in
           if target_kind t \<noteq> target_kind_monitoring
             then Inl (ErrorText ''monitoring source has the wrong target kind'')
           else add_monitoring_sources ss (targets @ [t])
             (enter_source capability_monitoring_active_alerts t s alerts)
             (enter_source capability_monitoring_scrape_health t s scrapes)))"

fun add_flux_sources :: "flux_source option list \<Rightarrow> target list \<Rightarrow> (string \<rightharpoonup> flux_source) \<Rightarrow>
    (target list \<times> (string \<rightharpoonup> flux_source)) result" where
  "add_flux_sources [] targets flux = Inr (targets, flux)"
| "add_flux_sources (s # ss) targets flux =
     (case s of None \<Rightarrow> Inl (ErrorText ''Flux source must not be nil'')
      | Some s \<Rightarrow>
          (let t = fx_target s in
           if target_kind t \<noteq> target_kind_flux
             then Inl (ErrorText ''Flux source has the wrong target kind'')
           else add_flux_sources ss (targets @ [t]) (flux(target_id t \<mapsto> s))))"

definition new_with_source_set :: "string \<Rightarrow> source_set \<Rightarrow> bool \<Rightarrow> mcp_server result" where
  "new_with_source_set version sources audited =
     result_bind (add_kubernetes_sources (set_kubernetes sources) [] Map.empty Map.empty)
       (\<lambda>(targets, health, workloads).
     result_bind (add_monitoring_sources (set_monitoring sources) targets Map.empty Map.empty)
       (\<lambda>(targets, alerts, scrapes).
     result_bind (add_flux_sources (set_flux sources) targets Map.empty)
       (\<lambda>(targets, flux).
     result_bind (new_catalog targets) (\<lambda>catalog.
       Inr \<lparr>srv_version = version, srv_catalog = catalog, srv_audited = audited,
            srv_tools = registered_tools, srv_cluster_health = health, srv_unhealthy_workloads = workloads,
            srv_active_alerts = alerts, srv_scrape_health = scrapes, srv_flux = flux\<rparr>))))"

text \<open>\<open>NewWithOptions\<close> and \<open>New\<close>\<close>

definition new_with_options :: "string \<Rightarrow> kubernetes_source option list \<Rightarrow> bool \<Rightarrow> mcp_server result" where
  "new_with_options version sources audited =
     new_with_source_set version \<lparr>set_kubernetes = sources, set_monitoring = [], set_flux = []\<rparr> audited"

definition new_server :: "string \<Rightarrow> kubernetes_source option list \<Rightarrow> mcp_server result" where
  "new_server version sources = new_with_options version sources False"

subsection \<open>Errors shown to the client\<close>

definition safe_tool_error :: "go_error \<Rightarrow> go_error" where
  "safe_tool_error err =
     (case as_validation_error err of Some v \<Rightarrow> v
      | None \<Rightarrow>
          if error_is err ContextCanceled then ErrObservationCanceled
          else if error_is err ErrResultTooLarge then ErrResultTooLarge
          else if error_is err (KubernetesError SourceTimeout) then KubernetesError SourceTimeout
          else if error_is err (KubernetesError SourceUnavailable) then KubernetesError SourceUnavailable
          else if error_is err (KubernetesError SourceRejected) then KubernetesError SourceRejected
          else if error_is err (KubernetesError CredentialUnavailable)
            then KubernetesError CredentialUnavailable
          else if error_is err (KubernetesError InvalidSourceResponse)
            then KubernetesError InvalidSourceResponse
          else if error_is err KubernetesUnknownScope then KubernetesUnknownScope
          else if error_is err FluxUnknownScope then FluxUnknownScope
          else if error_is err (SourceHttpError SourceTimeout) then SourceHttpError SourceTimeout
          else if error_is err (SourceHttpError SourceUnavailable) then SourceHttpError SourceUnavailable
          else if error_is err (SourceHttpError SourceRejected) then SourceHttpError SourceRejected
          else if error_is err (SourceHttpError CredentialUnavailable)
            then SourceHttpError CredentialUnavailable
          else if error_is err (SourceHttpError InvalidSourceResponse)
            then SourceHttpError InvalidSourceResponse
          else ErrObservationFailed)"

subsection \<open>Handlers\<close>

text \<open>A successful handler returns the text of its summary and its output.\<close>

definition summary_result :: "string \<Rightarrow> 'o \<Rightarrow> string \<times> 'o" where
  "summary_result t output = (t, output)"

definition handle_list_targets :: "mcp_server \<Rightarrow> (string \<times> list_targets_output) io" where
  "handle_list_targets s =
     (let output = catalog_list (srv_catalog s) in
      case check_result_size (marshal_list_targets_output output) of
        Some e \<Rightarrow> io_fail (safe_tool_error e)
      | None \<Rightarrow> io_return (summary_result ''Returned configured observer targets.'' output))"

definition handle_get_cluster_health ::
    "mcp_server \<Rightarrow> get_cluster_health_input \<Rightarrow> (string \<times> cluster_health_output) io" where
  "handle_get_cluster_health s inp =
     (case validate_get_cluster_health_input inp of Some e \<Rightarrow> io_fail (safe_tool_error e)
      | None \<Rightarrow>
          (case srv_cluster_health s (gch_target inp) of None \<Rightarrow> io_fail ErrTargetNotConfigured
           | Some source \<Rightarrow>
               io_bind (io_map_error safe_tool_error (ks_cluster_health source)) (\<lambda>output.
               case check_result_size (marshal_cluster_health_output output) of
                 Some e \<Rightarrow> io_fail (safe_tool_error e)
               | None \<Rightarrow> io_return (summary_result ''Returned bounded Kubernetes cluster health.'' output))))"

definition handle_list_unhealthy_workloads ::
    "mcp_server \<Rightarrow> list_unhealthy_workloads_input \<Rightarrow> (string \<times> list_unhealthy_workloads_output) io" where
  "handle_list_unhealthy_workloads s inp =
     (case normalize_list_unhealthy_workloads_input inp of Inl e \<Rightarrow> io_fail (safe_tool_error e)
      | Inr normalized \<Rightarrow>
          (case srv_unhealthy_workloads s (luw_target normalized) of None \<Rightarrow> io_fail ErrTargetNotConfigured
           | Some source \<Rightarrow>
               io_bind (io_map_error safe_tool_error (ks_list_unhealthy_workloads source normalized)) (\<lambda>output.
               case check_result_size (marshal_list_unhealthy_workloads_output output) of
                 Some e \<Rightarrow> io_fail (safe_tool_error e)
               | None \<Rightarrow> io_return (summary_result ''Returned bounded unhealthy Kubernetes workloads.'' output))))"

definition handle_list_active_alerts ::
    "mcp_server \<Rightarrow> list_active_alerts_input \<Rightarrow> (string \<times> list_active_alerts_output) io" where
  "handle_list_active_alerts s inp =
     (case normalize_list_active_alerts_input inp of Inl e \<Rightarrow> io_fail (safe_tool_error e)
      | Inr normalized \<Rightarrow>
          (case srv_active_alerts s (laa_target normalized) of None \<Rightarrow> io_fail ErrTargetNotConfigured
           | Some source \<Rightarrow>
               io_bind (io_map_error safe_tool_error (ms_list_active_alerts source normalized)) (\<lambda>output.
               case check_result_size (marshal_list_active_alerts_output output) of
                 Some e \<Rightarrow> io_fail (safe_tool_error e)
               | None \<Rightarrow> io_return (summary_result ''Returned bounded active monitoring alerts.'' output))))"

definition handle_get_scrape_health ::
    "mcp_server \<Rightarrow> get_scrape_health_input \<Rightarrow> (string \<times> get_scrape_health_output) io" where
  "handle_get_scrape_health s inp =
     (case validate_get_scrape_health_input inp of Some e \<Rightarrow> io_fail (safe_tool_error e)
      | None \<Rightarrow>
          (case srv_scrape_health s (gsh_target inp) of None \<Rightarrow> io_fail ErrTargetNotConfigured
           | Some source \<Rightarrow>
               io_bind (io_map_error safe_tool_error (ms_get_scrape_health source inp)) (\<lambda>output.
               case check_result_size (marshal_get_scrape_health_output output) of
                 Some e \<Rightarrow> io_fail (safe_tool_error e)
               | None \<Rightarrow> io_return (summary_result ''Returned bounded monitoring scrape health.'' output))))"

definition handle_list_unhealthy_reconciliations ::
    "mcp_server \<Rightarrow> list_unhealthy_reconciliations_input \<Rightarrow>
     (string \<times> list_unhealthy_reconciliations_output) io" where
  "handle_list_unhealthy_reconciliations s inp =
     (case normalize_list_unhealthy_reconciliations_input inp of Inl e \<Rightarrow> io_fail (safe_tool_error e)
      | Inr normalized \<Rightarrow>
          (case srv_flux s (lur_target normalized) of None \<Rightarrow> io_fail ErrTargetNotConfigured
           | Some source \<Rightarrow>
               io_bind (io_map_error safe_tool_error (fx_list_unhealthy_reconciliations source normalized))
                 (\<lambda>output.
               case check_result_size (marshal_list_unhealthy_reconciliations_output output) of
                 Some e \<Rightarrow> io_fail (safe_tool_error e)
               | None \<Rightarrow> io_return (summary_result ''Returned bounded unhealthy Flux reconciliations.'' output))))"

end
