(* ===== verification/Outputs.thy ===== *)
theory Outputs
  imports Contracts
begin

section \<open>Reading the outputs of the tools back\<close>

text \<open>
  The audit middleware decodes the JSON of an output into the Go struct it was encoded from
  (\<open>internal/observer/contracts.go\<close>). A typed string of Go takes any text when it is decoded, so
  it is a string here. \<open>strict\<close> is the parser of RFC 3339 texts that \<open>time.Time.UnmarshalJSON\<close>
  uses.
\<close>

definition into_bool :: "bool decoder" where
  "into_bool j old = (case j of JBool b \<Rightarrow> Some b | JNull \<Rightarrow> Some old | _ \<Rightarrow> None)"

definition into_time :: "(string \<Rightarrow> time option) \<Rightarrow> time decoder" where
  "into_time strict j old = (case j of JString s \<Rightarrow> strict s | JNull \<Rightarrow> Some old | _ \<Rightarrow> None)"

text \<open>The zero \<open>time.Time\<close> is the start of the year 1.\<close>

definition zero_time :: time where
  "zero_time = Time (- 62135596800) 0"

record target_data =
  td_id :: string
  td_kind :: string
  td_capabilities :: "string list"

definition zero_target_data :: target_data where
  "zero_target_data = \<lparr>td_id = [], td_kind = [], td_capabilities = []\<rparr>"

definition into_target_data :: "target_data decoder" where
  "into_target_data = into_struct (\<lambda>k.
     if k = ''id'' then into_field td_id (\<lambda>v r. r\<lparr>td_id := v\<rparr>) into_string
     else if k = ''kind'' then into_field td_kind (\<lambda>v r. r\<lparr>td_kind := v\<rparr>) into_string
     else if k = ''capabilities'' then into_field td_capabilities (\<lambda>v r. r\<lparr>td_capabilities := v\<rparr>)
       (into_list [] into_string)
     else skip_member)"

record list_targets_data =
  ltd_targets :: "target_data list"

definition zero_list_targets_data :: list_targets_data where
  "zero_list_targets_data = \<lparr>ltd_targets = []\<rparr>"

definition into_list_targets_data :: "list_targets_data decoder" where
  "into_list_targets_data = into_struct (\<lambda>k.
     if k = ''targets'' then into_field ltd_targets (\<lambda>v r. r\<lparr>ltd_targets := v\<rparr>)
       (into_list zero_target_data into_target_data)
     else skip_member)"

record node_data =
  nd_total :: int
  nd_ready :: int

definition zero_node_data :: node_data where
  "zero_node_data = \<lparr>nd_total = 0, nd_ready = 0\<rparr>"

definition into_node_data :: "node_data decoder" where
  "into_node_data = into_struct (\<lambda>k.
     if k = ''total'' then into_field nd_total (\<lambda>v r. r\<lparr>nd_total := v\<rparr>) into_int
     else if k = ''ready'' then into_field nd_ready (\<lambda>v r. r\<lparr>nd_ready := v\<rparr>) into_int
     else skip_member)"

record workload_summary_data =
  wsd_total :: int
  wsd_ready :: int
  wsd_unhealthy :: int

definition zero_workload_summary_data :: workload_summary_data where
  "zero_workload_summary_data = \<lparr>wsd_total = 0, wsd_ready = 0, wsd_unhealthy = 0\<rparr>"

definition into_workload_summary_data :: "workload_summary_data decoder" where
  "into_workload_summary_data = into_struct (\<lambda>k.
     if k = ''total'' then into_field wsd_total (\<lambda>v r. r\<lparr>wsd_total := v\<rparr>) into_int
     else if k = ''ready'' then into_field wsd_ready (\<lambda>v r. r\<lparr>wsd_ready := v\<rparr>) into_int
     else if k = ''unhealthy'' then into_field wsd_unhealthy (\<lambda>v r. r\<lparr>wsd_unhealthy := v\<rparr>) into_int
     else skip_member)"

record warning_data =
  hwd_code :: string
  hwd_count :: int

definition zero_warning_data :: warning_data where
  "zero_warning_data = \<lparr>hwd_code = [], hwd_count = 0\<rparr>"

definition into_warning_data :: "warning_data decoder" where
  "into_warning_data = into_struct (\<lambda>k.
     if k = ''code'' then into_field hwd_code (\<lambda>v r. r\<lparr>hwd_code := v\<rparr>) into_string
     else if k = ''count'' then into_field hwd_count (\<lambda>v r. r\<lparr>hwd_count := v\<rparr>) into_int
     else skip_member)"

record cluster_health_data =
  chd_target :: string
  chd_observed_at :: time
  chd_status :: string
  chd_nodes :: node_data
  chd_workloads :: workload_summary_data
  chd_warnings :: "warning_data list"
  chd_partial :: bool

definition zero_cluster_health_data :: cluster_health_data where
  "zero_cluster_health_data = \<lparr>chd_target = [], chd_observed_at = zero_time, chd_status = [],
     chd_nodes = zero_node_data, chd_workloads = zero_workload_summary_data, chd_warnings = [],
     chd_partial = False\<rparr>"

definition into_cluster_health_data :: "(string \<Rightarrow> time option) \<Rightarrow> cluster_health_data decoder" where
  "into_cluster_health_data strict = into_struct (\<lambda>k.
     if k = ''target'' then into_field chd_target (\<lambda>v r. r\<lparr>chd_target := v\<rparr>) into_string
     else if k = ''observedat'' then into_field chd_observed_at (\<lambda>v r. r\<lparr>chd_observed_at := v\<rparr>)
       (into_time strict)
     else if k = ''status'' then into_field chd_status (\<lambda>v r. r\<lparr>chd_status := v\<rparr>) into_string
     else if k = ''nodes'' then into_field chd_nodes (\<lambda>v r. r\<lparr>chd_nodes := v\<rparr>) into_node_data
     else if k = ''workloads'' then into_field chd_workloads (\<lambda>v r. r\<lparr>chd_workloads := v\<rparr>)
       into_workload_summary_data
     else if k = ''warnings'' then into_field chd_warnings (\<lambda>v r. r\<lparr>chd_warnings := v\<rparr>)
       (into_list zero_warning_data into_warning_data)
     else if k = ''partial'' then into_field chd_partial (\<lambda>v r. r\<lparr>chd_partial := v\<rparr>) into_bool
     else skip_member)"

record workload_data =
  whd_scope :: string
  whd_kind :: string
  whd_name :: string
  whd_ready :: int
  whd_desired :: int
  whd_reasons :: "string list"

definition zero_workload_data :: workload_data where
  "zero_workload_data = \<lparr>whd_scope = [], whd_kind = [], whd_name = [], whd_ready = 0,
     whd_desired = 0, whd_reasons = []\<rparr>"

definition into_workload_data :: "workload_data decoder" where
  "into_workload_data = into_struct (\<lambda>k.
     if k = ''scope'' then into_field whd_scope (\<lambda>v r. r\<lparr>whd_scope := v\<rparr>) into_string
     else if k = ''kind'' then into_field whd_kind (\<lambda>v r. r\<lparr>whd_kind := v\<rparr>) into_string
     else if k = ''name'' then into_field whd_name (\<lambda>v r. r\<lparr>whd_name := v\<rparr>) into_string
     else if k = ''ready'' then into_field whd_ready (\<lambda>v r. r\<lparr>whd_ready := v\<rparr>) into_int
     else if k = ''desired'' then into_field whd_desired (\<lambda>v r. r\<lparr>whd_desired := v\<rparr>) into_int
     else if k = ''reasons'' then into_field whd_reasons (\<lambda>v r. r\<lparr>whd_reasons := v\<rparr>)
       (into_list [] into_string)
     else skip_member)"

record workloads_data =
  luwd_target :: string
  luwd_observed_at :: time
  luwd_workloads :: "workload_data list"
  luwd_truncated :: bool

definition zero_workloads_data :: workloads_data where
  "zero_workloads_data = \<lparr>luwd_target = [], luwd_observed_at = zero_time,
     luwd_workloads = [], luwd_truncated = False\<rparr>"

definition into_workloads_data :: "(string \<Rightarrow> time option) \<Rightarrow> workloads_data decoder" where
  "into_workloads_data strict = into_struct (\<lambda>k.
     if k = ''target'' then into_field luwd_target (\<lambda>v r. r\<lparr>luwd_target := v\<rparr>) into_string
     else if k = ''observedat'' then into_field luwd_observed_at (\<lambda>v r. r\<lparr>luwd_observed_at := v\<rparr>)
       (into_time strict)
     else if k = ''workloads'' then into_field luwd_workloads (\<lambda>v r. r\<lparr>luwd_workloads := v\<rparr>)
       (into_list zero_workload_data into_workload_data)
     else if k = ''truncated'' then into_field luwd_truncated (\<lambda>v r. r\<lparr>luwd_truncated := v\<rparr>) into_bool
     else skip_member)"

record alert_data =
  ad_name :: string
  ad_severity :: string
  ad_component :: string
  ad_started_at :: "time option"

definition zero_alert_data :: alert_data where
  "zero_alert_data = \<lparr>ad_name = [], ad_severity = [], ad_component = [],
     ad_started_at = None\<rparr>"

definition into_alert_data :: "(string \<Rightarrow> time option) \<Rightarrow> alert_data decoder" where
  "into_alert_data strict = into_struct (\<lambda>k.
     if k = ''name'' then into_field ad_name (\<lambda>v r. r\<lparr>ad_name := v\<rparr>) into_string
     else if k = ''severity'' then into_field ad_severity (\<lambda>v r. r\<lparr>ad_severity := v\<rparr>) into_string
     else if k = ''component'' then into_field ad_component (\<lambda>v r. r\<lparr>ad_component := v\<rparr>) into_string
     else if k = ''startedat'' then into_field ad_started_at (\<lambda>v r. r\<lparr>ad_started_at := v\<rparr>)
       (into_pointer zero_time (into_time strict))
     else skip_member)"

record alerts_data =
  laad_target :: string
  laad_observed_at :: time
  laad_alerts :: "alert_data list"
  laad_truncated :: bool

definition zero_alerts_data :: alerts_data where
  "zero_alerts_data = \<lparr>laad_target = [], laad_observed_at = zero_time, laad_alerts = [],
     laad_truncated = False\<rparr>"

definition into_alerts_data :: "(string \<Rightarrow> time option) \<Rightarrow> alerts_data decoder" where
  "into_alerts_data strict = into_struct (\<lambda>k.
     if k = ''target'' then into_field laad_target (\<lambda>v r. r\<lparr>laad_target := v\<rparr>) into_string
     else if k = ''observedat'' then into_field laad_observed_at (\<lambda>v r. r\<lparr>laad_observed_at := v\<rparr>)
       (into_time strict)
     else if k = ''alerts'' then into_field laad_alerts (\<lambda>v r. r\<lparr>laad_alerts := v\<rparr>)
       (into_list zero_alert_data (into_alert_data strict))
     else if k = ''truncated'' then into_field laad_truncated (\<lambda>v r. r\<lparr>laad_truncated := v\<rparr>) into_bool
     else skip_member)"

record scrape_data =
  sd_id :: string
  sd_state :: string
  sd_sampled_at :: "time option"

definition zero_scrape_data :: scrape_data where
  "zero_scrape_data = \<lparr>sd_id = [], sd_state = [], sd_sampled_at = None\<rparr>"

definition into_scrape_data :: "(string \<Rightarrow> time option) \<Rightarrow> scrape_data decoder" where
  "into_scrape_data strict = into_struct (\<lambda>k.
     if k = ''id'' then into_field sd_id (\<lambda>v r. r\<lparr>sd_id := v\<rparr>) into_string
     else if k = ''state'' then into_field sd_state (\<lambda>v r. r\<lparr>sd_state := v\<rparr>) into_string
     else if k = ''sampledat'' then into_field sd_sampled_at (\<lambda>v r. r\<lparr>sd_sampled_at := v\<rparr>)
       (into_pointer zero_time (into_time strict))
     else skip_member)"

record scrapes_data =
  gshd_target :: string
  gshd_observed_at :: time
  gshd_scrapes :: "scrape_data list"
  gshd_partial :: bool

definition zero_scrapes_data :: scrapes_data where
  "zero_scrapes_data = \<lparr>gshd_target = [], gshd_observed_at = zero_time,
     gshd_scrapes = [], gshd_partial = False\<rparr>"

definition into_scrapes_data :: "(string \<Rightarrow> time option) \<Rightarrow> scrapes_data decoder" where
  "into_scrapes_data strict = into_struct (\<lambda>k.
     if k = ''target'' then into_field gshd_target (\<lambda>v r. r\<lparr>gshd_target := v\<rparr>) into_string
     else if k = ''observedat'' then into_field gshd_observed_at (\<lambda>v r. r\<lparr>gshd_observed_at := v\<rparr>)
       (into_time strict)
     else if k = ''scrapes'' then into_field gshd_scrapes (\<lambda>v r. r\<lparr>gshd_scrapes := v\<rparr>)
       (into_list zero_scrape_data (into_scrape_data strict))
     else if k = ''partial'' then into_field gshd_partial (\<lambda>v r. r\<lparr>gshd_partial := v\<rparr>) into_bool
     else skip_member)"

record reconciliation_data =
  rd_scope :: string
  rd_kind :: string
  rd_name :: string
  rd_state :: string
  rd_reason :: string
  rd_transitioned_at :: "time option"

definition zero_reconciliation_data :: reconciliation_data where
  "zero_reconciliation_data = \<lparr>rd_scope = [], rd_kind = [], rd_name = [], rd_state = [],
     rd_reason = [], rd_transitioned_at = None\<rparr>"

definition into_reconciliation_data :: "(string \<Rightarrow> time option) \<Rightarrow> reconciliation_data decoder" where
  "into_reconciliation_data strict = into_struct (\<lambda>k.
     if k = ''scope'' then into_field rd_scope (\<lambda>v r. r\<lparr>rd_scope := v\<rparr>) into_string
     else if k = ''kind'' then into_field rd_kind (\<lambda>v r. r\<lparr>rd_kind := v\<rparr>) into_string
     else if k = ''name'' then into_field rd_name (\<lambda>v r. r\<lparr>rd_name := v\<rparr>) into_string
     else if k = ''state'' then into_field rd_state (\<lambda>v r. r\<lparr>rd_state := v\<rparr>) into_string
     else if k = ''reason'' then into_field rd_reason (\<lambda>v r. r\<lparr>rd_reason := v\<rparr>) into_string
     else if k = ''transitionedat'' then into_field rd_transitioned_at (\<lambda>v r. r\<lparr>rd_transitioned_at := v\<rparr>)
       (into_pointer zero_time (into_time strict))
     else skip_member)"

record reconciliations_data =
  lurd_target :: string
  lurd_observed_at :: time
  lurd_reconciliations :: "reconciliation_data list"
  lurd_truncated :: bool

definition zero_reconciliations_data :: reconciliations_data where
  "zero_reconciliations_data = \<lparr>lurd_target = [], lurd_observed_at = zero_time,
     lurd_reconciliations = [], lurd_truncated = False\<rparr>"

definition into_reconciliations_data :: "(string \<Rightarrow> time option) \<Rightarrow> reconciliations_data decoder" where
  "into_reconciliations_data strict = into_struct (\<lambda>k.
     if k = ''target'' then into_field lurd_target (\<lambda>v r. r\<lparr>lurd_target := v\<rparr>) into_string
     else if k = ''observedat'' then into_field lurd_observed_at (\<lambda>v r. r\<lparr>lurd_observed_at := v\<rparr>)
       (into_time strict)
     else if k = ''reconciliations'' then into_field lurd_reconciliations (\<lambda>v r. r\<lparr>lurd_reconciliations := v\<rparr>)
       (into_list zero_reconciliation_data (into_reconciliation_data strict))
     else if k = ''truncated'' then into_field lurd_truncated (\<lambda>v r. r\<lparr>lurd_truncated := v\<rparr>) into_bool
     else skip_member)"

end
