(* ===== verification/AuditEvents.thy ===== *)
theory AuditEvents
  imports McpServer Outputs
begin

section \<open>Audit events (\<open>internal/mcpserver/audit.go\<close>)\<close>

text \<open>
  The middleware that writes one JSON line for every tool call. What it wraps, \<open>next\<close>, is the
  go-sdk with the registered handlers: a parameter that may change a state of its own, from which
  the clock and the request context are read. The writer is a parameter too. A time in the result
  of a tool is read by the strict RFC 3339 parser of package \<open>time\<close>, the parameter \<open>strict\<close>,
  applied to the decoded string.
\<close>

subsection \<open>Events\<close>

definition audit_schema_version :: int where
  "audit_schema_version = 1"

datatype audit_outcome =
    AuditSuccess
  | AuditValidationError
  | AuditTargetNotConfigured
  | AuditScopeNotConfigured
  | AuditSourceTimeout
  | AuditSourceUnavailable
  | AuditSourceRejected
  | AuditCredentialUnavailable
  | AuditInvalidSourceResponse
  | AuditResultTooLarge
  | AuditCanceled
  | AuditUnsupportedTool
  | AuditInternalError

fun audit_outcome_text :: "audit_outcome \<Rightarrow> string" where
  "audit_outcome_text AuditSuccess = ''success''"
| "audit_outcome_text AuditValidationError = ''validation_error''"
| "audit_outcome_text AuditTargetNotConfigured = ''target_not_configured''"
| "audit_outcome_text AuditScopeNotConfigured = ''scope_not_configured''"
| "audit_outcome_text AuditSourceTimeout = ''source_timeout''"
| "audit_outcome_text AuditSourceUnavailable = ''source_unavailable''"
| "audit_outcome_text AuditSourceRejected = ''source_rejected''"
| "audit_outcome_text AuditCredentialUnavailable = ''credential_unavailable''"
| "audit_outcome_text AuditInvalidSourceResponse = ''invalid_source_response''"
| "audit_outcome_text AuditResultTooLarge = ''result_too_large''"
| "audit_outcome_text AuditCanceled = ''canceled''"
| "audit_outcome_text AuditUnsupportedTool = ''unsupported_tool''"
| "audit_outcome_text AuditInternalError = ''internal_error''"

record audit_event =
  ae_timestamp :: string
  ae_schema_version :: int
  ae_tool :: string
  ae_target :: string
  ae_scope :: string
  ae_duration_ms :: int
  ae_outcome :: string
  ae_item_count :: "int option"
  ae_partial :: "bool option"
  ae_truncated :: "bool option"

definition marshal_audit_event :: "audit_event \<Rightarrow> marshalled" where
  "marshal_audit_event e = marshal_struct
     ([(''timestamp'', marshal_string (ae_timestamp e)),
       (''schemaVersion'', marshal_int (ae_schema_version e)),
       (''tool'', marshal_string (ae_tool e))] @
      omit_empty_string ''target'' (ae_target e) @
      omit_empty_string ''scope'' (ae_scope e) @
      [(''durationMs'', marshal_int (ae_duration_ms e)),
       (''outcome'', marshal_string (ae_outcome e))] @
      omit_nil ''itemCount'' marshal_int (ae_item_count e) @
      omit_nil ''partial'' marshal_bool (ae_partial e) @
      omit_nil ''truncated'' marshal_bool (ae_truncated e))"

text \<open>The zero event with the tool name \<open>unknown\<close>.\<close>

definition unknown_event :: audit_event where
  "unknown_event = \<lparr>ae_timestamp = [], ae_schema_version = 0, ae_tool = ''unknown'', ae_target = [],
     ae_scope = [], ae_duration_ms = 0, ae_outcome = [], ae_item_count = None, ae_partial = None,
     ae_truncated = None\<rparr>"

subsection \<open>Calls of the protocol\<close>

text \<open>
  The parameters of a request, of which only those of a tool call matter: the tool name and the raw
  JSON of the arguments. A result of the protocol: that of a tool call has an error or none, a flag
  and structured content, \<open>None\<close> where it is not raw JSON.
\<close>

datatype mcp_params = CallToolParams string string | OtherParams

datatype mcp_result =
    CallToolResult (call_error: "go_error option") (call_is_error: bool) (call_content: "string option")
  | OtherResult

type_synonym mcp_reply = "mcp_result \<times> go_error option"
type_synonym 's mcp_handler = "string \<Rightarrow> mcp_params \<Rightarrow> 's \<Rightarrow> mcp_reply \<times> 's"

text \<open>The logger: its clock, the state of its writer, and whether a write of its encoder has failed.\<close>

record ('s, 'w) audit_logger =
  al_now :: "'s \<Rightarrow> time"
  al_writer :: 'w
  al_failed :: bool

definition new_audit_logger :: "('s \<Rightarrow> time) \<Rightarrow> 'w option \<Rightarrow> ('s \<Rightarrow> time) option \<Rightarrow> ('s, 'w) audit_logger option" where
  "new_audit_logger time_now writer now =
     (case writer of None \<Rightarrow> None
      | Some w \<Rightarrow>
          Some \<lparr>al_now = (case now of None \<Rightarrow> time_now | Some n \<Rightarrow> n), al_writer = w, al_failed = False\<rparr>)"

text \<open>
  \<open>json.Encoder.Encode\<close>: the value and a newline in one write. A failed write is remembered and
  every later call then returns at once. \<open>write\<close> returns the new state of the writer and whether it
  failed.
\<close>

definition audit_write :: "('w \<Rightarrow> string \<Rightarrow> 'w \<times> bool) \<Rightarrow> audit_event \<Rightarrow> ('s, 'w) audit_logger \<Rightarrow>
    ('s, 'w) audit_logger" where
  "audit_write write e l =
     (if al_failed l then l
      else case marshal_audit_event e of None \<Rightarrow> l
      | Some j \<Rightarrow>
          (let (w, failed) = write (al_writer l) (json_text j @ [CHR 0x0A])
           in l\<lparr>al_writer := w, al_failed := failed\<rparr>))"

subsection \<open>The request\<close>

text \<open>The two members of the arguments the middleware looks at.\<close>

record audit_input =
  ai_target :: string
  ai_scope :: string

definition into_audit_input :: "audit_input decoder" where
  "into_audit_input = into_struct (\<lambda>k.
     if k = ''target'' then into_field ai_target (\<lambda>v r. r\<lparr>ai_target := v\<rparr>) into_string
     else if k = ''scope'' then into_field ai_scope (\<lambda>v r. r\<lparr>ai_scope := v\<rparr>) into_string
     else skip_member)"

definition unmarshal_into :: "'a decoder \<Rightarrow> 'a \<Rightarrow> string \<Rightarrow> 'a option" where
  "unmarshal_into d zero text = (case unmarshal_json text of None \<Rightarrow> None | Some j \<Rightarrow> d j zero)"

definition audited_tools :: "string list" where
  "audited_tools = [tool_get_cluster_health, tool_list_unhealthy_workloads, tool_list_active_alerts,
     tool_get_scrape_health, tool_list_unhealthy_reconciliations]"

definition audit_request :: "mcp_params \<Rightarrow> audit_event \<times> bool" where
  "audit_request params =
     (let event = unknown_event in
      case params of
        OtherParams \<Rightarrow> (event, False)
      | CallToolParams name arguments \<Rightarrow>
          if name = tool_list_targets then (event\<lparr>ae_tool := tool_list_targets\<rparr>, True)
          else if name \<in> set audited_tools then
            (let event = event\<lparr>ae_tool := name\<rparr> in
             case unmarshal_into into_audit_input \<lparr>ai_target = [], ai_scope = []\<rparr> arguments of
               None \<Rightarrow> (event, True)
             | Some input \<Rightarrow>
                 (let event = (if validate_identifier ''target'' (ai_target input) = None
                        then event\<lparr>ae_target := ai_target input\<rparr> else event);
                      event = (if ai_scope input \<noteq> [] \<and> validate_identifier ''scope'' (ai_scope input) = None
                        then event\<lparr>ae_scope := ai_scope input\<rparr> else event)
                  in (event, True)))
          else (event, False))"

subsection \<open>The outcome\<close>

definition audit_outcome_of :: "go_error option \<Rightarrow> bool \<Rightarrow> mcp_result \<Rightarrow> go_error option \<Rightarrow> audit_outcome" where
  "audit_outcome_of ctx_err known_tool result call_err =
     (if (case ctx_err of None \<Rightarrow> False
          | Some e \<Rightarrow> error_is e ContextCanceled \<or> error_is e ContextDeadlineExceeded)
        then AuditCanceled
      else if \<not> known_tool then AuditUnsupportedTool
      else if call_err \<noteq> None then AuditInternalError
      else case result of OtherResult \<Rightarrow> AuditInternalError
      | CallToolResult tool_err is_error _ \<Rightarrow>
          (case tool_err of
             None \<Rightarrow> if is_error then AuditInternalError else AuditSuccess
           | Some e \<Rightarrow>
               if as_validation_error e \<noteq> None then AuditValidationError
               else if error_is e ErrTargetNotConfigured then AuditTargetNotConfigured
               else if error_is e KubernetesUnknownScope then AuditScopeNotConfigured
               else if error_is e FluxUnknownScope then AuditScopeNotConfigured
               else if error_is e (KubernetesError SourceTimeout) then AuditSourceTimeout
               else if error_is e (KubernetesError SourceUnavailable) then AuditSourceUnavailable
               else if error_is e (KubernetesError SourceRejected) then AuditSourceRejected
               else if error_is e (KubernetesError CredentialUnavailable) then AuditCredentialUnavailable
               else if error_is e (KubernetesError InvalidSourceResponse) then AuditInvalidSourceResponse
               else if error_is e (SourceHttpError SourceTimeout) then AuditSourceTimeout
               else if error_is e (SourceHttpError SourceUnavailable) then AuditSourceUnavailable
               else if error_is e (SourceHttpError SourceRejected) then AuditSourceRejected
               else if error_is e (SourceHttpError CredentialUnavailable) then AuditCredentialUnavailable
               else if error_is e (SourceHttpError InvalidSourceResponse) then AuditInvalidSourceResponse
               else if error_is e ErrResultTooLarge then AuditResultTooLarge
               else if error_is e ErrObservationCanceled then AuditCanceled
               else if error_is e ErrObservationFailed then AuditInternalError
               else AuditValidationError))"

subsection \<open>The result\<close>

text \<open>What an event says about a decoded output.\<close>

definition add_output :: "(string \<Rightarrow> 'd option) \<Rightarrow> ('d \<Rightarrow> audit_event \<Rightarrow> audit_event) \<Rightarrow> string \<Rightarrow>
    audit_event \<Rightarrow> audit_event" where
  "add_output decode add encoded event =
     (case decode encoded of None \<Rightarrow> event | Some output \<Rightarrow> add output event)"

definition add_list :: "'a list \<Rightarrow> bool \<Rightarrow> audit_event \<Rightarrow> audit_event" where
  "add_list items truncated event =
     event\<lparr>ae_item_count := Some (int (length items)), ae_truncated := Some truncated\<rparr>"

definition add_audit_result :: "(string \<Rightarrow> time option) \<Rightarrow> mcp_result \<Rightarrow> audit_event \<Rightarrow> audit_event" where
  "add_audit_result strict result event =
     (case result of OtherResult \<Rightarrow> event
      | CallToolResult _ _ None \<Rightarrow> event
      | CallToolResult _ _ (Some encoded) \<Rightarrow>
          if ae_tool event = tool_list_targets then
            add_output (unmarshal_into into_list_targets_data zero_list_targets_data)
              (\<lambda>output event. event\<lparr>ae_item_count := Some (int (length (ltd_targets output)))\<rparr>) encoded event
          else if ae_tool event = tool_get_cluster_health then
            add_output (unmarshal_into (into_cluster_health_data strict) zero_cluster_health_data)
              (\<lambda>output event. event\<lparr>ae_partial := Some (chd_partial output)\<rparr>) encoded event
          else if ae_tool event = tool_list_unhealthy_workloads then
            add_output (unmarshal_into (into_workloads_data strict) zero_workloads_data)
              (\<lambda>output. add_list (luwd_workloads output) (luwd_truncated output)) encoded event
          else if ae_tool event = tool_list_active_alerts then
            add_output (unmarshal_into (into_alerts_data strict) zero_alerts_data)
              (\<lambda>output. add_list (laad_alerts output) (laad_truncated output)) encoded event
          else if ae_tool event = tool_get_scrape_health then
            add_output (unmarshal_into (into_scrapes_data strict) zero_scrapes_data)
              (\<lambda>output event. event\<lparr>ae_item_count := Some (int (length (gshd_scrapes output))),
                 ae_partial := Some (gshd_partial output)\<rparr>) encoded event
          else if ae_tool event = tool_list_unhealthy_reconciliations then
            add_output (unmarshal_into (into_reconciliations_data strict) zero_reconciliations_data)
              (\<lambda>output. add_list (lurd_reconciliations output) (lurd_truncated output)) encoded event
          else event)"

subsection \<open>The middleware\<close>

text \<open>The event of one call, from the two readings of the clock, the request and the reply.\<close>

definition audit_call :: "(string \<Rightarrow> time option) \<Rightarrow> time \<Rightarrow> time \<Rightarrow> go_error option \<Rightarrow> mcp_params \<Rightarrow> mcp_reply \<Rightarrow>
    audit_event" where
  "audit_call strict started_at finished_at ctx_err params reply =
     (let (event, known_tool) = audit_request params;
          (result, call_err) = reply;
          outcome = audit_outcome_of ctx_err known_tool result call_err;
          event = event\<lparr>ae_timestamp := rfc3339_nano finished_at,
            ae_schema_version := audit_schema_version,
            ae_duration_ms := max (milliseconds (time_sub finished_at started_at)) 0,
            ae_outcome := audit_outcome_text outcome\<rparr>;
          event = (if outcome = AuditValidationError \<or> outcome = AuditUnsupportedTool
            then event\<lparr>ae_target := [], ae_scope := []\<rparr> else event)
      in if outcome = AuditSuccess then add_audit_result strict result event else event)"

definition audit_middleware :: "('w \<Rightarrow> string \<Rightarrow> 'w \<times> bool) \<Rightarrow> (string \<Rightarrow> time option) \<Rightarrow> ('s \<Rightarrow> go_error option) \<Rightarrow>
    's mcp_handler \<Rightarrow> ('s \<times> ('s, 'w) audit_logger) mcp_handler" where
  "audit_middleware write strict ctx_err next meth params st =
     (let (s, l) = st in
      if meth \<noteq> ''tools/call'' then
        (let (reply, s') = next meth params s in (reply, s', l))
      else
        (let started_at = al_now l s;
             (reply, s') = next meth params s;
             finished_at = al_now l s';
             event = audit_call strict started_at finished_at (ctx_err s') params reply
         in (reply, s', audit_write write event l)))"

text \<open>\<open>NewWithSourceSet\<close> installs it in front of the methods of the SDK when there is a logger.\<close>

definition receive :: "('w \<Rightarrow> string \<Rightarrow> 'w \<times> bool) \<Rightarrow> (string \<Rightarrow> time option) \<Rightarrow> ('s \<Rightarrow> go_error option) \<Rightarrow>
    's mcp_handler \<Rightarrow> ('s \<times> ('s, 'w) audit_logger option) mcp_handler" where
  "receive write strict ctx_err next meth params st =
     (let (s, logger) = st in
      case logger of
        None \<Rightarrow> (let (reply, s') = next meth params s in (reply, s', None))
      | Some l \<Rightarrow>
          (let (reply, s', l') = audit_middleware write strict ctx_err next meth params (s, l)
           in (reply, s', Some l')))"

text \<open>The requests of a session, one after the other.\<close>

fun serve :: "'s mcp_handler \<Rightarrow> (string \<times> mcp_params) list \<Rightarrow> 's \<Rightarrow> mcp_reply list \<times> 's" where
  "serve handler [] s = ([], s)"
| "serve handler ((meth, params) # calls) s =
     (let (reply, s1) = handler meth params s; (replies, s2) = serve handler calls s1
      in (reply # replies, s2))"

text \<open>A writer that takes everything and appends it to a file.\<close>

definition append_writer :: "string \<Rightarrow> string \<Rightarrow> string \<times> bool" where
  "append_writer w text = (w @ text, False)"

end
