(* ===== verification/JsonRoundTrip.thy ===== *)
theory JsonRoundTrip
  imports JsonRead
begin

section \<open>Reading back what was encoded\<close>

text \<open>
  \<open>json.Unmarshal\<close> reads every text that \<open>json.Marshal\<close> writes back to the value it was written
  from, provided its strings are ASCII, its numbers are integers and it is not nested too deeply,
  as all values the program encodes are.
\<close>

subsection \<open>Strings\<close>

definition ascii :: "string \<Rightarrow> bool" where
  "ascii s \<longleftrightarrow> list_all (\<lambda>c. byte c < 0x80) s"

lemma byte_nonneg: "0 \<le> byte c"
proof -
  have "byte c = int (of_char c)" by (simp add: byte_def of_nat_of_char)
  then show ?thesis by simp
qed

lemma byte_inverse [simp]: "char_of (byte c) = c"
  by (simp add: byte_def)

lemma hex_values: "\<forall>d \<in> set [0..15]. hex_value (hex_char d) = Some d"
  by code_simp

lemma hex_value_char: "0 \<le> d \<Longrightarrow> d < 16 \<Longrightarrow> hex_value (hex_char d) = Some d"
  using hex_values by simp

lemma read_unicode_ascii:
  assumes "byte c < 0x80"
  shows "read_unicode (''00'' @ hex_char (byte c div 16) # hex_char (byte c mod 16) # s) = Some ([c], s)"
proof -
  have "hex_value (hex_char (byte c div 16)) = Some (byte c div 16)"
    and "hex_value (hex_char (byte c mod 16)) = Some (byte c mod 16)"
    using assms byte_nonneg [of c] by (auto intro!: hex_value_char)
  moreover have "hex_value (CHR ''0'') = Some 0" by code_simp
  ultimately have "read_hex4 (''00'' @ hex_char (byte c div 16) # hex_char (byte c mod 16) # s) = Some (byte c, s)"
    by simp
  with assms show ?thesis by (simp add: read_unicode_def utf8_encode_def)
qed

lemma append_single: "(@) [c] = (#) c"
  by (rule ext) simp

lemma read_string_escape:
  "read_string (CHR 0x5C # s) =
     (case read_escape s of None \<Rightarrow> None | Some (t, r) \<Rightarrow> map_option (apfst ((@) t)) (read_string r))"
  by (simp add: read_string.simps(2))

lemma read_string_char:
  assumes "c \<noteq> CHR 0x22" and "c \<noteq> CHR 0x5C" and "\<not> byte c < 0x20" and "byte c < 0x80"
  shows "read_string (c # s) = map_option (apfst ((#) c)) (read_string s)"
  using assms by (simp add: read_string.simps(2) rune_width_ascii append_single)

declare read_string.simps(2) [simp del]

lemma read_string_end: "read_string (CHR 0x22 # s) = Some ([], s)"
  by (simp add: read_string.simps(2))

lemma read_quote_char:
  assumes "byte c < 0x80"
  shows "read_string (quote_char c @ s) = map_option (apfst ((#) c)) (read_string s)"
proof -
  let ?u = "CHR 0x5C # CHR ''u'' # ''00'' @ [hex_char (byte c div 16), hex_char (byte c mod 16)]"
  let ?short = "{CHR 0x08, CHR 0x0C, CHR 0x0A, CHR 0x0D, CHR 0x09}"
  let ?escaped = "byte c < 0x20 \<or> c = CHR ''<'' \<or> c = CHR ''>'' \<or> c = CHR ''&''"
  show ?thesis
  proof (cases "c = CHR 0x22 \<or> c = CHR 0x5C")
    case True
    then have "quote_char c = [CHR 0x5C, c]" by (simp add: quote_char_def)
    with True show ?thesis by (auto simp: read_string_escape append_single)
  next
    case quote: False
    show ?thesis
    proof (cases "c \<in> ?short")
      case True
      then show ?thesis by (auto simp: quote_char_def read_string_escape append_single)
    next
      case short: False
      show ?thesis
      proof (cases "?escaped")
        case True
        then have "quote_char c = ?u" using quote short by (simp add: quote_char_def)
        with read_unicode_ascii [OF assms, of s] show ?thesis by (simp add: read_string_escape append_single)
      next
        case False
        then have "quote_char c = [c]" using quote short by (simp add: quote_char_def)
        with quote False assms show ?thesis by (simp add: read_string_char)
      qed
    qed
  qed
qed

lemma read_string_quote: "ascii s \<Longrightarrow> read_string (quote_chars s @ CHR 0x22 # rest) = Some (s, rest)"
proof (induction s)
  case (Cons c s)
  then have "byte c < 0x80" and "ascii s" by (simp_all add: ascii_def)
  then show ?case
    using Cons.IH by (simp add: quote_chars_ascii read_quote_char del: quote_chars.simps(2))
qed (simp add: read_string_end)

subsection \<open>Numbers\<close>

definition ends_number :: "string \<Rightarrow> bool" where
  "ends_number rest \<longleftrightarrow> (case rest of [] \<Rightarrow> True | c # _ \<Rightarrow> c = CHR '','' \<or> c = CHR '']'' \<or> c = CHR ''}'')"

lemma digit_chars: "\<forall>d \<in> set [0..<10]. is_digit (digit_char d) \<and> byte (digit_char d) = 48 + int d \<and>
    (digit_char d = CHR ''0'' \<longleftrightarrow> d = 0)"
  by code_simp

lemma digit_char_props:
  "d < 10 \<Longrightarrow> is_digit (digit_char d) \<and> byte (digit_char d) = 48 + int d \<and> (digit_char d = CHR ''0'' \<longleftrightarrow> d = 0)"
  using digit_chars by simp

lemma nat_text_digits:
  "list_all is_digit (nat_text n) \<and> digits_value (nat_text n) = int n \<and> (hd (nat_text n) = CHR ''0'' \<longleftrightarrow> n = 0)"
proof (induction n rule: nat_text.induct)
  case (1 n)
  show ?case
  proof (cases "n < 10")
    case True
    with digit_char_props [of n] show ?thesis by (simp add: nat_text.simps [of n] digits_value_def)
  next
    case False
    with 1 have IH: "list_all is_digit (nat_text (n div 10))" "digits_value (nat_text (n div 10)) = int (n div 10)"
      "hd (nat_text (n div 10)) = CHR ''0'' \<longleftrightarrow> n div 10 = 0"
      by auto
    have "nat_text n = nat_text (n div 10) @ [digit_char (n mod 10)]" using False by (simp add: nat_text.simps [of n])
    moreover have "n div 10 \<noteq> 0" and "10 * int (n div 10) + int (n mod 10) = int n"
      using False by (simp_all add: div_eq_0_iff zdiv_int zmod_int)
    ultimately show ?thesis
      using IH digit_char_props [of "n mod 10"] False by (simp add: digits_value_def)
  qed
qed

lemma takeWhile_digits:
  assumes "list_all is_digit ds" and "ends_number rest"
  shows "takeWhile is_digit (ds @ rest) = ds \<and> dropWhile is_digit (ds @ rest) = rest"
proof -
  have "\<not> is_digit (CHR '','')" "\<not> is_digit (CHR '']'')" "\<not> is_digit (CHR ''}'')" by code_simp+
  then have "takeWhile is_digit rest = [] \<and> dropWhile is_digit rest = rest"
    using assms(2) by (cases rest) (auto simp: ends_number_def)
  with assms(1) show ?thesis
    by (simp add: list_all_iff takeWhile_append2 dropWhile_append2)
qed

lemma read_nat_text:
  assumes "ends_number rest"
  shows "read_integer_part (nat_text n @ rest) = Some (nat_text n, rest)"
proof -
  obtain c cs where digits: "nat_text n = c # cs" by (cases "nat_text n") auto
  have c: "is_digit c" "c = CHR ''0'' \<longleftrightarrow> n = 0" using nat_text_digits [of n] digits by auto
  show ?thesis
  proof (cases "n = 0")
    case True
    then have "nat_text n = [CHR ''0'']" by (simp add: nat_text.simps [of 0] digit_char_def)
    then show ?thesis by (simp add: read_integer_part_def)
  next
    case False
    have "read_digits (nat_text n @ rest) = (nat_text n, rest)"
      using takeWhile_digits [OF _ assms, of "nat_text n"] nat_text_digits [of n] by (simp add: read_digits_def)
    with False c digits show ?thesis by (simp add: read_integer_part_def)
  qed
qed

lemma read_int_text:
  assumes "ends_number rest"
  shows "read_number (int_text i @ rest) = Some (int_text i, rest)"
proof -
  have f: "read_fraction rest = Some ([], rest)" and e: "read_exponent rest = Some ([], rest)"
    using assms by (auto simp: read_fraction_def read_exponent_def ends_number_def split: list.splits)
  obtain c cs where digits: "nat_text (nat i) = c # cs" by (cases "nat_text (nat i)") auto
  have "c \<noteq> CHR ''-''" using nat_text_digits [of "nat i"] digits by (auto simp: is_digit_def less_eq_char_def)
  then show ?thesis
    using read_nat_text [OF assms, of "nat i"] read_nat_text [OF assms, of "nat (- i)"] f e digits
    by (simp add: read_number_def int_text_def)
qed

lemma parse_int_text:
  assumes "int64 i"
  shows "parse_int (int_text i) = Some i"
proof -
  obtain c cs where digits: "nat_text (nat i) = c # cs" by (cases "nat_text (nat i)") auto
  have "c \<noteq> CHR ''-''" using nat_text_digits [of "nat i"] digits by (auto simp: is_digit_def less_eq_char_def)
  with digits have "(case nat_text (nat i) of c # r \<Rightarrow> if c = CHR ''-'' then (True, r) else (False, nat_text (nat i))
      | [] \<Rightarrow> (False, nat_text (nat i))) = (False, nat_text (nat i))"
    by simp
  then show ?thesis
    using assms nat_text_digits [of "nat i"] nat_text_digits [of "nat (- i)"]
    by (simp add: parse_int_def int_text_def)
qed

subsection \<open>Values\<close>

text \<open>The values the program encodes: integers, ASCII strings, at most \<open>d\<close> levels of nesting.\<close>

fun printable :: "nat \<Rightarrow> json \<Rightarrow> bool" where
  "printable d JNull \<longleftrightarrow> True"
| "printable d (JBool b) \<longleftrightarrow> True"
| "printable d (JNumber lit) \<longleftrightarrow> (\<exists>i. lit = int_text i)"
| "printable d (JString s) \<longleftrightarrow> ascii s"
| "printable 0 (JArray js) \<longleftrightarrow> False"
| "printable (Suc d) (JArray js) \<longleftrightarrow> list_all (printable d) js"
| "printable 0 (JObject ms) \<longleftrightarrow> False"
| "printable (Suc d) (JObject ms) \<longleftrightarrow> list_all (\<lambda>(k, v). ascii k \<and> printable d v) ms"

definition json_head :: "char \<Rightarrow> bool" where
  "json_head c \<longleftrightarrow> \<not> is_space c \<and> c \<noteq> CHR '']'' \<and> c \<noteq> CHR ''}''"

lemma number_head: "\<exists>c r. int_text i = c # r \<and> (is_digit c \<or> c = CHR ''-'')"
  using nat_text_digits [of "nat i"] by (cases "nat_text (nat i)") (auto simp: int_text_def)

lemma number_char: "is_digit c \<or> c = CHR ''-'' \<Longrightarrow>
    json_head c \<and> c \<noteq> CHR 0x22 \<and> c \<noteq> CHR ''['' \<and> c \<noteq> CHR ''{'' \<and> c \<noteq> CHR ''t'' \<and> c \<noteq> CHR ''f'' \<and> c \<noteq> CHR ''n''"
  by (auto simp: json_head_def is_space_def is_digit_def less_eq_char_def)

lemma json_text_head: "printable d j \<Longrightarrow> \<exists>c r. json_text j = c # r \<and> json_head c"
  using number_char number_head
  by (cases j) (auto simp: json_quote_def json_head_def is_space_def, fastforce simp: json_head_def is_space_def)

lemma skip_space_head [simp]: "json_head c \<Longrightarrow> skip_space (c # s) = c # s"
  by (simp add: skip_space_def json_head_def)

lemma comma_join_Cons: "comma_join (t # ts) = t @ (if ts = [] then [] else CHR '','' # comma_join ts)"
  by (cases ts) simp_all

text \<open>What the induction shows of one value, of the elements of an array and of the members of an object.\<close>

definition reads_back :: "int \<Rightarrow> json \<Rightarrow> bool" where
  "reads_back k j \<longleftrightarrow> (\<forall>n rest. ends_number rest \<longrightarrow> 2 * length (json_text j @ rest) + 1 \<le> n \<longrightarrow>
     read_value n k (json_text j @ rest) = Some (j, rest))"

definition member_text :: "string \<times> json \<Rightarrow> string" where
  "member_text m = json_quote (fst m) @ CHR '':'' # json_text (snd m)"

lemma reads_backD:
  "reads_back k j \<Longrightarrow> ends_number rest \<Longrightarrow> 2 * length (json_text j @ rest) + 1 \<le> n \<Longrightarrow>
     read_value n k (json_text j @ rest) = Some (j, rest)"
  by (auto simp: reads_back_def)

lemma skip_separator [simp]:
  "skip_space (CHR '','' # s) = CHR '','' # s" "skip_space (CHR '']'' # s) = CHR '']'' # s"
  "skip_space (CHR ''}'' # s) = CHR ''}'' # s" "skip_space (CHR '':'' # s) = CHR '':'' # s"
  by (simp_all add: skip_space_def is_space_def)

lemma ends_number_separator [simp]:
  "ends_number []" "ends_number (CHR '','' # s)" "ends_number (CHR '']'' # s)" "ends_number (CHR ''}'' # s)"
  by (simp_all add: ends_number_def)

lemma read_elements_back:
  assumes "js \<noteq> []" and "\<And>j. j \<in> set js \<Longrightarrow> reads_back k j"
    and "2 * length (comma_join (map json_text js) @ CHR '']'' # rest) + 2 \<le> n"
  shows "read_elements n k (comma_join (map json_text js) @ CHR '']'' # rest) = Some (js, rest)"
  using assms
proof (induction js arbitrary: n)
  case (Cons j js)
  obtain m where n: "n = Suc m" using Cons.prems(3) by (cases n) auto
  have j: "reads_back k j" using Cons.prems(2) by simp
  show ?case
  proof (cases "js = []")
    case True
    then have "read_value m k (json_text j @ CHR '']'' # rest) = Some (j, CHR '']'' # rest)"
      using Cons.prems(3) n by (intro reads_backD [OF j]) auto
    then show ?thesis using True n by (simp add: read_elements.simps(2))
  next
    case False
    let ?more = "comma_join (map json_text js) @ CHR '']'' # rest"
    have whole: "comma_join (map json_text (j # js)) @ CHR '']'' # rest = json_text j @ CHR '','' # ?more"
      using False by (simp add: comma_join_Cons)
    have "read_value m k (json_text j @ CHR '','' # ?more) = Some (j, CHR '','' # ?more)"
      using Cons.prems(3) n unfolding whole by (intro reads_backD [OF j]) auto
    moreover have "read_elements m k ?more = Some (js, rest)"
      using Cons.prems(2,3) n unfolding whole by (intro Cons.IH [OF False]) auto
    ultimately show ?thesis unfolding whole n by (simp add: read_elements.simps(2))
  qed
qed simp

lemma read_members_back:
  assumes "ms \<noteq> []" and "\<And>m. m \<in> set ms \<Longrightarrow> ascii (fst m) \<and> reads_back k (snd m)"
    and "2 * length (comma_join (map member_text ms) @ CHR ''}'' # rest) + 2 \<le> n"
  shows "read_members n k (comma_join (map member_text ms) @ CHR ''}'' # rest) = Some (ms, rest)"
  using assms
proof (induction ms arbitrary: n)
  case (Cons p ms)
  obtain key v where p: "p = (key, v)" by (cases p)
  obtain m where n: "n = Suc m" using Cons.prems(3) by (cases n) auto
  have key: "ascii key" and v: "reads_back k v" using Cons.prems(2) [of p] p by auto
  have quote: "skip_space (CHR 0x22 # s) = CHR 0x22 # s" for s by (simp add: skip_space_def is_space_def)
  show ?case
  proof (cases "ms = []")
    case True
    then have "read_value m k (json_text v @ CHR ''}'' # rest) = Some (v, CHR ''}'' # rest)"
      using Cons.prems(3) n p by (intro reads_backD [OF v]) (auto simp: member_text_def)
    then show ?thesis
      using True n by (simp add: read_members.simps(2) member_text_def p json_quote_def quote read_string_quote [OF key])
  next
    case False
    let ?more = "comma_join (map member_text ms) @ CHR ''}'' # rest"
    have whole: "comma_join (map member_text (p # ms)) @ CHR ''}'' # rest =
        CHR 0x22 # quote_chars key @ CHR 0x22 # CHR '':'' # json_text v @ CHR '','' # ?more"
      using False by (simp add: comma_join_Cons member_text_def p json_quote_def)
    have "read_value m k (json_text v @ CHR '','' # ?more) = Some (v, CHR '','' # ?more)"
      using Cons.prems(3) n unfolding whole by (intro reads_backD [OF v]) auto
    moreover have "read_members m k ?more = Some (ms, rest)"
      using Cons.prems(2,3) n unfolding whole by (intro Cons.IH [OF False]) auto
    ultimately show ?thesis
      unfolding whole n by (simp add: read_members.simps(2) quote read_string_quote [OF key] p)
  qed
qed simp

lemma reads_backI:
  assumes "\<And>n rest. ends_number rest \<Longrightarrow> read_value (Suc n) k (json_text j @ rest) = Some (j, rest)"
  shows "reads_back k j"
  unfolding reads_back_def
proof (intro allI impI)
  fix n rest
  assume "ends_number rest" and "2 * length (json_text j @ rest) + 1 \<le> n"
  then show "read_value n k (json_text j @ rest) = Some (j, rest)" using assms by (cases n) auto
qed

lemma atoms_read_back: "reads_back k JNull" "reads_back k (JBool b)" "ascii s \<Longrightarrow> reads_back k (JString s)"
proof -
  have h: "json_head (CHR ''n'')" "json_head (CHR ''t'')" "json_head (CHR ''f'')" "json_head (CHR 0x22)"
    by (simp_all add: json_head_def is_space_def)
  show "reads_back k JNull" "reads_back k (JBool b)"
    by (rule reads_backI, simp add: read_value.simps(2) read_literal_def h)+
  assume "ascii s"
  then show "reads_back k (JString s)"
    by (intro reads_backI) (simp add: read_value.simps(2) json_quote_def read_string_quote h)
qed

lemma printable_reads_back: "printable d j \<Longrightarrow> k + int d \<le> max_depth \<Longrightarrow> reads_back k j"
proof (induction d j arbitrary: k rule: printable.induct)
  case (3 d lit)
  then obtain i where lit: "lit = int_text i" by auto
  obtain c r where c: "int_text i = c # r" "is_digit c \<or> c = CHR ''-''" using number_head by blast
  show ?case
    using read_int_text [of _ i] number_char [OF c(2)] c(1)
    by (intro reads_backI) (simp add: read_value.simps(2) lit)
next
  case (6 d js)
  show ?case unfolding reads_back_def
  proof (intro allI impI)
    fix n rest
    assume "ends_number rest" and n: "2 * length (json_text (JArray js) @ rest) + 1 \<le> n"
    then obtain m where m: "n = Suc m" by (cases n) auto
    have bracket: "skip_space (CHR ''['' # s) = CHR ''['' # s" for s by (simp add: skip_space_def is_space_def)
    have depth: "\<not> max_depth \<le> k" using "6.prems"(2) by simp
    show "read_value n k (json_text (JArray js) @ rest) = Some (JArray js, rest)"
    proof (cases js)
      case Nil
      then show ?thesis using depth m by (simp add: read_value.simps(2) bracket)
    next
      case (Cons j js')
      have "reads_back (k + 1) j'" if "j' \<in> set js" for j'
        using "6.IH" [OF that] "6.prems" that by (auto simp: list_all_iff)
      then have "read_elements m (k + 1) (comma_join (map json_text js) @ CHR '']'' # rest) = Some (js, rest)"
        using n m Cons by (intro read_elements_back) auto
      moreover obtain c r where "json_text j = c # r" "json_head c"
        using json_text_head [of d j] "6.prems"(1) Cons by auto
      ultimately show ?thesis
        using depth m Cons by (simp add: read_value.simps(2) bracket comma_join_Cons json_head_def)
    qed
  qed
next
  case (8 d ms)
  show ?case unfolding reads_back_def
  proof (intro allI impI)
    fix n rest
    assume "ends_number rest" and n: "2 * length (json_text (JObject ms) @ rest) + 1 \<le> n"
    then obtain m where m: "n = Suc m" by (cases n) auto
    have bracket: "skip_space (CHR ''{'' # s) = CHR ''{'' # s" "skip_space (CHR 0x22 # s) = CHR 0x22 # s" for s
      by (simp_all add: skip_space_def is_space_def)
    have depth: "\<not> max_depth \<le> k" using "8.prems"(2) by simp
    have "(\<lambda>(k, v). json_quote k @ CHR '':'' # json_text v) = member_text"
      by (auto simp: member_text_def)
    then have object: "json_text (JObject ms) @ rest = CHR ''{'' # comma_join (map member_text ms) @ CHR ''}'' # rest"
      by simp
    show "read_value n k (json_text (JObject ms) @ rest) = Some (JObject ms, rest)"
    proof (cases ms)
      case Nil
      then show ?thesis using depth m by (simp add: read_value.simps(2) bracket)
    next
      case (Cons p ms')
      have "ascii (fst p') \<and> reads_back (k + 1) (snd p')" if "p' \<in> set ms" for p'
        using "8.IH" [OF that, of "fst p'" "snd p'"] "8.prems" that by (auto simp: list_all_iff)
      then have members: "read_members m (k + 1) (comma_join (map member_text ms) @ CHR ''}'' # rest) = Some (ms, rest)"
        using n m Cons unfolding object by (intro read_members_back) auto
      obtain t where "comma_join (map member_text ms) = CHR 0x22 # t"
        by (simp add: Cons comma_join_Cons member_text_def json_quote_def)
      then show ?thesis
        using depth m members unfolding object by (simp add: read_value.simps(2) bracket)
    qed
  qed
qed (auto intro: atoms_read_back)

theorem unmarshal_json_text:
  assumes "printable d j" and "int d \<le> max_depth"
  shows "unmarshal_json (json_text j) = Some j"
proof -
  have "reads_back 0 j" using printable_reads_back [OF assms(1), of 0] assms(2) by simp
  then have "decode_next (json_text j) = Some (j, [])"
    using reads_backD [of 0 j "[]" "2 * length (json_text j) + 2"] by (simp add: decode_next_def)
  then show ?thesis by (simp add: unmarshal_json_def skip_space_def)
qed

end
