(* ===== verification/Listing.thy ===== *)
theory Listing
  imports SourceHttp
begin

section \<open>Scopes, object names and bounded listings\<close>

text \<open>
  What the Kubernetes and the Flux adapter have in common: the allowlist of scopes, the object
  names they publish, and a listing sorted by scope, kind and name and cut at a limit. The
  locale \<open>keyed_listing\<close> states what such a listing guarantees for any type of entries, and the
  locale \<open>bounded_source\<close> what a loop of requests guarantees for any kind of request; the adapters
  interpret both on their own definitions.
\<close>

subsection \<open>Scopes\<close>

record scope =
  scope_id :: string
  scope_namespace :: string

text \<open>\<open>^[a-z0-9](?:[a-z0-9-]{0,61}[a-z0-9])?$\<close>, the same pattern in every adapter.\<close>

definition namespace_pattern :: pattern where
  "namespace_pattern = label_pattern lower_digit_class lower_digit_hyphen_class 61 lower_digit_class"

lemma matches_namespace [pattern_simps]: "matches namespace_pattern v \<longleftrightarrow> valid_label 63 v"
  by (simp add: namespace_pattern_def matches_dns_label)

text \<open>
  The map from scope identifiers to namespaces, as an association list in the order of insertion.
  \<open>subject\<close> is the word the messages of the package start with.
\<close>

type_synonym scope_map = "(string \<times> string) list"

fun add_scopes :: "string \<Rightarrow> scope list \<Rightarrow> scope_map \<Rightarrow> string list \<Rightarrow> scope_map result" where
  "add_scopes subject [] m seen = Inr m"
| "add_scopes subject (s # ss) m seen =
     (case validate_identifier ''scope'' (scope_id s) of Some e \<Rightarrow> Inl e
      | None \<Rightarrow>
          if \<not> matches namespace_pattern (scope_namespace s)
            then Inl (ErrorText (subject @ '' namespace is invalid''))
          else if map_of m (scope_id s) \<noteq> None
            then Inl (ErrorText (subject @ '' scope identifier is duplicated''))
          else if scope_namespace s \<in> set seen
            then Inl (ErrorText (subject @ '' namespace is duplicated''))
          else add_scopes subject ss (m @ [(scope_id s, scope_namespace s)]) (scope_namespace s # seen))"

definition build_scopes :: "string \<Rightarrow> scope list \<Rightarrow> scope_map result" where
  "build_scopes subject scopes =
     (if scopes = [] \<or> max_targets < int (length scopes)
      then Inl (ErrorText (subject @ '' target must have from 1 to 32 scopes''))
      else add_scopes subject scopes [] [])"

text \<open>
  The scopes an observation reads: the named one, or all of them by identifier. Go iterates over
  the map in any order before it sorts; the keys are distinct, so the order does not matter.
\<close>

definition select_scopes :: "go_error \<Rightarrow> scope_map \<Rightarrow> string \<Rightarrow> scope list result" where
  "select_scopes unknown m sid =
     (if sid \<noteq> [] then
        (case map_of m sid of None \<Rightarrow> Inl unknown
         | Some namespace \<Rightarrow> Inr [\<lparr>scope_id = sid, scope_namespace = namespace\<rparr>])
      else Inr (sort_func (compare_by scope_id)
        (map (\<lambda>(i, namespace). \<lparr>scope_id = i, scope_namespace = namespace\<rparr>) m)))"

definition scope_entry :: "string \<times> string \<Rightarrow> bool" where
  "scope_entry e \<longleftrightarrow> valid_identifier (fst e) \<and> valid_label 63 (snd e)"

definition scopes_inv :: "scope_map \<Rightarrow> bool" where
  "scopes_inv m \<longleftrightarrow>
     m \<noteq> [] \<and> length m \<le> 32 \<and> distinct (map fst m) \<and> distinct (map snd m) \<and> list_all scope_entry m"

definition scope_ok :: "scope_map \<Rightarrow> scope \<Rightarrow> bool" where
  "scope_ok m s \<longleftrightarrow> (scope_id s, scope_namespace s) \<in> set m"

lemma add_scopes_Inr:
  assumes "add_scopes subject ss m seen = Inr m'" and "distinct (map fst m)" and "distinct (map snd m)"
    and "set (map snd m) \<subseteq> set seen" and "list_all scope_entry m"
  shows "m' = m @ map (\<lambda>s. (scope_id s, scope_namespace s)) ss \<and>
    distinct (map fst m') \<and> distinct (map snd m') \<and> list_all scope_entry m'"
  using assms
proof (induction ss arbitrary: m seen)
  case (Cons s ss)
  have v: "valid_identifier (scope_id s)" and n: "valid_label 63 (scope_namespace s)"
    and k: "scope_id s \<notin> fst ` set m" and f: "scope_namespace s \<notin> set seen"
    and rest: "add_scopes subject ss (m @ [(scope_id s, scope_namespace s)]) (scope_namespace s # seen) = Inr m'"
    using Cons.prems(1)
    by (auto simp: pattern_simps validate_identifier_eq map_of_eq_None_iff split: if_splits option.splits)
  show ?case
    using Cons.IH [OF rest] Cons.prems v n k f by (auto simp: scope_entry_def)
qed simp

lemma build_scopes_Inr:
  assumes "build_scopes subject scopes = Inr m"
  shows "scopes_inv m \<and> m = map (\<lambda>s. (scope_id s, scope_namespace s)) scopes"
proof -
  have s: "scopes \<noteq> []" "int (length scopes) \<le> 32" and a: "add_scopes subject scopes [] [] = Inr m"
    using assms by (auto simp: build_scopes_def max_targets_def split: if_splits)
  from add_scopes_Inr [OF a] s show ?thesis by (auto simp: scopes_inv_def)
qed

lemma select_scopes_Inr:
  assumes "select_scopes unknown m sid = Inr scopes" and "scopes_inv m"
  shows "list_all (scope_ok m) scopes \<and> scopes \<noteq> [] \<and> length scopes \<le> 32 \<and>
    sorted_wrt (<) (map scope_id scopes) \<and>
    set scopes = {s. scope_ok m s \<and> (sid = [] \<or> scope_id s = sid)}"
proof (cases "sid = []")
  case True
  let ?ss = "map (\<lambda>(i, namespace). \<lparr>scope_id = i, scope_namespace = namespace\<rparr>) m"
  have scopes: "scopes = sort_func (compare_by scope_id) ?ss"
    using assms(1) True by (simp add: select_scopes_def)
  have ids: "map scope_id ?ss = map fst m" by (simp add: comp_def case_prod_beta)
  have "mset (map scope_id scopes) = mset (map scope_id ?ss)"
    unfolding scopes mset_map mset_sort_func ..
  then have perm: "mset (map scope_id scopes) = mset (map fst m)" by (simp only: ids)
  have "sorted (map scope_id scopes)" by (simp add: scopes sort_by_key_sorted)
  moreover have "distinct (map scope_id scopes)"
    using perm assms(2) mset_eq_imp_distinct_iff [of "map scope_id scopes" "map fst m"] by (simp add: scopes_inv_def)
  moreover have "set scopes = {s. scope_ok m s}"
    by (force simp: scopes scope_ok_def image_iff)
  moreover have "length scopes = length m" by (simp add: scopes)
  ultimately show ?thesis
    using assms(2) True by (auto simp: strict_sorted_iff list_all_iff scopes_inv_def)
next
  case False
  then obtain ns where ns: "map_of m sid = Some ns" and scopes: "scopes = [\<lparr>scope_id = sid, scope_namespace = ns\<rparr>]"
    using assms(1) by (auto simp: select_scopes_def split: option.splits)
  have "(sid, n) \<in> set m \<longleftrightarrow> n = ns" for n
  proof -
    have "distinct (map fst m)" using assms(2) by (simp add: scopes_inv_def)
    from map_of_eq_Some_iff [OF this, of sid n] show ?thesis unfolding ns by blast
  qed
  then have "scope_ok m s \<and> scope_id s = sid \<longleftrightarrow> s = \<lparr>scope_id = sid, scope_namespace = ns\<rparr>" for s
    by (cases s) (auto simp: scope_ok_def)
  with False scopes show ?thesis by (auto simp: list_all_iff)
qed

lemma scope_ok_valid: "scope_ok m s \<Longrightarrow> scopes_inv m \<Longrightarrow> valid_identifier (scope_id s) \<and> valid_label 63 (scope_namespace s)"
  by (force simp: scope_ok_def scopes_inv_def list_all_iff scope_entry_def)

subsection \<open>Object names\<close>

definition valid_object_name :: "string \<Rightarrow> bool" where
  "valid_object_name name \<longleftrightarrow>
     \<not> (length name = 0 \<or> 253 < length name) \<and>
     list_all (matches namespace_pattern) (split_on CHR ''.'' name)"

lemma valid_object_name_chars:
  assumes "valid_object_name name"
  shows "list_all (\<lambda>c. label_char c \<or> c = CHR ''.'') name \<and> length name \<le> 253"
proof -
  have "\<forall>p \<in> set (split_on CHR ''.'' name). list_all label_char p"
    using assms by (auto simp: valid_object_name_def pattern_simps valid_label_def list_all_iff)
  then show ?thesis
    using set_split_on [of name "CHR ''.''"] assms by (fastforce simp: valid_object_name_def list_all_iff)
qed

lemma valid_object_name_plain:
  assumes "valid_object_name name"
  shows "list_all plain_char name \<and> length name \<le> 253 \<and> nul_free name"
proof -
  have "plain_char (CHR ''.'')" by (simp add: plain_char_iff byte_def)
  with valid_object_name_chars [OF assms] show ?thesis
    by (auto simp: list_all_iff nul_free_def dest: label_char_plain label_char_not_nul)
qed

subsection \<open>Sorted and bounded listings\<close>

text \<open>The composed sort key and the cut at the limit.\<close>

definition listing_key :: "('a \<Rightarrow> string) \<Rightarrow> ('a \<Rightarrow> string) \<Rightarrow> ('a \<Rightarrow> string) \<Rightarrow> 'a \<Rightarrow> string" where
  "listing_key scope kind name x = nul_join (scope x) (nul_join (kind x) (name x))"

definition truncate_list :: "int \<Rightarrow> 'a list \<Rightarrow> bool \<Rightarrow> 'a list \<times> bool" where
  "truncate_list limit xs t = (if limit < int (length xs) then (take (nat limit) xs, True) else (xs, t))"

text \<open>
  What cutting a sorted list guarantees, for any comparison: the result is sorted and within the
  limit, the flag says exactly whether something is missing, and everything missing sorts after
  everything kept.
\<close>

definition best_first :: "('a \<Rightarrow> 'a \<Rightarrow> int) \<Rightarrow> int \<Rightarrow> 'a list \<Rightarrow> bool \<Rightarrow> 'a list \<times> bool \<Rightarrow> bool" where
  "best_first cmp limit xs t out \<longleftrightarrow>
     int (length (fst out)) \<le> limit \<and> sorted_wrt (\<lambda>a b. cmp a b \<le> 0) (fst out) \<and>
     mset (fst out) \<subseteq># mset xs \<and> (snd out \<longleftrightarrow> t \<or> limit < int (length xs)) \<and>
     (limit < int (length xs) \<or> mset (fst out) = mset xs) \<and>
     (\<forall>x \<in># mset xs - mset (fst out). \<forall>y \<in> set (fst out). cmp y x \<le> 0)"

lemma sorted_wrt_take_drop:
  assumes "sorted_wrt P xs"
  shows "\<forall>y \<in> set (take n xs). \<forall>x \<in> set (drop n xs). P y x"
  using assms sorted_wrt_append [of P "take n xs" "drop n xs"] by simp

lemma truncate_best_first:
  assumes "comparison cmp" and "0 \<le> limit"
  shows "best_first cmp limit xs t (truncate_list limit (sort_func cmp xs) t)"
proof -
  let ?s = "sort_func cmp xs"
  have sorted: "sorted_wrt (\<lambda>a b. cmp a b \<le> 0) ?s" using assms(1) by (rule comparison.sort_sorted)
  have split: "mset xs = mset (take (nat limit) ?s) + mset (drop (nat limit) ?s)"
    by (metis append_take_drop_id mset_append mset_sort_func)
  show ?thesis
  proof (cases "limit < int (length xs)")
    case True
    have "mset xs - mset (take (nat limit) ?s) = mset (drop (nat limit) ?s)"
      using split by simp
    moreover have "sorted_wrt (\<lambda>a b. cmp a b \<le> 0) (take (nat limit) ?s)"
      using sorted by (metis append_take_drop_id sorted_wrt_append)
    ultimately show ?thesis
      using True assms(2) split sorted_wrt_take_drop [OF sorted, of "nat limit"]
      by (auto simp: best_first_def truncate_list_def)
  next
    case False
    then show ?thesis using sorted by (simp add: best_first_def truncate_list_def)
  qed
qed

lemma best_first_subset: "best_first cmp limit xs t (ys, t') \<Longrightarrow> set ys \<subseteq> set xs"
  using set_mset_mono [of "mset ys" "mset xs"] by (simp add: best_first_def)

text \<open>An untruncated listing is complete.\<close>

lemma best_first_complete: "best_first cmp limit xs t (ys, False) \<Longrightarrow> \<not> t \<and> mset ys = mset xs"
  by (auto simp: best_first_def)

locale keyed_listing =
  fixes scope kind name :: "'a \<Rightarrow> string"
  assumes kind_nul_free: "nul_free (kind x)"
begin

text \<open>Comparing composed keys compares scope, kind and name in this order.\<close>

lemma key_less:
  assumes "nul_free (scope a)" and "nul_free (scope b)"
  shows "listing_key scope kind name a < listing_key scope kind name b \<longleftrightarrow>
    scope a < scope b \<or> scope a = scope b \<and>
      (kind a < kind b \<or> kind a = kind b \<and> name a < name b)"
  using assms kind_nul_free by (simp add: listing_key_def nul_join_less)

lemma key_le:
  assumes "nul_free (scope a)" and "nul_free (scope b)"
  shows "listing_key scope kind name a \<le> listing_key scope kind name b \<longleftrightarrow>
    scope a < scope b \<or> scope a = scope b \<and>
      (kind a < kind b \<or> kind a = kind b \<and> name a \<le> name b)"
proof -
  have "x \<le> y \<longleftrightarrow> \<not> y < x" for x y :: string by (rule linorder_not_less [symmetric])
  then show ?thesis
    using key_less [OF assms(2,1)] less_linear [of "scope a" "scope b"] less_linear [of "kind a" "kind b"]
    by (metis less_asym)
qed

lemma key_inj:
  assumes "nul_free (scope a)" and "nul_free (name a)"
    and "listing_key scope kind name a = listing_key scope kind name b"
  shows "scope a = scope b \<and> kind a = kind b \<and> name a = name b"
proof -
  have "nul_join (scope a) (nul_join (kind a) (name a)) = nul_join (scope b) (nul_join (kind b) (name b))"
    using assms(3) by (simp add: listing_key_def)
  moreover have "count_list (nul_join (scope a) (nul_join (kind a) (name a))) (CHR 0x00) = 2"
    using assms(1,2) kind_nul_free [of a] by (simp add: nul_join_def nul_free_def count_notin)
  ultimately have "count_list (nul_join (scope b) (nul_join (kind b) (name b))) (CHR 0x00) = 2" by simp
  then have "nul_free (scope b)"
    using kind_nul_free [of b] by (simp add: nul_join_def nul_free_def count_notin flip: count_list_0_iff)
  then have sorted: "\<not> listing_key scope kind name a < listing_key scope kind name b"
    "\<not> listing_key scope kind name b < listing_key scope kind name a"
    using assms(3) by auto
  with key_less assms(1) \<open>nul_free (scope b)\<close> show ?thesis by (metis linorder_less_linear)
qed

text \<open>The listing of the adapters.\<close>

theorem listing:
  assumes "0 \<le> limit"
  shows "best_first (compare_by (listing_key scope kind name)) limit xs t
    (truncate_list limit (sort_func (compare_by (listing_key scope kind name)) xs) t)"
  by (rule truncate_best_first [OF by_key.comparison_axioms assms])

lemma listing_sorted:
  assumes "best_first (compare_by (listing_key scope kind name)) limit xs t (ys, t')"
    and "\<forall>x \<in> set xs. nul_free (scope x)"
  shows "sorted_wrt (\<lambda>a b. scope a < scope b \<or> scope a = scope b \<and>
      (kind a < kind b \<or> kind a = kind b \<and> name a \<le> name b)) ys"
proof (rule sorted_wrt_mono_rel)
  show "sorted_wrt (\<lambda>a b. compare_by (listing_key scope kind name) a b \<le> 0) ys"
    using assms(1) by (simp add: best_first_def)
next
  fix a b
  assume "a \<in> set ys" and "b \<in> set ys" and "compare_by (listing_key scope kind name) a b \<le> 0"
  moreover have "set ys \<subseteq> set xs"
    using assms(1) by (rule best_first_subset)
  ultimately show "scope a < scope b \<or> scope a = scope b \<and>
      (kind a < kind b \<or> kind a = kind b \<and> name a \<le> name b)"
    using assms(2) key_le [of a b] by auto
qed

end

subsection \<open>Loops of bounded requests\<close>

text \<open>The number of requests in a history.\<close>

definition requests :: "history \<Rightarrow> nat" where
  "requests h = length (filter (\<lambda>e. e \<noteq> TokenRead) h)"

lemma requests_append [simp]: "requests (h @ es) = requests h + requests es"
  by (simp add: requests_def)

lemma requests_simps [simp]:
  "requests [] = 0" "requests (TokenRead # es) = requests es" "requests (Sent r # es) = Suc (requests es)"
  by (simp_all add: requests_def)

text \<open>
  A client that keeps its invariant sends, for every query its adapter allows, at most one request,
  only requests of the allowed shape, and fails only with the documented errors. Then so does a
  whole loop over queries.
\<close>

locale bounded_source =
  fixes inv :: "'c \<Rightarrow> bool" and allowed :: "'c \<Rightarrow> 'q \<Rightarrow> bool" and fetch :: "'c \<Rightarrow> 'q \<Rightarrow> 'a io"
    and event_ok :: "'c \<Rightarrow> event \<Rightarrow> bool" and failure :: "go_error \<Rightarrow> bool"
  assumes fetch_emits: "inv c \<Longrightarrow> allowed c q \<Longrightarrow> emits (event_ok c) (fetch c q)"
    and fetch_requests: "inv c \<Longrightarrow> requests (snd (fetch c q h)) \<le> requests h + 1"
    and fetch_failure: "allowed c q \<Longrightarrow> fetch c q h = (Inl e, h') \<Longrightarrow> failure e"
begin

lemma collect_emits: "inv c \<Longrightarrow> list_all (allowed c) qs \<Longrightarrow> emits (event_ok c) (collect (fetch c) qs)"
  by (rule emits_collect) (auto simp: list_all_iff intro: fetch_emits)

lemma collect_requests:
  assumes "inv c"
  shows "requests (snd (collect (fetch c) qs h)) \<le> requests h + length qs"
proof (induction qs arbitrary: h)
  case (Cons q qs)
  have one: "requests (snd (fetch c q h)) \<le> requests h + 1" using assms by (rule fetch_requests)
  show ?case
  proof (cases "fetch c q h")
    case (Pair r h1)
    show ?thesis
    proof (cases r)
      case (Inl e)
      with Pair one show ?thesis by (simp add: io_defs)
    next
      case (Inr y)
      with Pair have "snd (collect (fetch c) (q # qs) h) = snd (collect (fetch c) qs h1)"
        by (auto simp: io_defs split: prod.split sum.split)
      with Cons.IH [of h1] Pair one show ?thesis by simp
    qed
  qed
qed (simp add: io_defs)

lemma collect_failure:
  "list_all (allowed c) qs \<Longrightarrow> collect (fetch c) qs h = (Inl e, h') \<Longrightarrow> failure e"
proof (induction qs arbitrary: h)
  case (Cons q qs)
  then show ?case
    by (auto simp: io_defs dest: fetch_failure split: prod.splits sum.splits)
qed (simp add: io_defs)

end

text \<open>What one request adds to the count, for any check of the token and any use of the reply.\<close>

lemma requests_request:
  assumes "\<not> hc_follow_redirects client"
  shows "requests (snd (io_bind (authorize credential valid err x)
    (\<lambda>a. io_bind (http_do client x (req a)) (\<lambda>reply. io_lift (f reply))) h)) \<le> requests h + 1"
  using assms
  by (auto simp: io_bind_def io_lift_def authorize_def http_do_def split: option.split)

lemma source_get_requests:
  assumes "source_client_inv c"
  shows "requests (snd (source_get lib w c path query h)) \<le> requests h + 1"
  unfolding source_get_def Let_def
  by (auto simp: io_fail_def split: option.split)
    (rule requests_request [of "src_http_client c", simplified], use assms in \<open>simp add: source_client_inv_def\<close>)

text \<open>A request followed by decoding what it returned.\<close>

lemma bind_lift_history: "snd (io_bind m (\<lambda>x. io_lift (g x)) h) = snd (m h)"
  by (auto simp: io_defs split: prod.split sum.split)

lemma bind_lift_Inl:
  "io_bind m (\<lambda>x. io_lift (g x)) h = (Inl e, h') \<Longrightarrow> m h = (Inl e, h') \<or> (\<exists>x. g x = Inl e)"
  by (auto simp: io_bind_Inl)

lemma invalid_source_response: "source_get_error (SourceHttpError InvalidSourceResponse)"
  by (simp add: source_get_error_def)

subsection \<open>One observation over many queries\<close>

text \<open>
  The shape both listings refine: read the clock, collect one page for every query, report on all
  of them, check the size of the report.
\<close>

definition observe_pages :: "clock \<Rightarrow> ('q \<Rightarrow> 'p io) \<Rightarrow> 'q list \<Rightarrow> (time \<Rightarrow> ('q \<times> 'p) list \<Rightarrow> 'o) \<Rightarrow>
    ('o \<Rightarrow> marshalled) \<Rightarrow> 'o io" where
  "observe_pages clock fetch qs report marshal =
     io_bind (io_now clock) (\<lambda>now.
     io_bind (collect fetch qs) (\<lambda>pages. io_lift (checked marshal (report now (zip qs pages)))))"

lemma observe_pages_Inr:
  "observe_pages clock fetch qs report marshal h = (Inr out, h') \<longleftrightarrow>
     (\<exists>pages. collect fetch qs h = (Inr pages, h') \<and> out = report (clock h) (zip qs pages) \<and>
        check_result_size (marshal out) = None)"
  by (auto simp: observe_pages_def io_bind_Inr checked_Inr)

lemma observe_pages_Inl:
  "observe_pages clock fetch qs report marshal h = (Inl e, h') \<longleftrightarrow>
     collect fetch qs h = (Inl e, h') \<or>
     (\<exists>pages. collect fetch qs h = (Inr pages, h') \<and>
        checked marshal (report (clock h) (zip qs pages)) = Inl e)"
  by (auto simp: observe_pages_def io_bind_Inl)

lemma observe_pages_history:
  "snd (observe_pages clock fetch qs report marshal h) = snd (collect fetch qs h)"
  by (auto simp: observe_pages_def io_defs split: prod.split sum.split)

lemma emits_observe_pages:
  "emits P (collect fetch qs) \<Longrightarrow> emits P (observe_pages clock fetch qs report marshal)"
  by (simp add: emits_def observe_pages_history)

lemma collect_Inr:
  "collect f qs h = (Inr ys, h') \<Longrightarrow> (q, y) \<in> set (zip qs ys) \<Longrightarrow> \<exists>h1 h2. f q h1 = (Inr y, h2)"
proof (induction qs arbitrary: h ys)
  case (Cons q1 qs)
  from Cons.prems(1) obtain y1 h1 ys' h2 where "f q1 h = (Inr y1, h1)"
    and ys': "collect f qs h1 = (Inr ys', h2)" and "h' = h2" "ys = y1 # ys'"
    by (auto simp: io_bind_Inr)
  with Cons.prems(2) Cons.IH [of h1 ys'] show ?case by auto
qed simp

subsection \<open>Clocks\<close>

text \<open>A clock that returns instants Go can encode, as \<open>time.Now\<close> does.\<close>

definition sane_clock :: "clock \<Rightarrow> bool" where
  "sane_clock clock \<longleftrightarrow> (\<forall>h. time_valid (clock h) \<and> time_encodable (clock h))"

end
