(* ===== verification/Kubernetes.thy ===== *)
theory Kubernetes
  imports Listing Catalog
begin

section \<open>The Kubernetes client (\<open>internal/kubernetes/types.go\<close>, \<open>client.go\<close>)\<close>

text \<open>
  The data decoded from the Kubernetes API, the validated client configuration and one bounded
  \<open>GET\<close>. The package has a request function of its own: it sets the list limit itself, does not
  look at the content type of the response, and keeps the redirect policy of the HTTP client it
  is given.
\<close>

subsection \<open>Data of the API\<close>

record list_metadata =
  lm_continue :: string

record object_metadata =
  om_name :: string

record condition =
  cond_type :: string
  cond_status :: string
  cond_reason :: string

record node_status =
  nst_conditions :: "condition list"

record node =
  node_status :: node_status

record node_list =
  nl_metadata :: list_metadata
  nl_items :: "node list"

record controller_spec =
  cs_replicas :: "int option"

record controller_status =
  cst_ready_replicas :: int
  cst_desired_number_scheduled :: int
  cst_number_ready :: int
  cst_conditions :: "condition list"

record controller =
  ctl_metadata :: object_metadata
  ctl_spec :: controller_spec
  ctl_status :: controller_status

record controller_list =
  cl_metadata :: list_metadata
  cl_items :: "controller list"

text \<open>Zero values\<close>

definition zero_condition :: condition where
  "zero_condition = \<lparr>cond_type = [], cond_status = [], cond_reason = []\<rparr>"

definition zero_node :: node where
  "zero_node = \<lparr>node_status = \<lparr>nst_conditions = []\<rparr>\<rparr>"

definition zero_node_list :: node_list where
  "zero_node_list = \<lparr>nl_metadata = \<lparr>lm_continue = []\<rparr>, nl_items = []\<rparr>"

definition zero_controller :: controller where
  "zero_controller =
     \<lparr>ctl_metadata = \<lparr>om_name = []\<rparr>, ctl_spec = \<lparr>cs_replicas = None\<rparr>,
      ctl_status = \<lparr>cst_ready_replicas = 0, cst_desired_number_scheduled = 0, cst_number_ready = 0,
        cst_conditions = []\<rparr>\<rparr>"

definition zero_controller_list :: controller_list where
  "zero_controller_list = \<lparr>cl_metadata = \<lparr>lm_continue = []\<rparr>, cl_items = []\<rparr>"

text \<open>Decoding by the struct tags; member names are compared after folding their case.\<close>

definition into_list_metadata :: "list_metadata decoder" where
  "into_list_metadata = into_struct (\<lambda>k.
     if k = ''continue'' then into_field lm_continue (\<lambda>v r. r\<lparr>lm_continue := v\<rparr>) into_string
     else skip_member)"

definition into_object_metadata :: "object_metadata decoder" where
  "into_object_metadata = into_struct (\<lambda>k.
     if k = ''name'' then into_field om_name (\<lambda>v r. r\<lparr>om_name := v\<rparr>) into_string
     else skip_member)"

definition into_condition :: "condition decoder" where
  "into_condition = into_struct (\<lambda>k.
     if k = ''type'' then into_field cond_type (\<lambda>v r. r\<lparr>cond_type := v\<rparr>) into_string
     else if k = ''status'' then into_field cond_status (\<lambda>v r. r\<lparr>cond_status := v\<rparr>) into_string
     else if k = ''reason'' then into_field cond_reason (\<lambda>v r. r\<lparr>cond_reason := v\<rparr>) into_string
     else skip_member)"

definition into_node_status :: "node_status decoder" where
  "into_node_status = into_struct (\<lambda>k.
     if k = ''conditions''
       then into_field nst_conditions (\<lambda>v r. r\<lparr>nst_conditions := v\<rparr>) (into_list zero_condition into_condition)
     else skip_member)"

definition into_node :: "node decoder" where
  "into_node = into_struct (\<lambda>k.
     if k = ''status'' then into_field node_status (\<lambda>v r. r\<lparr>node_status := v\<rparr>) into_node_status
     else skip_member)"

definition into_node_list :: "node_list decoder" where
  "into_node_list = into_struct (\<lambda>k.
     if k = ''metadata'' then into_field nl_metadata (\<lambda>v r. r\<lparr>nl_metadata := v\<rparr>) into_list_metadata
     else if k = ''items'' then into_field nl_items (\<lambda>v r. r\<lparr>nl_items := v\<rparr>) (into_list zero_node into_node)
     else skip_member)"

definition into_controller_spec :: "controller_spec decoder" where
  "into_controller_spec = into_struct (\<lambda>k.
     if k = ''replicas''
       then into_field cs_replicas (\<lambda>v r. r\<lparr>cs_replicas := v\<rparr>) (into_pointer 0 into_int)
     else skip_member)"

definition into_controller_status :: "controller_status decoder" where
  "into_controller_status = into_struct (\<lambda>k.
     if k = ''readyreplicas''
       then into_field cst_ready_replicas (\<lambda>v r. r\<lparr>cst_ready_replicas := v\<rparr>) into_int
     else if k = ''desirednumberscheduled''
       then into_field cst_desired_number_scheduled (\<lambda>v r. r\<lparr>cst_desired_number_scheduled := v\<rparr>) into_int
     else if k = ''numberready''
       then into_field cst_number_ready (\<lambda>v r. r\<lparr>cst_number_ready := v\<rparr>) into_int
     else if k = ''conditions''
       then into_field cst_conditions (\<lambda>v r. r\<lparr>cst_conditions := v\<rparr>) (into_list zero_condition into_condition)
     else skip_member)"

definition into_controller :: "controller decoder" where
  "into_controller = into_struct (\<lambda>k.
     if k = ''metadata'' then into_field ctl_metadata (\<lambda>v r. r\<lparr>ctl_metadata := v\<rparr>) into_object_metadata
     else if k = ''spec'' then into_field ctl_spec (\<lambda>v r. r\<lparr>ctl_spec := v\<rparr>) into_controller_spec
     else if k = ''status'' then into_field ctl_status (\<lambda>v r. r\<lparr>ctl_status := v\<rparr>) into_controller_status
     else skip_member)"

definition into_controller_list :: "controller_list decoder" where
  "into_controller_list = into_struct (\<lambda>k.
     if k = ''metadata'' then into_field cl_metadata (\<lambda>v r. r\<lparr>cl_metadata := v\<rparr>) into_list_metadata
     else if k = ''items''
       then into_field cl_items (\<lambda>v r. r\<lparr>cl_items := v\<rparr>) (into_list zero_controller into_controller)
     else skip_member)"

text \<open>The counts of a decoded controller are 64-bit integers, and lists are no longer than the text.\<close>

definition controller_int64 :: "controller \<Rightarrow> bool" where
  "controller_int64 c \<longleftrightarrow>
     pred_option int64 (cs_replicas (ctl_spec c)) \<and> int64 (cst_ready_replicas (ctl_status c)) \<and>
     int64 (cst_desired_number_scheduled (ctl_status c)) \<and> int64 (cst_number_ready (ctl_status c))"

lemma int64_0: "int64 0" "int64 1"
  by (simp_all add: int64_def)

lemma preserves_controller_spec:
  "preserves W (\<lambda>s. pred_option int64 (cs_replicas s)) into_controller_spec"
  unfolding into_controller_spec_def
  by (intro preserves_members)
    (rule preserves_field [OF preserves_pointer [OF preserves_int int64_0(1)]]; simp)

lemma preserves_controller_status:
  "preserves W (\<lambda>s. int64 (cst_ready_replicas s) \<and> int64 (cst_desired_number_scheduled s) \<and>
     int64 (cst_number_ready s)) into_controller_status"
  unfolding into_controller_status_def
  by (intro preserves_members)
    (rule preserves_field [OF preserves_int] preserves_other_field; simp)+

lemma preserves_controller: "preserves W controller_int64 into_controller"
  unfolding into_controller_def
  apply (intro preserves_members)
    apply (rule preserves_other_field, simp add: controller_int64_def)
   apply (rule preserves_field [OF preserves_controller_spec]; simp add: controller_int64_def)
  apply (rule preserves_field [OF preserves_controller_status]; simp add: controller_int64_def)
  done

lemma preserves_controller_list:
  "preserves W (\<lambda>l. list_all controller_int64 (cl_items l) \<and> length (cl_items l) \<le> W) into_controller_list"
  unfolding into_controller_list_def
  apply (intro preserves_members)
   apply (rule preserves_other_field, simp)
  apply (rule preserves_field [OF preserves_list [OF preserves_controller]];
    simp add: controller_int64_def zero_controller_def int64_0)
  done

lemma preserves_node_list: "preserves W (\<lambda>l. length (nl_items l) \<le> W) into_node_list"
  unfolding into_node_list_def
  apply (intro preserves_members)
   apply (rule preserves_other_field, simp)
  apply (rule preserves_field [OF preserves_list [OF preserves_true]]; simp add: list_all_iff)
  done

subsection \<open>Configuration\<close>

definition resource_list_limit :: string where
  "resource_list_limit = ''500''"

record kubernetes_config =
  kcfg_target_id :: string
  kcfg_base_url :: string
  kcfg_credential :: bool
  kcfg_scopes :: "scope list"
  kcfg_http_client :: "http_client option"
  kcfg_request_timeout :: int

record kubernetes_client =
  kube_target_id :: string
  kube_base_url :: url
  kube_credential :: bool
  kube_scopes :: scope_map
  kube_http_client :: http_client
  kube_request_timeout :: int

definition kubernetes_new :: "stdlib \<Rightarrow> kubernetes_config \<Rightarrow> kubernetes_client result" where
  "kubernetes_new lib cfg =
     (case validate_identifier ''target'' (kcfg_target_id cfg) of Some e \<Rightarrow> Inl e
      | None \<Rightarrow>
        (case lib_parse_url lib (kcfg_base_url cfg) of
           None \<Rightarrow> Inl (ErrorText ''Kubernetes base URL must be an HTTPS origin'')
         | Some u \<Rightarrow>
             if \<not> https_origin u then Inl (ErrorText ''Kubernetes base URL must be an HTTPS origin'')
             else result_bind (build_scopes ''Kubernetes'' (kcfg_scopes cfg)) (\<lambda>scopes.
               let client = (case kcfg_http_client cfg of None \<Rightarrow> \<lparr>hc_follow_redirects = True\<rparr> | Some c \<Rightarrow> c);
                   timeout = (if kcfg_request_timeout cfg = 0 then default_request_timeout
                              else kcfg_request_timeout cfg)
               in if timeout < millisecond \<or> 30 * second < timeout
                    then Inl (ErrorText ''Kubernetes request timeout must be from 1ms to 30s'')
                  else Inr \<lparr>kube_target_id = kcfg_target_id cfg, kube_base_url = u,
                         kube_credential = kcfg_credential cfg, kube_scopes = scopes,
                         kube_http_client = client, kube_request_timeout = timeout\<rparr>)))"

definition kubernetes_target :: "kubernetes_client \<Rightarrow> target" where
  "kubernetes_target c =
     \<lparr>target_id = kube_target_id c, target_kind = target_kind_kubernetes,
      target_capabilities = [capability_kubernetes_cluster_health, capability_kubernetes_unhealthy_workloads]\<rparr>"

definition kubernetes_selected_scopes :: "kubernetes_client \<Rightarrow> string \<Rightarrow> scope list result" where
  "kubernetes_selected_scopes c sid = select_scopes KubernetesUnknownScope (kube_scopes c) sid"

subsection \<open>One request\<close>

definition kubernetes_context_error :: "go_error \<Rightarrow> go_error" where
  "kubernetes_context_error e =
     (if error_is e ContextDeadlineExceeded then KubernetesError SourceTimeout
      else if error_is e ContextCanceled then ContextCanceled
      else KubernetesError SourceUnavailable)"

definition kubernetes_valid_bearer_token :: "string \<Rightarrow> bool" where
  "kubernetes_valid_bearer_token token \<longleftrightarrow>
     token \<noteq> [] \<and> int (length token) \<le> max_bearer_token_bytes \<and>
     \<not> list_ex (\<lambda>c. c \<in> {CHR '' '', CHR 0x09, CHR 0x0D, CHR 0x0A}) token"

definition kubernetes_accept :: "http_reply \<Rightarrow> string result" where
  "kubernetes_accept reply =
     (case reply of
        DoFailed None \<Rightarrow> Inl (KubernetesError SourceUnavailable)
      | DoFailed (Some e) \<Rightarrow> Inl (kubernetes_context_error e)
      | Responded r \<Rightarrow>
          if resp_status r < 200 \<or> 300 \<le> resp_status r
            then Inl (Wrapped [] (KubernetesError SourceRejected) ('': status '' @ int_text (resp_status r)))
          else (case read_limited (max_source_response_bytes + 1) (resp_body r) of
            None \<Rightarrow> Inl (KubernetesError SourceUnavailable)
          | Some body \<Rightarrow>
              if max_source_response_bytes < int (length body)
                then Inl (KubernetesError InvalidSourceResponse)
              else Inr body))"

definition kubernetes_get :: "world \<Rightarrow> kubernetes_client \<Rightarrow> string \<Rightarrow> string io" where
  "kubernetes_get w c path h =
     (let raw_query = encode_query [(''limit'', [resource_list_limit])]; x = w h path raw_query in
      case ex_slot_done x of
        Some e \<Rightarrow> io_fail (kubernetes_context_error e) h
      | None \<Rightarrow>
          if \<not> ex_request_ok x then io_fail (KubernetesError SourceUnavailable) h
          else io_bind
            (authorize (kube_credential c) kubernetes_valid_bearer_token (KubernetesError CredentialUnavailable) x)
            (\<lambda>authorization. io_bind
               (http_do (kube_http_client c) x
                  \<lparr>req_method = ''GET'', req_scheme = url_scheme (kube_base_url c),
                   req_host = url_host (kube_base_url c), req_path = path, req_query = raw_query,
                   req_accept = ''application/json'', req_authorization = authorization\<rparr>)
               (\<lambda>reply. io_lift (kubernetes_accept reply))) h)"

subsection \<open>What a client and a request guarantee\<close>

text \<open>
  The invariant of every client \<open>kubernetes_new\<close> returns. Redirects are followed unless the HTTP
  client of the configuration refuses them; the runtime configuration always passes one that
  does (theory \<open>Config\<close>).
\<close>

definition kubernetes_client_inv :: "kubernetes_client \<Rightarrow> bool" where
  "kubernetes_client_inv c \<longleftrightarrow>
     valid_identifier (kube_target_id c) \<and> https_origin (kube_base_url c) \<and> scopes_inv (kube_scopes c) \<and>
     millisecond \<le> kube_request_timeout c \<and> kube_request_timeout c \<le> 30 * second"

definition kubernetes_strict_client :: "kubernetes_client \<Rightarrow> bool" where
  "kubernetes_strict_client c \<longleftrightarrow>
     kubernetes_client_inv c \<and> \<not> hc_follow_redirects (kube_http_client c)"

lemma kubernetes_new_inv:
  assumes "kubernetes_new lib cfg = Inr c"
  shows "kubernetes_client_inv c \<and> kube_http_client c =
    (case kcfg_http_client cfg of None \<Rightarrow> \<lparr>hc_follow_redirects = True\<rparr> | Some client \<Rightarrow> client) \<and>
    kube_target_id c = kcfg_target_id cfg \<and> kube_credential c = kcfg_credential cfg"
  using assms build_scopes_Inr [of "''Kubernetes''" "kcfg_scopes cfg"]
  by (auto simp: kubernetes_new_def kubernetes_client_inv_def Let_def validate_identifier_eq
      split: option.splits if_splits)

lemma kubernetes_target_valid: "kubernetes_client_inv c \<Longrightarrow> valid_target (kubernetes_target c)"
  by (simp add: kubernetes_client_inv_def valid_target_def kubernetes_target_def capability_matches_kind_def
      target_kind_defs capability_defs)

lemma kubernetes_valid_bearer_token_eq: "kubernetes_valid_bearer_token = valid_bearer_token"
  by (rule ext) (simp add: kubernetes_valid_bearer_token_def valid_bearer_token_def)

text \<open>The paths and the only query an adapter ever requests.\<close>

definition kubernetes_resource_path :: "scope_map \<Rightarrow> string \<Rightarrow> bool" where
  "kubernetes_resource_path m path \<longleftrightarrow>
     path = ''/api/v1/nodes'' \<or>
     (\<exists>s resource. scope_ok m s \<and> resource \<in> {''deployments'', ''statefulsets'', ''daemonsets''} \<and>
        path = ''/apis/apps/v1/namespaces/'' @ scope_namespace s @ ''/'' @ resource)"

definition kubernetes_event :: "kubernetes_client \<Rightarrow> event \<Rightarrow> bool" where
  "kubernetes_event c = request_event valid_bearer_token (kube_base_url c) (kube_credential c)
     (\<lambda>path query. kubernetes_resource_path (kube_scopes c) path \<and> query = ''limit=500'')"

lemma limit_query: "encode_query [(''limit'', [resource_list_limit])] = ''limit=500''"
  by code_simp

lemma emits_kubernetes_get:
  assumes "kubernetes_strict_client c" and "kubernetes_resource_path (kube_scopes c) path"
  shows "emits (kubernetes_event c) (kubernetes_get w c path)"
proof (rule emitsI)
  fix h
  let ?x = "w h path ''limit=500''"
  let ?req = "\<lambda>a. \<lparr>req_method = ''GET'', req_scheme = url_scheme (kube_base_url c),
                   req_host = url_host (kube_base_url c), req_path = path, req_query = ''limit=500'',
                   req_accept = ''application/json'', req_authorization = a\<rparr>"
  have "emits (kubernetes_event c) (io_bind
            (authorize (kube_credential c) valid_bearer_token (KubernetesError CredentialUnavailable) ?x)
            (\<lambda>a. io_bind (http_do (kube_http_client c) ?x (?req a)) (\<lambda>reply. io_lift (kubernetes_accept reply))))"
    by (rule emits_request)
      (use assms in \<open>auto simp: kubernetes_event_def request_event_def kubernetes_strict_client_def split: if_splits\<close>)
  from emitsD [OF this, of h]
  show "\<exists>es. snd (kubernetes_get w c path h) = h @ es \<and> list_all (kubernetes_event c) es"
    by (auto simp: kubernetes_get_def Let_def io_fail_def limit_query kubernetes_valid_bearer_token_eq
        split: option.split)
qed

lemma kubernetes_get_requests:
  assumes "kubernetes_strict_client c"
  shows "requests (snd (kubernetes_get w c path h)) \<le> requests h + 1"
  unfolding kubernetes_get_def Let_def
  by (auto simp: io_fail_def split: option.split)
    (rule requests_request [of "kube_http_client c", simplified],
      use assms in \<open>simp add: kubernetes_strict_client_def\<close>)

lemma kubernetes_accept_Inr:
  "kubernetes_accept reply = Inr body \<longleftrightarrow>
     (\<exists>r. reply = Responded r \<and> 200 \<le> resp_status r \<and> resp_status r < 300 \<and>
        \<not> stream_broken (resp_body r) \<and> body = stream_bytes (resp_body r) \<and>
        int (length body) \<le> max_source_response_bytes)"
  by (auto simp: kubernetes_accept_def read_limited_def max_source_response_bytes_def
      split: http_reply.splits option.splits if_splits)

text \<open>The errors of a request; none of them holds a text of the source.\<close>

definition kubernetes_get_error :: "go_error \<Rightarrow> bool" where
  "kubernetes_get_error e \<longleftrightarrow>
     e = ContextCanceled \<or>
     e \<in> KubernetesError ` {SourceUnavailable, SourceTimeout, CredentialUnavailable, InvalidSourceResponse} \<or>
     (\<exists>n. e = Wrapped [] (KubernetesError SourceRejected) ('': status '' @ int_text n))"

lemma kubernetes_context_error_cases: "kubernetes_get_error (kubernetes_context_error e)"
  by (simp add: kubernetes_get_error_def kubernetes_context_error_def)

lemma kubernetes_accept_Inl: "kubernetes_accept reply = Inl e \<Longrightarrow> kubernetes_get_error e"
  using kubernetes_context_error_cases
  by (auto simp: kubernetes_accept_def kubernetes_get_error_def
      split: http_reply.splits option.splits if_splits)

lemma kubernetes_get_Inl:
  assumes "kubernetes_get w c path h = (Inl e, h')"
  shows "kubernetes_get_error e"
proof -
  let ?x = "w h path (encode_query [(''limit'', [resource_list_limit])])"
  show ?thesis
  proof (cases "ex_slot_done ?x")
    case (Some d)
    with assms kubernetes_context_error_cases show ?thesis by (auto simp: kubernetes_get_def io_fail_def)
  next
    case None
    show ?thesis
    proof (cases "ex_request_ok ?x")
      case False
      with None assms show ?thesis
        by (auto simp: kubernetes_get_def io_fail_def kubernetes_get_error_def)
    next
      case True
      with None assms show ?thesis
        by (auto simp: kubernetes_get_def io_bind_def io_lift_def Let_def split: prod.splits sum.splits
            dest: kubernetes_accept_Inl authorize_Inl)
          (auto simp: kubernetes_get_error_def http_do_def dest: authorize_Inl split: option.splits if_splits)
    qed
  qed
qed

lemma kubernetes_get_Inr:
  assumes "kubernetes_get w c path h = (Inr body, h')"
  shows "int (length body) \<le> max_source_response_bytes"
  using assms
  by (auto simp: kubernetes_get_def io_bind_Inr Let_def io_fail_def kubernetes_accept_Inr
      split: option.splits if_splits)

end
