(* ===== verification/KubernetesObserve.thy ===== *)
theory KubernetesObserve
  imports Kubernetes
begin

section \<open>Kubernetes observations (\<open>internal/kubernetes/observe.go\<close>)\<close>

text \<open>
  The cluster health summary and the listing of unhealthy workloads. Both loop over the selected
  scopes and the fixed resources, one request each. The loops refine a collecting pass followed
  by a pure report over everything collected, and the properties are proved of the report.
\<close>

subsection \<open>Reading the API\<close>

record resource_kind =
  rk_name :: string
  rk_kind :: workload_kind

definition controller_resources :: "resource_kind list" where
  "controller_resources =
     [\<lparr>rk_name = ''deployments'', rk_kind = Deployment\<rparr>,
      \<lparr>rk_name = ''statefulsets'', rk_kind = StatefulSet\<rparr>,
      \<lparr>rk_name = ''daemonsets'', rk_kind = DaemonSet\<rparr>]"

definition list_nodes :: "world \<Rightarrow> kubernetes_client \<Rightarrow> (node_list \<times> bool) io" where
  "list_nodes w c =
     io_bind (io_map_error (\<lambda>e. Wrapped ''observe nodes: '' e []) (kubernetes_get w c ''/api/v1/nodes''))
       (\<lambda>body. io_lift
         (case unmarshal_json body of None \<Rightarrow> Inl (KubernetesError InvalidSourceResponse)
          | Some j \<Rightarrow>
              (case into_node_list j zero_node_list of None \<Rightarrow> Inl (KubernetesError InvalidSourceResponse)
               | Some l \<Rightarrow> Inr (l, lm_continue (nl_metadata l) \<noteq> []))))"

definition list_controllers ::
    "world \<Rightarrow> kubernetes_client \<Rightarrow> scope \<times> resource_kind \<Rightarrow> (controller_list \<times> bool) io" where
  "list_controllers w c q =
     (let (scope, resource) = q;
          path = ''/apis/apps/v1/namespaces/'' @ path_escape (scope_namespace scope) @ ''/'' @ rk_name resource
      in io_bind
           (io_map_error (\<lambda>e. Wrapped (''observe '' @ rk_name resource @ '': '') e []) (kubernetes_get w c path))
           (\<lambda>body. io_lift
             (case unmarshal_json body of None \<Rightarrow> Inl (KubernetesError InvalidSourceResponse)
              | Some j \<Rightarrow>
                  (case into_controller_list j zero_controller_list of
                     None \<Rightarrow> Inl (KubernetesError InvalidSourceResponse)
                   | Some l \<Rightarrow> Inr (l, lm_continue (cl_metadata l) \<noteq> [])))))"

subsection \<open>Health of one object\<close>

fun ready_condition :: "condition list \<Rightarrow> bool" where
  "ready_condition [] = False"
| "ready_condition (c # cs) =
     (if cond_type c = ''Ready'' then cond_status c = ''True'' else ready_condition cs)"

definition node_ready :: "node \<Rightarrow> bool" where
  "node_ready n = ready_condition (nst_conditions (node_status n))"

text \<open>The reasons found so far are also the set \<open>seen\<close> of the code.\<close>

definition add_reason :: "condition \<Rightarrow> workload_reason list \<Rightarrow> workload_reason list" where
  "add_reason c reasons =
     (if cond_reason c = [] then reasons
      else let reason = normalize_workload_reason (cond_reason c)
           in if reason \<in> set reasons then reasons else reasons @ [reason])"

definition controller_health :: "controller \<Rightarrow> workload_kind \<Rightarrow> bool \<times> int \<times> int \<times> workload_reason list" where
  "controller_health item kind =
     (let desired = (case cs_replicas (ctl_spec item) of None \<Rightarrow> 1 | Some n \<Rightarrow> n);
          ready = cst_ready_replicas (ctl_status item);
          (desired, ready) =
            (if kind = DaemonSet
             then (cst_desired_number_scheduled (ctl_status item), cst_number_ready (ctl_status item))
             else (desired, ready))
      in if desired \<le> ready then (True, ready, desired, [])
         else
           (let reasons = fold add_reason (cst_conditions (ctl_status item)) [];
                reasons = (if reasons = [] then [WorkloadReasonNotReady] else reasons)
            in (False, ready, desired, sort_func (compare_by (\<lambda>r. r)) reasons)))"

subsection \<open>Cluster health\<close>

definition observe_nodes :: "node list \<Rightarrow> cluster_health_output \<Rightarrow> cluster_health_output" where
  "observe_nodes items result =
     (let nodes = \<lparr>nodes_total = int (length items), nodes_ready = 0\<rparr>;
          nodes = fold (\<lambda>item n. if node_ready item then n\<lparr>nodes_ready := nodes_ready n + 1\<rparr> else n) items nodes;
          result = result\<lparr>cho_nodes := nodes\<rparr>
      in if nodes_ready nodes \<noteq> nodes_total nodes
         then result\<lparr>cho_status := HealthStatusDegraded,
                cho_warnings := cho_warnings result @
                  [\<lparr>hw_code = WarningNodesNotReady, hw_count = nodes_total nodes - nodes_ready nodes\<rparr>]\<rparr>
         else result)"

definition count_controller :: "workload_kind \<Rightarrow> controller \<Rightarrow> workload_summary \<Rightarrow> workload_summary" where
  "count_controller kind item s =
     (let s = s\<lparr>workloads_total := workloads_total s + 1\<rparr>;
          (ready, _, _, _) = controller_health item kind
      in if ready then s\<lparr>workloads_ready := workloads_ready s + 1\<rparr>
         else s\<lparr>workloads_unhealthy := workloads_unhealthy s + 1\<rparr>)"

definition count_controllers ::
    "scope \<times> resource_kind \<Rightarrow> controller_list \<times> bool \<Rightarrow> cluster_health_output \<times> bool \<Rightarrow>
     cluster_health_output \<times> bool" where
  "count_controllers q page s =
     (let (controllers, list_partial) = page; (result, partial) = s
      in (result\<lparr>cho_workloads :=
            fold (count_controller (rk_kind (snd q))) (cl_items controllers) (cho_workloads result)\<rparr>,
          partial \<or> list_partial))"

definition conclude_cluster_health :: "bool \<Rightarrow> cluster_health_output \<Rightarrow> cluster_health_output" where
  "conclude_cluster_health partial result =
     (let unhealthy = workloads_unhealthy (cho_workloads result);
          result =
            (if 0 < unhealthy
             then result\<lparr>cho_status := HealthStatusDegraded,
                    cho_warnings := cho_warnings result @
                      [\<lparr>hw_code = WarningWorkloadsNotReady, hw_count = unhealthy\<rparr>]\<rparr>
             else result)
      in if partial
         then result\<lparr>cho_partial := True, cho_status := HealthStatusUnknown,
                cho_warnings := cho_warnings result @
                  [\<lparr>hw_code = WarningPartialObservation, hw_count = 1\<rparr>]\<rparr>
         else result)"

definition cluster_health :: "world \<Rightarrow> clock \<Rightarrow> kubernetes_client \<Rightarrow> cluster_health_output io" where
  "cluster_health w clock c =
     io_bind (io_now clock) (\<lambda>now.
     io_bind (list_nodes w c) (\<lambda>(nodes, partial).
       let result = observe_nodes (nl_items nodes)
             \<lparr>cho_target = kube_target_id c, cho_observed_at = now, cho_status = HealthStatusHealthy,
              cho_nodes = \<lparr>nodes_total = 0, nodes_ready = 0\<rparr>,
              cho_workloads = \<lparr>workloads_total = 0, workloads_ready = 0, workloads_unhealthy = 0\<rparr>,
              cho_warnings = [], cho_partial = False\<rparr>
       in io_bind (io_lift (kubernetes_selected_scopes c [])) (\<lambda>scopes.
          io_bind
            (for_each (\<lambda>scope. for_each (\<lambda>resource s.
                io_bind (list_controllers w c (scope, resource))
                  (\<lambda>page. io_return (count_controllers (scope, resource) page s)))
              controller_resources) scopes (result, partial))
            (\<lambda>(result, partial).
              io_lift (checked marshal_cluster_health_output (conclude_cluster_health partial result))))))"

subsection \<open>Unhealthy workloads\<close>

definition add_workload :: "scope \<Rightarrow> workload_kind \<Rightarrow> controller \<Rightarrow>
    list_unhealthy_workloads_output \<Rightarrow> list_unhealthy_workloads_output" where
  "add_workload scope kind item result =
     (let (ready, ready_count, desired, reasons) = controller_health item kind
      in if ready then result
         else if \<not> valid_object_name (om_name (ctl_metadata item)) then result\<lparr>luwo_truncated := True\<rparr>
         else result\<lparr>luwo_workloads := luwo_workloads result @
                [\<lparr>wh_scope = scope_id scope, wh_kind = kind, wh_name = om_name (ctl_metadata item),
                  wh_ready = ready_count, wh_desired = desired, wh_reasons = reasons\<rparr>]\<rparr>)"

definition add_workloads ::
    "scope \<times> resource_kind \<Rightarrow> controller_list \<times> bool \<Rightarrow>
     list_unhealthy_workloads_output \<Rightarrow> list_unhealthy_workloads_output" where
  "add_workloads q page result =
     (let (controllers, partial) = page;
          result = result\<lparr>luwo_truncated := luwo_truncated result \<or> partial\<rparr>
      in fold (add_workload (fst q) (rk_kind (snd q))) (cl_items controllers) result)"

definition workload_kind_of :: "workload_health \<Rightarrow> string" where
  "workload_kind_of w = workload_kind_text (wh_kind w)"

definition workload_key :: "workload_health \<Rightarrow> string" where
  "workload_key = listing_key wh_scope workload_kind_of wh_name"

definition conclude_workloads :: "int \<Rightarrow> list_unhealthy_workloads_output \<Rightarrow> list_unhealthy_workloads_output" where
  "conclude_workloads limit result =
     (let (workloads, truncated) =
        truncate_list limit (sort_func (compare_by workload_key) (luwo_workloads result)) (luwo_truncated result)
      in result\<lparr>luwo_workloads := workloads, luwo_truncated := truncated\<rparr>)"

definition list_unhealthy_workloads ::
    "world \<Rightarrow> clock \<Rightarrow> kubernetes_client \<Rightarrow> list_unhealthy_workloads_input \<Rightarrow>
     list_unhealthy_workloads_output io" where
  "list_unhealthy_workloads w clock c inp =
     io_bind (io_lift (normalize_list_unhealthy_workloads_input inp)) (\<lambda>inp.
     if luw_target inp \<noteq> kube_target_id c
       then io_fail (ErrorText ''Kubernetes target is not configured'')
     else io_bind (io_lift (kubernetes_selected_scopes c (luw_scope inp))) (\<lambda>scopes.
       io_bind (io_now clock) (\<lambda>now.
       io_bind
         (for_each (\<lambda>scope. for_each (\<lambda>resource result.
             io_bind (list_controllers w c (scope, resource))
               (\<lambda>page. io_return (add_workloads (scope, resource) page result)))
           controller_resources) scopes
           \<lparr>luwo_target = kube_target_id c, luwo_observed_at = now, luwo_workloads = [],
            luwo_truncated = False\<rparr>)
         (\<lambda>result. io_lift
            (checked marshal_list_unhealthy_workloads_output (conclude_workloads (luw_limit inp) result))))))"

section \<open>What the observations guarantee\<close>

subsection \<open>Health of one controller\<close>

lemma node_ready_first:
  "ready_condition cs \<longleftrightarrow>
     (case find (\<lambda>c. cond_type c = ''Ready'') cs of None \<Rightarrow> False | Some c \<Rightarrow> cond_status c = ''True'')"
  by (induction cs) auto

lemma set_fold_add_reason:
  "set (fold add_reason cs reasons) =
     set reasons \<union> normalize_workload_reason ` {cond_reason c | c. c \<in> set cs \<and> cond_reason c \<noteq> []}"
proof (induction cs arbitrary: reasons)
  case (Cons c cs)
  have "set (add_reason c reasons) = set reasons \<union>
      (if cond_reason c = [] then {} else {normalize_workload_reason (cond_reason c)})"
    by (auto simp: add_reason_def Let_def)
  with Cons show ?case by auto
qed simp

lemma distinct_fold_add_reason: "distinct reasons \<Longrightarrow> distinct (fold add_reason cs reasons)"
  by (induction cs arbitrary: reasons) (auto simp: add_reason_def Let_def)

text \<open>The replicas a controller wants and has, and the reasons it gives.\<close>

definition desired_count :: "controller \<Rightarrow> workload_kind \<Rightarrow> int" where
  "desired_count item kind =
     (if kind = DaemonSet then cst_desired_number_scheduled (ctl_status item)
      else case cs_replicas (ctl_spec item) of None \<Rightarrow> 1 | Some n \<Rightarrow> n)"

definition ready_count :: "controller \<Rightarrow> workload_kind \<Rightarrow> int" where
  "ready_count item kind =
     (if kind = DaemonSet then cst_number_ready (ctl_status item) else cst_ready_replicas (ctl_status item))"

definition given_reasons :: "controller \<Rightarrow> workload_reason set" where
  "given_reasons item =
     normalize_workload_reason ` {cond_reason c | c. c \<in> set (cst_conditions (ctl_status item)) \<and> cond_reason c \<noteq> []}"

lemma controller_health_ready:
  "fst (controller_health item kind) \<longleftrightarrow> desired_count item kind \<le> ready_count item kind"
  by (auto simp: controller_health_def desired_count_def ready_count_def Let_def)

lemma controller_health_unready:
  assumes "controller_health item kind = (False, r, d, reasons)"
  shows "r = ready_count item kind \<and> d = desired_count item kind \<and> r < d \<and>
    sorted reasons \<and> distinct reasons \<and>
    set reasons = (if given_reasons item = {} then {WorkloadReasonNotReady} else given_reasons item)"
proof -
  let ?found = "fold add_reason (cst_conditions (ctl_status item)) []"
  let ?all = "if ?found = [] then [WorkloadReasonNotReady] else ?found"
  have reasons: "reasons = sort_func (compare_by (\<lambda>r. r)) ?all" and counts: "r = ready_count item kind"
    "d = desired_count item kind" "r < d"
    using assms
    by (auto simp: controller_health_def desired_count_def ready_count_def Let_def split: if_splits)
  have found: "set ?found = given_reasons item"
    by (simp add: set_fold_add_reason given_reasons_def)
  have "set ?all = (if given_reasons item = {} then {WorkloadReasonNotReady} else given_reasons item)"
    unfolding found [symmetric] set_empty by (cases "?found = []") simp_all
  moreover have "distinct ?all" by (simp add: distinct_fold_add_reason)
  moreover have "sorted reasons"
    using sort_by_key_sorted [of "\<lambda>r. r" ?all] by (simp add: reasons)
  ultimately show ?thesis using counts by (simp add: reasons)
qed

subsection \<open>The loops as collecting passes\<close>

type_synonym workload_page = "(scope \<times> resource_kind) \<times> (controller_list \<times> bool)"

definition controller_queries :: "scope list \<Rightarrow> (scope \<times> resource_kind) list" where
  "controller_queries scopes = List.product scopes controller_resources"

text \<open>Every listed controller, with the scope and kind it was listed under.\<close>

definition listed_controllers :: "workload_page list \<Rightarrow> (scope \<times> workload_kind \<times> controller) list" where
  "listed_controllers pages = [(fst q, rk_kind (snd q), item). (q, l, _) \<leftarrow> pages, item \<leftarrow> cl_items l]"

definition healthy :: "scope \<times> workload_kind \<times> controller \<Rightarrow> bool" where
  "healthy w = (case w of (_, kind, item) \<Rightarrow> desired_count item kind \<le> ready_count item kind)"

definition named :: "scope \<times> workload_kind \<times> controller \<Rightarrow> bool" where
  "named w = (case w of (_, _, item) \<Rightarrow> valid_object_name (om_name (ctl_metadata item)))"

definition page_partial :: "workload_page list \<Rightarrow> bool" where
  "page_partial pages \<longleftrightarrow> list_ex (\<lambda>(_, _, partial). partial) pages"

text \<open>The published form of an unhealthy controller.\<close>

definition workload_entry :: "scope \<times> workload_kind \<times> controller \<Rightarrow> workload_health" where
  "workload_entry w =
     (case w of (scope, kind, item) \<Rightarrow>
        \<lparr>wh_scope = scope_id scope, wh_kind = kind, wh_name = om_name (ctl_metadata item),
         wh_ready = ready_count item kind, wh_desired = desired_count item kind,
         wh_reasons = snd (snd (snd (controller_health item kind)))\<rparr>)"

definition unhealthy_entries :: "workload_page list \<Rightarrow> workload_health list" where
  "unhealthy_entries pages =
     map workload_entry (filter (\<lambda>w. \<not> healthy w \<and> named w) (listed_controllers pages))"

definition withheld :: "workload_page list \<Rightarrow> bool" where
  "withheld pages \<longleftrightarrow>
     page_partial pages \<or> list_ex (\<lambda>w. \<not> healthy w \<and> \<not> named w) (listed_controllers pages)"

text \<open>What the listing reports of everything listed, without any loop state.\<close>

definition workloads_report :: "string \<Rightarrow> time \<Rightarrow> int \<Rightarrow> workload_page list \<Rightarrow> list_unhealthy_workloads_output" where
  "workloads_report tid now limit pages =
     (let (workloads, truncated) =
        truncate_list limit (sort_func (compare_by workload_key) (unhealthy_entries pages)) (withheld pages)
      in \<lparr>luwo_target = tid, luwo_observed_at = now, luwo_workloads = workloads, luwo_truncated = truncated\<rparr>)"

lemma listed_controllers_simps [simp]:
  "listed_controllers [] = []"
  "listed_controllers ((q, l, p) # pages) =
     map (\<lambda>item. (fst q, rk_kind (snd q), item)) (cl_items l) @ listed_controllers pages"
  by (simp_all add: listed_controllers_def)

lemma add_workload_eq:
  "add_workload scope kind item result =
     (let w = (scope, kind, item) in
      if healthy w then result
      else if \<not> named w then result\<lparr>luwo_truncated := True\<rparr>
      else result\<lparr>luwo_workloads := luwo_workloads result @ [workload_entry w]\<rparr>)"
proof (cases "controller_health item kind")
  case (fields ready r d reasons)
  show ?thesis
  proof (cases ready)
    case True
    with fields controller_health_ready [of item kind] show ?thesis
      by (simp add: add_workload_def healthy_def)
  next
    case False
    with fields controller_health_ready [of item kind] controller_health_unready [of item kind r d reasons]
    show ?thesis
      by (simp add: add_workload_def healthy_def named_def workload_entry_def)
  qed
qed

lemma fold_add_workload:
  "fold (add_workload scope kind) items result =
     (let ws = map (\<lambda>item. (scope, kind, item)) items in
      result\<lparr>luwo_workloads := luwo_workloads result @ map workload_entry (filter (\<lambda>w. \<not> healthy w \<and> named w) ws),
        luwo_truncated := luwo_truncated result \<or> list_ex (\<lambda>w. \<not> healthy w \<and> \<not> named w) ws\<rparr>)"
proof (induction items arbitrary: result)
  case (Cons item items)
  then show ?case by (auto simp: add_workload_eq Let_def)
qed simp

lemma fold_add_workloads:
  "fold (\<lambda>(q, page). add_workloads q page) pages result =
     result\<lparr>luwo_workloads := luwo_workloads result @ unhealthy_entries pages,
       luwo_truncated := luwo_truncated result \<or> withheld pages\<rparr>"
proof (induction pages arbitrary: result)
  case (Cons entry pages)
  obtain q l p where entry: "entry = (q, l, p)" by (cases entry)
  let ?ws = "map (\<lambda>item. (fst q, rk_kind (snd q), item)) (cl_items l)"
  let ?out = "map workload_entry (filter (\<lambda>w. \<not> healthy w \<and> named w) ?ws)"
  let ?bad = "list_ex (\<lambda>w. \<not> healthy w \<and> \<not> named w) ?ws"
  have "add_workloads q (l, p) result = result\<lparr>luwo_workloads := luwo_workloads result @ ?out,
      luwo_truncated := luwo_truncated result \<or> p \<or> ?bad\<rparr>"
    by (simp add: add_workloads_def fold_add_workload Let_def)
  moreover have "unhealthy_entries (entry # pages) = ?out @ unhealthy_entries pages"
    by (simp add: unhealthy_entries_def entry)
  moreover have "withheld (entry # pages) \<longleftrightarrow> p \<or> ?bad \<or> withheld pages"
    by (auto simp: withheld_def page_partial_def entry simp del: list_ex_iff)
  ultimately show ?case by (simp add: Cons.IH entry disj_assoc del: list_ex_iff)
qed (simp add: unhealthy_entries_def withheld_def page_partial_def)

lemma conclude_workloads_report:
  "conclude_workloads limit (fold (\<lambda>(q, page). add_workloads q page) pages
      \<lparr>luwo_target = tid, luwo_observed_at = now, luwo_workloads = [], luwo_truncated = False\<rparr>) =
    workloads_report tid now limit pages"
  by (simp add: fold_add_workloads conclude_workloads_def workloads_report_def split: prod.split)

lemma list_unhealthy_workloads_accepted:
  assumes "normalize_list_unhealthy_workloads_input inp = Inr inp'" and "luw_target inp' = kube_target_id c"
    and "kubernetes_selected_scopes c (luw_scope inp') = Inr scopes"
  shows "list_unhealthy_workloads w clock c inp =
    io_bind (io_now clock) (\<lambda>now.
    io_bind (collect (list_controllers w c) (controller_queries scopes)) (\<lambda>pages.
      io_lift (checked marshal_list_unhealthy_workloads_output
        (workloads_report (kube_target_id c) now (luw_limit inp') (zip (controller_queries scopes) pages)))))"
  unfolding list_unhealthy_workloads_def assms(1) io_bind_lift
  using assms(2,3)
  by (simp add: nested_loop_collect io_bind_assoc conclude_workloads_report controller_queries_def)

subsection \<open>What the loops send and how they fail\<close>

definition kubernetes_failure :: "go_error \<Rightarrow> bool" where
  "kubernetes_failure e \<longleftrightarrow>
     e = KubernetesError InvalidSourceResponse \<or>
     (\<exists>name e'. name \<in> {''nodes'', ''deployments'', ''statefulsets'', ''daemonsets''} \<and>
        e = Wrapped (''observe '' @ name @ '': '') e' [] \<and> kubernetes_get_error e')"

definition controller_query :: "kubernetes_client \<Rightarrow> scope \<times> resource_kind \<Rightarrow> bool" where
  "controller_query c q \<longleftrightarrow> scope_ok (kube_scopes c) (fst q) \<and> snd q \<in> set controller_resources"

lemma emits_list_nodes: "kubernetes_strict_client c \<Longrightarrow> emits (kubernetes_event c) (list_nodes w c)"
  unfolding list_nodes_def
  by (intro emits_bind emits_map_error emits_kubernetes_get emits_lift)
    (simp_all add: kubernetes_resource_path_def)

lemma controller_query_path:
  assumes "kubernetes_client_inv c" and "controller_query c (s, r)"
  shows "kubernetes_resource_path (kube_scopes c)
    (''/apis/apps/v1/namespaces/'' @ path_escape (scope_namespace s) @ ''/'' @ rk_name r)"
proof -
  have ok: "scope_ok (kube_scopes c) s" and "r \<in> set controller_resources"
    using assms(2) by (auto simp: controller_query_def)
  then have "rk_name r \<in> {''deployments'', ''statefulsets'', ''daemonsets''}"
    by (auto simp: controller_resources_def)
  moreover have "path_escape (scope_namespace s) = scope_namespace s"
    using scope_ok_valid [OF ok] assms(1)
    by (intro path_escape_label) (simp add: kubernetes_client_inv_def valid_label_def)
  ultimately show ?thesis using ok by (auto simp: kubernetes_resource_path_def)
qed

lemma wrapped_Inl:
  "io_bind (io_map_error f m) (\<lambda>x. io_lift (g x)) h = (Inl e, h') \<Longrightarrow>
     (\<exists>e'. m h = (Inl e', h') \<and> e = f e') \<or> (\<exists>x. g x = Inl e)"
  by (auto simp: io_defs split: prod.splits sum.splits)

lemma kubernetes_failure_wrapped:
  "kubernetes_get_error e \<Longrightarrow> name \<in> {''nodes'', ''deployments'', ''statefulsets'', ''daemonsets''} \<Longrightarrow>
     kubernetes_failure (Wrapped (''observe '' @ name @ '': '') e [])"
  unfolding kubernetes_failure_def by blast

lemma kubernetes_failure_invalid: "kubernetes_failure (KubernetesError InvalidSourceResponse)"
  by (simp add: kubernetes_failure_def)

lemma list_nodes_Inl:
  assumes "list_nodes w c h = (Inl e, h')"
  shows "kubernetes_failure e"
  using wrapped_Inl [OF assms [unfolded list_nodes_def]]
proof (elim disjE exE conjE)
  fix e'
  assume "kubernetes_get w c ''/api/v1/nodes'' h = (Inl e', h')" and e: "e = Wrapped ''observe nodes: '' e' []"
  then have "kubernetes_get_error e'" by (intro kubernetes_get_Inl)
  from kubernetes_failure_wrapped [OF this, of "''nodes''"] show ?thesis by (simp add: e)
qed (auto intro: kubernetes_failure_invalid split: option.splits)

lemma list_controllers_Inl:
  assumes "controller_query c q" and "list_controllers w c q h = (Inl e, h')"
  shows "kubernetes_failure e"
proof -
  obtain s r where q: "q = (s, r)" by (cases q)
  have name: "rk_name r \<in> {''nodes'', ''deployments'', ''statefulsets'', ''daemonsets''}"
    using assms(1) by (auto simp: q controller_query_def controller_resources_def)
  from wrapped_Inl [OF assms(2) [unfolded list_controllers_def Let_def q prod.case]]
  show ?thesis
  proof (elim disjE exE conjE)
    fix e'
    assume "kubernetes_get w c
        (''/apis/apps/v1/namespaces/'' @ path_escape (scope_namespace s) @ ''/'' @ rk_name r) h = (Inl e', h')"
      and e: "e = Wrapped (''observe '' @ rk_name r @ '': '') e' []"
    then have "kubernetes_get_error e'" by (intro kubernetes_get_Inl)
    then show ?thesis unfolding e using name by (rule kubernetes_failure_wrapped)
  qed (auto intro: kubernetes_failure_invalid split: option.splits)
qed

lemma requests_bind_lift:
  "requests (snd (io_bind (io_map_error f m) (\<lambda>x. io_lift (g x)) h)) = requests (snd (m h))"
  by (auto simp: io_defs split: prod.split sum.split)

interpretation controller_source: bounded_source kubernetes_strict_client controller_query
    "list_controllers w" kubernetes_event kubernetes_failure for w
proof unfold_locales
  fix c q
  assume c: "kubernetes_strict_client c" and q: "controller_query c q"
  then show "emits (kubernetes_event c) (list_controllers w c q)"
    using controller_query_path [of c "fst q" "snd q"] unfolding list_controllers_def Let_def
    by (auto simp: kubernetes_strict_client_def case_prod_beta
        intro!: emits_bind emits_map_error emits_kubernetes_get)
next
  fix c q h
  assume "kubernetes_strict_client c"
  then show "requests (snd (list_controllers w c q h)) \<le> requests h + 1"
    unfolding list_controllers_def Let_def case_prod_beta requests_bind_lift
    by (rule kubernetes_get_requests)
next
  fix c q h e h'
  assume "controller_query c q" and "list_controllers w c q h = (Inl e, h')"
  then show "kubernetes_failure e" by (rule list_controllers_Inl)
qed

lemma kubernetes_selected_scopes_ok:
  assumes "kubernetes_client_inv c" and "kubernetes_selected_scopes c sid = Inr scopes"
  shows "list_all (controller_query c) (controller_queries scopes) \<and>
    length (controller_queries scopes) \<le> 96 \<and> list_all (scope_ok (kube_scopes c)) scopes"
proof -
  have "list_all (scope_ok (kube_scopes c)) scopes" and "length scopes \<le> 32"
    using assms select_scopes_Inr [of KubernetesUnknownScope "kube_scopes c" sid scopes]
    by (auto simp: kubernetes_client_inv_def kubernetes_selected_scopes_def)
  then show ?thesis
    by (auto simp: controller_queries_def list_all_iff controller_query_def length_product
        controller_resources_def)
qed

subsection \<open>The listing\<close>

interpretation workloads: keyed_listing wh_scope workload_kind_of wh_name
proof
  fix x
  show "nul_free (workload_kind_of x)"
    by (cases "wh_kind x") (simp_all add: workload_kind_of_def nul_free_def)
qed

definition page_ok :: "kubernetes_client \<Rightarrow> workload_page \<Rightarrow> bool" where
  "page_ok c page \<longleftrightarrow>
     (case page of (q, l, _) \<Rightarrow> controller_query c q \<and> list_all controller_int64 (cl_items l) \<and>
        int (length (cl_items l)) \<le> max_source_response_bytes)"

lemma list_controllers_Inr:
  assumes "list_controllers w c q h = (Inr (l, p), h')"
  shows "list_all controller_int64 (cl_items l) \<and> int (length (cl_items l)) \<le> max_source_response_bytes"
proof -
  obtain sc r where q: "q = (sc, r)" by (cases q)
  obtain path body h1 where body: "kubernetes_get w c path h = (Inr body, h1)"
    and rest: "(case unmarshal_json body of None \<Rightarrow> Inl (KubernetesError InvalidSourceResponse)
      | Some j \<Rightarrow> (case into_controller_list j zero_controller_list of
          None \<Rightarrow> Inl (KubernetesError InvalidSourceResponse)
        | Some l \<Rightarrow> Inr (l, lm_continue (cl_metadata l) \<noteq> []))) = Inr (l, p)"
    using assms unfolding list_controllers_def Let_def q prod.case io_bind_Inr io_map_error_Inr io_lift_Inr
    by blast
  then obtain j where j: "unmarshal_json body = Some j"
    and l: "into_controller_list j zero_controller_list = Some l"
    by (auto split: option.splits)
  have "int (length body) \<le> max_source_response_bytes" using body by (rule kubernetes_get_Inr)
  moreover have "json_weight j \<le> length body" using j by (rule unmarshal_json_weight)
  moreover have "list_all controller_int64 (cl_items l) \<and> length (cl_items l) \<le> length body"
    using preservesD [OF preserves_controller_list l, of "length body"] \<open>json_weight j \<le> length body\<close>
    by (simp add: zero_controller_list_def)
  ultimately show ?thesis by simp
qed

lemma collected_pages_ok:
  assumes "collect (list_controllers w c) qs h = (Inr pages, h')" and "list_all (controller_query c) qs"
  shows "list_all (page_ok c) (zip qs pages)"
proof -
  have "page_ok c (q, y)" if z: "(q, y) \<in> set (zip qs pages)" for q y
  proof -
    obtain h1 h2 where f: "list_controllers w c q h1 = (Inr y, h2)"
      using collect_Inr [OF assms(1) z] by blast
    have "q \<in> set qs" using z by (rule set_zip_leftD)
    with assms(2) list_controllers_Inr [of w c q h1 "fst y" "snd y" h2] f show ?thesis
      by (auto simp: page_ok_def list_all_iff)
  qed
  then show ?thesis by (auto simp: list_all_iff)
qed

lemma counts_int64:
  "controller_int64 item \<Longrightarrow> int64 (desired_count item kind) \<and> int64 (ready_count item kind)"
  by (auto simp: controller_int64_def desired_count_def ready_count_def int64_0 split: option.split)

lemma reasons_length:
  assumes "distinct (reasons :: workload_reason list)"
  shows "length reasons \<le> 5"
proof -
  have "set reasons \<subseteq> {WorkloadReasonNotReady, WorkloadReasonReplicaFailure, WorkloadReasonProgressDeadline,
      WorkloadReasonUnschedulable, WorkloadReasonUnknown}"
    using workload_reason.exhaust by blast
  then have "card (set reasons) \<le> card {WorkloadReasonNotReady, WorkloadReasonReplicaFailure,
      WorkloadReasonProgressDeadline, WorkloadReasonUnschedulable, WorkloadReasonUnknown}"
    by (intro card_mono) auto
  with assms show ?thesis by (simp add: distinct_card)
qed

text \<open>What every published entry satisfies.\<close>

definition workload_ok :: "kubernetes_client \<Rightarrow> workload_health \<Rightarrow> bool" where
  "workload_ok c w \<longleftrightarrow>
     wh_scope w \<in> fst ` set (kube_scopes c) \<and> valid_object_name (wh_name w) \<and> wh_ready w < wh_desired w \<and>
     int64 (wh_ready w) \<and> int64 (wh_desired w) \<and> wh_reasons w \<noteq> [] \<and> sorted (wh_reasons w) \<and>
     distinct (wh_reasons w)"

lemma workload_ok_scope:
  assumes "workload_ok c w" and "kubernetes_client_inv c"
  shows "valid_identifier (wh_scope w)"
proof -
  obtain e where "e \<in> set (kube_scopes c)" "wh_scope w = fst e"
    using assms(1) by (auto simp: workload_ok_def)
  then show ?thesis
    using assms(2) by (auto simp: kubernetes_client_inv_def scopes_inv_def list_all_iff scope_entry_def)
qed

lemma unhealthy_entries_ok:
  assumes "list_all (page_ok c) pages" and "e \<in> set (unhealthy_entries pages)"
  shows "workload_ok c e"
proof -
  obtain s kind item where w: "(s, kind, item) \<in> set (listed_controllers pages)"
    and bad: "\<not> healthy (s, kind, item)" and name: "named (s, kind, item)"
    and e: "e = workload_entry (s, kind, item)"
    using assms(2) by (auto simp: unhealthy_entries_def)
  obtain q l p where page: "(q, l, p) \<in> set pages" "s = fst q" "item \<in> set (cl_items l)"
    using w by (auto simp: listed_controllers_def)
  then have scope: "scope_ok (kube_scopes c) s" and int64: "controller_int64 item"
    using assms(1) by (auto simp: list_all_iff page_ok_def controller_query_def)
  obtain r d reasons where h: "controller_health item kind = (False, r, d, reasons)"
    using bad controller_health_ready [of item kind]
    by (cases "controller_health item kind") (auto simp: healthy_def)
  have "scope_id s \<in> fst ` set (kube_scopes c)" using scope by (force simp: scope_ok_def)
  with controller_health_unready [OF h] counts_int64 [OF int64, of kind] h name show ?thesis
    by (auto simp: workload_ok_def workload_entry_def e named_def split: if_splits)
qed

lemma reason_text_plain: "list_all plain_char (workload_reason_text r) \<and> length (workload_reason_text r) \<le> 26"
  by (cases r) (simp_all add: plain_char_iff byte_def)

lemma kind_text_plain: "list_all plain_char (workload_kind_text k) \<and> length (workload_kind_text k) \<le> 11"
  by (cases k) (simp_all add: plain_char_iff byte_def)

lemma workload_fits:
  assumes "workload_ok c w" and "kubernetes_client_inv c"
  shows "fits 1000 (marshal_workload_health w)"
proof -
  have "valid_identifier (wh_scope w)"
    using assms by (rule workload_ok_scope)
  then have s: "fits (32 + 2) (marshal_string (wh_scope w))"
    using valid_identifier_plain by (intro fits_plain_string) auto
  have k: "fits (11 + 2) (marshal_string (workload_kind_text (wh_kind w)))"
    using kind_text_plain by (intro fits_plain_string) auto
  have n: "fits (253 + 2) (marshal_string (wh_name w))"
    using valid_object_name_plain assms by (intro fits_plain_string) (auto simp: workload_ok_def)
  have i: "fits 20 (marshal_int (wh_ready w))" "fits 20 (marshal_int (wh_desired w))"
    using assms by (auto simp: workload_ok_def intro: fits_int)
  have r: "fits (2 + 5 * (26 + 2 + 1)) (marshal_list (\<lambda>r. marshal_string (workload_reason_text r)) (wh_reasons w))"
    using reason_text_plain reasons_length assms
    by (intro fits_list fits_plain_string) (auto simp: workload_ok_def)
  show ?thesis unfolding marshal_workload_health_def
    by (rule fits_mono, rule fits_struct, (rule fields_fit_Cons fields_fit_Nil s k n i r)+) simp
qed

lemma workloads_report_fits:
  assumes "list_all (page_ok c) pages" and "kubernetes_client_inv c" and "0 \<le> limit" and "limit \<le> 50"
    and "time_valid now"
  shows "fits 60000 (marshal_list_unhealthy_workloads_output (workloads_report (kube_target_id c) now limit pages))"
proof -
  let ?out = "workloads_report (kube_target_id c) now limit pages"
  have best: "best_first (compare_by workload_key) limit (unhealthy_entries pages) (withheld pages)
      (luwo_workloads ?out, luwo_truncated ?out)"
    using workloads.listing [OF assms(3), of "unhealthy_entries pages" "withheld pages"]
    by (simp add: workloads_report_def workload_key_def case_prod_beta)
  then have "set (luwo_workloads ?out) \<subseteq> set (unhealthy_entries pages)"
    by (rule best_first_subset)
  then have "\<And>w. w \<in> set (luwo_workloads ?out) \<Longrightarrow> fits 1000 (marshal_workload_health w)"
    using unhealthy_entries_ok [OF assms(1)] workload_fits assms(2) by blast
  moreover have "length (luwo_workloads ?out) \<le> 50"
    using best assms(4) by (simp add: best_first_def)
  ultimately have l: "fits (2 + 50 * (1000 + 1)) (marshal_list marshal_workload_health (luwo_workloads ?out))"
    by (intro fits_list)
  have t: "fits (32 + 2) (marshal_string (luwo_target ?out))"
    using assms(2) valid_identifier_plain
    by (intro fits_plain_string) (auto simp: workloads_report_def kubernetes_client_inv_def case_prod_beta)
  have o: "fits 290 (marshal_time (luwo_observed_at ?out))"
    using assms(5) by (simp add: fits_time workloads_report_def case_prod_beta)
  show ?thesis unfolding marshal_list_unhealthy_workloads_output_def
    by (rule fits_mono, rule fits_struct, (rule fields_fit_Cons fields_fit_Nil t o l fits_bool)+) simp
qed

subsection \<open>Cluster health as a report\<close>

definition nodes_report :: "node list \<Rightarrow> node_health" where
  "nodes_report items = \<lparr>nodes_total = int (length items), nodes_ready = int (length (filter node_ready items))\<rparr>"

definition summary_report :: "workload_page list \<Rightarrow> workload_summary" where
  "summary_report pages =
     (let ws = listed_controllers pages in
      \<lparr>workloads_total = int (length ws), workloads_ready = int (length (filter healthy ws)),
       workloads_unhealthy = int (length (filter (\<lambda>w. \<not> healthy w) ws))\<rparr>)"

text \<open>One warning for each kind of trouble, in a fixed order, and the status the troubles imply.\<close>

definition health_report :: "string \<Rightarrow> time \<Rightarrow> node list \<Rightarrow> bool \<Rightarrow> workload_page list \<Rightarrow> cluster_health_output" where
  "health_report tid now items nodes_partial pages =
     (let nodes = nodes_report items; summary = summary_report pages;
          missing = nodes_total nodes - nodes_ready nodes;
          unhealthy = workloads_unhealthy summary;
          partial = nodes_partial \<or> page_partial pages
      in \<lparr>cho_target = tid, cho_observed_at = now,
          cho_status = (if partial then HealthStatusUnknown
            else if missing \<noteq> 0 \<or> unhealthy \<noteq> 0 then HealthStatusDegraded else HealthStatusHealthy),
          cho_nodes = nodes, cho_workloads = summary,
          cho_warnings =
            (if missing \<noteq> 0 then [\<lparr>hw_code = WarningNodesNotReady, hw_count = missing\<rparr>] else []) @
            (if unhealthy \<noteq> 0 then [\<lparr>hw_code = WarningWorkloadsNotReady, hw_count = unhealthy\<rparr>] else []) @
            (if partial then [\<lparr>hw_code = WarningPartialObservation, hw_count = 1\<rparr>] else []),
          cho_partial = partial\<rparr>)"

lemma fold_nodes:
  "fold (\<lambda>item n. if node_ready item then n\<lparr>nodes_ready := nodes_ready n + 1\<rparr> else n) items nodes =
     nodes\<lparr>nodes_ready := nodes_ready nodes + int (length (filter node_ready items))\<rparr>"
  by (induction items arbitrary: nodes) auto

lemma fold_count_controller:
  "fold (count_controller kind) items sm =
     (let ws = map (\<lambda>item. (sc, kind, item)) items in
      sm\<lparr>workloads_total := workloads_total sm + int (length ws),
        workloads_ready := workloads_ready sm + int (length (filter healthy ws)),
        workloads_unhealthy := workloads_unhealthy sm + int (length (filter (\<lambda>w. \<not> healthy w) ws))\<rparr>)"
proof (induction items arbitrary: sm)
  case (Cons item items)
  have "count_controller kind item sm =
      (let sm = sm\<lparr>workloads_total := workloads_total sm + 1\<rparr> in
       if healthy (sc, kind, item) then sm\<lparr>workloads_ready := workloads_ready sm + 1\<rparr>
       else sm\<lparr>workloads_unhealthy := workloads_unhealthy sm + 1\<rparr>)"
    using controller_health_ready [of item kind]
    by (cases "controller_health item kind") (auto simp: count_controller_def Let_def healthy_def)
  with Cons show ?case by (auto simp: Let_def)
qed simp

lemma fold_count_controllers:
  "fold (\<lambda>(q, page). count_controllers q page) pages (result, partial) =
     (result\<lparr>cho_workloads :=
        (let sm = cho_workloads result; ws = listed_controllers pages in
         sm\<lparr>workloads_total := workloads_total sm + int (length ws),
           workloads_ready := workloads_ready sm + int (length (filter healthy ws)),
           workloads_unhealthy := workloads_unhealthy sm + int (length (filter (\<lambda>w. \<not> healthy w) ws))\<rparr>)\<rparr>,
      partial \<or> page_partial pages)"
proof (induction pages arbitrary: result partial)
  case (Cons entry pages)
  obtain q l p where entry: "entry = (q, l, p)" by (cases entry)
  have "page_partial (entry # pages) \<longleftrightarrow> p \<or> page_partial pages"
    by (simp add: page_partial_def entry)
  with Cons.IH show ?case
    by (simp add: entry count_controllers_def fold_count_controller [of _ _ _ "fst q"] Let_def comp_def)
qed (simp add: page_partial_def Let_def)

lemma filter_ready_le: "int (length (filter P xs)) \<le> int (length xs)"
  by simp

lemma conclude_health_report:
  "(case fold (\<lambda>(q, page). count_controllers q page) pages
      (observe_nodes items \<lparr>cho_target = tid, cho_observed_at = now, cho_status = HealthStatusHealthy,
              cho_nodes = \<lparr>nodes_total = 0, nodes_ready = 0\<rparr>,
              cho_workloads = \<lparr>workloads_total = 0, workloads_ready = 0, workloads_unhealthy = 0\<rparr>,
              cho_warnings = [], cho_partial = False\<rparr>, nodes_partial) of
     (result, partial) \<Rightarrow> conclude_cluster_health partial result) =
   health_report tid now items nodes_partial pages"
  by (simp add: fold_count_controllers observe_nodes_def fold_nodes conclude_cluster_health_def
      health_report_def nodes_report_def summary_report_def Let_def)

lemma cluster_health_reported:
  assumes "kubernetes_selected_scopes c [] = Inr scopes"
  shows "cluster_health w clock c =
    io_bind (io_now clock) (\<lambda>now.
    io_bind (list_nodes w c) (\<lambda>(nodes, nodes_partial).
    io_bind (collect (list_controllers w c) (controller_queries scopes)) (\<lambda>pages.
      io_lift (checked marshal_cluster_health_output
        (health_report (kube_target_id c) now (nl_items nodes) nodes_partial
          (zip (controller_queries scopes) pages))))))"
proof -
  have split: "(\<lambda>(result, partial). io_lift (checked marshal_cluster_health_output
      (conclude_cluster_health partial result))) =
    (\<lambda>s. io_lift (checked marshal_cluster_health_output
      (case s of (result, partial) \<Rightarrow> conclude_cluster_health partial result)))"
    by (auto simp: fun_eq_iff)
  show ?thesis
    unfolding cluster_health_def assms Let_def split
    by (simp add: nested_loop_collect io_bind_assoc conclude_health_report controller_queries_def)
qed

text \<open>The empty scope selects all scopes and never fails.\<close>

lemma all_scopes_selected: "\<exists>scopes. kubernetes_selected_scopes c [] = Inr scopes"
  by (simp add: kubernetes_selected_scopes_def select_scopes_def)

lemma list_nodes_Inr:
  assumes "list_nodes w c h = (Inr (l, p), h')"
  shows "int (length (nl_items l)) \<le> max_source_response_bytes"
proof -
  obtain body h1 where body: "kubernetes_get w c ''/api/v1/nodes'' h = (Inr body, h1)"
    and rest: "(case unmarshal_json body of None \<Rightarrow> Inl (KubernetesError InvalidSourceResponse)
      | Some j \<Rightarrow> (case into_node_list j zero_node_list of
          None \<Rightarrow> Inl (KubernetesError InvalidSourceResponse)
        | Some l \<Rightarrow> Inr (l, lm_continue (nl_metadata l) \<noteq> []))) = Inr (l, p)"
    using assms unfolding list_nodes_def io_bind_Inr io_map_error_Inr io_lift_Inr by blast
  then obtain j where j: "unmarshal_json body = Some j" and l: "into_node_list j zero_node_list = Some l"
    by (auto split: option.splits)
  have "length (nl_items l) \<le> length body"
    using preservesD [OF preserves_node_list l unmarshal_json_weight [OF j]] by (simp add: zero_node_list_def)
  with kubernetes_get_Inr [OF body] show ?thesis by linarith
qed

lemma listed_controllers_length:
  "list_all (page_ok c) pages \<Longrightarrow>
     int (length (listed_controllers pages)) \<le> int (length pages) * max_source_response_bytes"
proof (induction pages)
  case (Cons entry pages)
  obtain q l p where "entry = (q, l, p)" by (cases entry)
  with Cons show ?case by (auto simp: page_ok_def distrib_right)
qed simp

lemma counts_small: "0 \<le> i \<Longrightarrow> i \<le> 96 * max_source_response_bytes \<Longrightarrow> int64 i"
  by (simp add: int64_def max_source_response_bytes_def)

lemma warning_fits: "int64 (hw_count w) \<Longrightarrow> fits 200 (marshal_health_warning w)"
proof -
  assume "int64 (hw_count w)"
  then have i: "fits 20 (marshal_int (hw_count w))" by (rule fits_int)
  have "list_all plain_char (warning_code_text (hw_code w)) \<and> length (warning_code_text (hw_code w)) \<le> 19"
    by (cases "hw_code w") (simp_all add: plain_char_iff byte_def)
  then have c: "fits (19 + 2) (marshal_string (warning_code_text (hw_code w)))"
    by (intro fits_plain_string) auto
  show ?thesis unfolding marshal_health_warning_def
    by (rule fits_mono, rule fits_struct, (rule fields_fit_Cons fields_fit_Nil c i)+) simp
qed

lemma health_report_fits:
  assumes "kubernetes_client_inv c" and "time_valid now" and "list_all (page_ok c) pages"
    and "length pages \<le> 96" and "int (length items) \<le> max_source_response_bytes"
  shows "fits 3000 (marshal_cluster_health_output (health_report (kube_target_id c) now items np pages))"
proof -
  let ?out = "health_report (kube_target_id c) now items np pages"
  have n: "int (length items) \<le> 96 * max_source_response_bytes"
    using assms(5) by (simp add: max_source_response_bytes_def)
  have "int (length pages) * max_source_response_bytes \<le> 96 * max_source_response_bytes"
    using assms(4) by (simp add: max_source_response_bytes_def)
  then have ws: "int (length (listed_controllers pages)) \<le> 96 * max_source_response_bytes"
    using listed_controllers_length [OF assms(3)] by linarith
  have part: "int (length (filter P xs)) \<le> 96 * max_source_response_bytes"
    if "int (length xs) \<le> 96 * max_source_response_bytes" for P and xs :: "'z list"
    using length_filter_le [of P xs] that by linarith
  have N: "fits 20 (marshal_int (nodes_total (cho_nodes ?out)))" "fits 20 (marshal_int (nodes_ready (cho_nodes ?out)))"
    using n part [OF n] by (auto simp: health_report_def nodes_report_def Let_def intro!: fits_int counts_small)
  have W: "fits 20 (marshal_int (workloads_total (cho_workloads ?out)))"
    "fits 20 (marshal_int (workloads_ready (cho_workloads ?out)))"
    "fits 20 (marshal_int (workloads_unhealthy (cho_workloads ?out)))"
    using ws part [OF ws] by (auto simp: health_report_def summary_report_def Let_def intro!: fits_int counts_small)
  have one: "1 \<le> 96 * max_source_response_bytes" by (simp add: max_source_response_bytes_def)
  have "int64 (hw_count wn)" if "wn \<in> set (cho_warnings ?out)" for wn
    using that one n part [OF n, of node_ready] part [OF ws, of "\<lambda>w. \<not> healthy w"] length_filter_le [of node_ready items]
    by (auto simp: health_report_def summary_report_def nodes_report_def Let_def int64_0
        intro!: counts_small split: if_splits)
  moreover have "length (cho_warnings ?out) \<le> 3" by (simp add: health_report_def Let_def)
  ultimately have l: "fits (2 + 3 * (200 + 1)) (marshal_list marshal_health_warning (cho_warnings ?out))"
    by (intro fits_list warning_fits)
  have t: "fits (32 + 2) (marshal_string (cho_target ?out))"
    using assms(1) valid_identifier_plain
    by (intro fits_plain_string) (auto simp: health_report_def kubernetes_client_inv_def Let_def)
  have o: "fits 290 (marshal_time (cho_observed_at ?out))"
    using assms(2) by (simp add: fits_time health_report_def Let_def)
  have "list_all plain_char (health_status_text st) \<and> length (health_status_text st) \<le> 8" for st
    by (cases st) (simp_all add: plain_char_iff byte_def)
  then have st: "fits (8 + 2) (marshal_string (health_status_text (cho_status ?out)))"
    by (intro fits_plain_string) auto
  show ?thesis unfolding marshal_cluster_health_output_def
    by (rule fits_mono, rule fits_struct,
        (rule fits_struct fields_fit_Cons fields_fit_Nil t o st N W l fits_bool)+) simp
qed

end
