(* ===== verification/Examples.thy ===== *)
theory Examples
  imports Listing
begin

section \<open>Surroundings for the runs\<close>

text \<open>
  A concrete instance of the standard-library parsers and of the surroundings, used to run the
  operations on small inputs. Nothing but the runs depends on it.
\<close>

definition example_url :: url where
  "example_url = \<lparr>url_scheme = ''https'', url_host = ''k8s.example'', url_user = None, url_path = [],
     url_raw_query = [], url_fragment = []\<rparr>"

definition example_instant :: time where
  "example_instant = Time 1785715200 0"

definition example_lib :: stdlib where
  "example_lib = \<lparr>
     lib_parse_url = (\<lambda>s. if s = ''https://k8s.example'' then Some example_url else None),
     lib_media_type = (\<lambda>s. if s = ''application/json'' then Some s else None),
     lib_parse_time = (\<lambda>s. if s = ''2026-08-03T00:00:00Z'' then Some example_instant else None),
     lib_parse_float = (\<lambda>s. if s = ''1'' then Some (Finite 1) else if s = ''0'' then Some (Finite 0) else None),
     lib_parse_duration = (\<lambda>s. if s = ''2s'' then Some (2 * second) else None),
     lib_round = (\<lambda>r. r)\<rparr>"

text \<open>JSON texts are written with backquotes for quotation marks.\<close>

definition backquoted :: "string \<Rightarrow> string" where
  "backquoted s = map (\<lambda>c. if c = CHR 0x60 then CHR 0x22 else c) s"

definition example_reply :: "string \<Rightarrow> http_reply" where
  "example_reply body = Responded \<lparr>resp_status = 200, resp_content_type = ''application/json'',
     resp_body = \<lparr>stream_bytes = body, stream_broken = False\<rparr>\<rparr>"

definition example_exchange :: "string \<Rightarrow> exchange" where
  "example_exchange body = \<lparr>ex_slot_done = None, ex_request_ok = True, ex_token = Some ''token'',
     ex_reply = example_reply body, ex_redirect = None\<rparr>"

definition example_clock :: clock where
  "example_clock h = example_instant"

definition example_http_client :: http_client where
  "example_http_client = \<lparr>hc_follow_redirects = False\<rparr>"

definition example_scope :: scope where
  "example_scope = \<lparr>scope_id = ''apps'', scope_namespace = ''apps-prod''\<rparr>"

lemma example_instant_sane: "time_valid example_instant \<and> time_encodable example_instant"
  by code_simp

lemma example_times_sane: "sane_times example_lib"
  using example_instant_sane by (simp add: sane_times_def example_lib_def)

lemma example_clock_sane: "sane_clock example_clock"
  by (simp add: sane_clock_def example_clock_def example_instant_sane)

lemma fst_run: "fst p = Inr x \<Longrightarrow> p = (Inr x, snd p)"
  by (cases p) simp

end
