(* ===== verification/KubernetesProperties.thy ===== *)
theory KubernetesProperties
  imports KubernetesObserve Examples
begin

section \<open>Properties of the Kubernetes observations\<close>

text \<open>The properties of both operations, each with a run on a small cluster.\<close>

lemma emits_cluster_health: "kubernetes_strict_client c \<Longrightarrow> emits (kubernetes_event c) (cluster_health w clock c)"
proof -
  assume c: "kubernetes_strict_client c"
  obtain scopes where s: "kubernetes_selected_scopes c [] = Inr scopes" using all_scopes_selected by blast
  then have "list_all (controller_query c) (controller_queries scopes)"
    using c kubernetes_selected_scopes_ok by (simp add: kubernetes_strict_client_def)
  with c show ?thesis
    unfolding cluster_health_reported [OF s] case_prod_beta
    by (intro emits_bind emits_now emits_list_nodes controller_source.collect_emits emits_lift)
qed

lemma requests_now: "requests (snd (io_bind (io_now clock) k h)) = requests (snd (k (clock h) h))"
  by (simp add: io_defs)

lemma requests_bind:
  assumes "requests (snd (m h)) \<le> requests h + a" and "\<And>x h'. requests (snd (k x h')) \<le> requests h' + b"
  shows "requests (snd (io_bind m k h)) \<le> requests h + (a + b)"
  using assms(1) assms(2) [of _ "snd (m h)"]
  by (fastforce simp: io_bind_def intro: order_trans split: prod.split sum.split)

lemma requests_lift: "requests (snd (io_lift r h)) \<le> requests h + 0"
  by (simp add: io_defs)

lemma list_nodes_requests:
  "kubernetes_strict_client c \<Longrightarrow> requests (snd (list_nodes w c h)) \<le> requests h + 1"
  unfolding list_nodes_def requests_bind_lift by (rule kubernetes_get_requests)

lemma cluster_health_requests:
  assumes "kubernetes_strict_client c"
  shows "requests (snd (cluster_health w clock c h)) \<le> requests h + (1 + (96 + 0))"
proof -
  obtain scopes where s: "kubernetes_selected_scopes c [] = Inr scopes" using all_scopes_selected by blast
  then have len: "length (controller_queries scopes) \<le> 96"
    using assms kubernetes_selected_scopes_ok [OF _ s] by (simp add: kubernetes_strict_client_def)
  have "requests (snd (collect (list_controllers w c) (controller_queries scopes) h')) \<le> requests h' + 96" for h'
    using controller_source.collect_requests [OF assms, of w "controller_queries scopes" h'] len by linarith
  then show ?thesis
    unfolding cluster_health_reported [OF s] requests_now case_prod_beta
    by (intro requests_bind list_nodes_requests assms requests_lift)
qed

text \<open>
  A listing request that is refused at the boundary: the input is invalid, names another target or
  a scope outside the allowlist.
\<close>

definition workloads_accepted :: "kubernetes_client \<Rightarrow> list_unhealthy_workloads_input \<Rightarrow>
    (int \<times> scope list) result" where
  "workloads_accepted c inp =
     result_bind (normalize_list_unhealthy_workloads_input inp) (\<lambda>inp'.
       if luw_target inp' \<noteq> kube_target_id c then Inl (ErrorText ''Kubernetes target is not configured'')
       else result_bind (kubernetes_selected_scopes c (luw_scope inp')) (\<lambda>scopes.
         Inr (luw_limit inp', scopes)))"

lemma result_bind_Inl:
  "result_bind r k = Inl e \<longleftrightarrow> r = Inl e \<or> (\<exists>x. r = Inr x \<and> k x = Inl e)"
  by (cases r) auto

lemma list_unhealthy_workloads_refused:
  "workloads_accepted c inp = Inl e \<Longrightarrow> list_unhealthy_workloads w clock c inp h = (Inl e, h)"
  by (auto simp: workloads_accepted_def list_unhealthy_workloads_def result_bind_Inl io_bind_def io_lift_def
      io_fail_def split: if_splits)

lemma workloads_accepted_Inr:
  assumes "workloads_accepted c inp = Inr (limit, scopes)"
  obtains inp' where "normalize_list_unhealthy_workloads_input inp = Inr inp'"
    and "luw_target inp' = kube_target_id c" and "kubernetes_selected_scopes c (luw_scope inp') = Inr scopes"
    and "luw_limit inp' = limit" and "1 \<le> limit" and "limit \<le> 50"
  using assms normalize_list_limit_bounds
  by (fastforce simp: workloads_accepted_def normalize_workloads_Inr max_list_limit_def split: if_splits)

lemma list_unhealthy_workloads_Inr:
  assumes "list_unhealthy_workloads w clock c inp h = (Inr out, h')"
  obtains limit scopes pages where "workloads_accepted c inp = Inr (limit, scopes)"
    and "collect (list_controllers w c) (controller_queries scopes) h = (Inr pages, h')"
    and "out = workloads_report (kube_target_id c) (clock h) limit (zip (controller_queries scopes) pages)"
proof (cases "workloads_accepted c inp")
  case (Inl e)
  with list_unhealthy_workloads_refused assms show ?thesis by fastforce
next
  case (Inr ls)
  then obtain limit scopes where a: "workloads_accepted c inp = Inr (limit, scopes)" by (cases ls) auto
  from workloads_accepted_Inr [OF a] obtain inp'
    where n: "normalize_list_unhealthy_workloads_input inp = Inr inp'" "luw_target inp' = kube_target_id c"
      "kubernetes_selected_scopes c (luw_scope inp') = Inr scopes" and l: "luw_limit inp' = limit" by metis
  have "\<exists>pages. collect (list_controllers w c) (controller_queries scopes) h = (Inr pages, h') \<and>
      out = workloads_report (kube_target_id c) (clock h) limit (zip (controller_queries scopes) pages)"
    using assms unfolding list_unhealthy_workloads_accepted [OF n] l
    by (auto simp: io_bind_Inr checked_Inr)
  with a that show ?thesis by blast
qed

lemma workloads_accepted_ok:
  assumes "kubernetes_client_inv c" and "workloads_accepted c inp = Inr (limit, scopes)"
  shows "list_all (controller_query c) (controller_queries scopes) \<and>
    length (controller_queries scopes) \<le> 96 \<and> 1 \<le> limit \<and> limit \<le> 50"
  using workloads_accepted_Inr [OF assms(2)] kubernetes_selected_scopes_ok [OF assms(1)] by metis

lemma workloads_report_best:
  assumes "0 \<le> limit"
  shows "best_first (compare_by workload_key) limit (unhealthy_entries pages) (withheld pages)
    (luwo_workloads (workloads_report tid now limit pages), luwo_truncated (workloads_report tid now limit pages))"
  using workloads.listing [OF assms, of "unhealthy_entries pages" "withheld pages"]
  by (simp add: workloads_report_def workload_key_def case_prod_beta)

lemma marshal_workloads_total:
  "time_encodable now \<Longrightarrow> marshal_list_unhealthy_workloads_output (workloads_report tid now limit pages) \<noteq> None"
  by (auto simp: marshal_list_unhealthy_workloads_output_def marshal_workload_health_def marshal_total
      workloads_report_def case_prod_beta)

lemma marshal_health_total:
  "time_encodable now \<Longrightarrow> marshal_cluster_health_output (health_report tid now items np pages) \<noteq> None"
  by (auto simp: marshal_cluster_health_output_def marshal_health_warning_def marshal_total
      health_report_def Let_def)

lemma health_checked:
  assumes "kubernetes_client_inv c" and "sane_clock clock" and "list_nodes w c h1 = (Inr (l, np), h2)"
    and "collect (list_controllers w c) (controller_queries scopes) h2 = (Inr pages, h3)"
    and "kubernetes_selected_scopes c sid = Inr scopes"
  shows "checked marshal_cluster_health_output
    (health_report (kube_target_id c) (clock h) (nl_items l) np (zip (controller_queries scopes) pages)) \<noteq> Inl e"
proof -
  let ?pages = "zip (controller_queries scopes) pages"
  have q: "list_all (controller_query c) (controller_queries scopes)" and len: "length ?pages \<le> 96"
    using kubernetes_selected_scopes_ok [OF assms(1,5)] by auto
  have now: "time_valid (clock h)" "time_encodable (clock h)" using assms(2) by (auto simp: sane_clock_def)
  have "fits 3000 (marshal_cluster_health_output (health_report (kube_target_id c) (clock h) (nl_items l) np ?pages))"
    using assms(1) now(1) collected_pages_ok [OF assms(4) q] len list_nodes_Inr [OF assms(3)]
    by (rule health_report_fits)
  then show ?thesis using marshal_health_total [OF now(2), of "kube_target_id c" "nl_items l" np ?pages]
    by (auto simp: checked_fits)
qed

lemma cluster_health_Inl:
  assumes "kubernetes_client_inv c" and "sane_clock clock" and f: "cluster_health w clock c h = (Inl e, h')"
  shows "kubernetes_failure e"
proof -
  obtain scopes where s: "kubernetes_selected_scopes c [] = Inr scopes" using all_scopes_selected by blast
  have q: "list_all (controller_query c) (controller_queries scopes)"
    using kubernetes_selected_scopes_ok [OF assms(1) s] by simp
  from f consider (nodes) "list_nodes w c h = (Inl e, h')"
    | (pages) h1 where "collect (list_controllers w c) (controller_queries scopes) h1 = (Inl e, h')"
    | (check) l np h1 pages h2 where "list_nodes w c h = (Inr (l, np), h1)"
        "collect (list_controllers w c) (controller_queries scopes) h1 = (Inr pages, h2)"
        "checked marshal_cluster_health_output (health_report (kube_target_id c) (clock h) (nl_items l) np
          (zip (controller_queries scopes) pages)) = Inl e"
    unfolding cluster_health_reported [OF s] by (auto simp: io_bind_Inl)
  then show ?thesis
  proof cases
    case nodes
    then show ?thesis by (rule list_nodes_Inl)
  next
    case pages
    with q show ?thesis by (rule controller_source.collect_failure)
  next
    case check
    with health_checked [OF assms(1,2) check(1,2) s] show ?thesis by blast
  qed
qed

lemma workloads_checked:
  assumes "kubernetes_client_inv c" and "sane_clock clock" and "workloads_accepted c inp = Inr (limit, scopes)"
    and "collect (list_controllers w c) (controller_queries scopes) h1 = (Inr pages, h2)"
  shows "checked marshal_list_unhealthy_workloads_output
    (workloads_report (kube_target_id c) (clock h) limit (zip (controller_queries scopes) pages)) \<noteq> Inl e"
proof -
  let ?pages = "zip (controller_queries scopes) pages"
  have q: "list_all (controller_query c) (controller_queries scopes)" and limit: "0 \<le> limit" "limit \<le> 50"
    using workloads_accepted_ok [OF assms(1,3)] by auto
  have now: "time_valid (clock h)" "time_encodable (clock h)" using assms(2) by (auto simp: sane_clock_def)
  have "fits 60000 (marshal_list_unhealthy_workloads_output
      (workloads_report (kube_target_id c) (clock h) limit ?pages))"
    using collected_pages_ok [OF assms(4) q] assms(1) limit now(1) by (rule workloads_report_fits)
  then show ?thesis using marshal_workloads_total [OF now(2), of "kube_target_id c" limit ?pages]
    by (auto simp: checked_fits)
qed

lemma list_unhealthy_workloads_Inl:
  assumes "kubernetes_client_inv c" and "sane_clock clock"
    and f: "list_unhealthy_workloads w clock c inp h = (Inl e, h')"
  shows "kubernetes_failure e \<or> workloads_accepted c inp = Inl e"
proof (cases "workloads_accepted c inp")
  case (Inl e')
  with list_unhealthy_workloads_refused [OF this] f show ?thesis by simp
next
  case (Inr ls)
  then obtain limit scopes where a: "workloads_accepted c inp = Inr (limit, scopes)" by (cases ls) auto
  from workloads_accepted_Inr [OF a] obtain inp'
    where n: "normalize_list_unhealthy_workloads_input inp = Inr inp'" "luw_target inp' = kube_target_id c"
      "kubernetes_selected_scopes c (luw_scope inp') = Inr scopes" and l: "luw_limit inp' = limit" by metis
  have q: "list_all (controller_query c) (controller_queries scopes)"
    using workloads_accepted_ok [OF assms(1) a] by simp
  from f have "collect (list_controllers w c) (controller_queries scopes) h = (Inl e, h')"
    unfolding list_unhealthy_workloads_accepted [OF n] l
    using workloads_checked [OF assms(1,2) a] by (auto simp: io_bind_Inl)
  with q show ?thesis by (blast dest: controller_source.collect_failure)
qed

subsection \<open>A small cluster\<close>

definition example_world :: world where
  "example_world h path query =
     example_exchange (backquoted
       (if path = ''/api/v1/nodes''
          then ''{`items`:[{`status`:{`conditions`:[{`type`:`Ready`,`status`:`True`}]}}]}''
        else if path = ''/apis/apps/v1/namespaces/apps-prod/deployments''
          then ''{`items`:[{`metadata`:{`name`:`web`},`spec`:{`replicas`:2},`status`:{`readyReplicas`:1}}]}''
        else ''{`items`:[]}''))"

definition example_config :: kubernetes_config where
  "example_config = \<lparr>kcfg_target_id = ''cluster-a'', kcfg_base_url = ''https://k8s.example'',
     kcfg_credential = True, kcfg_scopes = [example_scope], kcfg_http_client = Some example_http_client,
     kcfg_request_timeout = 0\<rparr>"

definition example_client :: kubernetes_client where
  "example_client = \<lparr>kube_target_id = ''cluster-a'', kube_base_url = example_url, kube_credential = True,
     kube_scopes = [(''apps'', ''apps-prod'')], kube_http_client = example_http_client,
     kube_request_timeout = default_request_timeout\<rparr>"

lemma example_new: "kubernetes_new example_lib example_config = Inr example_client"
  by code_simp

definition example_input :: list_unhealthy_workloads_input where
  "example_input = \<lparr>luw_target = ''cluster-a'', luw_scope = [], luw_limit = 0\<rparr>"

lemma example_client_strict: "kubernetes_strict_client example_client"
  using kubernetes_new_inv [OF example_new]
  by (simp add: kubernetes_strict_client_def example_config_def example_http_client_def)

lemma example_client_inv: "kubernetes_client_inv example_client"
  using example_client_strict by (simp add: kubernetes_strict_client_def)

lemma example_accepted: "workloads_accepted example_client example_input = Inr (20, [example_scope])"
  by code_simp

definition example_workload :: workload_health where
  "example_workload = \<lparr>wh_scope = ''apps'', wh_kind = Deployment, wh_name = ''web'', wh_ready = 1,
     wh_desired = 2, wh_reasons = [WorkloadReasonNotReady]\<rparr>"

definition example_output :: list_unhealthy_workloads_output where
  "example_output = \<lparr>luwo_target = ''cluster-a'', luwo_observed_at = example_instant,
     luwo_workloads = [example_workload], luwo_truncated = False\<rparr>"

lemma example_listing:
  "fst (list_unhealthy_workloads example_world example_clock example_client example_input []) = Inr example_output"
  by code_simp

definition example_health :: cluster_health_output where
  "example_health = \<lparr>cho_target = ''cluster-a'', cho_observed_at = example_instant,
     cho_status = HealthStatusDegraded, cho_nodes = \<lparr>nodes_total = 1, nodes_ready = 1\<rparr>,
     cho_workloads = \<lparr>workloads_total = 1, workloads_ready = 0, workloads_unhealthy = 1\<rparr>,
     cho_warnings = [\<lparr>hw_code = WarningWorkloadsNotReady, hw_count = 1\<rparr>], cho_partial = False\<rparr>"

lemma example_summary:
  "fst (cluster_health example_world example_clock example_client []) = Inr example_health"
  by code_simp

subsection \<open>The properties\<close>

text \<open>
  C3: the listing loops over scopes and resources and updates its output page by page; it is equal
  to one collecting pass, one request per selected scope and resource in a fixed order, followed
  by the pure report over all pages, for any surroundings and any history.
\<close>

theorem list_unhealthy_workloads_refines_report:
  assumes "workloads_accepted c inp = Inr (limit, scopes)"
  shows "list_unhealthy_workloads w clock c inp =
    io_bind (io_now clock) (\<lambda>now.
    io_bind (collect (list_controllers w c) (controller_queries scopes)) (\<lambda>pages.
      io_lift (checked marshal_list_unhealthy_workloads_output
        (workloads_report (kube_target_id c) now limit (zip (controller_queries scopes) pages)))))"
proof -
  from workloads_accepted_Inr [OF assms] obtain inp'
    where n: "normalize_list_unhealthy_workloads_input inp = Inr inp'" "luw_target inp' = kube_target_id c"
      "kubernetes_selected_scopes c (luw_scope inp') = Inr scopes" and l: "luw_limit inp' = limit" by metis
  show ?thesis unfolding list_unhealthy_workloads_accepted [OF n] l ..
qed

theorem list_unhealthy_workloads_refines_report_witness:
  "fst (io_bind (collect (list_controllers example_world example_client) (controller_queries [example_scope]))
      (\<lambda>pages. io_lift (checked marshal_list_unhealthy_workloads_output
        (workloads_report ''cluster-a'' example_instant 20 (zip (controller_queries [example_scope]) pages)))) []) =
    Inr example_output"
  using list_unhealthy_workloads_refines_report [OF example_accepted, of example_world example_clock] example_listing
  by (simp add: io_now_def io_bind_def [of "io_now example_clock"] example_clock_def example_client_def)

text \<open>
  C2: every successful listing keeps within the requested limit (at most 50), is sorted by scope,
  kind and name, and holds only entries of configured scopes with a valid object name, fewer
  ready than desired replicas, and at least one reason, the reasons sorted and without duplicates.
\<close>

theorem list_unhealthy_workloads_bounded_sorted:
  assumes "kubernetes_client_inv c" and "list_unhealthy_workloads w clock c inp h = (Inr out, h')"
  shows "int (length (luwo_workloads out)) \<le> (if luw_limit inp = 0 then 20 else luw_limit inp) \<and>
    length (luwo_workloads out) \<le> 50 \<and> list_all (workload_ok c) (luwo_workloads out) \<and>
    sorted_wrt (\<lambda>a b. wh_scope a < wh_scope b \<or> wh_scope a = wh_scope b \<and>
      (workload_kind_of a < workload_kind_of b \<or>
       workload_kind_of a = workload_kind_of b \<and> wh_name a \<le> wh_name b)) (luwo_workloads out)"
proof -
  obtain limit scopes pages where a: "workloads_accepted c inp = Inr (limit, scopes)"
    and p: "collect (list_controllers w c) (controller_queries scopes) h = (Inr pages, h')"
    and out: "out = workloads_report (kube_target_id c) (clock h) limit (zip (controller_queries scopes) pages)"
    using assms(2) by (rule list_unhealthy_workloads_Inr)
  let ?pages = "zip (controller_queries scopes) pages"
  have q: "list_all (controller_query c) (controller_queries scopes)" and limit: "0 \<le> limit" "limit \<le> 50"
    using workloads_accepted_ok [OF assms(1) a] by auto
  have best: "best_first (compare_by workload_key) limit (unhealthy_entries ?pages) (withheld ?pages)
      (luwo_workloads out, luwo_truncated out)"
    unfolding out using limit(1) by (rule workloads_report_best)
  have ok: "list_all (workload_ok c) (unhealthy_entries ?pages)"
    using unhealthy_entries_ok [OF collected_pages_ok [OF p q]] by (simp add: list_all_iff)
  then have scopes: "\<forall>x \<in> set (unhealthy_entries ?pages). nul_free (wh_scope x)"
    using workload_ok_scope [OF _ assms(1)] valid_label_nul_free
    unfolding list_all_iff valid_identifier_def by blast
  have "limit = (if luw_limit inp = 0 then 20 else luw_limit inp)"
    using a by (auto simp: workloads_accepted_def normalize_workloads_Inr normalize_list_limit_Inr
        default_list_limit_def split: if_splits)
  moreover have "int (length (luwo_workloads out)) \<le> limit" using best by (simp add: best_first_def)
  moreover have "list_all (workload_ok c) (luwo_workloads out)"
    using ok best_first_subset [OF best] by (auto simp: list_all_iff)
  moreover note workloads.listing_sorted [OF best [unfolded workload_key_def] scopes]
  ultimately show ?thesis using limit by simp
qed

theorem list_unhealthy_workloads_bounded_sorted_witness:
  "list_all (workload_ok example_client) [example_workload]"
  using list_unhealthy_workloads_bounded_sorted
    [OF example_client_inv fst_run [OF example_listing]] by (simp add: example_output_def)

text \<open>
  C1: a listing that is not marked truncated is complete: it holds exactly the controllers with
  fewer ready than desired replicas among everything the source returned for the selected scopes,
  each with the values the source gave; nothing was cut, withheld or left on a further page.
\<close>

theorem list_unhealthy_workloads_complete:
  assumes "list_unhealthy_workloads w clock c inp h = (Inr out, h')" and "\<not> luwo_truncated out"
  shows "\<exists>limit scopes pages. workloads_accepted c inp = Inr (limit, scopes) \<and>
    collect (list_controllers w c) (controller_queries scopes) h = (Inr pages, h') \<and>
    \<not> page_partial (zip (controller_queries scopes) pages) \<and>
    mset (luwo_workloads out) = mset (map workload_entry
      (filter (\<lambda>x. \<not> healthy x) (listed_controllers (zip (controller_queries scopes) pages))))"
proof -
  obtain limit scopes pages where a: "workloads_accepted c inp = Inr (limit, scopes)"
    and p: "collect (list_controllers w c) (controller_queries scopes) h = (Inr pages, h')"
    and out: "out = workloads_report (kube_target_id c) (clock h) limit (zip (controller_queries scopes) pages)"
    using assms(1) by (rule list_unhealthy_workloads_Inr)
  let ?pages = "zip (controller_queries scopes) pages"
  have "0 \<le> limit" using workloads_accepted_Inr [OF a] by (metis order_trans zero_le_one)
  from workloads_report_best [OF this, of ?pages "kube_target_id c" "clock h"] assms(2)
  have "best_first (compare_by workload_key) limit (unhealthy_entries ?pages) (withheld ?pages)
      (luwo_workloads out, False)"
    unfolding out [symmetric] by simp
  from best_first_complete [OF this]
  have w: "\<not> withheld ?pages" and m: "mset (luwo_workloads out) = mset (unhealthy_entries ?pages)" by auto
  have "filter (\<lambda>w. \<not> healthy w \<and> named w) (listed_controllers ?pages) =
      filter (\<lambda>x. \<not> healthy x) (listed_controllers ?pages)"
    using w by (intro filter_cong) (auto simp: withheld_def list_ex_iff)
  with a p w m show ?thesis by (auto simp: withheld_def unhealthy_entries_def)
qed

theorem list_unhealthy_workloads_complete_witness:
  "\<exists>pages. \<not> page_partial pages \<and> mset [example_workload] =
     mset (map workload_entry (filter (\<lambda>x. \<not> healthy x) (listed_controllers pages)))"
  using list_unhealthy_workloads_complete [OF fst_run [OF example_listing]]
  by (auto simp: example_output_def simp del: mset_map mset_filter)

lemma list_unhealthy_workloads_confined:
  assumes "kubernetes_strict_client c"
  shows "emits (kubernetes_event c) (list_unhealthy_workloads w clock c inp) \<and>
    requests (snd (list_unhealthy_workloads w clock c inp h)) \<le> requests h + 96"
proof (cases "workloads_accepted c inp")
  case (Inl e)
  from list_unhealthy_workloads_refused [OF this] have
    "list_unhealthy_workloads w clock c inp = (\<lambda>h. (Inl e, h))" by (rule ext)
  then show ?thesis by (auto simp: emits_def)
next
  case (Inr ls)
  then obtain limit scopes where a: "workloads_accepted c inp = Inr (limit, scopes)" by (cases ls) auto
  from workloads_accepted_Inr [OF a] obtain inp'
    where n: "normalize_list_unhealthy_workloads_input inp = Inr inp'" "luw_target inp' = kube_target_id c"
      "kubernetes_selected_scopes c (luw_scope inp') = Inr scopes" by metis
  have q: "list_all (controller_query c) (controller_queries scopes)"
    and len: "length (controller_queries scopes) \<le> 96"
    using workloads_accepted_ok [OF _ a] assms by (auto simp: kubernetes_strict_client_def)
  have "requests (snd (collect (list_controllers w c) (controller_queries scopes) h1)) \<le> requests h1 + 96" for h1
    using controller_source.collect_requests [OF assms, of w "controller_queries scopes" h1] len by linarith
  then have "requests (snd (list_unhealthy_workloads w clock c inp h)) \<le> requests h + (96 + 0)"
    unfolding list_unhealthy_workloads_accepted [OF n] requests_now
    by (intro requests_bind requests_lift)
  moreover have "emits (kubernetes_event c) (list_unhealthy_workloads w clock c inp)"
    unfolding list_unhealthy_workloads_accepted [OF n]
    by (intro emits_bind emits_now controller_source.collect_emits emits_lift assms q)
  ultimately show ?thesis by simp
qed

text \<open>
  C4: the adapter is confined: whatever the input and the surroundings, a client that follows no
  redirects only sends \<open>GET\<close> requests to its own origin, for the fixed resource paths of its
  configured namespaces and with the fixed list limit, each with a freshly read and valid token
  when it has a credential; at most 97 of them per operation, and each operation terminates.
\<close>

theorem kubernetes_requests_confined:
  assumes "kubernetes_strict_client c"
  shows "emits (kubernetes_event c) (cluster_health w clock c) \<and>
    emits (kubernetes_event c) (list_unhealthy_workloads w clock c inp) \<and>
    requests (snd (cluster_health w clock c h)) \<le> requests h + 97 \<and>
    requests (snd (list_unhealthy_workloads w clock c inp h)) \<le> requests h + 96"
  using list_unhealthy_workloads_confined [OF assms] emits_cluster_health [OF assms]
    cluster_health_requests [OF assms, of w clock h]
  by simp

theorem kubernetes_requests_confined_witness:
  "emits (kubernetes_event example_client) (cluster_health example_world example_clock example_client) \<and>
   requests (snd (cluster_health example_world example_clock example_client [])) \<le> 97"
  using kubernetes_requests_confined [OF example_client_strict, of example_world example_clock example_input "[]"]
  by simp

text \<open>
  C5: fail closed: a listing for another target, for a scope outside the allowlist or with a limit
  outside 1 to 50 (0 stands for the default) is refused with an error before anything is read or
  sent: the history is unchanged.
\<close>

theorem list_unhealthy_workloads_fail_closed:
  assumes "luw_target inp \<noteq> kube_target_id c \<or> luw_scope inp \<notin> insert [] (fst ` set (kube_scopes c)) \<or>
    luw_limit inp < 0 \<or> 50 < luw_limit inp"
  shows "\<exists>e. list_unhealthy_workloads w clock c inp h = (Inl e, h)"
proof -
  have "\<exists>e. workloads_accepted c inp = Inl e"
  proof (cases "workloads_accepted c inp")
    case (Inr ls)
    then obtain limit scopes where a: "workloads_accepted c inp = Inr (limit, scopes)" by (cases ls) auto
    from workloads_accepted_Inr [OF a] obtain inp'
      where n: "normalize_list_unhealthy_workloads_input inp = Inr inp'" "luw_target inp' = kube_target_id c"
        "kubernetes_selected_scopes c (luw_scope inp') = Inr scopes" by metis
    have "luw_target inp = luw_target inp'" "luw_scope inp = luw_scope inp'"
      "luw_limit inp = 0 \<or> 1 \<le> luw_limit inp \<and> luw_limit inp \<le> 50"
      using n(1) by (auto simp: normalize_workloads_Inr normalize_list_limit_Inr max_list_limit_def)
        (metis list_unhealthy_workloads_input.ext_inject list_unhealthy_workloads_input.surjective
          list_unhealthy_workloads_input.update_convs(3))+
    moreover have "luw_scope inp' = [] \<or> luw_scope inp' \<in> fst ` set (kube_scopes c)"
      using n(3) by (force simp: kubernetes_selected_scopes_def select_scopes_def dest: map_of_SomeD
          split: if_splits option.splits)
    ultimately show ?thesis using assms n(2) by auto
  qed blast
  then show ?thesis using list_unhealthy_workloads_refused by blast
qed

theorem list_unhealthy_workloads_fail_closed_witness:
  "\<exists>e. list_unhealthy_workloads example_world example_clock example_client
     (example_input\<lparr>luw_scope := ''kube-system''\<rparr>) [] = (Inl e, [])"
  by (rule list_unhealthy_workloads_fail_closed) (simp add: example_client_def example_input_def)

lemma cluster_health_Inr:
  assumes "cluster_health w clock c h = (Inr out, h')"
  obtains nodes np pages where "out = health_report (kube_target_id c) (clock h) nodes np pages"
proof -
  obtain scopes where s: "kubernetes_selected_scopes c [] = Inr scopes" using all_scopes_selected by blast
  have "\<exists>nodes np pages. out = health_report (kube_target_id c) (clock h) nodes np pages"
    using assms unfolding cluster_health_reported [OF s]
    by (auto simp: io_bind_Inr checked_Inr)
  with that show ?thesis by blast
qed

lemma summary_adds_up:
  "workloads_total (summary_report pages) = workloads_ready (summary_report pages) + workloads_unhealthy (summary_report pages)"
  using sum_length_filter_compl [of healthy "listed_controllers pages"]
  by (simp add: summary_report_def Let_def)

lemma nodes_ready_le: "nodes_ready (nodes_report items) \<le> nodes_total (nodes_report items)"
  by (simp add: nodes_report_def)

text \<open>
  C6: the cluster health summary is the pure report over the nodes and all controllers of all
  scopes, so it is consistent: no more nodes are ready than there are, ready and unhealthy workloads
  add up to the total, the status is unknown exactly
  for a partial observation and healthy exactly without warnings, and there are at most three
  warnings, all with a positive count.
\<close>

theorem cluster_health_consistent:
  assumes "cluster_health w clock c h = (Inr out, h')"
  shows "0 \<le> nodes_ready (cho_nodes out) \<and> nodes_ready (cho_nodes out) \<le> nodes_total (cho_nodes out) \<and>
    workloads_total (cho_workloads out) = workloads_ready (cho_workloads out) + workloads_unhealthy (cho_workloads out) \<and>
    (cho_status out = HealthStatusUnknown \<longleftrightarrow> cho_partial out) \<and>
    (cho_status out = HealthStatusHealthy \<longleftrightarrow> cho_warnings out = []) \<and>
    (cho_warnings out = [] \<longleftrightarrow> \<not> cho_partial out \<and> nodes_ready (cho_nodes out) = nodes_total (cho_nodes out) \<and>
       workloads_unhealthy (cho_workloads out) = 0) \<and>
    length (cho_warnings out) \<le> 3 \<and> list_all (\<lambda>x. 0 < hw_count x) (cho_warnings out)"
proof -
  obtain nodes np pages where out: "out = health_report (kube_target_id c) (clock h) nodes np pages"
    using assms by (rule cluster_health_Inr)
  have "0 \<le> nodes_ready (nodes_report nodes)" by (simp add: nodes_report_def)
  moreover have "0 \<le> workloads_unhealthy (summary_report pages)" by (simp add: summary_report_def Let_def)
  ultimately show ?thesis
    using summary_adds_up [of pages] nodes_ready_le [of nodes] by (auto simp: out health_report_def Let_def)
qed

theorem cluster_health_consistent_witness:
  "cho_status example_health \<noteq> HealthStatusHealthy \<and> length (cho_warnings example_health) \<le> 3 \<and>
   workloads_total (cho_workloads example_health) =
     workloads_ready (cho_workloads example_health) + workloads_unhealthy (cho_workloads example_health)"
  using cluster_health_consistent [OF fst_run [OF example_summary]] by (simp add: example_health_def)

text \<open>
  With a sane clock the encoded outputs never exceed the result limit of 64 KiB, whatever the
  source returns: the summary and the listing only fail because a request fails, and the listing
  also because its input is refused.
\<close>

theorem kubernetes_results_within_limit:
  assumes "kubernetes_client_inv c" and "sane_clock clock"
  shows "(\<forall>e h'. cluster_health w clock c h = (Inl e, h') \<longrightarrow> kubernetes_failure e) \<and>
    (\<forall>e h'. list_unhealthy_workloads w clock c inp h = (Inl e, h') \<longrightarrow>
       kubernetes_failure e \<or> workloads_accepted c inp = Inl e)"
  using cluster_health_Inl [OF assms] list_unhealthy_workloads_Inl [OF assms] by blast

theorem kubernetes_results_within_limit_witness:
  "fst (list_unhealthy_workloads example_world example_clock example_client example_input []) \<noteq> Inl ErrResultTooLarge \<and>
   fst (cluster_health example_world example_clock example_client []) \<noteq> Inl ErrResultTooLarge"
proof -
  have "\<not> kubernetes_failure ErrResultTooLarge" by (simp add: kubernetes_failure_def)
  with kubernetes_results_within_limit [OF example_client_inv example_clock_sane, of example_world "[]" example_input]
    example_accepted show ?thesis
    by (metis (no_types) prod.collapse sum.distinct(1))
qed

end
