(* ===== verification/Flux.thy ===== *)
theory Flux
  imports Listing Catalog
begin

section \<open>The Flux adapter (\<open>internal/flux/client.go\<close>, \<open>observe.go\<close>)\<close>

text \<open>
  The listing of Flux objects that are not ready, over the fixed custom-resource paths of the
  configured namespaces. Requests go through the shared boundary of theory \<open>SourceHttp\<close>.
\<close>

subsection \<open>Client\<close>

record flux_config =
  fcfg_target_id :: string
  fcfg_base_url :: string
  fcfg_credential :: bool
  fcfg_scopes :: "scope list"
  fcfg_http_client :: "http_client option"
  fcfg_request_timeout :: int

record flux_client =
  flux_target_id :: string
  flux_http :: source_client
  flux_scopes :: scope_map

definition flux_new :: "stdlib \<Rightarrow> flux_config \<Rightarrow> flux_client result" where
  "flux_new lib cfg =
     (case validate_identifier ''target'' (fcfg_target_id cfg) of Some e \<Rightarrow> Inl e
      | None \<Rightarrow>
          result_bind (build_scopes ''Flux'' (fcfg_scopes cfg)) (\<lambda>scopes.
          result_bind
            (source_new lib \<lparr>sc_base_url = fcfg_base_url cfg, sc_credential = fcfg_credential cfg,
               sc_http_client = fcfg_http_client cfg, sc_request_timeout = fcfg_request_timeout cfg\<rparr>)
            (\<lambda>http. Inr \<lparr>flux_target_id = fcfg_target_id cfg, flux_http = http, flux_scopes = scopes\<rparr>)))"

definition flux_target :: "flux_client \<Rightarrow> target" where
  "flux_target c =
     \<lparr>target_id = flux_target_id c, target_kind = target_kind_flux,
      target_capabilities = [capability_flux_unhealthy_reconciliations]\<rparr>"

definition flux_selected_scopes :: "flux_client \<Rightarrow> string \<Rightarrow> scope list result" where
  "flux_selected_scopes c sid = select_scopes FluxUnknownScope (flux_scopes c) sid"

subsection \<open>Data of the API\<close>

record flux_resource_kind =
  frk_group :: string
  frk_version :: string
  frk_resource :: string
  frk_kind :: reconciliation_kind

definition reconciliation_resources :: "flux_resource_kind list" where
  "reconciliation_resources =
     [\<lparr>frk_group = ''kustomize.toolkit.fluxcd.io'', frk_version = ''v1'', frk_resource = ''kustomizations'',
       frk_kind = ReconciliationKindKustomization\<rparr>,
      \<lparr>frk_group = ''helm.toolkit.fluxcd.io'', frk_version = ''v2'', frk_resource = ''helmreleases'',
       frk_kind = ReconciliationKindHelmRelease\<rparr>,
      \<lparr>frk_group = ''source.toolkit.fluxcd.io'', frk_version = ''v1'', frk_resource = ''gitrepositories'',
       frk_kind = ReconciliationKindGitRepository\<rparr>]"

record flux_condition =
  fc_type :: string
  fc_status :: string
  fc_reason :: string
  fc_last_transition_time :: string

record flux_metadata =
  fm_name :: string

record flux_status =
  fs_conditions :: "flux_condition list"

record resource_object =
  ro_metadata :: flux_metadata
  ro_status :: flux_status

record flux_list_metadata =
  flm_continue :: string

record resource_list =
  rl_metadata :: flux_list_metadata
  rl_items :: "resource_object list"

definition zero_flux_condition :: flux_condition where
  "zero_flux_condition = \<lparr>fc_type = [], fc_status = [], fc_reason = [], fc_last_transition_time = []\<rparr>"

definition zero_resource_object :: resource_object where
  "zero_resource_object = \<lparr>ro_metadata = \<lparr>fm_name = []\<rparr>, ro_status = \<lparr>fs_conditions = []\<rparr>\<rparr>"

definition zero_resource_list :: resource_list where
  "zero_resource_list = \<lparr>rl_metadata = \<lparr>flm_continue = []\<rparr>, rl_items = []\<rparr>"

definition into_flux_condition :: "flux_condition decoder" where
  "into_flux_condition = into_struct (\<lambda>k.
     if k = ''type'' then into_field fc_type (\<lambda>v r. r\<lparr>fc_type := v\<rparr>) into_string
     else if k = ''status'' then into_field fc_status (\<lambda>v r. r\<lparr>fc_status := v\<rparr>) into_string
     else if k = ''reason'' then into_field fc_reason (\<lambda>v r. r\<lparr>fc_reason := v\<rparr>) into_string
     else if k = ''lasttransitiontime''
       then into_field fc_last_transition_time (\<lambda>v r. r\<lparr>fc_last_transition_time := v\<rparr>) into_string
     else skip_member)"

definition into_flux_metadata :: "flux_metadata decoder" where
  "into_flux_metadata = into_struct (\<lambda>k.
     if k = ''name'' then into_field fm_name (\<lambda>v r. r\<lparr>fm_name := v\<rparr>) into_string else skip_member)"

definition into_flux_status :: "flux_status decoder" where
  "into_flux_status = into_struct (\<lambda>k.
     if k = ''conditions'' then into_field fs_conditions (\<lambda>v r. r\<lparr>fs_conditions := v\<rparr>)
       (into_list zero_flux_condition into_flux_condition)
     else skip_member)"

definition into_resource_object :: "resource_object decoder" where
  "into_resource_object = into_struct (\<lambda>k.
     if k = ''metadata'' then into_field ro_metadata (\<lambda>v r. r\<lparr>ro_metadata := v\<rparr>) into_flux_metadata
     else if k = ''status'' then into_field ro_status (\<lambda>v r. r\<lparr>ro_status := v\<rparr>) into_flux_status
     else skip_member)"

definition into_flux_list_metadata :: "flux_list_metadata decoder" where
  "into_flux_list_metadata = into_struct (\<lambda>k.
     if k = ''continue'' then into_field flm_continue (\<lambda>v r. r\<lparr>flm_continue := v\<rparr>) into_string
     else skip_member)"

definition into_resource_list :: "resource_list decoder" where
  "into_resource_list = into_struct (\<lambda>k.
     if k = ''metadata'' then into_field rl_metadata (\<lambda>v r. r\<lparr>rl_metadata := v\<rparr>) into_flux_list_metadata
     else if k = ''items'' then into_field rl_items (\<lambda>v r. r\<lparr>rl_items := v\<rparr>)
       (into_list zero_resource_object into_resource_object)
     else skip_member)"

subsection \<open>Observation\<close>

definition flux_resource_list_limit :: string where
  "flux_resource_list_limit = ''500''"

definition list_resources ::
    "stdlib \<Rightarrow> world \<Rightarrow> flux_client \<Rightarrow> scope \<times> flux_resource_kind \<Rightarrow> resource_list io" where
  "list_resources lib w c q =
     (let (scope, resource) = q;
          path = ''/apis/'' @ frk_group resource @ ''/'' @ frk_version resource @ ''/namespaces/'' @
            path_escape (scope_namespace scope) @ ''/'' @ frk_resource resource
      in io_bind (source_get lib w (flux_http c) path [(''limit'', [flux_resource_list_limit])])
           (\<lambda>body. io_lift
             (case unmarshal_json body of None \<Rightarrow> Inl (SourceHttpError InvalidSourceResponse)
              | Some j \<Rightarrow>
                  (case into_resource_list j zero_resource_list of
                     None \<Rightarrow> Inl (SourceHttpError InvalidSourceResponse)
                   | Some l \<Rightarrow> Inr l))))"

text \<open>The first condition of type \<open>Ready\<close> decides; \<open>None\<close> stands for an object that is ready.\<close>

fun conditions_health :: "stdlib \<Rightarrow> flux_condition list \<Rightarrow>
    (readiness_state \<times> reconciliation_reason \<times> time option) option" where
  "conditions_health lib [] = Some (ReadinessStateUnknown, ReconciliationReasonUnknown, None)"
| "conditions_health lib (c # cs) =
     (if fc_type c \<noteq> ''Ready'' then conditions_health lib cs
      else if fc_status c = ''True'' then None
      else
        (let state = (if fc_status c = ''False'' then ReadinessStateFalse else ReadinessStateUnknown)
         in Some (state, normalize_reconciliation_reason (fc_reason c),
              lib_parse_time lib (fc_last_transition_time c))))"

definition reconciliation_health :: "stdlib \<Rightarrow> resource_object \<Rightarrow>
    (readiness_state \<times> reconciliation_reason \<times> time option) option" where
  "reconciliation_health lib item = conditions_health lib (fs_conditions (ro_status item))"

definition add_reconciliation :: "stdlib \<Rightarrow> scope \<Rightarrow> reconciliation_kind \<Rightarrow> resource_object \<Rightarrow>
    list_unhealthy_reconciliations_output \<Rightarrow> list_unhealthy_reconciliations_output" where
  "add_reconciliation lib scope kind item result =
     (case reconciliation_health lib item of None \<Rightarrow> result
      | Some (state, reason, transitioned_at) \<Rightarrow>
          if \<not> valid_object_name (fm_name (ro_metadata item)) then result\<lparr>luro_truncated := True\<rparr>
          else result\<lparr>luro_reconciliations := luro_reconciliations result @
                 [\<lparr>ur_scope = scope_id scope, ur_kind = kind, ur_name = fm_name (ro_metadata item),
                   ur_state = state, ur_reason = reason, ur_transitioned_at = transitioned_at\<rparr>]\<rparr>)"

definition add_reconciliations ::
    "stdlib \<Rightarrow> scope \<times> flux_resource_kind \<Rightarrow> resource_list \<Rightarrow>
     list_unhealthy_reconciliations_output \<Rightarrow> list_unhealthy_reconciliations_output" where
  "add_reconciliations lib q l result =
     (let result = result\<lparr>luro_truncated := luro_truncated result \<or> flm_continue (rl_metadata l) \<noteq> []\<rparr>
      in fold (add_reconciliation lib (fst q) (frk_kind (snd q))) (rl_items l) result)"

definition reconciliation_kind_of :: "unhealthy_reconciliation \<Rightarrow> string" where
  "reconciliation_kind_of r = reconciliation_kind_text (ur_kind r)"

definition reconciliation_key :: "unhealthy_reconciliation \<Rightarrow> string" where
  "reconciliation_key = listing_key ur_scope reconciliation_kind_of ur_name"

definition conclude_reconciliations ::
    "int \<Rightarrow> list_unhealthy_reconciliations_output \<Rightarrow> list_unhealthy_reconciliations_output" where
  "conclude_reconciliations limit result =
     (let (reconciliations, truncated) =
        truncate_list limit (sort_func (compare_by reconciliation_key) (luro_reconciliations result))
          (luro_truncated result)
      in result\<lparr>luro_reconciliations := reconciliations, luro_truncated := truncated\<rparr>)"

definition list_unhealthy_reconciliations ::
    "stdlib \<Rightarrow> world \<Rightarrow> clock \<Rightarrow> flux_client \<Rightarrow> list_unhealthy_reconciliations_input \<Rightarrow>
     list_unhealthy_reconciliations_output io" where
  "list_unhealthy_reconciliations lib w clock c inp =
     io_bind (io_lift (normalize_list_unhealthy_reconciliations_input inp)) (\<lambda>inp.
     if lur_target inp \<noteq> flux_target_id c
       then io_fail (ErrorText ''Flux target is not configured'')
     else io_bind (io_lift (flux_selected_scopes c (lur_scope inp))) (\<lambda>scopes.
       io_bind (io_now clock) (\<lambda>now.
       io_bind
         (for_each (\<lambda>scope. for_each (\<lambda>resource result.
             io_bind (list_resources lib w c (scope, resource))
               (\<lambda>l. io_return (add_reconciliations lib (scope, resource) l result)))
           reconciliation_resources) scopes
           \<lparr>luro_target = flux_target_id c, luro_observed_at = now, luro_reconciliations = [],
            luro_truncated = False\<rparr>)
         (\<lambda>result. io_lift
            (checked marshal_list_unhealthy_reconciliations_output
              (conclude_reconciliations (lur_limit inp) result))))))"

end
