(* ===== verification/FluxProperties.thy ===== *)
theory FluxProperties
  imports Flux Examples
begin

section \<open>Properties of the Flux adapter\<close>

text \<open>
  The listing refines a collecting pass with a pure report, exactly as the Kubernetes listing does;
  the properties below are proved of the report. \<open>flux_accepted\<close> collects the checks made before
  anything is read.
\<close>

subsection \<open>Client and requests\<close>

definition flux_client_inv :: "flux_client \<Rightarrow> bool" where
  "flux_client_inv c \<longleftrightarrow>
     valid_identifier (flux_target_id c) \<and> source_client_inv (flux_http c) \<and> scopes_inv (flux_scopes c)"

lemma flux_new_inv:
  assumes "flux_new lib cfg = Inr c"
  shows "flux_client_inv c"
  using assms build_scopes_Inr [of "''Flux''" "fcfg_scopes cfg"] source_new_inv
  by (auto simp: flux_new_def flux_client_inv_def validate_identifier_eq split: if_splits)

lemma flux_target_valid: "flux_client_inv c \<Longrightarrow> valid_target (flux_target c)"
  by (simp add: flux_client_inv_def valid_target_def flux_target_def capability_matches_kind_def
      target_kind_defs capability_defs)

definition flux_resource_path :: "scope_map \<Rightarrow> string \<Rightarrow> bool" where
  "flux_resource_path m path \<longleftrightarrow>
     (\<exists>s r. scope_ok m s \<and> r \<in> set reconciliation_resources \<and>
        path = ''/apis/'' @ frk_group r @ ''/'' @ frk_version r @ ''/namespaces/'' @ scope_namespace s @
          ''/'' @ frk_resource r)"

definition flux_event :: "flux_client \<Rightarrow> event \<Rightarrow> bool" where
  "flux_event c = request_event valid_bearer_token (src_base_url (flux_http c)) (src_credential (flux_http c))
     (\<lambda>path query. flux_resource_path (flux_scopes c) path \<and> query = ''limit=500'')"

definition flux_failure :: "go_error \<Rightarrow> bool" where
  "flux_failure e \<longleftrightarrow> source_get_error e"

definition flux_query :: "flux_client \<Rightarrow> scope \<times> flux_resource_kind \<Rightarrow> bool" where
  "flux_query c q \<longleftrightarrow> scope_ok (flux_scopes c) (fst q) \<and> snd q \<in> set reconciliation_resources"

lemma flux_limit_query: "encode_query [(''limit'', [flux_resource_list_limit])] = ''limit=500''"
  by code_simp

lemma flux_query_path:
  assumes "flux_client_inv c" and "flux_query c (s, r)"
  shows "flux_resource_path (flux_scopes c) (''/apis/'' @ frk_group r @ ''/'' @ frk_version r @
    ''/namespaces/'' @ path_escape (scope_namespace s) @ ''/'' @ frk_resource r)"
proof -
  have ok: "scope_ok (flux_scopes c) s" and r: "r \<in> set reconciliation_resources"
    using assms(2) by (auto simp: flux_query_def)
  have "path_escape (scope_namespace s) = scope_namespace s"
    using scope_ok_valid [OF ok] assms(1)
    by (intro path_escape_label) (simp add: flux_client_inv_def valid_label_def)
  with ok r show ?thesis unfolding flux_resource_path_def by metis
qed

lemma list_resources_Inl:
  assumes "list_resources lib w c q h = (Inl e, h')"
  shows "flux_failure e"
  using bind_lift_Inl [OF assms [unfolded list_resources_def Let_def case_prod_beta]]
proof
  assume "\<exists>x. (case unmarshal_json x of None \<Rightarrow> Inl (SourceHttpError InvalidSourceResponse)
      | Some j \<Rightarrow> (case into_resource_list j zero_resource_list of
          None \<Rightarrow> Inl (SourceHttpError InvalidSourceResponse) | Some l \<Rightarrow> Inr l)) = Inl e"
  then show ?thesis using invalid_source_response by (auto simp: flux_failure_def split: option.splits)
qed (auto simp only: flux_failure_def dest: source_get_Inl)

interpretation flux_source: bounded_source flux_client_inv flux_query "list_resources lib w" flux_event flux_failure
  for lib w
proof unfold_locales
  fix c q
  assume c: "flux_client_inv c" and q: "flux_query c q"
  obtain s r where qs: "q = (s, r)" by (cases q)
  show "emits (flux_event c) (list_resources lib w c q)"
    unfolding list_resources_def Let_def qs prod.case flux_event_def
    by (rule emits_bind, rule emits_source_get)
      (use c flux_query_path [OF c, of s r] q in \<open>auto simp: qs flux_client_inv_def flux_limit_query\<close>)
next
  fix c q h
  assume "flux_client_inv c"
  then show "requests (snd (list_resources lib w c q h)) \<le> requests h + 1"
    unfolding list_resources_def Let_def case_prod_beta bind_lift_history
    by (intro source_get_requests) (simp add: flux_client_inv_def)
next
  fix c q h e h'
  assume "list_resources lib w c q h = (Inl e, h')"
  then show "flux_failure e" by (rule list_resources_Inl)
qed

subsection \<open>The report\<close>

type_synonym flux_page = "(scope \<times> flux_resource_kind) \<times> resource_list"
type_synonym flux_object = "scope \<times> reconciliation_kind \<times> resource_object"

definition flux_queries :: "scope list \<Rightarrow> (scope \<times> flux_resource_kind) list" where
  "flux_queries scopes = List.product scopes reconciliation_resources"

definition listed_objects :: "flux_page list \<Rightarrow> flux_object list" where
  "listed_objects pages = [(fst q, frk_kind (snd q), item). (q, l) \<leftarrow> pages, item \<leftarrow> rl_items l]"

text \<open>
  Readiness as the Flux API defines it: the first condition of type \<open>Ready\<close> has the status \<open>True\<close>.
  An object without such a condition is not ready.
\<close>

definition first_ready :: "flux_object \<Rightarrow> flux_condition option" where
  "first_ready x = find (\<lambda>c. fc_type c = ''Ready'') (fs_conditions (ro_status (snd (snd x))))"

definition object_ready :: "flux_object \<Rightarrow> bool" where
  "object_ready x \<longleftrightarrow> (case first_ready x of None \<Rightarrow> False | Some c \<Rightarrow> fc_status c = ''True'')"

definition object_named :: "flux_object \<Rightarrow> bool" where
  "object_named x \<longleftrightarrow> valid_object_name (fm_name (ro_metadata (snd (snd x))))"

definition object_entry :: "stdlib \<Rightarrow> flux_object \<Rightarrow> unhealthy_reconciliation" where
  "object_entry lib x =
     (case x of (scope, kind, item) \<Rightarrow>
        \<lparr>ur_scope = scope_id scope, ur_kind = kind, ur_name = fm_name (ro_metadata item),
         ur_state = (case first_ready x of None \<Rightarrow> ReadinessStateUnknown
           | Some c \<Rightarrow> if fc_status c = ''False'' then ReadinessStateFalse else ReadinessStateUnknown),
         ur_reason = (case first_ready x of None \<Rightarrow> ReconciliationReasonUnknown
           | Some c \<Rightarrow> normalize_reconciliation_reason (fc_reason c)),
         ur_transitioned_at = (case first_ready x of None \<Rightarrow> None
           | Some c \<Rightarrow> lib_parse_time lib (fc_last_transition_time c))\<rparr>)"

text \<open>The loop over the conditions computes this.\<close>

lemma reconciliation_health_eq:
  "reconciliation_health lib item =
     (let x = (s, k, item); e = object_entry lib x in
      if object_ready x then None else Some (ur_state e, ur_reason e, ur_transitioned_at e))"
proof -
  have "conditions_health lib cs = (case find (\<lambda>c. fc_type c = ''Ready'') cs of
      None \<Rightarrow> Some (ReadinessStateUnknown, ReconciliationReasonUnknown, None)
    | Some c \<Rightarrow> if fc_status c = ''True'' then None
        else Some (if fc_status c = ''False'' then ReadinessStateFalse else ReadinessStateUnknown,
          normalize_reconciliation_reason (fc_reason c), lib_parse_time lib (fc_last_transition_time c)))" for cs
    by (induction cs) auto
  then show ?thesis
    by (auto simp: reconciliation_health_def object_ready_def object_entry_def first_ready_def split: option.split)
qed

definition flux_entries :: "stdlib \<Rightarrow> flux_page list \<Rightarrow> unhealthy_reconciliation list" where
  "flux_entries lib pages =
     map (object_entry lib) (filter (\<lambda>x. \<not> object_ready x \<and> object_named x) (listed_objects pages))"

definition flux_partial :: "flux_page list \<Rightarrow> bool" where
  "flux_partial pages \<longleftrightarrow> list_ex (\<lambda>(_, l). flm_continue (rl_metadata l) \<noteq> []) pages"

definition flux_withheld :: "stdlib \<Rightarrow> flux_page list \<Rightarrow> bool" where
  "flux_withheld lib pages \<longleftrightarrow>
     flux_partial pages \<or> list_ex (\<lambda>x. \<not> object_ready x \<and> \<not> object_named x) (listed_objects pages)"

definition flux_report :: "stdlib \<Rightarrow> string \<Rightarrow> int \<Rightarrow> time \<Rightarrow> flux_page list \<Rightarrow>
    list_unhealthy_reconciliations_output" where
  "flux_report lib tid limit now pages =
     (let (reconciliations, truncated) =
        truncate_list limit (sort_func (compare_by reconciliation_key) (flux_entries lib pages))
          (flux_withheld lib pages)
      in \<lparr>luro_target = tid, luro_observed_at = now, luro_reconciliations = reconciliations,
          luro_truncated = truncated\<rparr>)"

lemma listed_objects_simps [simp]:
  "listed_objects [] = []"
  "listed_objects ((q, l) # pages) =
     map (\<lambda>item. (fst q, frk_kind (snd q), item)) (rl_items l) @ listed_objects pages"
  by (simp_all add: listed_objects_def)

lemma add_reconciliation_eq:
  "add_reconciliation lib scope kind item result =
     (let x = (scope, kind, item) in
      if object_ready x then result
      else if \<not> object_named x then result\<lparr>luro_truncated := True\<rparr>
      else result\<lparr>luro_reconciliations := luro_reconciliations result @ [object_entry lib x]\<rparr>)"
  by (auto simp: add_reconciliation_def reconciliation_health_eq [of lib item scope kind] object_named_def Let_def)
    (simp add: object_entry_def)

lemma fold_add_reconciliation:
  "fold (add_reconciliation lib scope kind) items result =
     (let xs = map (\<lambda>item. (scope, kind, item)) items in
      result\<lparr>luro_reconciliations := luro_reconciliations result @
               map (object_entry lib) (filter (\<lambda>x. \<not> object_ready x \<and> object_named x) xs),
        luro_truncated := luro_truncated result \<or> list_ex (\<lambda>x. \<not> object_ready x \<and> \<not> object_named x) xs\<rparr>)"
proof (induction items arbitrary: result)
  case (Cons item items)
  then show ?case by (auto simp: add_reconciliation_eq Let_def)
qed simp

lemma fold_add_reconciliations:
  "fold (\<lambda>(q, l). add_reconciliations lib q l) pages result =
     result\<lparr>luro_reconciliations := luro_reconciliations result @ flux_entries lib pages,
       luro_truncated := luro_truncated result \<or> flux_withheld lib pages\<rparr>"
proof (induction pages arbitrary: result)
  case (Cons entry pages)
  obtain q l where entry: "entry = (q, l)" by (cases entry)
  let ?xs = "map (\<lambda>item. (fst q, frk_kind (snd q), item)) (rl_items l)"
  let ?out = "map (object_entry lib) (filter (\<lambda>x. \<not> object_ready x \<and> object_named x) ?xs)"
  let ?bad = "list_ex (\<lambda>x. \<not> object_ready x \<and> \<not> object_named x) ?xs"
  let ?more = "flm_continue (rl_metadata l) \<noteq> []"
  have "add_reconciliations lib q l result = result\<lparr>luro_reconciliations := luro_reconciliations result @ ?out,
      luro_truncated := luro_truncated result \<or> ?more \<or> ?bad\<rparr>"
    by (simp add: add_reconciliations_def fold_add_reconciliation Let_def)
  moreover have "flux_entries lib (entry # pages) = ?out @ flux_entries lib pages"
    by (simp add: flux_entries_def entry)
  moreover have "flux_withheld lib (entry # pages) \<longleftrightarrow> ?more \<or> ?bad \<or> flux_withheld lib pages"
    by (auto simp: flux_withheld_def flux_partial_def entry simp del: list_ex_iff)
  ultimately show ?case by (simp add: Cons.IH entry disj_assoc del: list_ex_iff)
qed (simp add: flux_entries_def flux_withheld_def flux_partial_def)

lemma conclude_flux_report:
  "conclude_reconciliations limit (fold (\<lambda>(q, l). add_reconciliations lib q l) pages
      \<lparr>luro_target = tid, luro_observed_at = now, luro_reconciliations = [], luro_truncated = False\<rparr>) =
    flux_report lib tid limit now pages"
  by (simp add: fold_add_reconciliations conclude_reconciliations_def flux_report_def split: prod.split)

subsection \<open>Accepted inputs\<close>

definition flux_accepted :: "flux_client \<Rightarrow> list_unhealthy_reconciliations_input \<Rightarrow> (int \<times> scope list) result" where
  "flux_accepted c inp =
     result_bind (normalize_list_unhealthy_reconciliations_input inp) (\<lambda>inp'.
       if lur_target inp' \<noteq> flux_target_id c then Inl (ErrorText ''Flux target is not configured'')
       else result_bind (flux_selected_scopes c (lur_scope inp')) (\<lambda>scopes. Inr (lur_limit inp', scopes)))"

text \<open>The listing is the check of its input, then one observation over the accepted queries.\<close>

lemma list_unhealthy_reconciliations_eq:
  "list_unhealthy_reconciliations lib w clock c inp =
     (case flux_accepted c inp of
        Inl e \<Rightarrow> io_fail e
      | Inr (limit, scopes) \<Rightarrow>
          observe_pages clock (list_resources lib w c) (flux_queries scopes)
            (flux_report lib (flux_target_id c) limit) marshal_list_unhealthy_reconciliations_output)"
proof (cases "normalize_list_unhealthy_reconciliations_input inp")
  case (Inl e)
  then show ?thesis by (simp add: list_unhealthy_reconciliations_def flux_accepted_def)
next
  case (Inr inp')
  show ?thesis
  proof (cases "flux_selected_scopes c (lur_scope inp')")
    case (Inl e)
    with Inr show ?thesis by (simp add: list_unhealthy_reconciliations_def flux_accepted_def)
  next
    case (Inr scopes)
    with \<open>normalize_list_unhealthy_reconciliations_input inp = Inr inp'\<close> show ?thesis
      by (simp add: list_unhealthy_reconciliations_def flux_accepted_def nested_loop_collect io_bind_assoc
          conclude_flux_report flux_queries_def observe_pages_def)
  qed
qed

lemma flux_accepted_Inr:
  assumes "flux_accepted c inp = Inr (limit, scopes)"
  shows "limit = (if lur_limit inp = 0 then 20 else lur_limit inp) \<and> 1 \<le> limit \<and> limit \<le> 50 \<and>
    lur_target inp = flux_target_id c \<and> flux_selected_scopes c (lur_scope inp) = Inr scopes"
proof -
  obtain inp' where n: "normalize_list_unhealthy_reconciliations_input inp = Inr inp'"
    and t: "lur_target inp' = flux_target_id c" and s: "flux_selected_scopes c (lur_scope inp') = Inr scopes"
    and l: "lur_limit inp' = limit"
    using assms by (auto simp: flux_accepted_def split: if_splits)
  have "inp' = inp\<lparr>lur_limit := limit\<rparr>" and "normalize_list_limit (lur_limit inp) = Inr limit"
    using n l by (auto simp: normalize_reconciliations_Inr)
  with t s show ?thesis
    by (auto simp: normalize_list_limit_Inr default_list_limit_def max_list_limit_def)
qed

lemma flux_accepted_queries:
  assumes "flux_client_inv c" and "flux_accepted c inp = Inr (limit, scopes)"
  shows "list_all (flux_query c) (flux_queries scopes) \<and> length (flux_queries scopes) \<le> 96"
proof -
  have "flux_selected_scopes c (lur_scope inp) = Inr scopes" using flux_accepted_Inr [OF assms(2)] by simp
  then have "list_all (scope_ok (flux_scopes c)) scopes" and "length scopes \<le> 32"
    using assms(1) select_scopes_Inr [of FluxUnknownScope "flux_scopes c" "lur_scope inp" scopes]
    by (auto simp: flux_client_inv_def flux_selected_scopes_def)
  then show ?thesis
    by (auto simp: flux_queries_def list_all_iff flux_query_def length_product reconciliation_resources_def)
qed

subsection \<open>Entries and sizes\<close>

interpretation reconciliations: keyed_listing ur_scope reconciliation_kind_of ur_name
proof
  fix x
  show "nul_free (reconciliation_kind_of x)"
    by (cases "ur_kind x") (simp_all add: reconciliation_kind_of_def nul_free_def)
qed

lemma flux_report_best:
  assumes "0 \<le> limit"
  shows "best_first (compare_by reconciliation_key) limit (flux_entries lib pages) (flux_withheld lib pages)
    (luro_reconciliations (flux_report lib tid limit now pages), luro_truncated (flux_report lib tid limit now pages))"
  using reconciliations.listing [OF assms, of "flux_entries lib pages" "flux_withheld lib pages"]
  by (simp add: flux_report_def reconciliation_key_def case_prod_beta)

text \<open>What every published entry satisfies.\<close>

definition reconciliation_ok :: "stdlib \<Rightarrow> flux_client \<Rightarrow> unhealthy_reconciliation \<Rightarrow> bool" where
  "reconciliation_ok lib c r \<longleftrightarrow>
     ur_scope r \<in> fst ` set (flux_scopes c) \<and> valid_object_name (ur_name r) \<and>
     (case ur_transitioned_at r of None \<Rightarrow> True | Some t \<Rightarrow> t \<in> ran (lib_parse_time lib))"

lemma flux_entries_ok:
  assumes "list_all (\<lambda>(q, l). flux_query c q) pages" and "r \<in> set (flux_entries lib pages)"
  shows "reconciliation_ok lib c r"
proof -
  obtain s kind item where x: "(s, kind, item) \<in> set (listed_objects pages)"
    and bad: "\<not> object_ready (s, kind, item)" and name: "object_named (s, kind, item)"
    and r: "r = object_entry lib (s, kind, item)"
    using assms(2) by (auto simp: flux_entries_def)
  have "scope_ok (flux_scopes c) s"
    using x assms(1) by (auto simp: listed_objects_def list_all_iff flux_query_def)
  then have "scope_id s \<in> fst ` set (flux_scopes c)" by (force simp: scope_ok_def)
  with name show ?thesis
    by (auto simp: reconciliation_ok_def r object_entry_def object_named_def intro: ranI split: option.split)
qed

lemma reconciliation_ok_scope:
  assumes "reconciliation_ok lib c r" and "flux_client_inv c"
  shows "valid_identifier (ur_scope r)"
proof -
  obtain e where "e \<in> set (flux_scopes c)" "ur_scope r = fst e"
    using assms(1) by (auto simp: reconciliation_ok_def)
  then show ?thesis
    using assms(2) by (auto simp: flux_client_inv_def scopes_inv_def list_all_iff scope_entry_def)
qed

lemma kind_plain:
  "list_all plain_char (reconciliation_kind_text k) \<and> length (reconciliation_kind_text k) \<le> 13"
  by (cases k) (simp_all add: plain_char_iff byte_def)

lemma state_plain: "list_all plain_char (readiness_state_text s) \<and> length (readiness_state_text s) \<le> 7"
  by (cases s) (simp_all add: plain_char_iff byte_def)

lemma reason_plain:
  "list_all plain_char (reconciliation_reason_text r) \<and> length (reconciliation_reason_text r) \<le> 21"
  by (cases r) (simp_all add: plain_char_iff byte_def)

lemma reconciliation_fits:
  assumes "reconciliation_ok lib c r" and "flux_client_inv c" and "sane_times lib"
  shows "fits 1000 (marshal_unhealthy_reconciliation r)"
proof -
  have s: "fits (32 + 2) (marshal_string (ur_scope r))"
    using valid_identifier_plain [OF reconciliation_ok_scope [OF assms(1,2)]] by (intro fits_plain_string) auto
  have k: "fits (13 + 2) (marshal_string (reconciliation_kind_text (ur_kind r)))"
    using kind_plain by (intro fits_plain_string) auto
  have n: "fits (253 + 2) (marshal_string (ur_name r))"
    using valid_object_name_plain assms by (intro fits_plain_string) (auto simp: reconciliation_ok_def)
  have st: "fits (7 + 2) (marshal_string (readiness_state_text (ur_state r)))"
    using state_plain by (intro fits_plain_string) auto
  have rs: "fits (21 + 2) (marshal_string (reconciliation_reason_text (ur_reason r)))"
    using reason_plain by (intro fits_plain_string) auto
  have t: "fits 290 (marshal_time t)" if "ur_transitioned_at r = Some t" for t
    using assms that by (auto simp: reconciliation_ok_def sane_times_def ran_def intro!: fits_time)
  show ?thesis unfolding marshal_unhealthy_reconciliation_def
    by (rule fits_mono, rule fits_struct,
        (rule fields_fit_append fields_fit_Cons fields_fit_Nil fields_fit_omit_nil s k n st rs t | assumption)+) simp
qed

lemma flux_report_fits:
  assumes "list_all (\<lambda>(q, l). flux_query c q) pages" and "flux_client_inv c" and "sane_times lib"
    and "0 \<le> limit" and "limit \<le> 50" and "time_valid now"
  shows "fits 60000 (marshal_list_unhealthy_reconciliations_output (flux_report lib (flux_target_id c) limit now pages))"
proof -
  let ?out = "flux_report lib (flux_target_id c) limit now pages"
  have best: "best_first (compare_by reconciliation_key) limit (flux_entries lib pages) (flux_withheld lib pages)
      (luro_reconciliations ?out, luro_truncated ?out)"
    using assms(4) by (rule flux_report_best)
  then have "set (luro_reconciliations ?out) \<subseteq> set (flux_entries lib pages)" by (rule best_first_subset)
  then have "\<And>r. r \<in> set (luro_reconciliations ?out) \<Longrightarrow> fits 1000 (marshal_unhealthy_reconciliation r)"
    using flux_entries_ok [OF assms(1)] reconciliation_fits assms(2,3) by blast
  moreover have "length (luro_reconciliations ?out) \<le> 50" using best assms(5) by (simp add: best_first_def)
  ultimately have l: "fits (2 + 50 * (1000 + 1))
      (marshal_list marshal_unhealthy_reconciliation (luro_reconciliations ?out))"
    by (intro fits_list)
  have t: "fits (32 + 2) (marshal_string (luro_target ?out))"
    using assms(2) valid_identifier_plain
    by (intro fits_plain_string) (auto simp: flux_report_def flux_client_inv_def case_prod_beta)
  have o: "fits 290 (marshal_time (luro_observed_at ?out))"
    using assms(6) by (simp add: fits_time flux_report_def case_prod_beta)
  show ?thesis unfolding marshal_list_unhealthy_reconciliations_output_def
    by (rule fits_mono, rule fits_struct, (rule fields_fit_Cons fields_fit_Nil t o l fits_bool)+) simp
qed

text \<open>A report cannot be encoded exactly when one of its timestamps is outside the years 0 to 9999.\<close>

definition flux_times_encodable :: "list_unhealthy_reconciliations_output \<Rightarrow> bool" where
  "flux_times_encodable out \<longleftrightarrow>
     list_all (\<lambda>r. pred_option time_encodable (ur_transitioned_at r)) (luro_reconciliations out)"

lemma flux_report_encodable:
  assumes "time_encodable (luro_observed_at out)"
  shows "marshal_list_unhealthy_reconciliations_output out = None \<longleftrightarrow> \<not> flux_times_encodable out"
proof -
  have "marshal_unhealthy_reconciliation r = None \<longleftrightarrow> \<not> pred_option time_encodable (ur_transitioned_at r)" for r
    by (cases "ur_transitioned_at r")
      (auto simp: marshal_unhealthy_reconciliation_def marshal_struct_None marshal_string_def omit_nil_def
        marshal_time_def)
  then show ?thesis
    using assms
    by (auto simp: marshal_list_unhealthy_reconciliations_output_def marshal_struct_None marshal_list_None
        marshal_string_def marshal_bool_def marshal_time_def flux_times_encodable_def list_all_iff)
qed

lemma flux_pages_query: "list_all (flux_query c) qs \<Longrightarrow> list_all (\<lambda>(q, l). flux_query c q) (zip qs pages)"
  by (auto simp: list_all_iff dest: set_zip_leftD)

subsection \<open>A small cluster\<close>

definition flux_example_body :: "string \<Rightarrow> string" where
  "flux_example_body transitioned =
     backquoted (''{`items`:[{`metadata`:{`name`:`web`},`status`:{`conditions`:[{`type`:`Ready`,`status`:`False`,'' @
       ''`reason`:`BuildFailed`,`lastTransitionTime`:`'' @ transitioned @ ''`}]}}]}'')"

definition flux_example_world :: "string \<Rightarrow> world" where
  "flux_example_world transitioned h path query =
     example_exchange
       (if path = ''/apis/kustomize.toolkit.fluxcd.io/v1/namespaces/apps-prod/kustomizations''
        then flux_example_body transitioned else backquoted ''{`items`:[]}'')"

definition flux_example_config :: flux_config where
  "flux_example_config = \<lparr>fcfg_target_id = ''flux-a'', fcfg_base_url = ''https://k8s.example'',
     fcfg_credential = True, fcfg_scopes = [example_scope], fcfg_http_client = None, fcfg_request_timeout = 0\<rparr>"

definition flux_example_client :: flux_client where
  "flux_example_client = \<lparr>flux_target_id = ''flux-a'',
     flux_http = \<lparr>src_base_url = example_url, src_credential = True, src_http_client = example_http_client,
       src_request_timeout = default_request_timeout\<rparr>,
     flux_scopes = [(''apps'', ''apps-prod'')]\<rparr>"

lemma flux_example_new: "flux_new example_lib flux_example_config = Inr flux_example_client"
  by code_simp

lemma flux_example_inv: "flux_client_inv flux_example_client"
  using flux_example_new by (rule flux_new_inv)

definition flux_example_input :: list_unhealthy_reconciliations_input where
  "flux_example_input = \<lparr>lur_target = ''flux-a'', lur_scope = ''apps'', lur_limit = 5\<rparr>"

lemma flux_example_accepted: "flux_accepted flux_example_client flux_example_input = Inr (5, [example_scope])"
  by code_simp

definition flux_example_entry :: unhealthy_reconciliation where
  "flux_example_entry = \<lparr>ur_scope = ''apps'', ur_kind = ReconciliationKindKustomization, ur_name = ''web'',
     ur_state = ReadinessStateFalse, ur_reason = ReconciliationReasonReconciliationFailed,
     ur_transitioned_at = Some example_instant\<rparr>"

definition flux_example_output :: list_unhealthy_reconciliations_output where
  "flux_example_output = \<lparr>luro_target = ''flux-a'', luro_observed_at = example_instant,
     luro_reconciliations = [flux_example_entry], luro_truncated = False\<rparr>"

lemma flux_example_run:
  "fst (list_unhealthy_reconciliations example_lib (flux_example_world ''2026-08-03T00:00:00Z'') example_clock
     flux_example_client flux_example_input []) = Inr flux_example_output"
  by code_simp

text \<open>
  Two namespaces, each with a kustomization that is ready, one without any condition, and one whose
  first \<open>Ready\<close> condition is neither true nor false although a later one is true.
\<close>

definition flux_mixed_body :: string where
  "flux_mixed_body = backquoted (''{`items`:['' @
     ''{`metadata`:{`name`:`web`},`status`:{`conditions`:[{`type`:`Ready`,`status`:`True`}]}},'' @
     ''{`metadata`:{`name`:`new`}},'' @
     ''{`metadata`:{`name`:`job`},`status`:{`conditions`:[{`type`:`Healthy`,`status`:`True`},'' @
     ''{`type`:`Ready`,`status`:`Unknown`},{`type`:`Ready`,`status`:`True`}]}}]}'')"

definition flux_mixed_world :: world where
  "flux_mixed_world h path query = example_exchange
     (if path \<in> {''/apis/kustomize.toolkit.fluxcd.io/v1/namespaces/apps-prod/kustomizations'',
        ''/apis/kustomize.toolkit.fluxcd.io/v1/namespaces/core-prod/kustomizations''}
      then flux_mixed_body else backquoted ''{`items`:[]}'')"

definition flux_mixed_config :: flux_config where
  "flux_mixed_config = flux_example_config\<lparr>fcfg_scopes :=
     [\<lparr>scope_id = ''core'', scope_namespace = ''core-prod''\<rparr>, example_scope]\<rparr>"

definition flux_mixed_client :: flux_client where
  "flux_mixed_client = flux_example_client\<lparr>flux_scopes := [(''core'', ''core-prod''), (''apps'', ''apps-prod'')]\<rparr>"

lemma flux_mixed_inv: "flux_client_inv flux_mixed_client"
proof -
  have "flux_new example_lib flux_mixed_config = Inr flux_mixed_client" by code_simp
  then show ?thesis by (rule flux_new_inv)
qed

lemma scope_ok_ids: "scope_id ` {s. scope_ok m s} = fst ` set m"
proof (intro equalityI subsetI)
  fix i
  assume "i \<in> fst ` set m"
  then obtain n where "scope_ok m \<lparr>scope_id = i, scope_namespace = n\<rparr>" by (auto simp: scope_ok_def)
  then show "i \<in> scope_id ` {s. scope_ok m s}" by (intro image_eqI [of i scope_id]) auto
qed (force simp: scope_ok_def)

definition flux_all_scopes_input :: list_unhealthy_reconciliations_input where
  "flux_all_scopes_input = \<lparr>lur_target = ''flux-a'', lur_scope = [], lur_limit = 0\<rparr>"

definition flux_mixed_entry :: "string \<Rightarrow> string \<Rightarrow> unhealthy_reconciliation" where
  "flux_mixed_entry scope name = \<lparr>ur_scope = scope, ur_kind = ReconciliationKindKustomization, ur_name = name,
     ur_state = ReadinessStateUnknown, ur_reason = ReconciliationReasonUnknown, ur_transitioned_at = None\<rparr>"

definition flux_mixed_output :: list_unhealthy_reconciliations_output where
  "flux_mixed_output = \<lparr>luro_target = ''flux-a'', luro_observed_at = example_instant,
     luro_reconciliations = [flux_mixed_entry ''apps'' ''job'', flux_mixed_entry ''apps'' ''new'',
       flux_mixed_entry ''core'' ''job'', flux_mixed_entry ''core'' ''new''], luro_truncated = False\<rparr>"

lemma flux_mixed_run:
  "fst (list_unhealthy_reconciliations example_lib flux_mixed_world example_clock flux_mixed_client
     flux_all_scopes_input []) = Inr flux_mixed_output"
  by code_simp

text \<open>The last second of the year 9999, an hour west of Greenwich, is in the year 10000 in UTC.\<close>

definition late_lib :: stdlib where
  "late_lib = example_lib\<lparr>lib_parse_time :=
     (\<lambda>s. if s = ''9999-12-31T23:59:59-01:00'' then Some (Time 253402304399 0) else None)\<rparr>"

lemma late_run:
  "fst (list_unhealthy_reconciliations late_lib (flux_example_world ''9999-12-31T23:59:59-01:00'') example_clock
     flux_example_client flux_example_input []) = Inl encode_error"
  by code_simp

subsection \<open>The properties\<close>

lemma every_kind_watched: "frk_kind ` set reconciliation_resources = UNIV"
proof -
  have "k \<in> frk_kind ` set reconciliation_resources" for k by (cases k) (simp_all add: reconciliation_resources_def)
  then show ?thesis by blast
qed

text \<open>
  A Flux listing succeeds exactly when its input is accepted, every request of one pass over
  the selected scopes and resources succeeds, and the report over the collected pages passes the
  check of its size; its output is that report, and the history is that of the pass.
\<close>

theorem list_unhealthy_reconciliations_refines_report:
  "list_unhealthy_reconciliations lib w clock c inp h = (Inr out, h') \<longleftrightarrow>
     (\<exists>limit scopes pages. flux_accepted c inp = Inr (limit, scopes) \<and>
        collect (list_resources lib w c) (flux_queries scopes) h = (Inr pages, h') \<and>
        out = flux_report lib (flux_target_id c) limit (clock h) (zip (flux_queries scopes) pages) \<and>
        check_result_size (marshal_list_unhealthy_reconciliations_output out) = None)"
  by (auto simp: list_unhealthy_reconciliations_eq observe_pages_Inr split: sum.split)

lemma list_unhealthy_reconciliations_Inr:
  assumes "list_unhealthy_reconciliations lib w clock c inp h = (Inr out, h')"
  obtains limit scopes pages where "flux_accepted c inp = Inr (limit, scopes)"
    and "collect (list_resources lib w c) (flux_queries scopes) h = (Inr pages, h')"
    and "out = flux_report lib (flux_target_id c) limit (clock h) (zip (flux_queries scopes) pages)"
  using assms by (auto simp: list_unhealthy_reconciliations_eq observe_pages_Inr split: sum.splits)

text \<open>
  C7: every successful Flux listing is within the requested limit, sorted by scope, kind and name,
  and holds only objects of configured scopes with a valid name. It read every resource kind in
  exactly the configured scopes the input selects: the named one, or all. When it is not marked
  truncated it holds exactly the objects that are not ready among everything returned, where an
  object is ready when its first condition of type \<open>Ready\<close> has the status \<open>True\<close>, each with the state,
  reason and time of that condition; and the source had no further pages.
\<close>

theorem list_unhealthy_reconciliations_sorted_complete:
  assumes "flux_client_inv c" and "list_unhealthy_reconciliations lib w clock c inp h = (Inr out, h')"
  shows "int (length (luro_reconciliations out)) \<le> (if lur_limit inp = 0 then 20 else lur_limit inp) \<and>
    list_all (reconciliation_ok lib c) (luro_reconciliations out) \<and>
    sorted_wrt (\<lambda>a b. ur_scope a < ur_scope b \<or> ur_scope a = ur_scope b \<and>
      (reconciliation_kind_of a < reconciliation_kind_of b \<or>
       reconciliation_kind_of a = reconciliation_kind_of b \<and> ur_name a \<le> ur_name b)) (luro_reconciliations out) \<and>
    (\<exists>scopes pages.
       sorted_wrt (<) (map scope_id scopes) \<and>
       set scopes = {s. scope_ok (flux_scopes c) s \<and> (lur_scope inp = [] \<or> scope_id s = lur_scope inp)} \<and>
       frk_kind ` set reconciliation_resources = UNIV \<and>
       collect (list_resources lib w c) (flux_queries scopes) h = (Inr pages, h') \<and>
       (luro_truncated out \<or>
        \<not> flux_partial (zip (flux_queries scopes) pages) \<and>
        mset (luro_reconciliations out) = mset (map (object_entry lib)
          (filter (\<lambda>x. \<not> object_ready x) (listed_objects (zip (flux_queries scopes) pages))))))"
proof -
  obtain limit scopes pages where a: "flux_accepted c inp = Inr (limit, scopes)"
    and p: "collect (list_resources lib w c) (flux_queries scopes) h = (Inr pages, h')"
    and out: "out = flux_report lib (flux_target_id c) limit (clock h) (zip (flux_queries scopes) pages)"
    using assms(2) by (rule list_unhealthy_reconciliations_Inr)
  let ?pages = "zip (flux_queries scopes) pages"
  have limit: "limit = (if lur_limit inp = 0 then 20 else lur_limit inp)" "0 \<le> limit"
    using flux_accepted_Inr [OF a] by auto
  have best: "best_first (compare_by reconciliation_key) limit (flux_entries lib ?pages) (flux_withheld lib ?pages)
      (luro_reconciliations out, luro_truncated out)"
    unfolding out using limit(2) by (rule flux_report_best)
  have ok: "\<forall>r \<in> set (flux_entries lib ?pages). reconciliation_ok lib c r"
    using flux_entries_ok flux_pages_query flux_accepted_queries [OF assms(1) a] by blast
  then have nul: "\<forall>r \<in> set (flux_entries lib ?pages). nul_free (ur_scope r)"
    using reconciliation_ok_scope [OF _ assms(1)] valid_label_nul_free unfolding valid_identifier_def by blast
  have "mset (luro_reconciliations out) = mset (map (object_entry lib)
      (filter (\<lambda>x. \<not> object_ready x) (listed_objects ?pages))) \<and> \<not> flux_partial ?pages"
    if "\<not> luro_truncated out"
  proof -
    have w: "\<not> flux_withheld lib ?pages" and m: "mset (luro_reconciliations out) = mset (flux_entries lib ?pages)"
      using best_first_complete [of "compare_by reconciliation_key" limit] best that by auto
    have "filter (\<lambda>x. \<not> object_ready x \<and> object_named x) (listed_objects ?pages) =
        filter (\<lambda>x. \<not> object_ready x) (listed_objects ?pages)"
      using w by (intro filter_cong) (auto simp: flux_withheld_def list_ex_iff)
    with w m show ?thesis by (simp add: flux_withheld_def flux_entries_def)
  qed
  moreover have "sorted_wrt (<) (map scope_id scopes) \<and>
      set scopes = {s. scope_ok (flux_scopes c) s \<and> (lur_scope inp = [] \<or> scope_id s = lur_scope inp)}"
    using select_scopes_Inr [of FluxUnknownScope "flux_scopes c" "lur_scope inp" scopes] assms(1) flux_accepted_Inr [OF a]
    by (simp add: flux_client_inv_def flux_selected_scopes_def)
  moreover have "list_all (reconciliation_ok lib c) (luro_reconciliations out)"
    using ok best_first_subset [OF best] by (auto simp: list_all_iff)
  moreover note reconciliations.listing_sorted [OF best [unfolded reconciliation_key_def] nul]
  moreover have "int (length (luro_reconciliations out)) \<le> limit" using best by (simp add: best_first_def)
  moreover note p every_kind_watched
  ultimately show ?thesis unfolding limit(1) by blast
qed

theorem list_unhealthy_reconciliations_sorted_complete_witness:
  "fst (list_unhealthy_reconciliations example_lib flux_mixed_world example_clock flux_mixed_client
     flux_all_scopes_input []) = Inr flux_mixed_output \<and>
   (\<exists>scopes. map scope_id scopes = [''apps'', ''core''] \<and> set scopes = {s. scope_ok (flux_scopes flux_mixed_client) s})"
proof -
  from list_unhealthy_reconciliations_sorted_complete [OF flux_mixed_inv fst_run [OF flux_mixed_run]]
  obtain scopes where "sorted_wrt (<) (map scope_id scopes)"
    and scopes: "set scopes = {s. scope_ok (flux_scopes flux_mixed_client) s}"
    by (auto simp: flux_all_scopes_input_def)
  moreover have "set (map scope_id scopes) = {''apps'', ''core''}"
    unfolding set_map scopes scope_ok_ids by (simp add: flux_mixed_client_def insert_commute)
  moreover have "sorted_wrt (<) [''apps'', ''core'']" by code_simp
  ultimately have "map scope_id scopes = [''apps'', ''core'']"
    by (intro strict_sorted_equal) simp_all
  with scopes show ?thesis by (intro conjI exI [of _ scopes] flux_mixed_run) simp_all
qed

lemma flux_confined:
  assumes "flux_client_inv c"
  shows "emits (flux_event c) (list_unhealthy_reconciliations lib w clock c inp) \<and>
    requests (snd (list_unhealthy_reconciliations lib w clock c inp h)) \<le> requests h + 96"
proof (cases "flux_accepted c inp")
  case (Inl e)
  then have "list_unhealthy_reconciliations lib w clock c inp = io_fail e"
    by (simp add: list_unhealthy_reconciliations_eq)
  then show ?thesis by (simp add: io_fail_def emits_fail)
next
  case (Inr ls)
  then obtain limit scopes where a: "flux_accepted c inp = Inr (limit, scopes)" by (cases ls) auto
  have q: "list_all (flux_query c) (flux_queries scopes)" and len: "length (flux_queries scopes) \<le> 96"
    using flux_accepted_queries [OF assms a] by auto
  have "requests (snd (list_unhealthy_reconciliations lib w clock c inp h)) \<le> requests h + 96"
    using flux_source.collect_requests [OF assms, of lib w "flux_queries scopes" h] len
    by (simp add: list_unhealthy_reconciliations_eq a observe_pages_history)
  moreover have "emits (flux_event c) (list_unhealthy_reconciliations lib w clock c inp)"
    unfolding list_unhealthy_reconciliations_eq a
    using flux_source.collect_emits [OF assms q] by (simp add: emits_observe_pages)
  ultimately show ?thesis by blast
qed

text \<open>
  C8: the Flux adapter is confined: it only sends \<open>GET\<close> requests to its own origin, for the fixed
  custom-resource paths of its configured namespaces with the fixed list limit, each with a valid
  token when it has a credential, at most 96 per listing, and none at all for a refused input.
\<close>

theorem flux_requests_confined:
  assumes "flux_client_inv c"
  shows "emits (flux_event c) (list_unhealthy_reconciliations lib w clock c inp) \<and>
    requests (snd (list_unhealthy_reconciliations lib w clock c inp h)) \<le> requests h + 96 \<and>
    (lur_target inp = flux_target_id c \<and> lur_scope inp \<in> insert [] (fst ` set (flux_scopes c)) \<and>
       0 \<le> lur_limit inp \<and> lur_limit inp \<le> 50 \<or>
     snd (list_unhealthy_reconciliations lib w clock c inp h) = h)"
proof (cases "flux_accepted c inp")
  case (Inl e)
  then have "snd (list_unhealthy_reconciliations lib w clock c inp h) = h"
    by (simp add: list_unhealthy_reconciliations_eq io_fail_def)
  with flux_confined [OF assms] show ?thesis by blast
next
  case (Inr ls)
  then obtain limit scopes where a: "flux_accepted c inp = Inr (limit, scopes)" by (cases ls) auto
  have "lur_scope inp = [] \<or> lur_scope inp \<in> fst ` set (flux_scopes c)"
    using flux_accepted_Inr [OF a]
    by (force simp: flux_selected_scopes_def select_scopes_def dest: map_of_SomeD split: if_splits option.splits)
  with flux_confined [OF assms] flux_accepted_Inr [OF a] show ?thesis by (auto split: if_splits)
qed

theorem flux_requests_confined_witness:
  "emits (flux_event flux_example_client) (list_unhealthy_reconciliations example_lib
     (flux_example_world []) example_clock flux_example_client flux_example_input)"
  using flux_requests_confined [OF flux_example_inv] by blast

lemma list_unhealthy_reconciliations_Inl:
  assumes "flux_client_inv c" and "sane_clock clock" and "sane_times lib"
    and "list_unhealthy_reconciliations lib w clock c inp h = (Inl e, h')"
  shows "flux_accepted c inp = Inl e \<or> flux_failure e \<or> e = encode_error"
proof (cases "flux_accepted c inp")
  case (Inl e')
  then show ?thesis using assms(4) by (auto simp: list_unhealthy_reconciliations_eq)
next
  case (Inr ls)
  then obtain limit scopes where a: "flux_accepted c inp = Inr (limit, scopes)" by (cases ls) auto
  have q: "list_all (flux_query c) (flux_queries scopes)"
    using flux_accepted_queries [OF assms(1) a] by simp
  have limit: "0 \<le> limit" "limit \<le> 50" using flux_accepted_Inr [OF a] by auto
  have now: "time_valid (clock h)" using assms(2) by (auto simp: sane_clock_def)
  have "checked marshal_list_unhealthy_reconciliations_output
      (flux_report lib (flux_target_id c) limit (clock h) (zip (flux_queries scopes) pages)) = Inl e \<Longrightarrow> e = encode_error" for pages
    using checked_fits [of 60000 marshal_list_unhealthy_reconciliations_output
        "flux_report lib (flux_target_id c) limit (clock h) (zip (flux_queries scopes) pages)",
        OF flux_report_fits [OF flux_pages_query [OF q] assms(1,3) limit now]]
    by (simp split: if_splits)
  then show ?thesis
    using assms(4) flux_source.collect_failure [OF q, of lib w h e h']
    by (auto simp: list_unhealthy_reconciliations_eq a observe_pages_Inl)
qed

text \<open>
  C9: with a sane clock and parsed times within the second, a Flux listing never exceeds the result
  limit: it fails because its input is refused, because a request fails, or because the report
  holds a timestamp outside the years 0 to 9999. In that last case it does fail: one such
  timestamp among the kept entries loses the whole listing.
\<close>

theorem flux_failures:
  assumes "flux_client_inv c" and "sane_clock clock" and "sane_times lib"
  shows "fst (list_unhealthy_reconciliations lib w clock c inp h) = Inl e \<longleftrightarrow>
    flux_accepted c inp = Inl e \<or>
    (\<exists>limit scopes. flux_accepted c inp = Inr (limit, scopes) \<and>
       (fst (collect (list_resources lib w c) (flux_queries scopes) h) = Inl e \<and> flux_failure e \<or>
        (\<exists>pages. fst (collect (list_resources lib w c) (flux_queries scopes) h) = Inr pages \<and> e = encode_error \<and>
           \<not> flux_times_encodable
             (flux_report lib (flux_target_id c) limit (clock h) (zip (flux_queries scopes) pages)))))"
proof (cases "flux_accepted c inp")
  case (Inl e')
  then show ?thesis by (auto simp: list_unhealthy_reconciliations_eq io_fail_def)
next
  case (Inr ls)
  then obtain limit scopes where a: "flux_accepted c inp = Inr (limit, scopes)" by (cases ls) auto
  have q: "list_all (flux_query c) (flux_queries scopes)"
    using flux_accepted_queries [OF assms(1) a] by simp
  have limit: "0 \<le> limit" "limit \<le> 50" using flux_accepted_Inr [OF a] by auto
  have now: "time_valid (clock h)" "time_encodable (clock h)" using assms(2) by (auto simp: sane_clock_def)
  let ?out = "\<lambda>pages. flux_report lib (flux_target_id c) limit (clock h) (zip (flux_queries scopes) pages)"
  have observed: "luro_observed_at (?out pages) = clock h" for pages
    by (simp add: flux_report_def case_prod_beta)
  have check: "checked marshal_list_unhealthy_reconciliations_output (?out pages) =
      (if flux_times_encodable (?out pages) then Inr (?out pages) else Inl encode_error)" for pages
    using checked_fits [of 60000 marshal_list_unhealthy_reconciliations_output "?out pages", OF flux_report_fits [OF flux_pages_query [OF q] assms(1,3) limit now(1)]]
      flux_report_encodable [of "?out pages"] now(2) by (simp add: observed)
  show ?thesis
  proof (cases "collect (list_resources lib w c) (flux_queries scopes) h")
    case (Pair r h')
    then show ?thesis
      using flux_source.collect_failure [OF q, of lib w h e h'] check
      by (cases r) (auto simp: list_unhealthy_reconciliations_eq a observe_pages_def io_defs)
  qed
qed

theorem flux_failures_witness:
  "fst (list_unhealthy_reconciliations late_lib (flux_example_world ''9999-12-31T23:59:59-01:00'') example_clock
     flux_example_client flux_example_input []) = Inl encode_error \<and>
   (\<exists>out. \<not> flux_times_encodable out)"
proof -
  have "sane_times late_lib" by (simp add: sane_times_def late_lib_def time_valid_def)
  from flux_failures [OF flux_example_inv example_clock_sane this,
      of "flux_example_world ''9999-12-31T23:59:59-01:00''" flux_example_input "[]" encode_error] late_run
  show ?thesis
    using flux_example_accepted by (auto simp: flux_failure_def source_get_error_def encode_error_def)
qed

end
