(* ===== verification/Monitoring.thy ===== *)
theory Monitoring
  imports Listing Catalog "HOL-Library.Product_Lexorder"
begin

section \<open>The monitoring adapter (\<open>internal/monitoring/client.go\<close>, \<open>observe.go\<close>)\<close>

text \<open>
  Active alerts of Alertmanager and the last \<open>up\<close> samples of Prometheus, both reached through
  fixed paths of the Kubernetes service proxy.
\<close>

subsection \<open>Configuration\<close>

text \<open>\<open>^[a-z0-9](?:[a-z0-9-]{0,13}[a-z0-9])?$\<close> and \<open>^[A-Za-z][A-Za-z0-9_:.-]{0,127}$\<close>\<close>

definition port_name_pattern :: pattern where
  "port_name_pattern = label_pattern lower_digit_class lower_digit_hyphen_class 13 lower_digit_class"

definition letter_class :: char_class where
  "letter_class = [(CHR ''A'', CHR ''Z''), (CHR ''a'', CHR ''z'')]"

definition alert_name_class :: char_class where
  "alert_name_class = letter_class @ [(CHR ''0'', CHR ''9''), (CHR ''_'', CHR ''_''),
     (CHR '':'', CHR '':''), (CHR ''.'', CHR ''.''), (CHR ''-'', CHR ''-'')]"

definition alert_name_pattern :: pattern where
  "alert_name_pattern = Seq (Class letter_class) (UpTo 127 (Class alert_name_class))"

definition control_character_class :: char_class where
  "control_character_class = [(CHR 0x00, CHR 0x1F), (CHR 0x7F, CHR 0x7F)]"

record service =
  svc_namespace :: string
  svc_name :: string
  svc_port :: string

record scrape_identity =
  si_id :: string
  si_job :: string
  si_instance :: string

record alert_component =
  ac_alert_name :: string
  ac_component :: string

record monitoring_config =
  mcfg_target_id :: string
  mcfg_base_url :: string
  mcfg_credential :: bool
  mcfg_http_client :: "http_client option"
  mcfg_request_timeout :: int
  mcfg_prometheus :: service
  mcfg_alertmanager :: service
  mcfg_scrapes :: "scrape_identity list"
  mcfg_components :: "alert_component list"

record monitoring_client =
  mon_target_id :: string
  mon_http :: source_client
  mon_prometheus_path :: string
  mon_alertmanager_path :: string
  mon_scrapes :: "scrape_identity list"
  mon_components :: "(string \<times> string) list"

definition service_ok :: "service \<Rightarrow> bool" where
  "service_ok s \<longleftrightarrow>
     matches namespace_pattern (svc_namespace s) \<and> matches namespace_pattern (svc_name s) \<and>
     matches port_name_pattern (svc_port s)"

definition service_proxy_path :: "service \<Rightarrow> string" where
  "service_proxy_path s =
     ''/api/v1/namespaces/'' @ svc_namespace s @ ''/services/'' @ svc_name s @ '':'' @ svc_port s @ ''/proxy''"

definition valid_label_value :: "string \<Rightarrow> bool" where
  "valid_label_value v \<longleftrightarrow> v \<noteq> [] \<and> length v \<le> 256 \<and> \<not> contains_class control_character_class v"

definition series_key :: "string \<Rightarrow> string \<Rightarrow> string" where
  "series_key job inst = nul_join job inst"

definition identity_key :: "scrape_identity \<Rightarrow> string" where
  "identity_key s = series_key (si_job s) (si_instance s)"

fun add_scrapes :: "scrape_identity list \<Rightarrow> string set \<Rightarrow> string set \<Rightarrow> scrape_identity list \<Rightarrow>
    scrape_identity list result" where
  "add_scrapes [] seen_ids seen_series scrapes = Inr scrapes"
| "add_scrapes (s # ss) seen_ids seen_series scrapes =
     (case validate_identifier ''scrape'' (si_id s) of Some e \<Rightarrow> Inl e
      | None \<Rightarrow>
          if \<not> valid_label_value (si_job s) \<or> si_instance s \<noteq> [] \<and> \<not> valid_label_value (si_instance s)
            then Inl (ErrorText ''monitoring scrape label match is invalid'')
          else if si_id s \<in> seen_ids then Inl (ErrorText ''monitoring scrape identifier is duplicated'')
          else if identity_key s \<in> seen_series
            then Inl (ErrorText ''monitoring scrape label match is duplicated'')
          else add_scrapes ss (insert (si_id s) seen_ids) (insert (identity_key s) seen_series) (scrapes @ [s]))"

fun add_components :: "alert_component list \<Rightarrow> (string \<times> string) list \<Rightarrow> (string \<times> string) list result" where
  "add_components [] m = Inr m"
| "add_components (c # cs) m =
     (if \<not> matches alert_name_pattern (ac_alert_name c)
        then Inl (ErrorText ''monitoring alert name mapping is invalid'')
      else case validate_identifier ''component'' (ac_component c) of Some e \<Rightarrow> Inl e
      | None \<Rightarrow>
          if map_of m (ac_alert_name c) \<noteq> None
            then Inl (ErrorText ''monitoring alert name mapping is duplicated'')
          else add_components cs (m @ [(ac_alert_name c, ac_component c)]))"

definition monitoring_new :: "stdlib \<Rightarrow> monitoring_config \<Rightarrow> monitoring_client result" where
  "monitoring_new lib cfg =
     (case validate_identifier ''target'' (mcfg_target_id cfg) of Some e \<Rightarrow> Inl e
      | None \<Rightarrow>
          if \<not> service_ok (mcfg_prometheus cfg)
            then Inl (ErrorText ''Prometheus Service configuration is invalid'')
          else if \<not> service_ok (mcfg_alertmanager cfg)
            then Inl (ErrorText ''Alertmanager Service configuration is invalid'')
          else if mcfg_scrapes cfg = [] \<or> max_list_limit < int (length (mcfg_scrapes cfg))
            then Inl (ErrorText ''monitoring target must have from 1 to 50 scrape identities'')
          else result_bind (add_scrapes (mcfg_scrapes cfg) {} {} []) (\<lambda>scrapes.
            if max_list_limit < int (length (mcfg_components cfg))
              then Inl (ErrorText ''monitoring target has too many alert component mappings'')
            else result_bind (add_components (mcfg_components cfg) []) (\<lambda>components.
            result_bind
              (source_new lib \<lparr>sc_base_url = mcfg_base_url cfg, sc_credential = mcfg_credential cfg,
                 sc_http_client = mcfg_http_client cfg, sc_request_timeout = mcfg_request_timeout cfg\<rparr>)
              (\<lambda>http. Inr \<lparr>mon_target_id = mcfg_target_id cfg, mon_http = http,
                 mon_prometheus_path = service_proxy_path (mcfg_prometheus cfg),
                 mon_alertmanager_path = service_proxy_path (mcfg_alertmanager cfg),
                 mon_scrapes = scrapes, mon_components = components\<rparr>))))"

definition monitoring_target :: "monitoring_client \<Rightarrow> target" where
  "monitoring_target c =
     \<lparr>target_id = mon_target_id c, target_kind = target_kind_monitoring,
      target_capabilities = [capability_monitoring_active_alerts, capability_monitoring_scrape_health]\<rparr>"

subsection \<open>Data of the sources\<close>

record alert_labels =
  al_name :: string
  al_severity :: string

record alertmanager_alert =
  am_labels :: alert_labels
  am_starts_at :: string

record sample_metric =
  smp_job :: string
  smp_instance :: string

record prometheus_sample =
  ps_metric :: sample_metric
  ps_value :: "json list"

record prometheus_data =
  pd_result_type :: string
  pd_result :: "prometheus_sample list"

record prometheus_response =
  pr_status :: string
  pr_data :: prometheus_data
  pr_warnings :: "string list"

definition zero_alert :: alertmanager_alert where
  "zero_alert = \<lparr>am_labels = \<lparr>al_name = [], al_severity = []\<rparr>, am_starts_at = []\<rparr>"

definition zero_sample :: prometheus_sample where
  "zero_sample = \<lparr>ps_metric = \<lparr>smp_job = [], smp_instance = []\<rparr>, ps_value = []\<rparr>"

definition zero_response :: prometheus_response where
  "zero_response = \<lparr>pr_status = [], pr_data = \<lparr>pd_result_type = [], pd_result = []\<rparr>, pr_warnings = []\<rparr>"

text \<open>A \<open>json.RawMessage\<close> keeps the value as it is.\<close>

definition into_raw :: "json decoder" where
  "into_raw j old = Some j"

definition into_alert_labels :: "alert_labels decoder" where
  "into_alert_labels = into_struct (\<lambda>k.
     if k = ''alertname'' then into_field al_name (\<lambda>v r. r\<lparr>al_name := v\<rparr>) into_string
     else if k = ''severity'' then into_field al_severity (\<lambda>v r. r\<lparr>al_severity := v\<rparr>) into_string
     else skip_member)"

definition into_alert :: "alertmanager_alert decoder" where
  "into_alert = into_struct (\<lambda>k.
     if k = ''labels'' then into_field am_labels (\<lambda>v r. r\<lparr>am_labels := v\<rparr>) into_alert_labels
     else if k = ''startsat'' then into_field am_starts_at (\<lambda>v r. r\<lparr>am_starts_at := v\<rparr>) into_string
     else skip_member)"

definition into_sample_metric :: "sample_metric decoder" where
  "into_sample_metric = into_struct (\<lambda>k.
     if k = ''job'' then into_field smp_job (\<lambda>v r. r\<lparr>smp_job := v\<rparr>) into_string
     else if k = ''instance'' then into_field smp_instance (\<lambda>v r. r\<lparr>smp_instance := v\<rparr>) into_string
     else skip_member)"

definition into_sample :: "prometheus_sample decoder" where
  "into_sample = into_struct (\<lambda>k.
     if k = ''metric'' then into_field ps_metric (\<lambda>v r. r\<lparr>ps_metric := v\<rparr>) into_sample_metric
     else if k = ''value'' then into_field ps_value (\<lambda>v r. r\<lparr>ps_value := v\<rparr>) (into_list JNull into_raw)
     else skip_member)"

definition into_prometheus_data :: "prometheus_data decoder" where
  "into_prometheus_data = into_struct (\<lambda>k.
     if k = ''resulttype'' then into_field pd_result_type (\<lambda>v r. r\<lparr>pd_result_type := v\<rparr>) into_string
     else if k = ''result''
       then into_field pd_result (\<lambda>v r. r\<lparr>pd_result := v\<rparr>) (into_list zero_sample into_sample)
     else skip_member)"

definition into_response :: "prometheus_response decoder" where
  "into_response = into_struct (\<lambda>k.
     if k = ''status'' then into_field pr_status (\<lambda>v r. r\<lparr>pr_status := v\<rparr>) into_string
     else if k = ''data'' then into_field pr_data (\<lambda>v r. r\<lparr>pr_data := v\<rparr>) into_prometheus_data
     else if k = ''warnings''
       then into_field pr_warnings (\<lambda>v r. r\<lparr>pr_warnings := v\<rparr>) (into_list [] into_string)
     else skip_member)"

text \<open>A \<open>float64\<close> takes a number that \<open>strconv.ParseFloat\<close> can represent; \<open>null\<close> leaves it alone.\<close>

definition into_float :: "stdlib \<Rightarrow> float64 decoder" where
  "into_float lib j old = (case j of JNumber lit \<Rightarrow> lib_parse_float lib lit | JNull \<Rightarrow> Some old | _ \<Rightarrow> None)"

subsection \<open>Active alerts\<close>

definition publish_alert :: "stdlib \<Rightarrow> monitoring_client \<Rightarrow> alertmanager_alert \<Rightarrow> active_alert" where
  "publish_alert lib c a =
     (let name = al_name (am_labels a);
          (name, component) =
            (if \<not> matches alert_name_pattern name then (''unknown'', [])
             else (name, case map_of (mon_components c) name of None \<Rightarrow> [] | Some v \<Rightarrow> v))
      in \<lparr>alert_name = name, alert_severity = normalize_alert_severity (al_severity (am_labels a)),
          alert_component = component, alert_started_at = lib_parse_time lib (am_starts_at a)\<rparr>)"

fun severity_rank :: "alert_severity \<Rightarrow> int" where
  "severity_rank AlertSeverityCritical = 0"
| "severity_rank AlertSeverityWarning = 1"
| "severity_rank AlertSeverityInfo = 2"
| "severity_rank AlertSeverityUnknown = 3"

definition compare_alerts :: "active_alert \<Rightarrow> active_alert \<Rightarrow> int" where
  "compare_alerts a b =
     (let a_rank = severity_rank (alert_severity a); b_rank = severity_rank (alert_severity b);
          compared = compare_by (\<lambda>s. s) (alert_name a) (alert_name b)
      in if a_rank \<noteq> b_rank then a_rank - b_rank
         else if compared \<noteq> 0 then compared
         else (case (alert_started_at a, alert_started_at b) of
             (None, Some _) \<Rightarrow> 1
           | (Some _, None) \<Rightarrow> -1
           | (None, None) \<Rightarrow> 0
           | (Some s, Some t) \<Rightarrow> compare_by (\<lambda>t. t) s t))"

definition alert_query :: query_values where
  "alert_query = [(''active'', [''true'']), (''inhibited'', [''false'']), (''silenced'', [''false''])]"

definition list_active_alerts ::
    "stdlib \<Rightarrow> world \<Rightarrow> clock \<Rightarrow> monitoring_client \<Rightarrow> list_active_alerts_input \<Rightarrow>
     list_active_alerts_output io" where
  "list_active_alerts lib w clock c inp =
     io_bind (io_lift (normalize_list_active_alerts_input inp)) (\<lambda>inp.
     if laa_target inp \<noteq> mon_target_id c
       then io_fail (ErrorText ''monitoring target is not configured'')
     else io_bind (source_get lib w (mon_http c) (mon_alertmanager_path c @ ''/api/v2/alerts'') alert_query)
       (\<lambda>body. case unmarshal_json body of None \<Rightarrow> io_fail (SourceHttpError InvalidSourceResponse)
        | Some j \<Rightarrow>
            (case into_list zero_alert into_alert j [] of
               None \<Rightarrow> io_fail (SourceHttpError InvalidSourceResponse)
             | Some source_alerts \<Rightarrow>
                 io_bind (io_now clock) (\<lambda>now.
                   let alerts = fold (\<lambda>a alerts. alerts @ [publish_alert lib c a]) source_alerts [];
                       (alerts, truncated) =
                         truncate_list (laa_limit inp) (sort_func compare_alerts alerts) False
                   in io_lift (checked marshal_list_active_alerts_output
                        \<lparr>laao_target = mon_target_id c, laao_observed_at = now, laao_alerts = alerts,
                         laao_truncated = truncated\<rparr>)))))"

subsection \<open>Scrape health\<close>

definition max_timestamp :: rat where
  "max_timestamp = 253402300799"

definition parse_prometheus_value :: "stdlib \<Rightarrow> json list \<Rightarrow> (scrape_state \<times> time) option" where
  "parse_prometheus_value lib value =
     (case value of
        [v0, v1] \<Rightarrow>
          (case into_float lib v0 (Finite 0) of
             Some (Finite timestamp) \<Rightarrow>
               if timestamp < 0 \<or> max_timestamp < timestamp then None
               else (case into_string v1 [] of None \<Rightarrow> None
                 | Some sample_text \<Rightarrow>
                     (case lib_parse_float lib sample_text of
                        Some (Finite sample) \<Rightarrow>
                          (let seconds = \<lfloor>timestamp\<rfloor>; fraction = timestamp - of_int \<lfloor>timestamp\<rfloor>;
                               sampled_at = time_unix seconds \<lfloor>lib_round lib (fraction * 1000000000)\<rfloor>
                           in if sample = 0 then Some (ScrapeStateDown, sampled_at)
                              else if sample = 1 then Some (ScrapeStateUp, sampled_at)
                              else None)
                      | _ \<Rightarrow> None))
           | _ \<Rightarrow> None)
      | _ \<Rightarrow> None)"

type_synonym sample_map = "(string \<times> scrape_state \<times> time) list"

fun collect_samples :: "stdlib \<Rightarrow> string set \<Rightarrow> prometheus_sample list \<Rightarrow> sample_map \<Rightarrow> sample_map result" where
  "collect_samples lib configured [] samples = Inr samples"
| "collect_samples lib configured (s # ss) samples =
     (let key = series_key (smp_job (ps_metric s)) (smp_instance (ps_metric s)) in
      if key \<notin> configured then collect_samples lib configured ss samples
      else if map_of samples key \<noteq> None then Inl (SourceHttpError InvalidSourceResponse)
      else (case parse_prometheus_value lib (ps_value s) of
              None \<Rightarrow> Inl (SourceHttpError InvalidSourceResponse)
            | Some v \<Rightarrow> collect_samples lib configured ss ((key, v) # samples)))"

definition publish_scrape :: "sample_map \<Rightarrow> scrape_identity \<Rightarrow> scrape_health" where
  "publish_scrape samples s =
     (case map_of samples (identity_key s) of
        None \<Rightarrow> \<lparr>sh_id = si_id s, sh_state = ScrapeStateMissing, sh_sampled_at = None\<rparr>
      | Some (state, sampled_at) \<Rightarrow> \<lparr>sh_id = si_id s, sh_state = state, sh_sampled_at = Some sampled_at\<rparr>)"

definition decode_response :: "string \<Rightarrow> prometheus_response option" where
  "decode_response body =
     (case unmarshal_json body of None \<Rightarrow> None
      | Some j \<Rightarrow>
          (case into_response j zero_response of None \<Rightarrow> None
           | Some r \<Rightarrow>
               if pr_status r \<noteq> ''success'' \<or> pd_result_type (pr_data r) \<noteq> ''vector'' then None else Some r))"

definition get_scrape_health ::
    "stdlib \<Rightarrow> world \<Rightarrow> clock \<Rightarrow> monitoring_client \<Rightarrow> get_scrape_health_input \<Rightarrow>
     get_scrape_health_output io" where
  "get_scrape_health lib w clock c inp =
     (case validate_get_scrape_health_input inp of Some e \<Rightarrow> io_fail e
      | None \<Rightarrow>
          if gsh_target inp \<noteq> mon_target_id c
            then io_fail (ErrorText ''monitoring target is not configured'')
          else io_bind
            (source_get lib w (mon_http c) (mon_prometheus_path c @ ''/api/v1/query'') [(''query'', [''up''])])
            (\<lambda>body. case decode_response body of None \<Rightarrow> io_fail (SourceHttpError InvalidSourceResponse)
             | Some response \<Rightarrow>
                 io_bind
                   (io_lift (collect_samples lib (set (map identity_key (mon_scrapes c)))
                     (pd_result (pr_data response)) []))
                   (\<lambda>samples. io_bind (io_now clock) (\<lambda>now.
                     io_lift (checked marshal_get_scrape_health_output
                       \<lparr>gsho_target = mon_target_id c, gsho_observed_at = now,
                        gsho_scrapes =
                          sort_func (compare_by sh_id) (map (publish_scrape samples) (mon_scrapes c)),
                        gsho_partial = pr_warnings response \<noteq> []\<rparr>)))))"

end
