(* ===== verification/MonitoringFacts.thy ===== *)
theory MonitoringFacts
  imports Monitoring Examples
begin

section \<open>Requests and reports of the monitoring adapter\<close>

text \<open>
  The order of alerts, the invariant of the client, the requests it may send, and each operation
  written as one request followed by a pure report.
\<close>

subsection \<open>The order of alerts\<close>

text \<open>
  The comparison is the lexicographic order of rank, name and start, alerts without a start last.
\<close>

definition alert_key :: "active_alert \<Rightarrow> int \<times> string \<times> bool \<times> time" where
  "alert_key a = (severity_rank (alert_severity a), alert_name a, alert_started_at a = None,
     case alert_started_at a of None \<Rightarrow> Time 0 0 | Some t \<Rightarrow> t)"

lemma compare_alerts_less: "compare_alerts a b < 0 \<longleftrightarrow> alert_key a < alert_key b"
  by (cases "alert_started_at a"; cases "alert_started_at b")
    (auto simp: compare_alerts_def alert_key_def compare_by_def Let_def less_prod_def)

lemma compare_alerts_greater: "0 < compare_alerts a b \<longleftrightarrow> alert_key b < alert_key a"
  by (cases "alert_started_at a"; cases "alert_started_at b")
    (auto simp: compare_alerts_def alert_key_def compare_by_def Let_def less_prod_def)

lemma compare_alerts_le: "compare_alerts a b \<le> 0 \<longleftrightarrow> alert_key a \<le> alert_key b"
  using compare_alerts_greater [of a b] by (simp add: linorder_not_less [symmetric])

lemma compare_alerts_eq: "compare_alerts a b = 0 \<longleftrightarrow> alert_key a = alert_key b"
proof -
  have "compare_alerts a b = 0 \<longleftrightarrow> \<not> compare_alerts a b < 0 \<and> \<not> 0 < compare_alerts a b" by linarith
  then show ?thesis
    by (simp only: compare_alerts_less compare_alerts_greater linorder_not_less eq_iff conj_commute)
qed

interpretation alert_order: comparison compare_alerts
  by unfold_locales (auto simp: compare_alerts_less compare_alerts_greater compare_alerts_le)

text \<open>
  The order in which alerts are shown: the more urgent severity first, then by name, then the earlier
  start, alerts without a start last.
\<close>

definition urgency :: "alert_severity \<Rightarrow> nat" where
  "urgency s = length (takeWhile (\<lambda>t. t \<noteq> s)
     [AlertSeverityCritical, AlertSeverityWarning, AlertSeverityInfo, AlertSeverityUnknown])"

definition shown_before :: "active_alert \<Rightarrow> active_alert \<Rightarrow> bool" where
  "shown_before a b \<longleftrightarrow>
     urgency (alert_severity a) < urgency (alert_severity b) \<or>
     alert_severity a = alert_severity b \<and>
       (alert_name a < alert_name b \<or>
        alert_name a = alert_name b \<and>
          (case (alert_started_at a, alert_started_at b) of
             (Some s, Some t) \<Rightarrow> s \<le> t
           | (Some _, None) \<Rightarrow> True
           | (None, t) \<Rightarrow> t = None))"

lemma severity_rank_urgency: "severity_rank s = int (urgency s)"
  by (cases s) (simp_all add: urgency_def)

lemma urgency_inj: "urgency s = urgency t \<longleftrightarrow> s = t"
  by (cases s; cases t) (simp_all add: urgency_def)

lemma compare_alerts_shown: "compare_alerts a b \<le> 0 \<longleftrightarrow> shown_before a b"
proof (cases "alert_severity a = alert_severity b")
  case True
  then show ?thesis
    by (cases "alert_started_at a"; cases "alert_started_at b")
      (auto simp: compare_alerts_def compare_by_def shown_before_def Let_def)
next
  case False
  then have "urgency (alert_severity a) \<noteq> urgency (alert_severity b)" by (simp add: urgency_inj)
  with False show ?thesis by (auto simp: compare_alerts_def shown_before_def severity_rank_urgency Let_def)
qed

lemma severity_rank_inj: "severity_rank s = severity_rank t \<longleftrightarrow> s = t"
  by (cases s; cases t) auto

subsection \<open>The client\<close>

lemma matches_port_name [pattern_simps]: "matches port_name_pattern v \<longleftrightarrow> valid_label 15 v"
  by (simp add: port_name_pattern_def matches_dns_label)

definition alert_name_char :: "char \<Rightarrow> bool" where
  "alert_name_char = in_class alert_name_class"

lemma matches_alert_name [pattern_simps]:
  "matches alert_name_pattern v \<longleftrightarrow>
     v \<noteq> [] \<and> length v \<le> 128 \<and> in_class letter_class (hd v) \<and> list_all alert_name_char (tl v)"
  by (simp add: alert_name_pattern_def matches_class_up_to alert_name_char_def)

lemma alert_name_char_plain: "in_class alert_name_class c \<Longrightarrow> plain_char c"
  by (auto simp: alert_name_class_def letter_class_def in_class_def plain_char_iff byte_mono)
    (simp_all add: byte_def)

lemma alert_name_plain: "matches alert_name_pattern v \<Longrightarrow> list_all plain_char v \<and> length v \<le> 128"
  by (cases v) (auto simp: pattern_simps list_all_iff alert_name_char_def alert_name_class_def in_class_def
      intro!: alert_name_char_plain)

definition identity_ok :: "scrape_identity \<Rightarrow> bool" where
  "identity_ok s \<longleftrightarrow>
     valid_identifier (si_id s) \<and> valid_label_value (si_job s) \<and>
     (si_instance s = [] \<or> valid_label_value (si_instance s))"

definition component_ok :: "string \<times> string \<Rightarrow> bool" where
  "component_ok p \<longleftrightarrow> matches alert_name_pattern (fst p) \<and> valid_identifier (snd p)"

definition monitoring_client_inv :: "monitoring_client \<Rightarrow> bool" where
  "monitoring_client_inv c \<longleftrightarrow>
     valid_identifier (mon_target_id c) \<and> source_client_inv (mon_http c) \<and>
     (\<exists>s. service_ok s \<and> mon_prometheus_path c = service_proxy_path s) \<and>
     (\<exists>s. service_ok s \<and> mon_alertmanager_path c = service_proxy_path s) \<and>
     mon_scrapes c \<noteq> [] \<and> length (mon_scrapes c) \<le> 50 \<and> list_all identity_ok (mon_scrapes c) \<and>
     distinct (map si_id (mon_scrapes c)) \<and> distinct (map identity_key (mon_scrapes c)) \<and>
     list_all component_ok (mon_components c) \<and> distinct (map fst (mon_components c))"

lemma add_scrapes_Inr:
  assumes "add_scrapes ss (si_id ` set scrapes) (identity_key ` set scrapes) scrapes = Inr out"
    and "list_all identity_ok scrapes"
    and "distinct (map si_id scrapes)" and "distinct (map identity_key scrapes)"
  shows "out = scrapes @ ss \<and> list_all identity_ok out \<and> distinct (map si_id out) \<and> distinct (map identity_key out)"
  using assms
proof (induction ss arbitrary: scrapes)
  case (Cons s ss)
  have ok: "identity_ok s" and new: "si_id s \<notin> si_id ` set scrapes" "identity_key s \<notin> identity_key ` set scrapes"
    and rest: "add_scrapes ss (insert (si_id s) (si_id ` set scrapes)) (insert (identity_key s) (identity_key ` set scrapes))
      (scrapes @ [s]) = Inr out"
    using Cons.prems(1) by (auto simp: identity_ok_def validate_identifier_eq split: if_splits)
  have "add_scrapes ss (si_id ` set (scrapes @ [s])) (identity_key ` set (scrapes @ [s])) (scrapes @ [s]) = Inr out"
    using rest by simp
  moreover have "list_all identity_ok (scrapes @ [s])" and "distinct (map si_id (scrapes @ [s]))"
    and "distinct (map identity_key (scrapes @ [s]))"
    using Cons.prems(2-) ok new by simp_all
  ultimately have "out = (scrapes @ [s]) @ ss" and "list_all identity_ok out \<and>
      distinct (map si_id out) \<and> distinct (map identity_key out)"
    using Cons.IH by blast+
  then show ?case by (metis append_assoc append.simps)
qed simp

lemma add_components_Inr:
  assumes "add_components cs m = Inr m'" and "list_all component_ok m" and "distinct (map fst m)"
  shows "list_all component_ok m' \<and> distinct (map fst m')"
  using assms
proof (induction cs arbitrary: m)
  case (Cons c cs)
  have ok: "component_ok (ac_alert_name c, ac_component c)" and new: "ac_alert_name c \<notin> fst ` set m"
    and rest: "add_components cs (m @ [(ac_alert_name c, ac_component c)]) = Inr m'"
    using Cons.prems(1)
    by (auto simp: component_ok_def validate_identifier_eq map_of_eq_None_iff split: if_splits)
  show ?case using Cons.IH [OF rest] Cons.prems(2-) ok new by auto
qed simp

lemma monitoring_new_inv:
  assumes "monitoring_new lib cfg = Inr c"
  shows "monitoring_client_inv c"
proof -
  obtain scrapes components where sc: "add_scrapes (mcfg_scrapes cfg) {} {} [] = Inr scrapes"
    and co: "add_components (mcfg_components cfg) [] = Inr components"
    and len: "mcfg_scrapes cfg \<noteq> []" "length (mcfg_scrapes cfg) \<le> 50"
    and http: "source_client_inv (mon_http c)" and ident: "valid_identifier (mon_target_id c)"
    and svc: "service_ok (mcfg_prometheus cfg)" "service_ok (mcfg_alertmanager cfg)"
      "mon_prometheus_path c = service_proxy_path (mcfg_prometheus cfg)"
      "mon_alertmanager_path c = service_proxy_path (mcfg_alertmanager cfg)"
    and parts: "mon_scrapes c = scrapes" "mon_components c = components"
    using assms source_new_inv
    by (auto simp: monitoring_new_def validate_identifier_eq max_list_limit_def split: if_splits)
  from add_scrapes_Inr [of "mcfg_scrapes cfg" "[]", simplified, OF sc] add_components_Inr [OF co] len http ident svc parts show ?thesis
    by (auto simp: monitoring_client_inv_def)
qed

lemma monitoring_target_valid: "monitoring_client_inv c \<Longrightarrow> valid_target (monitoring_target c)"
  by (simp add: monitoring_client_inv_def valid_target_def monitoring_target_def capability_matches_kind_def
      target_kind_defs capability_defs)

text \<open>The key of a series tells job and instance apart: no control character occurs in either.\<close>

lemma valid_label_value_nul_free: "valid_label_value v \<Longrightarrow> nul_free v"
  by (auto simp: valid_label_value_def nul_free_def contains_class_def list_ex_iff control_character_class_def
      in_class_def)

lemma identity_key_inj:
  assumes "identity_ok s" and "identity_key s = series_key job inst"
  shows "job = si_job s \<and> inst = si_instance s"
proof -
  have "nul_free (si_job s)" and "nul_free (si_instance s)"
    using assms(1) valid_label_value_nul_free by (auto simp: identity_ok_def nul_free_def)
  from nul_join_inj [OF this] assms(2) show ?thesis by (simp add: identity_key_def series_key_def)
qed

subsection \<open>Requests\<close>

definition monitoring_event :: "monitoring_client \<Rightarrow> event \<Rightarrow> bool" where
  "monitoring_event c = request_event valid_bearer_token (src_base_url (mon_http c)) (src_credential (mon_http c))
     (\<lambda>path query.
        path = mon_alertmanager_path c @ ''/api/v2/alerts'' \<and> query = ''active=true&inhibited=false&silenced=false'' \<or>
        path = mon_prometheus_path c @ ''/api/v1/query'' \<and> query = ''query=up'')"

lemma alert_query_text: "encode_query alert_query = ''active=true&inhibited=false&silenced=false''"
  by code_simp

lemma up_query_text: "encode_query [(''query'', [''up''])] = ''query=up''"
  by code_simp

definition decode_alerts :: "string \<Rightarrow> alertmanager_alert list option" where
  "decode_alerts body = Option.bind (unmarshal_json body) (\<lambda>j. into_list zero_alert into_alert j [])"

text \<open>What each operation reads before it publishes anything.\<close>

definition fetch_alerts :: "stdlib \<Rightarrow> world \<Rightarrow> monitoring_client \<Rightarrow> alertmanager_alert list io" where
  "fetch_alerts lib w c =
     io_bind (source_get lib w (mon_http c) (mon_alertmanager_path c @ ''/api/v2/alerts'') alert_query)
       (\<lambda>body. io_lift (case decode_alerts body of None \<Rightarrow> Inl (SourceHttpError InvalidSourceResponse)
          | Some alerts \<Rightarrow> Inr alerts))"

definition scrape_samples :: "stdlib \<Rightarrow> monitoring_client \<Rightarrow> string \<Rightarrow> (sample_map \<times> bool) result" where
  "scrape_samples lib c body =
     (case decode_response body of None \<Rightarrow> Inl (SourceHttpError InvalidSourceResponse)
      | Some r \<Rightarrow> result_bind (collect_samples lib (identity_key ` set (mon_scrapes c)) (pd_result (pr_data r)) [])
          (\<lambda>samples. Inr (samples, pr_warnings r \<noteq> [])))"

definition fetch_samples :: "stdlib \<Rightarrow> world \<Rightarrow> monitoring_client \<Rightarrow> (sample_map \<times> bool) io" where
  "fetch_samples lib w c =
     io_bind (source_get lib w (mon_http c) (mon_prometheus_path c @ ''/api/v1/query'') [(''query'', [''up''])])
       (\<lambda>body. io_lift (scrape_samples lib c body))"

lemma collect_samples_Inl:
  "collect_samples lib configured ss samples = Inl e \<Longrightarrow> e = SourceHttpError InvalidSourceResponse"
  by (induction ss arbitrary: samples) (auto simp: Let_def split: if_splits option.splits)

lemma fetch_alerts_Inl: "fetch_alerts lib w c h = (Inl e, h') \<Longrightarrow> source_get_error e"
  unfolding fetch_alerts_def
  by (drule bind_lift_Inl) (auto dest: source_get_Inl simp: invalid_source_response split: option.splits)

lemma scrape_samples_Inl: "scrape_samples lib c body = Inl e \<Longrightarrow> e = SourceHttpError InvalidSourceResponse"
  by (cases "collect_samples lib (identity_key ` set (mon_scrapes c)) (pd_result (pr_data (the (decode_response body)))) []")
    (auto simp: scrape_samples_def dest: collect_samples_Inl split: option.splits)

lemma fetch_samples_Inl: "fetch_samples lib w c h = (Inl e, h') \<Longrightarrow> source_get_error e"
  unfolding fetch_samples_def
  by (drule bind_lift_Inl) (auto dest: source_get_Inl scrape_samples_Inl simp: invalid_source_response)

lemma fetch_emits:
  assumes "monitoring_client_inv c"
  shows "emits (monitoring_event c) (fetch_alerts lib w c)" and "emits (monitoring_event c) (fetch_samples lib w c)"
  unfolding fetch_alerts_def fetch_samples_def monitoring_event_def
  by (rule emits_bind, rule emits_source_get,
      use assms in \<open>simp_all add: monitoring_client_inv_def alert_query_text up_query_text\<close>)+

lemma fetch_requests:
  assumes "monitoring_client_inv c"
  shows "requests (snd (fetch_alerts lib w c h)) \<le> requests h + 1"
    and "requests (snd (fetch_samples lib w c h)) \<le> requests h + 1"
  unfolding fetch_alerts_def fetch_samples_def bind_lift_history
  by (rule source_get_requests, use assms in \<open>simp add: monitoring_client_inv_def\<close>)+

subsection \<open>The operations as one request and one report\<close>

definition alerts_accepted :: "monitoring_client \<Rightarrow> list_active_alerts_input \<Rightarrow> int result" where
  "alerts_accepted c inp =
     result_bind (normalize_list_active_alerts_input inp) (\<lambda>inp'.
       if laa_target inp' \<noteq> mon_target_id c then Inl (ErrorText ''monitoring target is not configured'')
       else Inr (laa_limit inp'))"

definition alerts_report :: "stdlib \<Rightarrow> monitoring_client \<Rightarrow> int \<Rightarrow> alertmanager_alert list \<Rightarrow> time \<Rightarrow>
    list_active_alerts_output" where
  "alerts_report lib c limit source_alerts now =
     (let (alerts, truncated) = truncate_list limit (sort_func compare_alerts (map (publish_alert lib c) source_alerts)) False
      in \<lparr>laao_target = mon_target_id c, laao_observed_at = now, laao_alerts = alerts, laao_truncated = truncated\<rparr>)"

definition scrape_accepted :: "monitoring_client \<Rightarrow> get_scrape_health_input \<Rightarrow> unit result" where
  "scrape_accepted c inp =
     (case validate_get_scrape_health_input inp of Some e \<Rightarrow> Inl e
      | None \<Rightarrow> if gsh_target inp \<noteq> mon_target_id c
          then Inl (ErrorText ''monitoring target is not configured'') else Inr ())"

definition scrape_report :: "monitoring_client \<Rightarrow> sample_map \<times> bool \<Rightarrow> time \<Rightarrow> get_scrape_health_output" where
  "scrape_report c found now =
     \<lparr>gsho_target = mon_target_id c, gsho_observed_at = now,
      gsho_scrapes = sort_func (compare_by sh_id) (map (publish_scrape (fst found)) (mon_scrapes c)),
      gsho_partial = snd found\<rparr>"

text \<open>Fetch, read the clock, report, check the size.\<close>

definition observe_once :: "clock \<Rightarrow> 'a io \<Rightarrow> ('a \<Rightarrow> time \<Rightarrow> 'o) \<Rightarrow> ('o \<Rightarrow> marshalled) \<Rightarrow> 'o io" where
  "observe_once clock fetch report marshal =
     io_bind fetch (\<lambda>x. io_bind (io_now clock) (\<lambda>now. io_lift (checked marshal (report x now))))"

lemma observe_once_Inr:
  "observe_once clock fetch report marshal h = (Inr out, h') \<longleftrightarrow>
     (\<exists>x. fetch h = (Inr x, h') \<and> out = report x (clock h') \<and> check_result_size (marshal out) = None)"
  by (auto simp: observe_once_def io_bind_Inr checked_Inr)

lemma observe_once_Inl:
  "observe_once clock fetch report marshal h = (Inl e, h') \<longleftrightarrow>
     fetch h = (Inl e, h') \<or> (\<exists>x. fetch h = (Inr x, h') \<and> checked marshal (report x (clock h')) = Inl e)"
  by (auto simp: observe_once_def io_bind_Inl)

lemma observe_once_history: "snd (observe_once clock fetch report marshal h) = snd (fetch h)"
  by (auto simp: observe_once_def io_defs split: prod.split sum.split)

lemma observe_once_emits: "emits P fetch \<Longrightarrow> emits P (observe_once clock fetch report marshal)"
  by (simp add: emits_def observe_once_history)

lemma fold_append_map: "fold (\<lambda>x ys. ys @ [f x]) xs ys = ys @ map f xs"
  by (induction xs arbitrary: ys) auto

lemma decode_alerts_then:
  "io_bind (io_lift (case decode_alerts body of None \<Rightarrow> Inl e | Some x \<Rightarrow> Inr x)) k =
     (case unmarshal_json body of None \<Rightarrow> io_fail e
      | Some j \<Rightarrow> (case into_list zero_alert into_alert j [] of None \<Rightarrow> io_fail e | Some x \<Rightarrow> k x))"
  by (simp add: decode_alerts_def split: option.split)

lemma scrape_samples_then:
  "io_bind (io_lift (scrape_samples lib c body)) k =
     (case decode_response body of None \<Rightarrow> io_fail (SourceHttpError InvalidSourceResponse)
      | Some r \<Rightarrow> io_bind (io_lift (collect_samples lib (identity_key ` set (mon_scrapes c)) (pd_result (pr_data r)) []))
          (\<lambda>samples. k (samples, pr_warnings r \<noteq> [])))"
proof (cases "decode_response body")
  case (Some r)
  then show ?thesis
    by (cases "collect_samples lib (identity_key ` set (mon_scrapes c)) (pd_result (pr_data r)) []")
      (simp_all add: scrape_samples_def)
qed (simp add: scrape_samples_def)

lemma list_active_alerts_eq:
  "list_active_alerts lib w clock c inp =
     (case alerts_accepted c inp of Inl e \<Rightarrow> io_fail e
      | Inr limit \<Rightarrow> observe_once clock (fetch_alerts lib w c) (alerts_report lib c limit)
          marshal_list_active_alerts_output)"
proof (cases "normalize_list_active_alerts_input inp")
  case (Inl e)
  then show ?thesis by (simp add: list_active_alerts_def alerts_accepted_def)
next
  case (Inr inp')
  have "(let alerts = fold (\<lambda>a alerts. alerts @ [publish_alert lib c a]) source_alerts [];
           (alerts, truncated) = truncate_list limit (sort_func compare_alerts alerts) False
       in io_lift (checked marshal_list_active_alerts_output \<lparr>laao_target = mon_target_id c, laao_observed_at = now,
            laao_alerts = alerts, laao_truncated = truncated\<rparr>)) =
      io_lift (checked marshal_list_active_alerts_output (alerts_report lib c limit source_alerts now))"
    for limit source_alerts now
    by (simp add: fold_append_map alerts_report_def split: prod.split)
  then show ?thesis
    by (simp add: list_active_alerts_def alerts_accepted_def Inr observe_once_def fetch_alerts_def io_bind_assoc
        decode_alerts_then cong: option.case_cong)
qed

lemma get_scrape_health_eq:
  "get_scrape_health lib w clock c inp =
     (case scrape_accepted c inp of Inl e \<Rightarrow> io_fail e
      | Inr _ \<Rightarrow> observe_once clock (fetch_samples lib w c) (scrape_report c) marshal_get_scrape_health_output)"
  by (cases "validate_get_scrape_health_input inp")
    (simp_all add: get_scrape_health_def scrape_accepted_def observe_once_def fetch_samples_def io_bind_assoc
      scrape_samples_then scrape_report_def cong: option.case_cong)

end
