(* ===== verification/MonitoringProperties.thy ===== *)
theory MonitoringProperties
  imports MonitoringFacts
begin

section \<open>Properties of the monitoring adapter\<close>

text \<open>
  What the two operations publish: alerts that hold no source text beyond a bounded name, and one
  state for every configured scrape identity; when they fail; and what they may send.
\<close>

subsection \<open>Accepted inputs\<close>

lemma alerts_accepted_Inr:
  assumes "alerts_accepted c inp = Inr limit"
  shows "limit = (if laa_limit inp = 0 then 20 else laa_limit inp) \<and> 1 \<le> limit \<and> limit \<le> 50 \<and>
    laa_target inp = mon_target_id c"
proof -
  obtain inp' where n: "normalize_list_active_alerts_input inp = Inr inp'"
    and t: "laa_target inp' = mon_target_id c" and l: "laa_limit inp' = limit"
    using assms by (auto simp: alerts_accepted_def split: if_splits)
  have "inp' = inp\<lparr>laa_limit := limit\<rparr>" and "normalize_list_limit (laa_limit inp) = Inr limit"
    using n l by (auto simp: normalize_alerts_Inr)
  with t show ?thesis
    by (auto simp: normalize_list_limit_Inr default_list_limit_def max_list_limit_def)
qed

lemma list_active_alerts_Inr:
  assumes "list_active_alerts lib w clock c inp h = (Inr out, h')"
  obtains limit source_alerts where "alerts_accepted c inp = Inr limit"
    and "fetch_alerts lib w c h = (Inr source_alerts, h')"
    and "out = alerts_report lib c limit source_alerts (clock h')"
  using assms by (auto simp: list_active_alerts_eq observe_once_Inr split: sum.splits)

lemma get_scrape_health_Inr:
  assumes "get_scrape_health lib w clock c inp h = (Inr out, h')"
  obtains found where "fetch_samples lib w c h = (Inr found, h')" and "out = scrape_report c found (clock h')"
  using assms by (auto simp: get_scrape_health_eq observe_once_Inr split: sum.splits)

subsection \<open>Alerts\<close>

text \<open>What every published alert satisfies.\<close>

definition alert_ok :: "stdlib \<Rightarrow> monitoring_client \<Rightarrow> active_alert \<Rightarrow> bool" where
  "alert_ok lib c a \<longleftrightarrow>
     matches alert_name_pattern (alert_name a) \<and>
     (alert_component a = [] \<or> (alert_name a, alert_component a) \<in> set (mon_components c)) \<and>
     (case alert_started_at a of None \<Rightarrow> True | Some t \<Rightarrow> t \<in> ran (lib_parse_time lib))"

lemma unknown_alert_name: "matches alert_name_pattern ''unknown''"
  by code_simp

lemma publish_alert_ok: "alert_ok lib c (publish_alert lib c a)"
  using unknown_alert_name
  by (auto simp: alert_ok_def publish_alert_def Let_def intro: ranI dest: map_of_SomeD split: option.splits)

text \<open>
  The published form of a source alert, field by field: a name of the bounded form or \<open>unknown\<close>; the
  component configured for such a name, else none; the severity its label spells, in any case; the
  start when it is a timestamp.
\<close>

fun severity_words :: "alert_severity \<Rightarrow> string list" where
  "severity_words AlertSeverityCritical = [''critical'']"
| "severity_words AlertSeverityWarning = [''warning'', ''warn'']"
| "severity_words AlertSeverityInfo = [''info'', ''informational'']"
| "severity_words AlertSeverityUnknown = []"

definition spells :: "string \<Rightarrow> alert_severity \<Rightarrow> bool" where
  "spells label s \<longleftrightarrow>
     (if \<exists>t. lower_text label \<in> set (severity_words t) then lower_text label \<in> set (severity_words s)
      else s = AlertSeverityUnknown)"

definition published_as :: "stdlib \<Rightarrow> monitoring_client \<Rightarrow> alertmanager_alert \<Rightarrow> active_alert \<Rightarrow> bool" where
  "published_as lib c a p \<longleftrightarrow>
     (if matches alert_name_pattern (al_name (am_labels a))
      then alert_name p = al_name (am_labels a) \<and>
        ((alert_name p, alert_component p) \<in> set (mon_components c) \<or>
         alert_component p = [] \<and> alert_name p \<notin> fst ` set (mon_components c))
      else alert_name p = ''unknown'' \<and> alert_component p = []) \<and>
     spells (al_severity (am_labels a)) (alert_severity p) \<and>
     alert_started_at p = lib_parse_time lib (am_starts_at a)"

lemma normalize_alert_severity_spells: "spells label (normalize_alert_severity label)"
proof -
  have "lower_text label \<in> set (severity_words t) \<longleftrightarrow>
      t = AlertSeverityCritical \<and> lower_text label = ''critical'' \<or>
      t = AlertSeverityWarning \<and> (lower_text label = ''warning'' \<or> lower_text label = ''warn'') \<or>
      t = AlertSeverityInfo \<and> (lower_text label = ''info'' \<or> lower_text label = ''informational'')" for t
    by (cases t) auto
  then show ?thesis by (auto simp: spells_def normalize_alert_severity_def Let_def)
qed

lemma publish_alert_published: "published_as lib c a (publish_alert lib c a)"
  using normalize_alert_severity_spells
  by (auto simp: published_as_def publish_alert_def Let_def map_of_eq_None_iff image_iff
      split: option.split dest: map_of_SomeD)

text \<open>A report shows the first alerts in that order and leaves out the rest.\<close>

lemma alerts_report_split:
  assumes "0 \<le> limit" and "out = alerts_report lib c limit source_alerts now"
  shows "\<exists>rest. mset (map (publish_alert lib c) source_alerts) = mset (laao_alerts out) + mset rest \<and>
    sorted_wrt shown_before (laao_alerts out @ rest) \<and>
    int (length (laao_alerts out)) = min limit (int (length source_alerts)) \<and>
    (laao_truncated out \<longleftrightarrow> rest \<noteq> [])"
proof -
  let ?s = "sort_func compare_alerts (map (publish_alert lib c) source_alerts)"
  have sorted: "sorted_wrt shown_before ?s"
    using alert_order.sort_sorted [of "map (publish_alert lib c) source_alerts"] by (simp add: compare_alerts_shown)
  have all: "mset ?s = mset (map (publish_alert lib c) source_alerts)" by (rule mset_sort_func)
  have len: "length ?s = length source_alerts" by simp
  let ?rest = "drop (nat limit) ?s"
  have out: "laao_alerts out = take (nat limit) ?s" "laao_truncated out \<longleftrightarrow> ?rest \<noteq> []"
    using assms(1) len by (auto simp: assms(2) alerts_report_def truncate_list_def)
  then have parts: "?s = laao_alerts out @ ?rest" by simp
  have "mset ?s = mset (laao_alerts out) + mset ?rest" by (subst parts) simp
  moreover have "sorted_wrt shown_before (laao_alerts out @ ?rest)" using sorted parts by simp
  moreover have "int (length (laao_alerts out)) = min limit (int (length source_alerts))"
    using assms(1) len by (simp add: out)
  ultimately show ?thesis using all out(2) by metis
qed

lemma alerts_report_best:
  assumes "0 \<le> limit"
  shows "best_first compare_alerts limit (map (publish_alert lib c) source_alerts) False
    (laao_alerts (alerts_report lib c limit source_alerts now),
     laao_truncated (alerts_report lib c limit source_alerts now))"
  using truncate_best_first [OF alert_order.comparison_axioms assms, of "map (publish_alert lib c) source_alerts" False]
  by (simp add: alerts_report_def case_prod_beta)

lemma alerts_report_ok:
  assumes "0 \<le> limit"
  shows "list_all (alert_ok lib c) (laao_alerts (alerts_report lib c limit source_alerts now))"
  using best_first_subset [OF alerts_report_best [OF assms, of lib c source_alerts now]] publish_alert_ok
  by (fastforce simp: list_all_iff)

lemma severity_plain: "list_all plain_char (alert_severity_text s) \<and> length (alert_severity_text s) \<le> 8"
  by (cases s) (simp_all add: plain_char_iff byte_def)

lemma component_plain:
  assumes "alert_ok lib c a" and "monitoring_client_inv c"
  shows "list_all plain_char (alert_component a) \<and> length (alert_component a) \<le> 32"
proof (cases "alert_component a = []")
  case False
  then have "component_ok (alert_name a, alert_component a)"
    using assms by (auto simp: alert_ok_def monitoring_client_inv_def list_all_iff)
  then show ?thesis using valid_identifier_plain by (simp add: component_ok_def)
qed simp

lemma alert_fits:
  assumes "alert_ok lib c a" and "monitoring_client_inv c" and "sane_times lib"
  shows "fits 1000 (marshal_active_alert a)"
proof -
  have n: "fits (128 + 2) (marshal_string (alert_name a))"
    using assms(1) alert_name_plain by (intro fits_plain_string) (auto simp: alert_ok_def)
  have s: "fits (8 + 2) (marshal_string (alert_severity_text (alert_severity a)))"
    using severity_plain by (intro fits_plain_string) auto
  have c: "fields_fit (6 * length ''component'' + 6 + 32) (omit_empty_string ''component'' (alert_component a))"
    using component_plain [OF assms(1,2)] by (intro fields_fit_omit_empty) auto
  have t: "fits 290 (marshal_time t)" if "alert_started_at a = Some t" for t
    using assms that by (auto simp: alert_ok_def sane_times_def ran_def intro!: fits_time)
  show ?thesis unfolding marshal_active_alert_def
    by (rule fits_mono, rule fits_struct,
        (rule fields_fit_append fields_fit_Cons fields_fit_Nil fields_fit_omit_nil n s c t | assumption)+) simp
qed

lemma alerts_report_fits:
  assumes "monitoring_client_inv c" and "sane_times lib" and "0 \<le> limit" and "limit \<le> 50" and "time_valid now"
  shows "fits 60000 (marshal_list_active_alerts_output (alerts_report lib c limit source_alerts now))"
proof -
  let ?out = "alerts_report lib c limit source_alerts now"
  have "\<And>a. a \<in> set (laao_alerts ?out) \<Longrightarrow> fits 1000 (marshal_active_alert a)"
    using alerts_report_ok [OF assms(3)] alert_fits assms(1,2) by (force simp: list_all_iff)
  moreover have "length (laao_alerts ?out) \<le> 50"
    using alerts_report_best [OF assms(3), of lib c source_alerts now] assms(4) by (simp add: best_first_def)
  ultimately have l: "fits (2 + 50 * (1000 + 1)) (marshal_list marshal_active_alert (laao_alerts ?out))"
    by (intro fits_list)
  have t: "fits (32 + 2) (marshal_string (laao_target ?out))"
    using assms(1) valid_identifier_plain
    by (intro fits_plain_string) (auto simp: alerts_report_def monitoring_client_inv_def case_prod_beta)
  have o: "fits 290 (marshal_time (laao_observed_at ?out))"
    using assms(5) by (simp add: fits_time alerts_report_def case_prod_beta)
  show ?thesis unfolding marshal_list_active_alerts_output_def
    by (rule fits_mono, rule fits_struct, (rule fields_fit_Cons fields_fit_Nil t o l fits_bool)+) simp
qed

definition alert_times_encodable :: "list_active_alerts_output \<Rightarrow> bool" where
  "alert_times_encodable out \<longleftrightarrow>
     list_all (\<lambda>a. pred_option time_encodable (alert_started_at a)) (laao_alerts out)"

lemma alerts_report_encodable:
  assumes "time_encodable (laao_observed_at out)"
  shows "marshal_list_active_alerts_output out = None \<longleftrightarrow> \<not> alert_times_encodable out"
proof -
  have "marshal_active_alert a = None \<longleftrightarrow> \<not> pred_option time_encodable (alert_started_at a)" for a
    by (cases "alert_started_at a")
      (auto simp: marshal_active_alert_def marshal_struct_None marshal_string_def omit_nil_def omit_empty_string_def
        marshal_time_def)
  then show ?thesis
    using assms
    by (auto simp: marshal_list_active_alerts_output_def marshal_struct_None marshal_list_None
        marshal_string_def marshal_bool_def marshal_time_def alert_times_encodable_def list_all_iff)
qed

text \<open>Two published alerts that compare equal are equal, unless \<open>unknown\<close> is a configured name.\<close>

lemma publish_alert_determined:
  assumes "map_of (mon_components c) ''unknown'' = None"
    and "compare_alerts (publish_alert lib c a) (publish_alert lib c b) = 0"
  shows "publish_alert lib c a = publish_alert lib c b"
proof -
  let ?a = "publish_alert lib c a" and ?b = "publish_alert lib c b"
  have component: "alert_component x = (case map_of (mon_components c) (alert_name x) of None \<Rightarrow> [] | Some v \<Rightarrow> v)"
    if "x = publish_alert lib c y" for x y
    using assms(1) by (auto simp: that publish_alert_def Let_def split: option.split)
  have key: "alert_key ?a = alert_key ?b" using assms(2) by (simp only: compare_alerts_eq)
  then have "alert_severity ?a = alert_severity ?b" and name: "alert_name ?a = alert_name ?b"
    by (simp_all add: alert_key_def severity_rank_inj)
  moreover have "alert_started_at ?a = alert_started_at ?b"
    using key by (cases "alert_started_at ?a"; cases "alert_started_at ?b") (auto simp: alert_key_def)
  moreover have "alert_component ?a = alert_component ?b"
    using component [of ?a a] component [of ?b b] name by simp
  ultimately show ?thesis by (cases ?a; cases ?b) simp
qed

subsection \<open>Scrape health\<close>

definition sample_key :: "prometheus_sample \<Rightarrow> string" where
  "sample_key p = series_key (smp_job (ps_metric p)) (smp_instance (ps_metric p))"

text \<open>The samples that are kept: those of configured series, each once, each with a legible value.\<close>

lemma collect_samples_Inr:
  "collect_samples lib configured ss samples = Inr out \<longleftrightarrow>
     (let kept = filter (\<lambda>p. sample_key p \<in> configured) ss in
      distinct (map sample_key kept) \<and> sample_key ` set kept \<inter> fst ` set samples = {} \<and>
      (\<forall>p \<in> set kept. parse_prometheus_value lib (ps_value p) \<noteq> None) \<and>
      out = rev (map (\<lambda>p. (sample_key p, the (parse_prometheus_value lib (ps_value p)))) kept) @ samples)"
proof (induction ss arbitrary: samples)
  case (Cons p ss)
  show ?case
  proof (cases "sample_key p \<in> configured")
    case False
    then show ?thesis by (simp add: Cons.IH sample_key_def)
  next
    case True
    show ?thesis
    proof (cases "map_of samples (sample_key p)")
      case (Some v)
      then have "sample_key p \<in> fst ` set samples" by (metis domI dom_map_of_conv_image_fst)
      with True Some show ?thesis by (auto simp: sample_key_def Let_def)
    next
      case None
      then have fresh: "sample_key p \<notin> fst ` set samples" by (simp add: map_of_eq_None_iff)
      show ?thesis
      proof (cases "parse_prometheus_value lib (ps_value p)")
        case None
        with True \<open>map_of samples (sample_key p) = None\<close> show ?thesis by (simp add: sample_key_def Let_def)
      next
        case (Some v)
        have "collect_samples lib configured (p # ss) samples = Inr out \<longleftrightarrow>
            collect_samples lib configured ss ((sample_key p, v) # samples) = Inr out"
          using True None Some by (simp add: sample_key_def Let_def)
        then show ?thesis
          unfolding Cons.IH Let_def using True Some fresh by auto
      qed
    qed
  qed
qed (auto simp: Let_def)

text \<open>
  The state a sample reports: its value is a pair whose second part is the text of a number, 0 for a
  target that is down and 1 for one that is up.
\<close>

definition sample_reports :: "stdlib \<Rightarrow> json list \<Rightarrow> scrape_state \<Rightarrow> bool" where
  "sample_reports lib value state \<longleftrightarrow>
     (\<exists>v0 v1 text. value = [v0, v1] \<and> into_string v1 [] = Some text \<and>
        (lib_parse_float lib text = Some (Finite 0) \<and> state = ScrapeStateDown \<or>
         lib_parse_float lib text = Some (Finite 1) \<and> state = ScrapeStateUp))"

text \<open>The entry the contract promises for a configured identity, from the samples of the source.\<close>

definition matching_samples :: "scrape_identity \<Rightarrow> prometheus_sample list \<Rightarrow> prometheus_sample list" where
  "matching_samples s ps =
     filter (\<lambda>p. smp_job (ps_metric p) = si_job s \<and> smp_instance (ps_metric p) = si_instance s) ps"

definition scrape_entry_for :: "stdlib \<Rightarrow> prometheus_sample list \<Rightarrow> scrape_identity \<Rightarrow> scrape_health \<Rightarrow> bool" where
  "scrape_entry_for lib ps s e \<longleftrightarrow>
     sh_id e = si_id s \<and>
     (matching_samples s ps = [] \<and> sh_state e = ScrapeStateMissing \<and> sh_sampled_at e = None \<or>
      (\<exists>p t. matching_samples s ps = [p] \<and> sample_reports lib (ps_value p) (sh_state e) \<and>
         parse_prometheus_value lib (ps_value p) = Some (sh_state e, t) \<and> sh_sampled_at e = Some t))"

lemma parse_prometheus_value_Some:
  "parse_prometheus_value lib v = Some (st, t) \<Longrightarrow> sample_reports lib v st \<and>
     (\<exists>timestamp. 0 \<le> timestamp \<and> timestamp \<le> max_timestamp \<and>
        t = time_unix \<lfloor>timestamp\<rfloor> \<lfloor>lib_round lib ((timestamp - of_int \<lfloor>timestamp\<rfloor>) * 1000000000)\<rfloor>)"
  by (auto simp: parse_prometheus_value_def sample_reports_def Let_def not_less
      split: list.splits option.splits float64.splits if_splits)

lemma sample_key_identity: "identity_ok s \<Longrightarrow>
    sample_key p = identity_key s \<longleftrightarrow> smp_job (ps_metric p) = si_job s \<and> smp_instance (ps_metric p) = si_instance s"
  using identity_key_inj [of s "smp_job (ps_metric p)" "smp_instance (ps_metric p)"]
  by (auto simp: sample_key_def identity_key_def)

lemma publish_scrape_entry:
  assumes "identity_ok s" and "s \<in> set scrapes"
    and "collect_samples lib (identity_key ` set scrapes) ps [] = Inr samples"
  shows "scrape_entry_for lib ps s (publish_scrape samples s)"
proof -
  let ?kept = "filter (\<lambda>p. sample_key p \<in> identity_key ` set scrapes) ps"
  let ?val = "\<lambda>p. the (parse_prometheus_value lib (ps_value p))"
  have d: "distinct (map sample_key ?kept)"
    and v: "\<forall>p \<in> set ?kept. parse_prometheus_value lib (ps_value p) \<noteq> None"
    and samples: "samples = rev (map (\<lambda>p. (sample_key p, ?val p)) ?kept)"
    using assms(3) unfolding collect_samples_Inr Let_def by auto
  have match: "matching_samples s ps = filter (\<lambda>p. sample_key p = identity_key s) ?kept"
    using assms(2) by (auto simp: matching_samples_def sample_key_identity [OF assms(1), symmetric] intro!: filter_cong)
  have keys: "distinct (map fst samples)"
    using d by (simp add: samples rev_map [symmetric] comp_def)
  show ?thesis
  proof (cases "matching_samples s ps")
    case Nil
    then have "identity_key s \<notin> fst ` set samples"
      by (auto simp: samples match filter_empty_conv)
    then have "map_of samples (identity_key s) = None" by (simp add: map_of_eq_None_iff)
    with Nil show ?thesis by (simp add: scrape_entry_for_def publish_scrape_def)
  next
    case (Cons p rest)
    have "distinct (map sample_key (matching_samples s ps))"
      unfolding match by (rule distinct_map_filter [OF d])
    moreover have "\<forall>q \<in> set (matching_samples s ps). sample_key q = identity_key s" by (simp add: match)
    ultimately have rest: "rest = []" unfolding Cons by (cases rest) auto
    have "p \<in> set (matching_samples s ps)" by (simp add: Cons)
    then have p: "p \<in> set ?kept" "sample_key p = identity_key s"
      unfolding match set_filter mem_Collect_eq by blast+
    obtain st t where val: "parse_prometheus_value lib (ps_value p) = Some (st, t)" using v p(1) by fastforce
    have "(identity_key s, st, t) \<in> set samples"
      using p val by (force simp: samples)
    then have "map_of samples (identity_key s) = Some (st, t)" using keys by simp
    with Cons rest val parse_prometheus_value_Some [OF val] show ?thesis
      by (simp add: scrape_entry_for_def publish_scrape_def)
  qed
qed

lemma fetch_samples_Inr:
  assumes "fetch_samples lib w c h = (Inr (samples, partial), h')"
  obtains body r where
    "source_get lib w (mon_http c) (mon_prometheus_path c @ ''/api/v1/query'') [(''query'', [''up''])] h = (Inr body, h')"
    and "decode_response body = Some r" and "partial \<longleftrightarrow> pr_warnings r \<noteq> []"
    and "collect_samples lib (identity_key ` set (mon_scrapes c)) (pd_result (pr_data r)) [] = Inr samples"
  using assms by (auto simp: fetch_samples_def io_bind_Inr scrape_samples_def split: option.splits)

lemma scrape_report_ids:
  "mset (map sh_id (gsho_scrapes (scrape_report c found now))) = mset (map si_id (mon_scrapes c))"
proof -
  have id: "sh_id (publish_scrape m s) = si_id s" for m s
    by (simp add: publish_scrape_def split: option.split prod.split)
  show ?thesis by (simp add: scrape_report_def multiset.map_comp comp_def id)
qed

text \<open>
  Rounding to a 64-bit float is monotone and exact on the integers up to \<open>2 ^ 53\<close>. Under this
  every published sample time is in the years 1970 to 9999.
\<close>

definition sane_rounding :: "stdlib \<Rightarrow> bool" where
  "sane_rounding lib \<longleftrightarrow>
     (\<forall>r s. r \<le> s \<longrightarrow> lib_round lib r \<le> lib_round lib s) \<and>
     (\<forall>n. \<bar>n\<bar> \<le> 2 ^ 53 \<longrightarrow> lib_round lib (of_int n) = of_int n)"

lemma sample_time_bounds:
  assumes "sane_rounding lib" and "0 \<le> timestamp" and "timestamp \<le> max_timestamp"
    and "t = time_unix \<lfloor>timestamp\<rfloor> \<lfloor>lib_round lib ((timestamp - of_int \<lfloor>timestamp\<rfloor>) * 1000000000)\<rfloor>"
  shows "time_valid t \<and> 0 \<le> time_secs t \<and> time_secs t \<le> 253402300799"
proof -
  let ?s = "\<lfloor>timestamp\<rfloor>" and ?f = "(timestamp - of_int \<lfloor>timestamp\<rfloor>) * 1000000000"
  have f: "0 \<le> ?f" "?f \<le> 1000000000" using floor_correct [of timestamp] by simp_all
  have exact: "lib_round lib 0 = 0" "lib_round lib 1000000000 = 1000000000"
    using assms(1) by (auto simp: sane_rounding_def dest: spec [of _ 0] spec [of _ 1000000000])
  have s: "0 \<le> ?s" "?s \<le> 253402300799"
    using assms(2,3) by (simp_all add: max_timestamp_def floor_le_iff)
  have nanos: "0 \<le> \<lfloor>lib_round lib ?f\<rfloor>" "\<lfloor>lib_round lib ?f\<rfloor> \<le> 1000000000"
    using assms(1) f exact unfolding sane_rounding_def by (metis zero_le_floor, metis floor_mono floor_of_int of_int_numeral)
  have "?s + \<lfloor>lib_round lib ?f\<rfloor> div 1000000000 \<le> 253402300799"
  proof (cases "?s = 253402300799")
    case True
    then have "?f = 0" using assms(3) floor_correct [of timestamp] by (simp add: max_timestamp_def)
    then show ?thesis using True exact by simp
  next
    case False
    moreover have "\<lfloor>lib_round lib ?f\<rfloor> div 1000000000 \<le> 1" using nanos by linarith
    ultimately show ?thesis using s by linarith
  qed
  moreover have "0 \<le> ?s + \<lfloor>lib_round lib ?f\<rfloor> div 1000000000"
    using s(1) nanos(1) by (intro add_nonneg_nonneg) (simp_all add: pos_imp_zdiv_nonneg_iff)
  ultimately show ?thesis unfolding assms(4) time_unix_def time_valid_def by simp
qed

definition scrape_time_ok :: "scrape_health \<Rightarrow> bool" where
  "scrape_time_ok e \<longleftrightarrow> pred_option (\<lambda>t. time_valid t \<and> time_encodable t) (sh_sampled_at e)"

lemma scrape_report_ok:
  assumes "monitoring_client_inv c" and "sane_rounding lib" and "fetch_samples lib w c h = (Inr found, h')"
    and "e \<in> set (gsho_scrapes (scrape_report c found now))"
  shows "scrape_time_ok e \<and> valid_identifier (sh_id e)"
proof -
  obtain samples partial where found: "found = (samples, partial)" by (cases found)
  obtain r :: prometheus_response where samples: "collect_samples lib (identity_key ` set (mon_scrapes c)) (pd_result (pr_data r)) [] = Inr samples"
    using assms(3) [unfolded found] by (rule fetch_samples_Inr) blast
  obtain s where s: "s \<in> set (mon_scrapes c)" and e: "e = publish_scrape samples s"
    using assms(4) by (auto simp: scrape_report_def found)
  have ok: "identity_ok s" using assms(1) s by (simp add: monitoring_client_inv_def list_all_iff)
  have entry: "scrape_entry_for lib (pd_result (pr_data r)) s e"
    unfolding e using ok s samples by (rule publish_scrape_entry)
  have "scrape_time_ok e"
  proof (cases "sh_sampled_at e")
    case (Some t)
    then obtain p :: prometheus_sample where "parse_prometheus_value lib (ps_value p) = Some (sh_state e, t)"
      using entry by (auto simp: scrape_entry_for_def)
    from parse_prometheus_value_Some [OF this] obtain timestamp where "0 \<le> timestamp" "timestamp \<le> max_timestamp"
      and "t = time_unix \<lfloor>timestamp\<rfloor> \<lfloor>lib_round lib ((timestamp - of_int \<lfloor>timestamp\<rfloor>) * 1000000000)\<rfloor>"
      by blast
    from sample_time_bounds [OF assms(2) this] have "time_valid t \<and> 0 \<le> time_secs t \<and> time_secs t \<le> 253402300799" .
    then show ?thesis using Some time_year_in_range by (simp add: scrape_time_ok_def)
  qed (simp add: scrape_time_ok_def)
  then show ?thesis using entry ok by (simp add: scrape_entry_for_def identity_ok_def)
qed

lemma scrape_state_plain: "list_all plain_char (scrape_state_text s) \<and> length (scrape_state_text s) \<le> 7"
  by (cases s) (simp_all add: plain_char_iff byte_def)

lemma scrape_fits:
  assumes "scrape_time_ok e" and "valid_identifier (sh_id e)"
  shows "fits 1000 (marshal_scrape_health e) \<and> marshal_scrape_health e \<noteq> None"
proof -
  have i: "fits (32 + 2) (marshal_string (sh_id e))"
    using valid_identifier_plain [OF assms(2)] by (intro fits_plain_string) auto
  have s: "fits (7 + 2) (marshal_string (scrape_state_text (sh_state e)))"
    using scrape_state_plain by (intro fits_plain_string) auto
  have t: "fits 290 (marshal_time t)" if "sh_sampled_at e = Some t" for t
    using assms that by (auto simp: scrape_time_ok_def intro!: fits_time)
  have "fits 1000 (marshal_scrape_health e)" unfolding marshal_scrape_health_def
    by (rule fits_mono, rule fits_struct,
        (rule fields_fit_append fields_fit_Cons fields_fit_Nil fields_fit_omit_nil i s t | assumption)+) simp
  then show ?thesis
    using assms(1)
    by (auto simp: marshal_scrape_health_def marshal_total omit_nil_def scrape_time_ok_def split: option.splits)
qed

text \<open>A scrape report always passes the check of its size.\<close>

lemma scrape_report_checked:
  assumes "monitoring_client_inv c" and "sane_rounding lib" and "fetch_samples lib w c h = (Inr found, h')"
    and "time_valid now" and "time_encodable now"
  shows "checked marshal_get_scrape_health_output (scrape_report c found now) = Inr (scrape_report c found now)"
proof -
  let ?out = "scrape_report c found now"
  have each: "fits 1000 (marshal_scrape_health e) \<and> marshal_scrape_health e \<noteq> None" if "e \<in> set (gsho_scrapes ?out)" for e
    using scrape_report_ok [OF assms(1-3) that] scrape_fits by blast
  have "length (gsho_scrapes ?out) \<le> 50" using assms(1) by (simp add: scrape_report_def monitoring_client_inv_def)
  with each have l: "fits (2 + 50 * (1000 + 1)) (marshal_list marshal_scrape_health (gsho_scrapes ?out))"
    by (intro fits_list) auto
  have t: "fits (32 + 2) (marshal_string (gsho_target ?out))"
    using assms(1) valid_identifier_plain
    by (intro fits_plain_string) (auto simp: scrape_report_def monitoring_client_inv_def)
  have o: "fits 290 (marshal_time (gsho_observed_at ?out))"
    using assms(4) by (simp add: fits_time scrape_report_def)
  have "fits 60000 (marshal_get_scrape_health_output ?out)"
    unfolding marshal_get_scrape_health_output_def
    by (rule fits_mono, rule fits_struct, (rule fields_fit_Cons fields_fit_Nil t o l fits_bool)+) simp
  moreover have "marshal_get_scrape_health_output ?out \<noteq> None"
    using each assms(5) by (auto simp: marshal_get_scrape_health_output_def marshal_total scrape_report_def)
  ultimately show ?thesis
    using checked_fits [of 60000 marshal_get_scrape_health_output ?out] by simp
qed

subsection \<open>A small target\<close>

definition monitoring_example_world :: "string \<Rightarrow> string \<Rightarrow> world" where
  "monitoring_example_world alerts samples h path query =
     example_exchange (if query = ''query=up''
       then backquoted (''{`status`:`success`,`data`:{`resultType`:`vector`,`result`:['' @ samples @ '']}}'')
       else backquoted (''['' @ alerts @ '']''))"

definition example_alert :: "string \<Rightarrow> string" where
  "example_alert name = ''{`labels`:{`alertname`:`'' @ name @ ''`,`severity`:`Warning`},`startsAt`:`2026-08-03T00:00:00Z`}''"

definition example_sample :: string where
  "example_sample = ''{`metric`:{`job`:`node`},`value`:[1,`1`]}''"

definition monitoring_example_config :: monitoring_config where
  "monitoring_example_config = \<lparr>mcfg_target_id = ''mon-a'', mcfg_base_url = ''https://k8s.example'',
     mcfg_credential = True, mcfg_http_client = None, mcfg_request_timeout = 0,
     mcfg_prometheus = \<lparr>svc_namespace = ''mon'', svc_name = ''prometheus'', svc_port = ''web''\<rparr>,
     mcfg_alertmanager = \<lparr>svc_namespace = ''mon'', svc_name = ''alertmanager'', svc_port = ''web''\<rparr>,
     mcfg_scrapes = [\<lparr>si_id = ''node'', si_job = ''node'', si_instance = []\<rparr>,
       \<lparr>si_id = ''db'', si_job = ''db'', si_instance = ''db:1''\<rparr>],
     mcfg_components = [\<lparr>ac_alert_name = ''DiskFull'', ac_component = ''storage''\<rparr>]\<rparr>"

definition monitoring_example_client :: monitoring_client where
  "monitoring_example_client = \<lparr>mon_target_id = ''mon-a'',
     mon_http = \<lparr>src_base_url = example_url, src_credential = True, src_http_client = example_http_client,
       src_request_timeout = default_request_timeout\<rparr>,
     mon_prometheus_path = ''/api/v1/namespaces/mon/services/prometheus:web/proxy'',
     mon_alertmanager_path = ''/api/v1/namespaces/mon/services/alertmanager:web/proxy'',
     mon_scrapes = mcfg_scrapes monitoring_example_config,
     mon_components = [(''DiskFull'', ''storage'')]\<rparr>"

lemma monitoring_example_new: "monitoring_new example_lib monitoring_example_config = Inr monitoring_example_client"
  by code_simp

lemma monitoring_example_inv: "monitoring_client_inv monitoring_example_client"
  using monitoring_example_new by (rule monitoring_new_inv)

definition alerts_example_input :: list_active_alerts_input where
  "alerts_example_input = \<lparr>laa_target = ''mon-a'', laa_limit = 0\<rparr>"

definition scrape_example_input :: get_scrape_health_input where
  "scrape_example_input = \<lparr>gsh_target = ''mon-a''\<rparr>"

definition example_active_alert :: active_alert where
  "example_active_alert = \<lparr>alert_name = ''DiskFull'', alert_severity = AlertSeverityWarning,
     alert_component = ''storage'', alert_started_at = Some example_instant\<rparr>"

definition redacted_active_alert :: active_alert where
  "redacted_active_alert = \<lparr>alert_name = ''unknown'', alert_severity = AlertSeverityWarning,
     alert_component = [], alert_started_at = Some example_instant\<rparr>"

definition alerts_example_output :: list_active_alerts_output where
  "alerts_example_output = \<lparr>laao_target = ''mon-a'', laao_observed_at = example_instant,
     laao_alerts = [example_active_alert, redacted_active_alert], laao_truncated = False\<rparr>"

definition scrape_example_output :: get_scrape_health_output where
  "scrape_example_output = \<lparr>gsho_target = ''mon-a'', gsho_observed_at = example_instant,
     gsho_scrapes = [\<lparr>sh_id = ''db'', sh_state = ScrapeStateMissing, sh_sampled_at = None\<rparr>,
       \<lparr>sh_id = ''node'', sh_state = ScrapeStateUp, sh_sampled_at = Some (Time 1 0)\<rparr>], gsho_partial = False\<rparr>"

text \<open>A warning and, after it, a critical alert of a later name: only the critical one fits a limit of one.\<close>

definition two_example_alerts :: string where
  "two_example_alerts = example_alert ''DiskFull'' @ '','' @
     ''{`labels`:{`alertname`:`NodeDown`,`severity`:`CRITICAL`}}''"

definition urgent_active_alert :: active_alert where
  "urgent_active_alert = \<lparr>alert_name = ''NodeDown'', alert_severity = AlertSeverityCritical,
     alert_component = [], alert_started_at = None\<rparr>"

definition urgent_example_output :: list_active_alerts_output where
  "urgent_example_output = \<lparr>laao_target = ''mon-a'', laao_observed_at = example_instant,
     laao_alerts = [urgent_active_alert], laao_truncated = True\<rparr>"

lemma urgent_example_run:
  "fst (list_active_alerts example_lib (monitoring_example_world two_example_alerts []) example_clock
     monitoring_example_client \<lparr>laa_target = ''mon-a'', laa_limit = 1\<rparr> []) = Inr urgent_example_output"
  by code_simp

lemma alerts_example_run:
  "fst (list_active_alerts example_lib
     (monitoring_example_world (example_alert ''token=secret'' @ '','' @ example_alert ''DiskFull'') [])
     example_clock monitoring_example_client alerts_example_input []) = Inr alerts_example_output"
  by code_simp

definition example_source_alert :: "string \<Rightarrow> alertmanager_alert" where
  "example_source_alert name = \<lparr>am_labels = \<lparr>al_name = name, al_severity = ''Warning''\<rparr>,
     am_starts_at = ''2026-08-03T00:00:00Z''\<rparr>"

definition alerts_example_history :: history where
  "alerts_example_history = [TokenRead, Sent \<lparr>req_method = ''GET'', req_scheme = ''https'', req_host = ''k8s.example'',
     req_path = ''/api/v1/namespaces/mon/services/alertmanager:web/proxy/api/v2/alerts'',
     req_query = ''active=true&inhibited=false&silenced=false'', req_accept = ''application/json'',
     req_authorization = Some ''Bearer token''\<rparr>]"

lemma alerts_example_fetch:
  "fetch_alerts example_lib (monitoring_example_world (example_alert ''DiskFull'' @ '','' @ example_alert ''token=secret'') [])
     monitoring_example_client [] =
   (Inr [example_source_alert ''DiskFull'', example_source_alert ''token=secret''], alerts_example_history)"
  by code_simp

lemma alerts_example_fetch':
  "fetch_alerts example_lib (monitoring_example_world (example_alert ''token=secret'' @ '','' @ example_alert ''DiskFull'') [])
     monitoring_example_client [] =
   (Inr [example_source_alert ''token=secret'', example_source_alert ''DiskFull''], alerts_example_history)"
  by code_simp

lemma scrape_example_run:
  "fst (get_scrape_health example_lib (monitoring_example_world [] example_sample)
     example_clock monitoring_example_client scrape_example_input []) = Inr scrape_example_output"
  by code_simp

subsection \<open>The properties\<close>

text \<open>
  C10: every successful alert listing is the first part of what the source returned. Every source
  alert has its published form, which holds no source text but a name of the bounded form (else
  \<open>unknown\<close>), with the configured component of that name and the severity its label spells. The
  listing is sorted by severity from critical to unknown, then by name, then by start; it holds as
  many alerts as the limit allows, none of those left out comes before one that is shown, and it is
  marked truncated exactly when something was left out.
\<close>

theorem list_active_alerts_best_first:
  assumes "monitoring_client_inv c" and "list_active_alerts lib w clock c inp h = (Inr out, h')"
  shows "\<exists>source_alerts published rest. fetch_alerts lib w c h = (Inr source_alerts, h') \<and>
    list_all2 (published_as lib c) source_alerts published \<and>
    mset published = mset (laao_alerts out) + mset rest \<and>
    sorted_wrt shown_before (laao_alerts out @ rest) \<and>
    int (length (laao_alerts out)) =
      min (if laa_limit inp = 0 then 20 else laa_limit inp) (int (length source_alerts)) \<and>
    (laao_truncated out \<longleftrightarrow> rest \<noteq> []) \<and> list_all (alert_ok lib c) (laao_alerts out)"
proof -
  obtain limit source_alerts where a: "alerts_accepted c inp = Inr limit"
    and f: "fetch_alerts lib w c h = (Inr source_alerts, h')"
    and out: "out = alerts_report lib c limit source_alerts (clock h')"
    using assms(2) by (rule list_active_alerts_Inr)
  have limit: "limit = (if laa_limit inp = 0 then 20 else laa_limit inp)" "0 \<le> limit"
    using alerts_accepted_Inr [OF a] by auto
  have "list_all2 (published_as lib c) source_alerts (map (publish_alert lib c) source_alerts)"
    by (simp add: list_all2_conv_all_nth publish_alert_published)
  then show ?thesis
    using f alerts_report_split [OF limit(2), of out lib c source_alerts "clock h'"]
      alerts_report_ok [OF limit(2), of lib c source_alerts "clock h'"]
    unfolding limit(1) out by blast
qed

theorem list_active_alerts_best_first_witness:
  "fst (list_active_alerts example_lib (monitoring_example_world two_example_alerts []) example_clock
     monitoring_example_client \<lparr>laa_target = ''mon-a'', laa_limit = 1\<rparr> []) = Inr urgent_example_output \<and>
   (\<exists>(source_alerts :: alertmanager_alert list) rest. rest \<noteq> [] \<and> length source_alerts = Suc (length rest) \<and>
      sorted_wrt shown_before (urgent_active_alert # rest))"
proof -
  from list_active_alerts_best_first [OF monitoring_example_inv fst_run [OF urgent_example_run]]
  obtain source_alerts published rest where "list_all2 (published_as example_lib monitoring_example_client) source_alerts published"
    and parts: "mset published = mset (urgent_active_alert # rest)"
    and rest: "sorted_wrt shown_before (urgent_active_alert # rest)" "rest \<noteq> []"
    by (auto simp: urgent_example_output_def)
  then have "length source_alerts = length published" "length published = Suc (length rest)"
    using mset_eq_length [OF parts] by (auto dest: list_all2_lengthD)
  with rest urgent_example_run show ?thesis by (intro conjI exI [of _ source_alerts] exI [of _ rest]) simp_all
qed

text \<open>
  C11: as long as no component is configured for the alert name \<open>unknown\<close>, the listing of alerts
  does not depend on the order in which the source lists them: two sources with the same alerts in
  another order give the same result. Without that condition it can (lemma
  \<open>unknown_component_order_dependent\<close>): \<open>unknown\<close> is a valid alert name, an alert of that name then
  has a component and a redacted one has none, but the two compare equal.
\<close>

theorem list_active_alerts_order_independent:
  assumes "map_of (mon_components c) ''unknown'' = None"
    and "fetch_alerts lib w c h = (Inr source_alerts, h')" and "fetch_alerts lib w' c h = (Inr source_alerts', h')"
    and "mset source_alerts' = mset source_alerts"
  shows "list_active_alerts lib w' clock c inp h = list_active_alerts lib w clock c inp h"
proof (cases "alerts_accepted c inp")
  case (Inr limit)
  have "sort_func compare_alerts (map (publish_alert lib c) source_alerts') =
      sort_func compare_alerts (map (publish_alert lib c) source_alerts)"
    using assms(4) publish_alert_determined [OF assms(1)] by (intro alert_order.sort_unique) auto
  then have "alerts_report lib c limit source_alerts' now = alerts_report lib c limit source_alerts now" for now
    by (simp add: alerts_report_def)
  with Inr assms(2,3) show ?thesis
    by (simp add: list_active_alerts_eq observe_once_def io_bind_def)
qed (simp add: list_active_alerts_eq)

theorem list_active_alerts_order_independent_witness:
  "list_active_alerts example_lib
     (monitoring_example_world (example_alert ''token=secret'' @ '','' @ example_alert ''DiskFull'') [])
     example_clock monitoring_example_client alerts_example_input [] =
   list_active_alerts example_lib
     (monitoring_example_world (example_alert ''DiskFull'' @ '','' @ example_alert ''token=secret'') [])
     example_clock monitoring_example_client alerts_example_input []"
  by (rule list_active_alerts_order_independent [OF _ alerts_example_fetch alerts_example_fetch'])
    (simp_all add: monitoring_example_client_def)

text \<open>The two alerts of the example in both orders, when \<open>unknown\<close> has a component.\<close>

definition unknown_component_client :: monitoring_client where
  "unknown_component_client = monitoring_example_client\<lparr>mon_components := [(''unknown'', ''storage'')]\<rparr>"

lemma unknown_component_order_dependent:
  "monitoring_new example_lib (monitoring_example_config\<lparr>mcfg_components :=
     [\<lparr>ac_alert_name = ''unknown'', ac_component = ''storage''\<rparr>]\<rparr>) = Inr unknown_component_client \<and>
   list_active_alerts example_lib
     (monitoring_example_world (example_alert ''unknown'' @ '','' @ example_alert ''token=secret'') [])
     example_clock unknown_component_client alerts_example_input [] \<noteq>
   list_active_alerts example_lib
     (monitoring_example_world (example_alert ''token=secret'' @ '','' @ example_alert ''unknown'') [])
     example_clock unknown_component_client alerts_example_input []"
proof -
  have "monitoring_new example_lib (monitoring_example_config\<lparr>mcfg_components :=
      [\<lparr>ac_alert_name = ''unknown'', ac_component = ''storage''\<rparr>]\<rparr>) = Inr unknown_component_client"
    by code_simp
  moreover have "map_option (map alert_component \<circ> laao_alerts) (case fst (list_active_alerts example_lib
      (monitoring_example_world (example_alert ''unknown'' @ '','' @ example_alert ''token=secret'') [])
      example_clock unknown_component_client alerts_example_input []) of Inl _ \<Rightarrow> None | Inr out \<Rightarrow> Some out) =
      Some [''storage'', []]"
    by code_simp
  moreover have "map_option (map alert_component \<circ> laao_alerts) (case fst (list_active_alerts example_lib
      (monitoring_example_world (example_alert ''token=secret'' @ '','' @ example_alert ''unknown'') [])
      example_clock unknown_component_client alerts_example_input []) of Inl _ \<Rightarrow> None | Inr out \<Rightarrow> Some out) =
      Some [[], ''storage'']"
    by code_simp
  ultimately show ?thesis by (metis list.distinct(1) list.inject option.inject)
qed

text \<open>
  C12: a scrape health summary has one entry for every configured identity, in the order of their
  identifiers: missing when the source returned no sample for its job and instance, else down or up
  for the value 0 or 1 of the only sample there is for it, with the time of that sample. It is marked partial exactly when the source
  reported warnings.
\<close>

theorem scrape_health_faithful:
  assumes "monitoring_client_inv c" and "get_scrape_health lib w clock c inp h = (Inr out, h')"
  shows "\<exists>body r.
    source_get lib w (mon_http c) (mon_prometheus_path c @ ''/api/v1/query'') [(''query'', [''up''])] h = (Inr body, h') \<and>
    decode_response body = Some r \<and> (gsho_partial out \<longleftrightarrow> pr_warnings r \<noteq> []) \<and>
    sorted_wrt (<) (map sh_id (gsho_scrapes out)) \<and>
    mset (map sh_id (gsho_scrapes out)) = mset (map si_id (mon_scrapes c)) \<and>
    (\<forall>s \<in> set (mon_scrapes c). \<exists>e \<in> set (gsho_scrapes out). scrape_entry_for lib (pd_result (pr_data r)) s e)"
proof -
  obtain found where f: "fetch_samples lib w c h = (Inr found, h')" and out: "out = scrape_report c found (clock h')"
    using assms(2) by (rule get_scrape_health_Inr)
  obtain samples partial where found: "found = (samples, partial)" by (cases found)
  obtain body r where body: "source_get lib w (mon_http c) (mon_prometheus_path c @ ''/api/v1/query'')
        [(''query'', [''up''])] h = (Inr body, h')" "decode_response body = Some r"
    and partial: "partial \<longleftrightarrow> pr_warnings r \<noteq> []"
    and samples: "collect_samples lib (identity_key ` set (mon_scrapes c)) (pd_result (pr_data r)) [] = Inr samples"
    using f [unfolded found] by (rule fetch_samples_Inr)
  have ids: "mset (map sh_id (gsho_scrapes out)) = mset (map si_id (mon_scrapes c))"
    unfolding out by (rule scrape_report_ids)
  moreover have "distinct (map si_id (mon_scrapes c))" using assms(1) by (simp add: monitoring_client_inv_def)
  ultimately have "distinct (map sh_id (gsho_scrapes out))" by (metis mset_eq_imp_distinct_iff)
  moreover have "sorted (map sh_id (gsho_scrapes out))" by (simp add: out scrape_report_def sort_by_key_sorted)
  ultimately have "sorted_wrt (<) (map sh_id (gsho_scrapes out))" by (simp add: strict_sorted_iff)
  moreover have "\<exists>e \<in> set (gsho_scrapes out). scrape_entry_for lib (pd_result (pr_data r)) s e"
    if "s \<in> set (mon_scrapes c)" for s
  proof -
    have "identity_ok s" using assms(1) that by (simp add: monitoring_client_inv_def list_all_iff)
    from publish_scrape_entry [OF this that samples] that show ?thesis
      by (auto simp: out scrape_report_def found)
  qed
  moreover have "gsho_partial out \<longleftrightarrow> pr_warnings r \<noteq> []" by (simp add: out scrape_report_def found partial)
  ultimately show ?thesis using body ids by blast
qed

theorem scrape_health_faithful_witness:
  "sorted_wrt (<) (map sh_id (gsho_scrapes scrape_example_output)) \<and> length (gsho_scrapes scrape_example_output) = 2"
  using scrape_health_faithful [OF monitoring_example_inv fst_run [OF scrape_example_run]]
  by (auto simp: scrape_example_output_def)

lemma list_active_alerts_confined:
  assumes "monitoring_client_inv c"
  shows "emits (monitoring_event c) (list_active_alerts lib w clock c inp) \<and>
    requests (snd (list_active_alerts lib w clock c inp h)) \<le> requests h + 1"
  using fetch_emits [OF assms] fetch_requests [OF assms, of lib w h]
  by (auto simp: list_active_alerts_eq observe_once_history io_fail_def intro: observe_once_emits split: sum.split)

lemma get_scrape_health_confined:
  assumes "monitoring_client_inv c"
  shows "emits (monitoring_event c) (get_scrape_health lib w clock c inp) \<and>
    requests (snd (get_scrape_health lib w clock c inp h)) \<le> requests h + 1"
  using fetch_emits [OF assms] fetch_requests [OF assms, of lib w h]
  by (auto simp: get_scrape_health_eq observe_once_history io_fail_def intro: observe_once_emits split: sum.split)

text \<open>
  C13: the monitoring adapter is confined: each operation only sends \<open>GET\<close> requests to its own
  origin, for the fixed path and query of the configured Alertmanager or Prometheus service, each
  with a valid token when it has a credential, at most one per operation, and none at all for a
  refused input.
\<close>

theorem monitoring_requests_confined:
  assumes "monitoring_client_inv c"
  shows "emits (monitoring_event c) (list_active_alerts lib w clock c alerts_inp) \<and>
    emits (monitoring_event c) (get_scrape_health lib w clock c scrape_inp) \<and>
    requests (snd (list_active_alerts lib w clock c alerts_inp h)) \<le> requests h + 1 \<and>
    requests (snd (get_scrape_health lib w clock c scrape_inp h)) \<le> requests h + 1 \<and>
    (laa_target alerts_inp = mon_target_id c \<and> 0 \<le> laa_limit alerts_inp \<and> laa_limit alerts_inp \<le> 50 \<or>
     snd (list_active_alerts lib w clock c alerts_inp h) = h) \<and>
    (gsh_target scrape_inp = mon_target_id c \<or> snd (get_scrape_health lib w clock c scrape_inp h) = h)"
proof -
  have "laa_target alerts_inp = mon_target_id c \<and> 0 \<le> laa_limit alerts_inp \<and> laa_limit alerts_inp \<le> 50 \<or>
      snd (list_active_alerts lib w clock c alerts_inp h) = h"
  proof (cases "alerts_accepted c alerts_inp")
    case (Inr limit)
    from alerts_accepted_Inr [OF this] show ?thesis by (auto split: if_splits)
  qed (simp add: list_active_alerts_eq io_fail_def)
  moreover have "gsh_target scrape_inp = mon_target_id c \<or> snd (get_scrape_health lib w clock c scrape_inp h) = h"
    by (auto simp: get_scrape_health_eq scrape_accepted_def io_fail_def split: option.split)
  ultimately show ?thesis
    using list_active_alerts_confined [OF assms] get_scrape_health_confined [OF assms] by blast
qed

theorem monitoring_requests_confined_witness:
  "emits (monitoring_event monitoring_example_client)
     (get_scrape_health example_lib (monitoring_example_world [] example_sample) example_clock
        monitoring_example_client scrape_example_input)"
  using monitoring_requests_confined [OF monitoring_example_inv] by blast

lemma get_scrape_health_Inl:
  assumes "monitoring_client_inv c" and "sane_clock clock" and "sane_rounding lib"
    and "get_scrape_health lib w clock c inp h = (Inl e, h')"
  shows "scrape_accepted c inp = Inl e \<or> source_get_error e"
proof (cases "scrape_accepted c inp")
  case (Inr u)
  have "checked marshal_get_scrape_health_output (scrape_report c found (clock h1)) = Inr (scrape_report c found (clock h1))"
    if "fetch_samples lib w c h = (Inr found, h1)" for found h1
    using scrape_report_checked [OF assms(1,3) that] assms(2) by (simp add: sane_clock_def)
  then show ?thesis
    using assms(4) fetch_samples_Inl [of lib w c h e h'] Inr
    by (fastforce simp: get_scrape_health_eq observe_once_Inl)
qed (use assms(4) in \<open>simp add: get_scrape_health_eq\<close>)

lemma list_active_alerts_Inl:
  assumes "monitoring_client_inv c" and "sane_clock clock" and "sane_times lib"
    and "list_active_alerts lib w clock c inp h = (Inl e, h')"
  shows "alerts_accepted c inp = Inl e \<or> source_get_error e \<or> e = encode_error"
proof (cases "alerts_accepted c inp")
  case (Inr limit)
  have limit: "0 \<le> limit" "limit \<le> 50" using alerts_accepted_Inr [OF Inr] by auto
  have "checked marshal_list_active_alerts_output (alerts_report lib c limit source_alerts (clock h1)) = Inl e \<Longrightarrow>
      e = encode_error" for source_alerts h1
    using checked_fits [of 60000 marshal_list_active_alerts_output "alerts_report lib c limit source_alerts (clock h1)",
        OF alerts_report_fits [OF assms(1,3) limit]] assms(2)
    by (simp add: sane_clock_def split: if_splits)
  then show ?thesis
    using assms(4) fetch_alerts_Inl [of lib w c h e h'] Inr
    by (auto simp: list_active_alerts_eq observe_once_Inl)
qed (use assms(4) in \<open>simp add: list_active_alerts_eq\<close>)

text \<open>
  C14: with a sane clock and sane rounding of sample times, a scrape health summary fails only
  because its input is refused or because reading the samples fails, and then with an error of the
  request: everything read is published within the size limit.
\<close>

theorem scrape_health_failures:
  assumes "monitoring_client_inv c" and "sane_clock clock" and "sane_rounding lib"
  shows "fst (get_scrape_health lib w clock c inp h) = Inl e \<longleftrightarrow>
    scrape_accepted c inp = Inl e \<or>
    scrape_accepted c inp = Inr () \<and> fst (fetch_samples lib w c h) = Inl e \<and> source_get_error e"
proof (cases "scrape_accepted c inp")
  case (Inl e')
  then show ?thesis by (auto simp: get_scrape_health_eq io_fail_def)
next
  case (Inr u)
  then have a: "scrape_accepted c inp = Inr ()" by simp
  show ?thesis
  proof (cases "fetch_samples lib w c h")
    case (Pair r h')
    have "checked marshal_get_scrape_health_output (scrape_report c found (clock h')) = Inr (scrape_report c found (clock h'))"
      if "r = Inr found" for found
      using scrape_report_checked [OF assms(1,3) Pair [unfolded that]] assms(2) by (simp add: sane_clock_def)
    then show ?thesis
      using Pair fetch_samples_Inl [of lib w c h e h']
      by (cases r) (auto simp: get_scrape_health_eq a observe_once_def io_defs)
  qed
qed

lemma example_rounding_sane: "sane_rounding example_lib"
  by (simp add: sane_rounding_def example_lib_def)

theorem scrape_health_failures_witness:
  "\<exists>e. fst (get_scrape_health example_lib (monitoring_example_world [] (example_sample @ '','' @ example_sample))
     example_clock monitoring_example_client scrape_example_input []) = Inl e \<and> source_get_error e"
proof -
  let ?w = "monitoring_example_world [] (example_sample @ '','' @ example_sample)"
  have "fst (get_scrape_health example_lib ?w example_clock monitoring_example_client scrape_example_input []) =
      Inl (SourceHttpError InvalidSourceResponse)"
    by code_simp
  moreover have "scrape_accepted monitoring_example_client scrape_example_input = Inr ()" by code_simp
  ultimately show ?thesis
    using scrape_health_failures [OF monitoring_example_inv example_clock_sane example_rounding_sane,
        of ?w scrape_example_input "[]" "SourceHttpError InvalidSourceResponse"]
    by auto
qed

text \<open>
  C15: an alert listing never exceeds the result limit: it fails because its input is refused,
  because the request fails, or because a kept alert started outside the years 0 to 9999. In that
  last case it does fail: one such alert loses the whole listing.
\<close>

theorem active_alerts_failures:
  assumes "monitoring_client_inv c" and "sane_clock clock" and "sane_times lib"
  shows "fst (list_active_alerts lib w clock c inp h) = Inl e \<longleftrightarrow>
    alerts_accepted c inp = Inl e \<or>
    (\<exists>limit. alerts_accepted c inp = Inr limit \<and>
       (fst (fetch_alerts lib w c h) = Inl e \<and> source_get_error e \<or>
        (\<exists>source_alerts h'. fetch_alerts lib w c h = (Inr source_alerts, h') \<and> e = encode_error \<and>
           \<not> alert_times_encodable (alerts_report lib c limit source_alerts (clock h')))))"
proof (cases "alerts_accepted c inp")
  case (Inl e')
  then show ?thesis by (auto simp: list_active_alerts_eq io_fail_def)
next
  case (Inr limit)
  have limit: "0 \<le> limit" "limit \<le> 50" using alerts_accepted_Inr [OF Inr] by auto
  have check: "checked marshal_list_active_alerts_output (alerts_report lib c limit source_alerts (clock h')) =
      (if alert_times_encodable (alerts_report lib c limit source_alerts (clock h'))
       then Inr (alerts_report lib c limit source_alerts (clock h')) else Inl encode_error)" for source_alerts h'
    using checked_fits [of 60000 marshal_list_active_alerts_output "alerts_report lib c limit source_alerts (clock h')",
        OF alerts_report_fits [OF assms(1,3) limit]]
      alerts_report_encodable [of "alerts_report lib c limit source_alerts (clock h')"] assms(2)
    by (simp add: sane_clock_def alerts_report_def case_prod_beta)
  show ?thesis
  proof (cases "fetch_alerts lib w c h")
    case (Pair r h')
    then show ?thesis
      using fetch_alerts_Inl [of lib w c h e h'] check
      by (cases r) (auto simp: list_active_alerts_eq Inr observe_once_def io_defs)
  qed
qed

text \<open>The last second of the year 9999, an hour west of Greenwich, is in the year 10000 in UTC.\<close>

definition late_alert_lib :: stdlib where
  "late_alert_lib = example_lib\<lparr>lib_parse_time := (\<lambda>s. if s = ''2026-08-03T00:00:00Z'' then Some (Time 253402304399 0) else None)\<rparr>"

theorem active_alerts_failures_witness:
  "\<exists>source_alerts limit now. alerts_accepted monitoring_example_client alerts_example_input = Inr limit \<and>
     \<not> alert_times_encodable (alerts_report late_alert_lib monitoring_example_client limit source_alerts now)"
proof -
  let ?w = "monitoring_example_world (example_alert ''DiskFull'') []"
  have "fst (list_active_alerts late_alert_lib ?w example_clock monitoring_example_client alerts_example_input []) =
      Inl encode_error"
    by code_simp
  moreover have "sane_times late_alert_lib" by (simp add: sane_times_def late_alert_lib_def time_valid_def)
  moreover have "alerts_accepted monitoring_example_client alerts_example_input = Inr 20" by code_simp
  ultimately show ?thesis
    using active_alerts_failures [OF monitoring_example_inv example_clock_sane, of late_alert_lib ?w
        alerts_example_input "[]" encode_error]
    by (auto simp: source_get_error_def encode_error_def)
qed

end
