(* ===== verification/ServerFacts.thy ===== *)
theory ServerFacts
  imports McpServer KubernetesProperties FluxProperties MonitoringProperties
begin

section \<open>Construction and dispatch of the server\<close>

text \<open>
  What the loops over the sources build, the one shape all handlers with a source share, and the
  contract between the server and an observation of an adapter: the locale \<open>observation\<close> states
  what the server relies on, and each of the five observations is shown to satisfy it.
\<close>

subsection \<open>The maps of sources\<close>

definition enter_all :: "capability \<Rightarrow> ('s \<Rightarrow> target) \<Rightarrow> 's list \<Rightarrow> (string \<rightharpoonup> 's) \<Rightarrow> (string \<rightharpoonup> 's)" where
  "enter_all cap target_of ss m = fold (\<lambda>s. enter_source cap (target_of s) s) ss m"

lemma enter_all_lookup:
  assumes "distinct (map (\<lambda>s. target_id (target_of s)) ss)"
  shows "enter_all cap target_of ss m i = Some s \<longleftrightarrow>
    s \<in> set ss \<and> target_id (target_of s) = i \<and> cap \<in> set (target_capabilities (target_of s)) \<or>
    (\<forall>s \<in> set ss. target_id (target_of s) = i \<longrightarrow> cap \<notin> set (target_capabilities (target_of s))) \<and> m i = Some s"
  using assms
proof (induction ss arbitrary: m)
  case (Cons x ss)
  have fresh: "target_id (target_of y) \<noteq> target_id (target_of x)" if "y \<in> set ss" for y
    using Cons.prems that by (auto simp: image_iff)
  have IH: "enter_all cap target_of (x # ss) m i = Some s \<longleftrightarrow>
    s \<in> set ss \<and> target_id (target_of s) = i \<and> cap \<in> set (target_capabilities (target_of s)) \<or>
    (\<forall>s \<in> set ss. target_id (target_of s) = i \<longrightarrow> cap \<notin> set (target_capabilities (target_of s))) \<and>
      enter_source cap (target_of x) x m i = Some s"
    using Cons.IH [of "enter_source cap (target_of x) x m"] Cons.prems by (simp add: enter_all_def)
  show ?case unfolding IH using fresh by (auto simp: enter_source_def)
qed (simp add: enter_all_def)

lemma enter_all_Some:
  assumes "distinct (map (\<lambda>s. target_id (target_of s)) ss)"
  shows "enter_all cap target_of ss Map.empty i = Some s \<longleftrightarrow>
    s \<in> set ss \<and> target_id (target_of s) = i \<and> cap \<in> set (target_capabilities (target_of s))"
  using enter_all_lookup [OF assms, of cap Map.empty i s] by simp

lemma add_kubernetes_sources_Inr:
  "add_kubernetes_sources ss targets health workloads = Inr out \<longleftrightarrow>
     (\<exists>ks. ss = map Some ks \<and> list_all (\<lambda>k. target_kind (ks_target k) = target_kind_kubernetes) ks \<and>
        out = (targets @ map ks_target ks, enter_all capability_kubernetes_cluster_health ks_target ks health,
          enter_all capability_kubernetes_unhealthy_workloads ks_target ks workloads))"
proof (induction ss arbitrary: targets health workloads)
  case (Cons s ss)
  show ?case
  proof (cases s)
    case (Some k)
    have "(\<exists>ks. s # ss = map Some ks \<and> Q ks) \<longleftrightarrow> (\<exists>ks. ss = map Some ks \<and> Q (k # ks))" for Q
      using Some by (metis (no_types, lifting) list.simps(9) map_eq_Cons_D option.inject)
    then show ?thesis using Some by (simp add: Let_def Cons.IH enter_all_def)
  qed auto
qed (auto simp: enter_all_def)

lemma add_monitoring_sources_Inr:
  "add_monitoring_sources ss targets alerts scrapes = Inr out \<longleftrightarrow>
     (\<exists>ks. ss = map Some ks \<and> list_all (\<lambda>k. target_kind (ms_target k) = target_kind_monitoring) ks \<and>
        out = (targets @ map ms_target ks, enter_all capability_monitoring_active_alerts ms_target ks alerts,
          enter_all capability_monitoring_scrape_health ms_target ks scrapes))"
proof (induction ss arbitrary: targets alerts scrapes)
  case (Cons s ss)
  show ?case
  proof (cases s)
    case (Some k)
    have "(\<exists>ks. s # ss = map Some ks \<and> Q ks) \<longleftrightarrow> (\<exists>ks. ss = map Some ks \<and> Q (k # ks))" for Q
      using Some by (metis (no_types, lifting) list.simps(9) map_eq_Cons_D option.inject)
    then show ?thesis using Some by (simp add: Let_def Cons.IH enter_all_def)
  qed auto
qed (auto simp: enter_all_def)

text \<open>A Flux source is entered without a look at its capabilities.\<close>

lemma add_flux_sources_Inr:
  "add_flux_sources ss targets flux = Inr out \<longleftrightarrow>
     (\<exists>ks. ss = map Some ks \<and> list_all (\<lambda>k. target_kind (fx_target k) = target_kind_flux) ks \<and>
        out = (targets @ map fx_target ks, fold (\<lambda>s m. m(target_id (fx_target s) \<mapsto> s)) ks flux))"
proof (induction ss arbitrary: targets flux)
  case (Cons s ss)
  show ?case
  proof (cases s)
    case (Some k)
    have "(\<exists>ks. s # ss = map Some ks \<and> Q ks) \<longleftrightarrow> (\<exists>ks. ss = map Some ks \<and> Q (k # ks))" for Q
      using Some by (metis (no_types, lifting) list.simps(9) map_eq_Cons_D option.inject)
    then show ?thesis using Some by (simp add: Let_def Cons.IH)
  qed auto
qed auto

text \<open>It would be entered by its only possible capability just the same.\<close>

lemma flux_target_capability:
  assumes "valid_target t" and "target_kind t = target_kind_flux"
  shows "capability_flux_unhealthy_reconciliations \<in> set (target_capabilities t)"
  using assms
  by (cases "target_capabilities t")
    (auto simp: valid_target_def capability_matches_kind_def target_kind_defs split: if_splits)

lemma enter_flux:
  assumes "\<forall>s \<in> set ks. valid_target (fx_target s) \<and> target_kind (fx_target s) = target_kind_flux"
  shows "fold (\<lambda>s m. m(target_id (fx_target s) \<mapsto> s)) ks m =
    enter_all capability_flux_unhealthy_reconciliations fx_target ks m"
  using assms
  by (induction ks arbitrary: m) (auto simp: enter_all_def enter_source_def flux_target_capability)

subsection \<open>The server a source set makes\<close>

record families =
  fam_kubernetes :: "kubernetes_source list"
  fam_monitoring :: "monitoring_source list"
  fam_flux :: "flux_source list"

definition all_targets :: "families \<Rightarrow> target list" where
  "all_targets f = map ks_target (fam_kubernetes f) @ map ms_target (fam_monitoring f) @ map fx_target (fam_flux f)"

definition kinds_ok :: "families \<Rightarrow> bool" where
  "kinds_ok f \<longleftrightarrow>
     list_all (\<lambda>s. target_kind (ks_target s) = target_kind_kubernetes) (fam_kubernetes f) \<and>
     list_all (\<lambda>s. target_kind (ms_target s) = target_kind_monitoring) (fam_monitoring f) \<and>
     list_all (\<lambda>s. target_kind (fx_target s) = target_kind_flux) (fam_flux f)"

definition set_of :: "families \<Rightarrow> source_set" where
  "set_of f = \<lparr>set_kubernetes = map Some (fam_kubernetes f), set_monitoring = map Some (fam_monitoring f),
     set_flux = map Some (fam_flux f)\<rparr>"

lemma new_with_source_set_Inr:
  "new_with_source_set version sources audited = Inr s \<longleftrightarrow>
     (\<exists>f catalog. sources = set_of f \<and> kinds_ok f \<and> new_catalog (all_targets f) = Inr catalog \<and>
        s = \<lparr>srv_version = version, srv_catalog = catalog, srv_audited = audited, srv_tools = registered_tools,
          srv_cluster_health = enter_all capability_kubernetes_cluster_health ks_target (fam_kubernetes f) Map.empty,
          srv_unhealthy_workloads =
            enter_all capability_kubernetes_unhealthy_workloads ks_target (fam_kubernetes f) Map.empty,
          srv_active_alerts = enter_all capability_monitoring_active_alerts ms_target (fam_monitoring f) Map.empty,
          srv_scrape_health = enter_all capability_monitoring_scrape_health ms_target (fam_monitoring f) Map.empty,
          srv_flux = fold (\<lambda>s m. m(target_id (fx_target s) \<mapsto> s)) (fam_flux f) Map.empty\<rparr>)" (is "?l \<longleftrightarrow> ?r")
proof
  assume ?l
  then obtain ks ms fs catalog where sets: "set_kubernetes sources = map Some ks" "set_monitoring sources = map Some ms"
      "set_flux sources = map Some fs"
    and rest: "kinds_ok \<lparr>fam_kubernetes = ks, fam_monitoring = ms, fam_flux = fs\<rparr>"
      "new_catalog (map ks_target ks @ map ms_target ms @ map fx_target fs) = Inr catalog"
      "s = \<lparr>srv_version = version, srv_catalog = catalog, srv_audited = audited, srv_tools = registered_tools,
          srv_cluster_health = enter_all capability_kubernetes_cluster_health ks_target ks Map.empty,
          srv_unhealthy_workloads = enter_all capability_kubernetes_unhealthy_workloads ks_target ks Map.empty,
          srv_active_alerts = enter_all capability_monitoring_active_alerts ms_target ms Map.empty,
          srv_scrape_health = enter_all capability_monitoring_scrape_health ms_target ms Map.empty,
          srv_flux = fold (\<lambda>s m. m(target_id (fx_target s) \<mapsto> s)) fs Map.empty\<rparr>"
    by (auto simp: new_with_source_set_def add_kubernetes_sources_Inr add_monitoring_sources_Inr
        add_flux_sources_Inr kinds_ok_def)
  have "sources = set_of \<lparr>fam_kubernetes = ks, fam_monitoring = ms, fam_flux = fs\<rparr>"
    using sets by (simp add: set_of_def)
  with rest show ?r
    by (intro exI [of _ "\<lparr>fam_kubernetes = ks, fam_monitoring = ms, fam_flux = fs\<rparr>"] exI [of _ catalog])
      (simp add: all_targets_def)
next
  assume ?r
  then show ?l
    by (auto simp: new_with_source_set_def add_kubernetes_sources_Inr add_monitoring_sources_Inr
        add_flux_sources_Inr kinds_ok_def set_of_def all_targets_def)
qed

subsection \<open>The shape of a handler\<close>

definition run_tool :: "('i \<Rightarrow> 'i result) \<Rightarrow> ('i \<Rightarrow> 's option) \<Rightarrow> ('s \<Rightarrow> 'i \<Rightarrow> 'o io) \<Rightarrow> ('o \<Rightarrow> marshalled) \<Rightarrow>
    string \<Rightarrow> 'i \<Rightarrow> (string \<times> 'o) io" where
  "run_tool accept lookup run marshal summary inp =
     (case accept inp of Inl e \<Rightarrow> io_fail (safe_tool_error e)
      | Inr i \<Rightarrow>
          (case lookup i of None \<Rightarrow> io_fail ErrTargetNotConfigured
           | Some s \<Rightarrow>
               io_bind (io_map_error safe_tool_error (run s i)) (\<lambda>out.
               case check_result_size (marshal out) of
                 Some e \<Rightarrow> io_fail (safe_tool_error e)
               | None \<Rightarrow> io_return (summary, out))))"

definition validated :: "('i \<Rightarrow> go_error option) \<Rightarrow> 'i \<Rightarrow> 'i result" where
  "validated validate inp = (case validate inp of Some e \<Rightarrow> Inl e | None \<Rightarrow> Inr inp)"

lemma handle_get_cluster_health_eq:
  "handle_get_cluster_health s =
     run_tool (validated validate_get_cluster_health_input) (\<lambda>i. srv_cluster_health s (gch_target i))
       (\<lambda>source i. ks_cluster_health source) marshal_cluster_health_output
       ''Returned bounded Kubernetes cluster health.''"
  by (rule ext)
    (auto simp: handle_get_cluster_health_def run_tool_def validated_def summary_result_def cong: option.case_cong split: option.split)

lemma handle_list_unhealthy_workloads_eq:
  "handle_list_unhealthy_workloads s =
     run_tool normalize_list_unhealthy_workloads_input (\<lambda>i. srv_unhealthy_workloads s (luw_target i))
       ks_list_unhealthy_workloads marshal_list_unhealthy_workloads_output
       ''Returned bounded unhealthy Kubernetes workloads.''"
  by (rule ext) (unfold handle_list_unhealthy_workloads_def run_tool_def summary_result_def, rule refl)

lemma handle_list_active_alerts_eq:
  "handle_list_active_alerts s =
     run_tool normalize_list_active_alerts_input (\<lambda>i. srv_active_alerts s (laa_target i))
       ms_list_active_alerts marshal_list_active_alerts_output ''Returned bounded active monitoring alerts.''"
  by (rule ext) (unfold handle_list_active_alerts_def run_tool_def summary_result_def, rule refl)

lemma handle_get_scrape_health_eq:
  "handle_get_scrape_health s =
     run_tool (validated validate_get_scrape_health_input) (\<lambda>i. srv_scrape_health s (gsh_target i))
       ms_get_scrape_health marshal_get_scrape_health_output ''Returned bounded monitoring scrape health.''"
  by (rule ext)
    (auto simp: handle_get_scrape_health_def run_tool_def validated_def summary_result_def cong: option.case_cong split: option.split)

lemma handle_list_unhealthy_reconciliations_eq:
  "handle_list_unhealthy_reconciliations s =
     run_tool normalize_list_unhealthy_reconciliations_input (\<lambda>i. srv_flux s (lur_target i))
       fx_list_unhealthy_reconciliations marshal_list_unhealthy_reconciliations_output
       ''Returned bounded unhealthy Flux reconciliations.''"
  by (rule ext) (unfold handle_list_unhealthy_reconciliations_def run_tool_def summary_result_def, rule refl)

lemmas handler_shapes = handle_get_cluster_health_eq handle_list_unhealthy_workloads_eq
  handle_list_active_alerts_eq handle_get_scrape_health_eq handle_list_unhealthy_reconciliations_eq

text \<open>The errors a client of the server can see, whatever the sources return.\<close>

definition tool_error :: "go_error \<Rightarrow> bool" where
  "tool_error e \<longleftrightarrow>
     (\<exists>f r. e = ValidationError f r) \<or>
     e \<in> {ErrTargetNotConfigured, ErrObservationCanceled, ErrObservationFailed, ErrResultTooLarge,
       KubernetesUnknownScope, FluxUnknownScope} \<or>
     e \<in> range KubernetesError \<union> range SourceHttpError"

lemma safe_tool_error_closed: "tool_error (safe_tool_error e)"
  by (cases "as_validation_error e")
    (auto simp: safe_tool_error_def tool_error_def dest: as_validation_error_Some)

lemma run_tool_Inr:
  "run_tool accept lookup run marshal summary inp h = (Inr (t, out), h') \<longleftrightarrow>
     (\<exists>i s. accept inp = Inr i \<and> lookup i = Some s \<and> run s i h = (Inr out, h') \<and>
        check_result_size (marshal out) = None \<and> t = summary)"
proof (cases "accept inp")
  case (Inr i)
  then show ?thesis
    by (cases "lookup i") (auto simp: run_tool_def io_bind_Inr split: option.splits)
qed (simp add: run_tool_def)

lemma run_tool_closed:
  "fst (run_tool accept lookup run marshal summary inp h) = Inl e \<Longrightarrow> tool_error e"
proof -
  have configured: "tool_error ErrTargetNotConfigured" by (simp add: tool_error_def)
  have mapped: "io_map_error safe_tool_error m h = (Inl e, h') \<Longrightarrow> tool_error e" for m :: "'x io" and h h'
    using safe_tool_error_closed by (auto simp: io_map_error_def split: prod.splits sum.splits)
  assume e: "fst (run_tool accept lookup run marshal summary inp h) = Inl e"
  show ?thesis
  proof (cases "accept inp")
    case (Inl e')
    with e safe_tool_error_closed show ?thesis by (auto simp: run_tool_def io_fail_def)
  next
    case (Inr i)
    show ?thesis
    proof (cases "lookup i")
      case None
      with e Inr configured show ?thesis by (auto simp: run_tool_def io_fail_def)
    next
      case (Some s)
      obtain h' where "run_tool accept lookup run marshal summary inp h = (Inl e, h')"
        using e by (metis prod.collapse)
      with Inr Some show ?thesis
        using mapped safe_tool_error_closed by (auto simp: run_tool_def io_bind_Inl split: option.splits)
    qed
  qed
qed

subsection \<open>The contract of an observation\<close>

text \<open>
  What the server relies on: the target of a source is valid and has the capability, an observation
  only sends what its source may send, a bounded number of times, and returns an output of accepted
  size. Then the tool over a list of such sources is the observation of the source it names.
\<close>

definition tool_result :: "string \<Rightarrow> 'o result \<times> history \<Rightarrow> (string \<times> 'o) result \<times> history" where
  "tool_result summary p =
     (case p of (Inl e, h) \<Rightarrow> (Inl (safe_tool_error e), h) | (Inr out, h) \<Rightarrow> (Inr (summary, out), h))"

lemma snd_tool_result [simp]: "snd (tool_result summary p) = snd p"
  by (simp add: tool_result_def split: prod.split sum.split)

text \<open>The specification of a tool: check the input, find the named client, observe, redact the error.\<close>

definition answer :: "('i \<Rightarrow> 'i result) \<Rightarrow> ('i \<Rightarrow> string) \<Rightarrow> ('c \<Rightarrow> string) \<Rightarrow> 'c list \<Rightarrow> ('c \<Rightarrow> 'i \<Rightarrow> 'o io) \<Rightarrow>
    string \<Rightarrow> 'i \<Rightarrow> (string \<times> 'o) io" where
  "answer accept tid cid cs observe summary inp h =
     (case accept inp of Inl e \<Rightarrow> (Inl (safe_tool_error e), h)
      | Inr i \<Rightarrow>
          (case find (\<lambda>c. cid c = tid i) cs of None \<Rightarrow> (Inl ErrTargetNotConfigured, h)
           | Some c \<Rightarrow> tool_result summary (observe c i h)))"

locale observation =
  fixes inv :: "'c \<Rightarrow> bool" and source :: "'c \<Rightarrow> 's" and target_of :: "'s \<Rightarrow> target"
    and capability :: capability and run :: "'s \<Rightarrow> 'i \<Rightarrow> 'o io" and marshal :: "'o \<Rightarrow> marshalled"
    and event_ok :: "'c \<Rightarrow> event \<Rightarrow> bool" and bound :: nat
  assumes source_valid: "inv c \<Longrightarrow> valid_target (target_of (source c))"
    and source_serves: "capability \<in> set (target_capabilities (target_of (source c)))"
    and run_emits: "inv c \<Longrightarrow> emits (event_ok c) (run (source c) i)"
    and run_requests: "inv c \<Longrightarrow> requests (snd (run (source c) i h)) \<le> requests h + bound"
    and run_checked: "run (source c) i h = (Inr out, h') \<Longrightarrow> check_result_size (marshal out) = None"
begin

lemma served:
  assumes "distinct (map (\<lambda>c. target_id (target_of (source c))) cs)"
  shows "enter_all capability target_of (map source cs) Map.empty i = Some s \<longleftrightarrow>
    (\<exists>c \<in> set cs. s = source c \<and> target_id (target_of s) = i)"
proof -
  have "distinct (map (\<lambda>s. target_id (target_of s)) (map source cs))" using assms by (simp add: comp_def)
  from enter_all_Some [OF this] source_serves show ?thesis by auto
qed

text \<open>The second size check of the server never decides anything.\<close>

lemma tool_transparent:
  assumes "accept inp = Inr i" and "lookup i = Some (source c)"
  shows "run_tool accept lookup run marshal summary inp h = tool_result summary (run (source c) i h)"
proof (cases "run (source c) i h")
  case (Pair r h')
  show ?thesis
  proof (cases r)
    case (Inl e)
    with Pair assms show ?thesis by (simp add: run_tool_def tool_result_def io_defs)
  next
    case (Inr out)
    with Pair run_checked [of c i h out h'] assms show ?thesis
      by (simp add: run_tool_def tool_result_def io_defs)
  qed
qed

lemma tool_answer:
  assumes "distinct (map (\<lambda>c. target_id (target_of (source c))) cs)"
  shows "run_tool accept (\<lambda>i. enter_all capability target_of (map source cs) Map.empty (tid i)) run marshal summary =
    answer accept tid (\<lambda>c. target_id (target_of (source c))) cs (\<lambda>c. run (source c)) summary"
proof (intro ext)
  fix inp h
  let ?lookup = "\<lambda>i. enter_all capability target_of (map source cs) Map.empty (tid i)"
  show "run_tool accept ?lookup run marshal summary inp h =
      answer accept tid (\<lambda>c. target_id (target_of (source c))) cs (\<lambda>c. run (source c)) summary inp h"
  proof (cases "accept inp")
    case (Inl e)
    then show ?thesis by (simp add: run_tool_def answer_def io_fail_def)
  next
    case (Inr i)
    show ?thesis
    proof (cases "find (\<lambda>c. target_id (target_of (source c)) = tid i) cs")
      case None
      then have "?lookup i = None"
        using served [OF assms, of "tid i"] by (cases "?lookup i") (auto simp: find_None_iff)
      with None Inr show ?thesis by (simp add: run_tool_def answer_def io_fail_def)
    next
      case (Some c)
      then have "c \<in> set cs" and "target_id (target_of (source c)) = tid i"
        by (auto simp: find_Some_iff)
      then have "?lookup i = Some (source c)" using served [OF assms, of "tid i" "source c"] by auto
      with Some Inr tool_transparent [of accept inp i ?lookup c summary h] show ?thesis by (simp add: answer_def)
    qed
  qed
qed

end

text \<open>An answer only has the effects of the observation it makes.\<close>

lemma answer_effects:
  "(\<exists>i c. accept inp = Inr i \<and> c \<in> set cs \<and> cid c = tid i \<and>
      snd (answer accept tid cid cs observe summary inp h) = snd (observe c i h)) \<or>
   snd (answer accept tid cid cs observe summary inp h) = h"
  by (auto simp: answer_def find_Some_iff split: sum.split option.split) (metis nth_mem)

end
