(* ===== verification/Sources.thy ===== *)
theory Sources
  imports ServerFacts
begin

section \<open>The adapters as sources of the server\<close>

text \<open>
  The clients of the three adapters satisfy the interfaces the server asks for, each in its own
  surroundings: \<open>w\<close> gives the surroundings of a client by its target identifier. Every observation
  satisfies the contract \<open>observation\<close>, so everything proved there holds of the tools.
\<close>

definition kubernetes_source_of :: "(string \<Rightarrow> world) \<Rightarrow> clock \<Rightarrow> kubernetes_client \<Rightarrow> kubernetes_source" where
  "kubernetes_source_of w clock c =
     \<lparr>ks_target = kubernetes_target c, ks_cluster_health = cluster_health (w (kube_target_id c)) clock c,
      ks_list_unhealthy_workloads = list_unhealthy_workloads (w (kube_target_id c)) clock c\<rparr>"

definition monitoring_source_of :: "stdlib \<Rightarrow> (string \<Rightarrow> world) \<Rightarrow> clock \<Rightarrow> monitoring_client \<Rightarrow> monitoring_source" where
  "monitoring_source_of lib w clock c =
     \<lparr>ms_target = monitoring_target c,
      ms_list_active_alerts = list_active_alerts lib (w (mon_target_id c)) clock c,
      ms_get_scrape_health = get_scrape_health lib (w (mon_target_id c)) clock c\<rparr>"

definition flux_source_of :: "stdlib \<Rightarrow> (string \<Rightarrow> world) \<Rightarrow> clock \<Rightarrow> flux_client \<Rightarrow> flux_source" where
  "flux_source_of lib w clock c =
     \<lparr>fx_target = flux_target c,
      fx_list_unhealthy_reconciliations =
        list_unhealthy_reconciliations lib (w (flux_target_id c)) clock c\<rparr>"

lemma cluster_health_checked:
  "cluster_health w clock c h = (Inr out, h') \<Longrightarrow> check_result_size (marshal_cluster_health_output out) = None"
  by (auto simp: cluster_health_def io_bind_Inr checked_Inr split: prod.splits)

lemma list_unhealthy_workloads_checked:
  "list_unhealthy_workloads w clock c inp h = (Inr out, h') \<Longrightarrow>
     check_result_size (marshal_list_unhealthy_workloads_output out) = None"
  by (auto simp: list_unhealthy_workloads_def io_bind_Inr checked_Inr split: if_splits)

interpretation health_tool: observation kubernetes_strict_client "kubernetes_source_of w clock" ks_target
  capability_kubernetes_cluster_health "\<lambda>s (_ :: get_cluster_health_input). ks_cluster_health s"
  marshal_cluster_health_output kubernetes_event 97 for w clock
proof unfold_locales
  fix c :: kubernetes_client and i :: get_cluster_health_input and h
  assume c: "kubernetes_strict_client c"
  then show "valid_target (ks_target (kubernetes_source_of w clock c))"
    by (simp add: kubernetes_source_of_def kubernetes_target_valid kubernetes_strict_client_def)
  from emits_cluster_health [OF c]
  show "emits (kubernetes_event c) (ks_cluster_health (kubernetes_source_of w clock c))"
    by (simp add: kubernetes_source_of_def)
  from cluster_health_requests [OF c, of "w (kube_target_id c)" clock h]
  show "requests (snd (ks_cluster_health (kubernetes_source_of w clock c) h)) \<le> requests h + 97"
    by (simp add: kubernetes_source_of_def)
qed (auto simp: kubernetes_source_of_def kubernetes_target_def dest: cluster_health_checked)

interpretation workloads_tool: observation kubernetes_strict_client "kubernetes_source_of w clock" ks_target
  capability_kubernetes_unhealthy_workloads ks_list_unhealthy_workloads
  marshal_list_unhealthy_workloads_output kubernetes_event 96 for w clock
proof unfold_locales
  fix c :: kubernetes_client and i h
  assume c: "kubernetes_strict_client c"
  then show "valid_target (ks_target (kubernetes_source_of w clock c))"
    by (simp add: kubernetes_source_of_def kubernetes_target_valid kubernetes_strict_client_def)
  from list_unhealthy_workloads_confined [OF c]
  show "emits (kubernetes_event c) (ks_list_unhealthy_workloads (kubernetes_source_of w clock c) i)"
    and "requests (snd (ks_list_unhealthy_workloads (kubernetes_source_of w clock c) i h)) \<le> requests h + 96"
    by (simp_all add: kubernetes_source_of_def)
qed (auto simp: kubernetes_source_of_def kubernetes_target_def dest: list_unhealthy_workloads_checked)

interpretation alerts_tool: observation monitoring_client_inv "monitoring_source_of lib w clock" ms_target
  capability_monitoring_active_alerts ms_list_active_alerts marshal_list_active_alerts_output monitoring_event 1
  for lib w clock
proof unfold_locales
  fix c :: monitoring_client and i h
  assume c: "monitoring_client_inv c"
  then show "valid_target (ms_target (monitoring_source_of lib w clock c))"
    by (simp add: monitoring_source_of_def monitoring_target_valid)
  from list_active_alerts_confined [OF c]
  show "emits (monitoring_event c) (ms_list_active_alerts (monitoring_source_of lib w clock c) i)"
    and "requests (snd (ms_list_active_alerts (monitoring_source_of lib w clock c) i h)) \<le> requests h + 1"
    by (simp_all add: monitoring_source_of_def)
qed (auto simp: monitoring_source_of_def monitoring_target_def list_active_alerts_eq observe_once_Inr split: sum.splits)

interpretation scrapes_tool: observation monitoring_client_inv "monitoring_source_of lib w clock" ms_target
  capability_monitoring_scrape_health ms_get_scrape_health marshal_get_scrape_health_output monitoring_event 1
  for lib w clock
proof unfold_locales
  fix c :: monitoring_client and i h
  assume c: "monitoring_client_inv c"
  then show "valid_target (ms_target (monitoring_source_of lib w clock c))"
    by (simp add: monitoring_source_of_def monitoring_target_valid)
  from get_scrape_health_confined [OF c]
  show "emits (monitoring_event c) (ms_get_scrape_health (monitoring_source_of lib w clock c) i)"
    and "requests (snd (ms_get_scrape_health (monitoring_source_of lib w clock c) i h)) \<le> requests h + 1"
    by (simp_all add: monitoring_source_of_def)
qed (auto simp: monitoring_source_of_def monitoring_target_def get_scrape_health_eq observe_once_Inr split: sum.splits)

interpretation reconciliations_tool: observation flux_client_inv "flux_source_of lib w clock" fx_target
  capability_flux_unhealthy_reconciliations fx_list_unhealthy_reconciliations
  marshal_list_unhealthy_reconciliations_output flux_event 96 for lib w clock
proof unfold_locales
  fix c :: flux_client and i h
  assume c: "flux_client_inv c"
  then show "valid_target (fx_target (flux_source_of lib w clock c))"
    by (simp add: flux_source_of_def flux_target_valid)
  from flux_confined [OF c]
  show "emits (flux_event c) (fx_list_unhealthy_reconciliations (flux_source_of lib w clock c) i)"
    and "requests (snd (fx_list_unhealthy_reconciliations (flux_source_of lib w clock c) i h)) \<le> requests h + 96"
    by (simp_all add: flux_source_of_def)
qed (auto simp: flux_source_of_def flux_target_def list_unhealthy_reconciliations_eq observe_pages_Inr split: sum.splits)

end
