(* ===== verification/ServerProperties.thy ===== *)
theory ServerProperties
  imports Sources
begin

section \<open>Properties of the server\<close>

text \<open>
  Which source sets a server is built from, how its catalog and its handlers agree, and what a
  client of the server can get: outputs within the size limit or one of a closed set of errors,
  from requests to the named source only.
\<close>

subsection \<open>Errors\<close>

definition identifier_error :: "string \<Rightarrow> go_error" where
  "identifier_error field = ValidationError field ''must be 1 to 32 lowercase letters, digits, or hyphens''"

definition client_errors :: "go_error set" where
  "client_errors =
     {identifier_error ''target'', identifier_error ''scope'', limit_error, ErrTargetNotConfigured,
      ErrObservationCanceled, ErrObservationFailed, KubernetesUnknownScope, FluxUnknownScope} \<union>
     range KubernetesError \<union> range SourceHttpError"

text \<open>The errors of the input checks.\<close>

definition input_errors :: "go_error set" where
  "input_errors = {identifier_error ''target'', identifier_error ''scope'', limit_error}"

lemma validate_identifier_error: "validate_identifier field v = Some e \<Longrightarrow> e = identifier_error field"
  by (auto simp: validate_identifier_def identifier_error_def split: if_splits)

lemma normalize_list_limit_error: "normalize_list_limit l = Inl e \<Longrightarrow> e = limit_error"
  by (auto simp: normalize_list_limit_def split: if_splits)

lemma result_bind_Inl': "result_bind r k = Inl e \<Longrightarrow> r = Inl e \<or> (\<exists>x. r = Inr x \<and> k x = Inl e)"
  by (cases r) auto

lemma input_check_errors:
  "normalize_list_unhealthy_workloads_input wi = Inl e \<Longrightarrow> e \<in> input_errors"
  "normalize_list_unhealthy_reconciliations_input ri = Inl e \<Longrightarrow> e \<in> input_errors"
  "normalize_list_active_alerts_input ai = Inl e \<Longrightarrow> e \<in> input_errors"
  "validated validate_get_cluster_health_input hi = Inl e \<Longrightarrow> e \<in> input_errors"
  "validated validate_get_scrape_health_input si = Inl e \<Longrightarrow> e \<in> input_errors"
  by (auto simp: normalize_list_unhealthy_workloads_input_def normalize_list_unhealthy_reconciliations_input_def
      normalize_list_active_alerts_input_def validated_def validate_get_cluster_health_input_def
      validate_get_scrape_health_input_def input_errors_def Let_def
      dest!: result_bind_Inl' dest: validate_identifier_error normalize_list_limit_error
      split: option.splits if_splits)

text \<open>An error that neither is a validation error nor says that the result is too large is redacted.\<close>

definition plain_error :: "go_error \<Rightarrow> bool" where
  "plain_error e \<longleftrightarrow> as_validation_error e = None \<and> \<not> error_is e ErrResultTooLarge"

lemma safe_plain_error:
  assumes "plain_error e"
  shows "safe_tool_error e \<in> client_errors"
proof -
  have "as_validation_error e = None" and "\<not> error_is e ErrResultTooLarge"
    using assms by (simp_all add: plain_error_def)
  then show ?thesis by (simp add: safe_tool_error_def client_errors_def)
qed

lemma safe_input_error:
  assumes "e \<in> input_errors"
  shows "safe_tool_error e \<in> client_errors"
proof -
  have "as_validation_error e = Some e"
    using assms by (auto simp: input_errors_def identifier_error_def limit_error_def)
  then have "safe_tool_error e = e" by (simp add: safe_tool_error_def)
  then show ?thesis using assms by (auto simp: input_errors_def client_errors_def)
qed

lemma source_error_plain: "source_get_error e \<Longrightarrow> plain_error e"
  by (auto simp: source_get_error_def plain_error_def)

lemma kubernetes_error_plain: "kubernetes_failure e \<Longrightarrow> plain_error e"
  by (auto simp: kubernetes_failure_def kubernetes_get_error_def plain_error_def)

lemma other_errors_plain: "plain_error encode_error" "plain_error (ErrorText t)" "plain_error KubernetesUnknownScope"
    "plain_error FluxUnknownScope"
  by (simp_all add: encode_error_def plain_error_def)

lemmas errors_plain = source_error_plain kubernetes_error_plain other_errors_plain

lemma validate_scrape_error: "validate_get_scrape_health_input si = Some e \<Longrightarrow> e \<in> input_errors"
  using input_check_errors(5) [of si e] by (simp add: validated_def)

lemma accepted_errors:
  "workloads_accepted kc wi = Inl e \<Longrightarrow> e \<in> input_errors \<or> plain_error e"
  "alerts_accepted mc ai = Inl e \<Longrightarrow> e \<in> input_errors \<or> plain_error e"
  "scrape_accepted mc si = Inl e \<Longrightarrow> e \<in> input_errors \<or> plain_error e"
  "flux_accepted fc ri = Inl e \<Longrightarrow> e \<in> input_errors \<or> plain_error e"
  using input_check_errors(1-3) validate_scrape_error
  by (auto simp: workloads_accepted_def alerts_accepted_def scrape_accepted_def flux_accepted_def
      kubernetes_selected_scopes_def flux_selected_scopes_def select_scopes_def errors_plain
      dest!: result_bind_Inl' split: if_splits option.splits)

lemma run_tool_client_errors:
  assumes "\<And>e. accept inp = Inl e \<Longrightarrow> e \<in> input_errors"
    and "\<And>i s e h'. lookup i = Some s \<Longrightarrow> run s i h = (Inl e, h') \<Longrightarrow> e \<in> input_errors \<or> plain_error e"
    and "\<And>i s out h'. lookup i = Some s \<Longrightarrow> run s i h = (Inr out, h') \<Longrightarrow> check_result_size (marshal out) = None"
    and "fst (run_tool accept lookup run marshal summary inp h) = Inl e"
  shows "e \<in> client_errors"
proof (cases "accept inp")
  case (Inl e')
  with assms(1,4) safe_input_error show ?thesis by (auto simp: run_tool_def io_fail_def)
next
  case (Inr i)
  show ?thesis
  proof (cases "lookup i")
    case None
    with assms(4) Inr show ?thesis by (auto simp: run_tool_def io_fail_def client_errors_def)
  next
    case (Some s)
    show ?thesis
    proof (cases "run s i h")
      case (Pair r h')
      show ?thesis
      proof (cases r)
        case (Inl e')
        then have "e = safe_tool_error e'"
          using assms(4) Inr Some Pair by (simp add: run_tool_def io_defs)
        with assms(2) [OF Some] Pair Inl safe_input_error safe_plain_error show ?thesis by blast
      next
        case (Inr out)
        with assms(3,4) \<open>accept inp = Inr i\<close> Some Pair show ?thesis by (simp add: run_tool_def io_defs)
      qed
    qed
  qed
qed

subsection \<open>A deployed server\<close>

text \<open>The server built from clients of the adapters, as the command line does.\<close>

definition deployed_families :: "stdlib \<Rightarrow> (string \<Rightarrow> world) \<Rightarrow> clock \<Rightarrow> kubernetes_client list \<Rightarrow>
    monitoring_client list \<Rightarrow> flux_client list \<Rightarrow> families" where
  "deployed_families lib w clock ks ms fs =
     \<lparr>fam_kubernetes = map (kubernetes_source_of w clock) ks,
      fam_monitoring = map (monitoring_source_of lib w clock) ms,
      fam_flux = map (flux_source_of lib w clock) fs\<rparr>"

definition deployed :: "stdlib \<Rightarrow> (string \<Rightarrow> world) \<Rightarrow> clock \<Rightarrow> kubernetes_client list \<Rightarrow>
    monitoring_client list \<Rightarrow> flux_client list \<Rightarrow> mcp_server \<Rightarrow> bool" where
  "deployed lib w clock ks ms fs s \<longleftrightarrow>
     list_all kubernetes_strict_client ks \<and> list_all monitoring_client_inv ms \<and> list_all flux_client_inv fs \<and>
     (\<exists>version audited. new_with_source_set version (set_of (deployed_families lib w clock ks ms fs)) audited = Inr s)"

lemma set_of_inj: "set_of f = set_of g \<Longrightarrow> f = g"
proof -
  assume "set_of f = set_of g"
  then have "map Some (fam_kubernetes f) = map Some (fam_kubernetes g)"
    "map Some (fam_monitoring f) = map Some (fam_monitoring g)" "map Some (fam_flux f) = map Some (fam_flux g)"
    by (simp_all add: set_of_def)
  moreover have "inj Some" by simp
  ultimately show ?thesis by (cases f; cases g) (simp add: inj_map_eq_map)
qed

lemma target_ids [simp]:
  "target_id (kubernetes_target kc) = kube_target_id kc" "target_id (monitoring_target mc) = mon_target_id mc"
  "target_id (flux_target fc) = flux_target_id fc"
  by (simp_all add: kubernetes_target_def monitoring_target_def flux_target_def)

lemma source_targets [simp]:
  "ks_target (kubernetes_source_of w clock kc) = kubernetes_target kc"
  "ms_target (monitoring_source_of lib w clock mc) = monitoring_target mc"
  "fx_target (flux_source_of lib w clock fc) = flux_target fc"
  by (simp_all add: kubernetes_source_of_def monitoring_source_of_def flux_source_of_def)

lemma deployed_maps:
  assumes "deployed lib w clock ks ms fs s"
  shows "distinct (map kube_target_id ks)" and "distinct (map mon_target_id ms)" and "distinct (map flux_target_id fs)"
    and "srv_cluster_health s = enter_all capability_kubernetes_cluster_health ks_target
      (map (kubernetes_source_of w clock) ks) Map.empty"
    and "srv_unhealthy_workloads s = enter_all capability_kubernetes_unhealthy_workloads ks_target
      (map (kubernetes_source_of w clock) ks) Map.empty"
    and "srv_active_alerts s = enter_all capability_monitoring_active_alerts ms_target
      (map (monitoring_source_of lib w clock) ms) Map.empty"
    and "srv_scrape_health s = enter_all capability_monitoring_scrape_health ms_target
      (map (monitoring_source_of lib w clock) ms) Map.empty"
    and "srv_flux s = enter_all capability_flux_unhealthy_reconciliations fx_target
      (map (flux_source_of lib w clock) fs) Map.empty"
proof -
  let ?f = "deployed_families lib w clock ks ms fs"
  obtain version audited where "new_with_source_set version (set_of ?f) audited = Inr s"
    using assms by (auto simp: deployed_def)
  then obtain catalog where catalog: "new_catalog (all_targets ?f) = Inr catalog" and k: "kinds_ok ?f"
    and s: "s = \<lparr>srv_version = version, srv_catalog = catalog, srv_audited = audited, srv_tools = registered_tools,
          srv_cluster_health = enter_all capability_kubernetes_cluster_health ks_target (fam_kubernetes ?f) Map.empty,
          srv_unhealthy_workloads =
            enter_all capability_kubernetes_unhealthy_workloads ks_target (fam_kubernetes ?f) Map.empty,
          srv_active_alerts = enter_all capability_monitoring_active_alerts ms_target (fam_monitoring ?f) Map.empty,
          srv_scrape_health = enter_all capability_monitoring_scrape_health ms_target (fam_monitoring ?f) Map.empty,
          srv_flux = fold (\<lambda>s m. m(target_id (fx_target s) \<mapsto> s)) (fam_flux ?f) Map.empty\<rparr>"
    unfolding new_with_source_set_Inr by (auto dest: set_of_inj)
  have ok: "list_all valid_target (all_targets ?f)" "distinct (map target_id (all_targets ?f))"
    using catalog new_catalog_accepts [of "all_targets ?f"] by auto
  then show "distinct (map kube_target_id ks)" "distinct (map mon_target_id ms)" "distinct (map flux_target_id fs)"
    by (simp_all add: all_targets_def deployed_families_def comp_def)
  have "\<forall>x \<in> set (fam_flux ?f). valid_target (fx_target x) \<and> target_kind (fx_target x) = target_kind_flux"
    using ok(1) k by (auto simp: list_all_iff all_targets_def kinds_ok_def)
  from enter_flux [OF this, of Map.empty] s
  show "srv_flux s = enter_all capability_flux_unhealthy_reconciliations fx_target
      (map (flux_source_of lib w clock) fs) Map.empty"
    by (simp add: deployed_families_def)
  show "srv_cluster_health s = enter_all capability_kubernetes_cluster_health ks_target
      (map (kubernetes_source_of w clock) ks) Map.empty"
    and "srv_unhealthy_workloads s = enter_all capability_kubernetes_unhealthy_workloads ks_target
      (map (kubernetes_source_of w clock) ks) Map.empty"
    and "srv_active_alerts s = enter_all capability_monitoring_active_alerts ms_target
      (map (monitoring_source_of lib w clock) ms) Map.empty"
    and "srv_scrape_health s = enter_all capability_monitoring_scrape_health ms_target
      (map (monitoring_source_of lib w clock) ms) Map.empty"
    using s by (simp_all add: deployed_families_def)
qed

text \<open>The sources the handlers find are those of the named client.\<close>

lemma deployed_lookups:
  assumes "deployed lib w clock ks ms fs s"
  shows "srv_cluster_health s i = Some ksrc \<longleftrightarrow> (\<exists>c \<in> set ks. ksrc = kubernetes_source_of w clock c \<and> kube_target_id c = i)"
    and "srv_unhealthy_workloads s i = Some ksrc \<longleftrightarrow>
      (\<exists>c \<in> set ks. ksrc = kubernetes_source_of w clock c \<and> kube_target_id c = i)"
    and "srv_active_alerts s i = Some msrc \<longleftrightarrow>
      (\<exists>c \<in> set ms. msrc = monitoring_source_of lib w clock c \<and> mon_target_id c = i)"
    and "srv_scrape_health s i = Some msrc \<longleftrightarrow>
      (\<exists>c \<in> set ms. msrc = monitoring_source_of lib w clock c \<and> mon_target_id c = i)"
    and "srv_flux s i = Some fsrc \<longleftrightarrow> (\<exists>c \<in> set fs. fsrc = flux_source_of lib w clock c \<and> flux_target_id c = i)"
proof -
  note maps = deployed_maps(4-8) [OF assms] and ids = deployed_maps(1-3) [OF assms]
  show "srv_cluster_health s i = Some ksrc \<longleftrightarrow> (\<exists>c \<in> set ks. ksrc = kubernetes_source_of w clock c \<and> kube_target_id c = i)"
    unfolding maps using health_tool.served [of w clock ks i ksrc] ids(1) by auto
  show "srv_unhealthy_workloads s i = Some ksrc \<longleftrightarrow>
      (\<exists>c \<in> set ks. ksrc = kubernetes_source_of w clock c \<and> kube_target_id c = i)"
    unfolding maps using workloads_tool.served [of w clock ks i ksrc] ids(1) by auto
  show "srv_active_alerts s i = Some msrc \<longleftrightarrow>
      (\<exists>c \<in> set ms. msrc = monitoring_source_of lib w clock c \<and> mon_target_id c = i)"
    unfolding maps using alerts_tool.served [of lib w clock ms i msrc] ids(2) by auto
  show "srv_scrape_health s i = Some msrc \<longleftrightarrow>
      (\<exists>c \<in> set ms. msrc = monitoring_source_of lib w clock c \<and> mon_target_id c = i)"
    unfolding maps using scrapes_tool.served [of lib w clock ms i msrc] ids(2) by auto
  show "srv_flux s i = Some fsrc \<longleftrightarrow> (\<exists>c \<in> set fs. fsrc = flux_source_of lib w clock c \<and> flux_target_id c = i)"
    unfolding maps using reconciliations_tool.served [of lib w clock fs i fsrc] ids(3) by auto
qed

text \<open>Every tool of a deployed server is the answer of the named client.\<close>

lemma deployed_answers:
  assumes "deployed lib w clock ks ms fs s"
  shows "handle_get_cluster_health s = answer (validated validate_get_cluster_health_input) gch_target kube_target_id ks
      (\<lambda>c _. cluster_health (w (kube_target_id c)) clock c) ''Returned bounded Kubernetes cluster health.''"
    and "handle_list_unhealthy_workloads s = answer normalize_list_unhealthy_workloads_input luw_target kube_target_id ks
      (\<lambda>c. list_unhealthy_workloads (w (kube_target_id c)) clock c)
      ''Returned bounded unhealthy Kubernetes workloads.''"
    and "handle_list_active_alerts s = answer normalize_list_active_alerts_input laa_target mon_target_id ms
      (\<lambda>c. list_active_alerts lib (w (mon_target_id c)) clock c) ''Returned bounded active monitoring alerts.''"
    and "handle_get_scrape_health s = answer (validated validate_get_scrape_health_input) gsh_target mon_target_id ms
      (\<lambda>c. get_scrape_health lib (w (mon_target_id c)) clock c) ''Returned bounded monitoring scrape health.''"
    and "handle_list_unhealthy_reconciliations s = answer normalize_list_unhealthy_reconciliations_input lur_target
      flux_target_id fs (\<lambda>c. list_unhealthy_reconciliations lib (w (flux_target_id c)) clock c)
      ''Returned bounded unhealthy Flux reconciliations.''"
proof -
  note maps = deployed_maps(4-8) [OF assms] and ids = deployed_maps(1-3) [OF assms]
  show "handle_get_cluster_health s = answer (validated validate_get_cluster_health_input) gch_target kube_target_id ks
      (\<lambda>c _. cluster_health (w (kube_target_id c)) clock c) ''Returned bounded Kubernetes cluster health.''"
    unfolding handler_shapes maps using health_tool.tool_answer [of w clock ks] ids(1)
    by (simp add: kubernetes_source_of_def kubernetes_target_def)
  show "handle_list_unhealthy_workloads s = answer normalize_list_unhealthy_workloads_input luw_target kube_target_id ks
      (\<lambda>c. list_unhealthy_workloads (w (kube_target_id c)) clock c)
      ''Returned bounded unhealthy Kubernetes workloads.''"
    unfolding handler_shapes maps using workloads_tool.tool_answer [of w clock ks] ids(1)
    by (simp add: kubernetes_source_of_def kubernetes_target_def)
  show "handle_list_active_alerts s = answer normalize_list_active_alerts_input laa_target mon_target_id ms
      (\<lambda>c. list_active_alerts lib (w (mon_target_id c)) clock c) ''Returned bounded active monitoring alerts.''"
    unfolding handler_shapes maps using alerts_tool.tool_answer [of lib w clock ms] ids(2)
    by (simp add: monitoring_source_of_def monitoring_target_def)
  show "handle_get_scrape_health s = answer (validated validate_get_scrape_health_input) gsh_target mon_target_id ms
      (\<lambda>c. get_scrape_health lib (w (mon_target_id c)) clock c) ''Returned bounded monitoring scrape health.''"
    unfolding handler_shapes maps using scrapes_tool.tool_answer [of lib w clock ms] ids(2)
    by (simp add: monitoring_source_of_def monitoring_target_def)
  show "handle_list_unhealthy_reconciliations s = answer normalize_list_unhealthy_reconciliations_input lur_target
      flux_target_id fs (\<lambda>c. list_unhealthy_reconciliations lib (w (flux_target_id c)) clock c)
      ''Returned bounded unhealthy Flux reconciliations.''"
    unfolding handler_shapes maps using reconciliations_tool.tool_answer [of lib w clock fs] ids(3)
    by (simp add: flux_source_of_def flux_target_def)
qed

subsection \<open>An example deployment\<close>

definition example_worlds :: "string \<Rightarrow> world" where
  "example_worlds i =
     (if i = ''mon-a'' then monitoring_example_world (example_alert ''DiskFull'') example_sample
      else if i = ''flux-a'' then flux_example_world ''2026-08-03T00:00:00Z''
      else example_world)"

definition example_families :: families where
  "example_families = deployed_families example_lib example_worlds example_clock
     [example_client] [monitoring_example_client] [flux_example_client]"

lemma example_catalog_accepted: "\<exists>catalog. new_catalog (all_targets example_families) = Inr catalog"
proof -
  have "all_targets example_families =
      [kubernetes_target example_client, monitoring_target monitoring_example_client, flux_target flux_example_client]"
    by (simp add: example_families_def deployed_families_def all_targets_def)
  moreover have "\<not> (case new_catalog [kubernetes_target example_client, monitoring_target monitoring_example_client,
      flux_target flux_example_client] of Inl _ \<Rightarrow> True | Inr _ \<Rightarrow> False)"
    by code_simp
  ultimately show ?thesis by (auto split: sum.splits)
qed

lemma example_server: "\<exists>s. new_with_source_set ''dev'' (set_of example_families) True = Inr s"
proof -
  have "kinds_ok example_families"
    by (simp add: kinds_ok_def example_families_def deployed_families_def kubernetes_target_def
        monitoring_target_def flux_target_def)
  with example_catalog_accepted show ?thesis unfolding new_with_source_set_Inr by blast
qed

lemma example_deployed:
  obtains s where "new_with_source_set ''dev'' (set_of example_families) True = Inr s"
    and "deployed example_lib example_worlds example_clock [example_client] [monitoring_example_client] [flux_example_client] s"
  using example_server example_client_strict monitoring_example_inv flux_example_inv
  by (auto simp: deployed_def example_families_def)

subsection \<open>The properties\<close>

text \<open>
  C21: a server is built from exactly the source sets without nil sources in which every source has
  the kind of its family and all targets together form a valid inventory: at most 32 valid targets
  with pairwise different identifiers.
\<close>

theorem server_accepts_iff:
  "(\<exists>s. new_with_source_set version sources audited = Inr s) \<longleftrightarrow>
     (\<exists>f. sources = set_of f \<and> kinds_ok f \<and> length (all_targets f) \<le> 32 \<and>
        list_all valid_target (all_targets f) \<and> distinct (map target_id (all_targets f)))"
  using new_catalog_accepts unfolding new_with_source_set_Inr by blast

text \<open>What the catalog says about an identifier and a capability.\<close>

definition catalog_offers :: "mcp_server \<Rightarrow> capability \<Rightarrow> string \<Rightarrow> bool" where
  "catalog_offers s cap i \<longleftrightarrow>
     (case catalog_lookup (srv_catalog s) i of None \<Rightarrow> False | Some t \<Rightarrow> cap \<in> set (target_capabilities t))"

lemma catalog_offers_iff:
  assumes "new_catalog targets = Inr catalog" and "srv_catalog s = catalog"
  shows "catalog_offers s cap i \<longleftrightarrow>
    (\<exists>t \<in> set targets. target_id t = i \<and> cap \<in> set (target_capabilities t))"
proof -
  let ?norm = "\<lambda>t. t\<lparr>target_capabilities := sort_strings (target_capabilities t)\<rparr>"
  have listed: "set (lto_targets (catalog_list catalog)) = ?norm ` set targets"
    using new_catalog_Inr(4) [OF assms(1)] by (metis catalog_list_def list.set_map list_targets_output.select_convs(1) set_sort_func)
  have lookup: "catalog_lookup catalog i = Some t \<longleftrightarrow> t \<in> ?norm ` set targets \<and> target_id t = i" for t
    using catalog_lookup_list [OF new_catalog_Inr(1) [OF assms(1)], of i t] listed by simp
  show ?thesis
  proof (cases "catalog_lookup catalog i")
    case None
    then have "\<not> (t \<in> ?norm ` set targets \<and> target_id t = i)" for t using lookup [of t] by simp
    with None assms(2) show ?thesis by (fastforce simp: catalog_offers_def)
  next
    case (Some t)
    then have t: "t \<in> ?norm ` set targets" "target_id t = i" using lookup by auto
    have unique: "u = t" if "u \<in> ?norm ` set targets" "target_id u = i" for u
      using lookup [of u] that Some by simp
    show ?thesis
    proof
      assume "catalog_offers s cap i"
      with Some assms(2) t show "\<exists>t \<in> set targets. target_id t = i \<and> cap \<in> set (target_capabilities t)"
        by (auto simp: catalog_offers_def)
    next
      assume "\<exists>t \<in> set targets. target_id t = i \<and> cap \<in> set (target_capabilities t)"
      then obtain u where u: "u \<in> set targets" "target_id u = i" "cap \<in> set (target_capabilities u)" by blast
      then have "?norm u = t" by (intro unique) auto
      with u Some assms(2) show "catalog_offers s cap i" by (auto simp: catalog_offers_def)
    qed
  qed
qed

lemma kind_of_capability:
  "capability_matches_kind k capability_kubernetes_cluster_health \<longleftrightarrow> k = target_kind_kubernetes"
  "capability_matches_kind k capability_kubernetes_unhealthy_workloads \<longleftrightarrow> k = target_kind_kubernetes"
  "capability_matches_kind k capability_monitoring_active_alerts \<longleftrightarrow> k = target_kind_monitoring"
  "capability_matches_kind k capability_monitoring_scrape_health \<longleftrightarrow> k = target_kind_monitoring"
  "capability_matches_kind k capability_flux_unhealthy_reconciliations \<longleftrightarrow> k = target_kind_flux"
  by (auto simp: capability_matches_kind_def target_kind_defs capability_defs)

lemma kind_of_family:
  assumes "kinds_ok f" and "t \<in> set (all_targets f)"
  shows "target_kind t = target_kind_kubernetes \<longleftrightarrow> t \<in> ks_target ` set (fam_kubernetes f)"
    and "target_kind t = target_kind_monitoring \<longleftrightarrow> t \<in> ms_target ` set (fam_monitoring f)"
    and "target_kind t = target_kind_flux \<longleftrightarrow> t \<in> fx_target ` set (fam_flux f)"
  using assms by (auto simp: kinds_ok_def all_targets_def list_all_iff target_kind_defs)

lemma offers_family:
  assumes "kinds_ok f" and "new_catalog (all_targets f) = Inr catalog" and "srv_catalog s = catalog"
    and "\<And>k. capability_matches_kind k cap \<longleftrightarrow> k = kind"
    and "\<And>t. t \<in> set (all_targets f) \<Longrightarrow> target_kind t = kind \<longleftrightarrow> t \<in> target_of ` set ss"
    and "distinct (map (\<lambda>s. target_id (target_of s)) ss)" and "target_of ` set ss \<subseteq> set (all_targets f)"
  shows "enter_all cap target_of ss Map.empty i \<noteq> None \<longleftrightarrow> catalog_offers s cap i"
proof -
  have valid: "list_all valid_target (all_targets f)"
    using assms(2) new_catalog_accepts [of "all_targets f"] by auto
  have "catalog_offers s cap i \<longleftrightarrow> (\<exists>t \<in> set (all_targets f). target_id t = i \<and> cap \<in> set (target_capabilities t))"
    using catalog_offers_iff [OF assms(2,3)] .
  also have "\<dots> \<longleftrightarrow> (\<exists>x \<in> set ss. target_id (target_of x) = i \<and> cap \<in> set (target_capabilities (target_of x)))"
    using assms(4,5,7) valid by (fastforce simp: list_all_iff valid_target_def)
  also have "\<dots> \<longleftrightarrow> enter_all cap target_of ss Map.empty i \<noteq> None"
    using enter_all_Some [OF assms(6)] by auto
  finally show ?thesis by blast
qed

text \<open>
  C22: the catalog and the handlers agree: a tool finds a source for an identifier exactly when the
  catalog lists a target with that identifier and the capability of the tool.
\<close>

theorem catalog_matches_dispatch:
  assumes "new_with_source_set version sources audited = Inr s"
  shows "(srv_cluster_health s i \<noteq> None \<longleftrightarrow> catalog_offers s capability_kubernetes_cluster_health i) \<and>
    (srv_unhealthy_workloads s i \<noteq> None \<longleftrightarrow> catalog_offers s capability_kubernetes_unhealthy_workloads i) \<and>
    (srv_active_alerts s i \<noteq> None \<longleftrightarrow> catalog_offers s capability_monitoring_active_alerts i) \<and>
    (srv_scrape_health s i \<noteq> None \<longleftrightarrow> catalog_offers s capability_monitoring_scrape_health i) \<and>
    (srv_flux s i \<noteq> None \<longleftrightarrow> catalog_offers s capability_flux_unhealthy_reconciliations i)"
proof -
  obtain f catalog where k: "kinds_ok f" and catalog: "new_catalog (all_targets f) = Inr catalog"
    and s: "s = \<lparr>srv_version = version, srv_catalog = catalog, srv_audited = audited, srv_tools = registered_tools,
          srv_cluster_health = enter_all capability_kubernetes_cluster_health ks_target (fam_kubernetes f) Map.empty,
          srv_unhealthy_workloads =
            enter_all capability_kubernetes_unhealthy_workloads ks_target (fam_kubernetes f) Map.empty,
          srv_active_alerts = enter_all capability_monitoring_active_alerts ms_target (fam_monitoring f) Map.empty,
          srv_scrape_health = enter_all capability_monitoring_scrape_health ms_target (fam_monitoring f) Map.empty,
          srv_flux = fold (\<lambda>s m. m(target_id (fx_target s) \<mapsto> s)) (fam_flux f) Map.empty\<rparr>"
    using assms unfolding new_with_source_set_Inr by auto
  have ok: "list_all valid_target (all_targets f)" "distinct (map target_id (all_targets f))"
    using catalog new_catalog_accepts [of "all_targets f"] by auto
  have ids: "distinct (map (\<lambda>s. target_id (ks_target s)) (fam_kubernetes f))"
    "distinct (map (\<lambda>s. target_id (ms_target s)) (fam_monitoring f))"
    "distinct (map (\<lambda>s. target_id (fx_target s)) (fam_flux f))"
    using ok(2) by (simp_all add: all_targets_def comp_def)
  have flux: "srv_flux s = enter_all capability_flux_unhealthy_reconciliations fx_target (fam_flux f) Map.empty"
    using enter_flux [of "fam_flux f" Map.empty] ok(1) k s by (auto simp: list_all_iff all_targets_def kinds_ok_def)
  note family = offers_family [OF k catalog, of s] and kinds = kind_of_family [OF k]
  have sub: "ks_target ` set (fam_kubernetes f) \<subseteq> set (all_targets f)"
    "ms_target ` set (fam_monitoring f) \<subseteq> set (all_targets f)" "fx_target ` set (fam_flux f) \<subseteq> set (all_targets f)"
    by (auto simp: all_targets_def)
  have cat: "srv_catalog s = catalog" using s by simp
  have "srv_cluster_health s i \<noteq> None \<longleftrightarrow> catalog_offers s capability_kubernetes_cluster_health i"
    using family [OF cat kind_of_capability(1) kinds(1) ids(1) sub(1)] s by simp
  moreover have "srv_unhealthy_workloads s i \<noteq> None \<longleftrightarrow> catalog_offers s capability_kubernetes_unhealthy_workloads i"
    using family [OF cat kind_of_capability(2) kinds(1) ids(1) sub(1)] s by simp
  moreover have "srv_active_alerts s i \<noteq> None \<longleftrightarrow> catalog_offers s capability_monitoring_active_alerts i"
    using family [OF cat kind_of_capability(3) kinds(2) ids(2) sub(2)] s by simp
  moreover have "srv_scrape_health s i \<noteq> None \<longleftrightarrow> catalog_offers s capability_monitoring_scrape_health i"
    using family [OF cat kind_of_capability(4) kinds(2) ids(2) sub(2)] s by simp
  moreover have "srv_flux s i \<noteq> None \<longleftrightarrow> catalog_offers s capability_flux_unhealthy_reconciliations i"
    using family [OF cat kind_of_capability(5) kinds(3) ids(3) sub(3)] flux by simp
  ultimately show ?thesis by blast
qed

theorem catalog_matches_dispatch_witness:
  "\<exists>s. new_with_source_set ''dev'' (set_of example_families) True = Inr s \<and>
     catalog_offers s capability_flux_unhealthy_reconciliations ''flux-a'' \<and>
     \<not> catalog_offers s capability_monitoring_scrape_health ''flux-a''"
proof -
  obtain s where s: "new_with_source_set ''dev'' (set_of example_families) True = Inr s"
    and d: "deployed example_lib example_worlds example_clock [example_client] [monitoring_example_client]
      [flux_example_client] s" by (rule example_deployed)
  have "srv_flux s ''flux-a'' \<noteq> None"
    using deployed_lookups(5) [OF d, of "''flux-a''"] by (auto simp: flux_example_client_def)
  moreover have "srv_scrape_health s ''flux-a'' = None"
    using deployed_lookups(4) [OF d, of "''flux-a''"]
    by (cases "srv_scrape_health s ''flux-a''") (auto simp: monitoring_example_client_def)
  ultimately show ?thesis using s catalog_matches_dispatch [OF s, of "''flux-a''"] by auto
qed

text \<open>What a caller of a tool gets: a redacted error, or an output whose JSON text fits the limit.\<close>

definition bounded_answer :: "('o \<Rightarrow> marshalled) \<Rightarrow> (string \<times> 'o) result \<Rightarrow> bool" where
  "bounded_answer marshal r =
     (case r of Inl e \<Rightarrow> tool_error e
      | Inr (t, out) \<Rightarrow>
          (case marshal out of None \<Rightarrow> False | Some j \<Rightarrow> int (length (json_text j)) \<le> max_encoded_result_bytes))"

lemma check_result_size_None:
  "check_result_size m = None \<longleftrightarrow>
     (case m of None \<Rightarrow> False | Some j \<Rightarrow> int (length (json_text j)) \<le> max_encoded_result_bytes)"
  by (auto simp: check_result_size_def split: option.split)

lemma run_tool_bounded: "bounded_answer marshal (fst (run_tool accept lookup run marshal summary inp h))"
proof (cases "run_tool accept lookup run marshal summary inp h")
  case (Pair r h')
  then show ?thesis
    using run_tool_closed [of accept lookup run marshal summary inp h]
      run_tool_Inr [of accept lookup run marshal summary inp h] check_result_size_None
    by (fastforce simp: bounded_answer_def split: sum.split prod.split)
qed

text \<open>
  C23: whatever its sources do, every tool of every server returns one of the redacted errors or
  an output whose JSON text is at most 64 KiB long.
\<close>

theorem tool_answers_bounded:
  "bounded_answer marshal_list_targets_output (fst (handle_list_targets s h)) \<and>
   bounded_answer marshal_cluster_health_output (fst (handle_get_cluster_health s hi h)) \<and>
   bounded_answer marshal_list_unhealthy_workloads_output (fst (handle_list_unhealthy_workloads s wi h)) \<and>
   bounded_answer marshal_list_active_alerts_output (fst (handle_list_active_alerts s ai h)) \<and>
   bounded_answer marshal_get_scrape_health_output (fst (handle_get_scrape_health s si h)) \<and>
   bounded_answer marshal_list_unhealthy_reconciliations_output (fst (handle_list_unhealthy_reconciliations s ri h))"
proof -
  have "bounded_answer marshal_list_targets_output (fst (handle_list_targets s h))"
    using check_result_size_None [of "marshal_list_targets_output (catalog_list (srv_catalog s))"]
      safe_tool_error_closed
    by (auto simp: handle_list_targets_def Let_def bounded_answer_def summary_result_def io_defs split: option.split)
  then show ?thesis unfolding handler_shapes by (intro conjI run_tool_bounded)
qed

text \<open>
  C24: a tool of a deployed server is an observation of the client it names: it answers exactly what
  checking the input, finding the client with the target identifier and running its observation
  gives, with the error redacted; neither the map of sources nor the second size check changes it.
\<close>

theorem deployed_tools_observe:
  assumes "deployed lib w clock ks ms fs s"
  shows "handle_get_cluster_health s = answer (validated validate_get_cluster_health_input) gch_target kube_target_id ks
      (\<lambda>c _. cluster_health (w (kube_target_id c)) clock c) ''Returned bounded Kubernetes cluster health.'' \<and>
    handle_list_unhealthy_workloads s = answer normalize_list_unhealthy_workloads_input luw_target kube_target_id ks
      (\<lambda>c. list_unhealthy_workloads (w (kube_target_id c)) clock c)
      ''Returned bounded unhealthy Kubernetes workloads.'' \<and>
    handle_list_active_alerts s = answer normalize_list_active_alerts_input laa_target mon_target_id ms
      (\<lambda>c. list_active_alerts lib (w (mon_target_id c)) clock c) ''Returned bounded active monitoring alerts.'' \<and>
    handle_get_scrape_health s = answer (validated validate_get_scrape_health_input) gsh_target mon_target_id ms
      (\<lambda>c. get_scrape_health lib (w (mon_target_id c)) clock c) ''Returned bounded monitoring scrape health.'' \<and>
    handle_list_unhealthy_reconciliations s = answer normalize_list_unhealthy_reconciliations_input lur_target
      flux_target_id fs (\<lambda>c. list_unhealthy_reconciliations lib (w (flux_target_id c)) clock c)
      ''Returned bounded unhealthy Flux reconciliations.''"
  using deployed_answers [OF assms] by blast

lemma flux_example_normalized:
  "normalize_list_unhealthy_reconciliations_input flux_example_input = Inr flux_example_input"
  by code_simp

theorem deployed_tools_observe_witness:
  "\<exists>s. new_with_source_set ''dev'' (set_of example_families) True = Inr s \<and>
     fst (handle_list_unhealthy_reconciliations s flux_example_input []) =
       Inr (''Returned bounded unhealthy Flux reconciliations.'', flux_example_output)"
proof -
  obtain s where s: "new_with_source_set ''dev'' (set_of example_families) True = Inr s"
    and d: "deployed example_lib example_worlds example_clock [example_client] [monitoring_example_client]
      [flux_example_client] s" by (rule example_deployed)
  have "lur_target flux_example_input = ''flux-a''" "flux_target_id flux_example_client = ''flux-a''"
    by (simp_all add: flux_example_input_def flux_example_client_def)
  moreover have "example_worlds ''flux-a'' = flux_example_world ''2026-08-03T00:00:00Z''"
    by (simp add: example_worlds_def)
  ultimately show ?thesis
    using s deployed_tools_observe [OF d] flux_example_normalized fst_run [OF flux_example_run]
    by (auto simp: answer_def tool_result_def split: prod.split)
qed

text \<open>What one tool call does to the surroundings.\<close>

definition confined :: "('c \<Rightarrow> event \<Rightarrow> bool) \<Rightarrow> nat \<Rightarrow> ('i \<Rightarrow> 'i result) \<Rightarrow> ('i \<Rightarrow> string) \<Rightarrow> ('c \<Rightarrow> string) \<Rightarrow> 'c list \<Rightarrow>
    ('i \<Rightarrow> 'o io) \<Rightarrow> 'i \<Rightarrow> history \<Rightarrow> bool" where
  "confined event_ok n accept tid cid cs tool inp h \<longleftrightarrow>
     (\<exists>es. snd (tool inp h) = h @ es \<and> requests es \<le> n \<and>
        (es = [] \<or> (\<exists>i c. accept inp = Inr i \<and> c \<in> set cs \<and> cid c = tid i \<and> list_all (event_ok c) es)))"

lemma answer_confined:
  assumes "\<And>c i. c \<in> set cs \<Longrightarrow> emits (event_ok c) (observe c i)"
    and "\<And>c i. c \<in> set cs \<Longrightarrow> requests (snd (observe c i h)) \<le> requests h + n"
  shows "confined event_ok n accept tid cid cs (answer accept tid cid cs observe summary) inp h"
  using answer_effects [of accept inp cs cid tid observe summary h]
proof
  assume "\<exists>i c. accept inp = Inr i \<and> c \<in> set cs \<and> cid c = tid i \<and>
      snd (answer accept tid cid cs observe summary inp h) = snd (observe c i h)"
  then obtain i c where c: "accept inp = Inr i" "c \<in> set cs" "cid c = tid i"
      "snd (answer accept tid cid cs observe summary inp h) = snd (observe c i h)" by blast
  obtain es where "snd (observe c i h) = h @ es" "list_all (event_ok c) es"
    using emitsD [OF assms(1) [OF c(2)]] by blast
  with c assms(2) [OF c(2), of i] show ?thesis unfolding confined_def by fastforce
next
  assume "snd (answer accept tid cid cs observe summary inp h) = h"
  then show ?thesis unfolding confined_def by (intro exI [of _ "[]"]) simp
qed

text \<open>
  C25: a tool call of a deployed server reads only the token of the client whose target it names and
  sends only the fixed GET requests of that client, at most 97 for the cluster health, 96 for a
  Kubernetes or Flux listing and one for a monitoring tool; a refused call does nothing at all.
\<close>

theorem tool_calls_confined:
  assumes "deployed lib w clock ks ms fs s"
  shows "confined kubernetes_event 97 (validated validate_get_cluster_health_input) gch_target kube_target_id ks
      (handle_get_cluster_health s) hi h \<and>
    confined kubernetes_event 96 normalize_list_unhealthy_workloads_input luw_target kube_target_id ks
      (handle_list_unhealthy_workloads s) wi h \<and>
    confined monitoring_event 1 normalize_list_active_alerts_input laa_target mon_target_id ms
      (handle_list_active_alerts s) ai h \<and>
    confined monitoring_event 1 (validated validate_get_scrape_health_input) gsh_target mon_target_id ms
      (handle_get_scrape_health s) si h \<and>
    confined flux_event 96 normalize_list_unhealthy_reconciliations_input lur_target flux_target_id fs
      (handle_list_unhealthy_reconciliations s) ri h"
proof -
  have inv: "\<And>c. c \<in> set ks \<Longrightarrow> kubernetes_strict_client c" "\<And>c. c \<in> set ms \<Longrightarrow> monitoring_client_inv c"
    "\<And>c. c \<in> set fs \<Longrightarrow> flux_client_inv c"
    using assms by (auto simp: deployed_def list_all_iff)
  note answers = deployed_answers [OF assms] and reconf = list_unhealthy_workloads_confined [OF inv(1)]
    list_active_alerts_confined [OF inv(2)] get_scrape_health_confined [OF inv(2)] flux_confined [OF inv(3)]
  have "requests (snd (cluster_health w' clock c h)) \<le> requests h + 97" if "c \<in> set ks" for w' c
    using cluster_health_requests [OF inv(1) [OF that], of w' clock h] by simp
  then show ?thesis
    unfolding answers using reconf emits_cluster_health [OF inv(1)]
    by (intro conjI answer_confined) auto
qed

theorem tool_calls_confined_witness:
  "\<exists>s. new_with_source_set ''dev'' (set_of example_families) True = Inr s \<and>
     confined flux_event 96 normalize_list_unhealthy_reconciliations_input lur_target flux_target_id
       [flux_example_client] (handle_list_unhealthy_reconciliations s) flux_example_input []"
proof -
  obtain s where s: "new_with_source_set ''dev'' (set_of example_families) True = Inr s"
    and d: "deployed example_lib example_worlds example_clock [example_client] [monitoring_example_client]
      [flux_example_client] s" by (rule example_deployed)
  show ?thesis using s tool_calls_confined [OF d] by blast
qed

lemma observation_errors:
  "kubernetes_client_inv kc \<Longrightarrow> sane_clock clock \<Longrightarrow> cluster_health w clock kc h = (Inl e, h') \<Longrightarrow>
     e \<in> input_errors \<or> plain_error e"
  "kubernetes_client_inv kc \<Longrightarrow> sane_clock clock \<Longrightarrow> list_unhealthy_workloads w clock kc wi h = (Inl e, h') \<Longrightarrow>
     e \<in> input_errors \<or> plain_error e"
  "monitoring_client_inv mc \<Longrightarrow> sane_clock clock \<Longrightarrow> sane_times lib \<Longrightarrow>
     list_active_alerts lib w clock mc ai h = (Inl e, h') \<Longrightarrow> e \<in> input_errors \<or> plain_error e"
  "monitoring_client_inv mc \<Longrightarrow> sane_clock clock \<Longrightarrow> sane_rounding lib \<Longrightarrow>
     get_scrape_health lib w clock mc si h = (Inl e, h') \<Longrightarrow> e \<in> input_errors \<or> plain_error e"
  "flux_client_inv fc \<Longrightarrow> sane_clock clock \<Longrightarrow> sane_times lib \<Longrightarrow>
     list_unhealthy_reconciliations lib w clock fc ri h = (Inl e, h') \<Longrightarrow> e \<in> input_errors \<or> plain_error e"
  using cluster_health_Inl list_unhealthy_workloads_Inl list_active_alerts_Inl get_scrape_health_Inl
    list_unhealthy_reconciliations_Inl accepted_errors errors_plain
  unfolding flux_failure_def by metis+

text \<open>
  C26: the only errors a client of a deployed server ever sees are the fixed validation errors, the
  unknown target or scope, and the fixed errors of the adapters; no tool fails because its result
  is too large. Here times fit RFC 3339 years and floating-point rounding is monotone.
\<close>

theorem deployed_errors_redacted:
  assumes "deployed lib w clock ks ms fs s" and "sane_clock clock" and "sane_times lib" and "sane_rounding lib"
    and "fst (handle_get_cluster_health s hi h) = Inl e \<or> fst (handle_list_unhealthy_workloads s wi h) = Inl e \<or>
      fst (handle_list_active_alerts s ai h) = Inl e \<or> fst (handle_get_scrape_health s si h) = Inl e \<or>
      fst (handle_list_unhealthy_reconciliations s ri h) = Inl e"
  shows "e \<in> client_errors"
proof -
  have inv: "\<And>c. c \<in> set ks \<Longrightarrow> kubernetes_client_inv c" "\<And>c. c \<in> set ms \<Longrightarrow> monitoring_client_inv c"
    "\<And>c. c \<in> set fs \<Longrightarrow> flux_client_inv c"
    using assms(1) by (auto simp: deployed_def list_all_iff kubernetes_strict_client_def)
  note found = deployed_lookups [OF assms(1)] and errors = observation_errors(1,2) [OF inv(1) assms(2)]
    observation_errors(3) [OF inv(2) assms(2,3)] observation_errors(4) [OF inv(2) assms(2,4)]
    observation_errors(5) [OF inv(3) assms(2,3)]
  from assms(5) show ?thesis
  proof (elim disjE)
    assume r: "fst (handle_get_cluster_health s hi h) = Inl e"
    show ?thesis
      by (rule run_tool_client_errors [OF input_check_errors(4) _ _ r [unfolded handler_shapes]])
        (auto simp: found(1) kubernetes_source_of_def dest: errors(1)
            health_tool.run_checked [unfolded kubernetes_source_of_def, simplified])
  next
    assume r: "fst (handle_list_unhealthy_workloads s wi h) = Inl e"
    show ?thesis
      by (rule run_tool_client_errors [OF input_check_errors(1) _ _ r [unfolded handler_shapes]])
        (auto simp: found(2) kubernetes_source_of_def dest: errors(2)
            workloads_tool.run_checked [unfolded kubernetes_source_of_def, simplified])
  next
    assume r: "fst (handle_list_active_alerts s ai h) = Inl e"
    show ?thesis
      by (rule run_tool_client_errors [OF input_check_errors(3) _ _ r [unfolded handler_shapes]])
        (auto simp: found(3) monitoring_source_of_def dest: errors(3)
            alerts_tool.run_checked [unfolded monitoring_source_of_def, simplified])
  next
    assume r: "fst (handle_get_scrape_health s si h) = Inl e"
    show ?thesis
      by (rule run_tool_client_errors [OF input_check_errors(5) _ _ r [unfolded handler_shapes]])
        (auto simp: found(4) monitoring_source_of_def dest: errors(4)
            scrapes_tool.run_checked [unfolded monitoring_source_of_def, simplified])
  next
    assume r: "fst (handle_list_unhealthy_reconciliations s ri h) = Inl e"
    show ?thesis
      by (rule run_tool_client_errors [OF input_check_errors(2) _ _ r [unfolded handler_shapes]])
        (auto simp: found(5) flux_source_of_def dest: errors(5)
            reconciliations_tool.run_checked [unfolded flux_source_of_def, simplified])
  qed
qed

theorem deployed_errors_redacted_witness:
  "\<exists>s. new_with_source_set ''dev'' (set_of example_families) True = Inr s \<and>
     fst (handle_get_scrape_health s \<lparr>gsh_target = ''nowhere''\<rparr> []) = Inl ErrTargetNotConfigured \<and>
     ErrTargetNotConfigured \<in> client_errors"
proof -
  obtain s where s: "new_with_source_set ''dev'' (set_of example_families) True = Inr s"
    and d: "deployed example_lib example_worlds example_clock [example_client] [monitoring_example_client]
      [flux_example_client] s" by (rule example_deployed)
  have "srv_scrape_health s ''nowhere'' = None"
    using deployed_lookups(4) [OF d, of "''nowhere''"]
    by (cases "srv_scrape_health s ''nowhere''") (auto simp: monitoring_example_client_def)
  moreover have "validate_get_scrape_health_input \<lparr>gsh_target = ''nowhere''\<rparr> = None" by code_simp
  ultimately have "fst (handle_get_scrape_health s \<lparr>gsh_target = ''nowhere''\<rparr> []) = Inl ErrTargetNotConfigured"
    by (simp add: handle_get_scrape_health_def io_fail_def)
  with s deployed_errors_redacted [OF d example_clock_sane example_times_sane example_rounding_sane]
  show ?thesis by blast
qed

end
