(* ===== verification/AuditFacts.thy ===== *)
theory AuditFacts
  imports AuditEvents JsonRoundTrip ServerProperties
begin

section \<open>Audit events and the outputs they describe\<close>

text \<open>
  What the middleware reads back from the structured content of a result: every output the program
  encodes is read back, with as many items and the same flags. An event is one line of ASCII text.
\<close>

subsection \<open>Plain texts\<close>

lemma digit_plain: "is_digit c \<Longrightarrow> plain_char c"
proof -
  have "\<forall>c \<in> set ''0123456789''. plain_char c" by code_simp
  moreover assume "is_digit c"
  then have "48 \<le> byte c \<and> byte c \<le> 57"
    using of_nat_of_char [of c, where 'a = int] by (simp add: is_digit_def less_eq_char_def byte_def)
  then have "char_of (byte c) \<in> set (map char_of [48..57])" unfolding list.set_map by (intro imageI) (simp only: set_upto atLeastAtMost_iff)
  then have "c \<in> set (map char_of [48..57 :: int])" by simp
  moreover have "map char_of [48..57 :: int] = ''0123456789''" by code_simp
  ultimately have "c \<in> set ''0123456789''" by simp
  with \<open>\<forall>c \<in> set ''0123456789''. plain_char c\<close> show ?thesis by blast
qed

lemma nat_text_plain: "list_all plain_char (nat_text n)"
  using nat_text_digits [of n] digit_plain by (auto simp: list_all_iff)

lemma plain_separators: "list_all plain_char ''-T:.Z0''"
  by code_simp

lemma append_int_plain: "list_all plain_char (append_int x w)"
  using nat_text_plain plain_separators
  by (auto simp: append_int_def pad_left_def list_all_iff split: if_splits)

lemma fraction_text_plain: "list_all plain_char (fraction_text n)"
  using append_int_plain [of n 9] plain_separators
  by (auto simp: fraction_text_def Let_def list_all_iff dest: set_dropWhileD)

lemma rfc3339_plain: "list_all plain_char (rfc3339_nano t)"
  using append_int_plain fraction_text_plain plain_separators
  by (auto simp: rfc3339_nano_def Let_def split: prod.split)

lemma plain_ascii: "list_all plain_char s \<Longrightarrow> ascii s"
  by (auto simp: ascii_def plain_char_def list_all_iff)

subsection \<open>Printing and decoding\<close>

lemma printable_struct:
  assumes "marshal_struct fs = Some j"
    and "\<And>k v. (k, Some v) \<in> set fs \<Longrightarrow> ascii k \<and> printable d v"
  shows "printable (Suc d) j"
proof -
  have "marshal_fields fs = Some ms \<Longrightarrow> \<forall>(k, v) \<in> set ms. (k, Some v) \<in> set fs" for ms
    by (induction fs arbitrary: ms rule: marshal_fields.induct) (fastforce split: option.splits)+
  with assms show ?thesis by (fastforce simp: marshal_struct_def list_all_iff)
qed

lemma printable_list:
  assumes "marshal_list f xs = Some j" and "\<And>x v. x \<in> set xs \<Longrightarrow> f x = Some v \<Longrightarrow> printable d v"
  shows "printable (Suc d) j"
  using assms marshal_all_Some [of f xs] by (fastforce simp: marshal_list_def list_all_iff)

lemma printable_atoms:
  "marshal_string s = Some j \<Longrightarrow> ascii s \<Longrightarrow> printable d j"
  "marshal_int i = Some j \<Longrightarrow> printable d j"
  "marshal_bool b = Some j \<Longrightarrow> printable d j"
  "marshal_time t = Some j \<Longrightarrow> printable d j"
  using plain_ascii [OF rfc3339_plain]
  by (auto simp: marshal_string_def marshal_int_def marshal_bool_def marshal_time_def split: if_splits)

text \<open>What the middleware decodes from the text of an encoded value.\<close>

lemma unmarshal_into_text:
  "printable d j \<Longrightarrow> d \<le> 10 \<Longrightarrow> unmarshal_into dec zero (json_text j) = dec j zero"
  by (simp add: unmarshal_into_def unmarshal_json_text max_depth_def)

lemma marshal_struct_Cons:
  "marshal_struct ((k, m) # fs) = Some j \<longleftrightarrow> (\<exists>v ms. m = Some v \<and> marshal_struct fs = Some (JObject ms) \<and> j = JObject ((k, v) # ms))"
  by (auto simp: marshal_struct_def split: option.splits)

lemma marshal_struct_Nil: "marshal_struct [] = Some j \<longleftrightarrow> j = JObject []"
  by (auto simp: marshal_struct_def)

text \<open>\<open>reads d zero f x\<close>: the encoding of \<open>x\<close> by \<open>f\<close> is decoded by \<open>d\<close> without an error.\<close>

definition reads :: "'b decoder \<Rightarrow> 'b \<Rightarrow> marshalled \<Rightarrow> bool" where
  "reads d zero m \<longleftrightarrow> (\<forall>j. m = Some j \<longrightarrow> d j zero \<noteq> None)"

lemma reads_atoms:
  "into_string (JString s) s' = Some s" "into_bool (JBool b) b' = Some b"
  "int64 i \<Longrightarrow> into_int (JNumber (int_text i)) i' = Some i"
  "into_time strict (JString s) t' = strict s"
  "into_pointer zero d (JString s) None = map_option Some (d (JString s) zero)"
  by (simp_all add: into_string_def into_bool_def into_int_def into_time_def into_pointer_def parse_int_text)

lemma reads_list:
  assumes "marshal_list f xs = Some j" and "\<And>x. x \<in> set xs \<Longrightarrow> reads d zero (f x)"
  shows "\<exists>ys. into_list zero d j [] = Some ys \<and> length ys = length xs"
proof -
  obtain js where j: "j = JArray js" and js: "marshal_all f xs = Some js"
    using assms(1) by (auto simp: marshal_list_def)
  have "\<exists>ys. decode_items d zero js [] = Some ys \<and> length ys = length xs"
    using js assms(2)
  proof (induction xs arbitrary: js)
    case (Cons x xs)
    then obtain v js' where v: "f x = Some v" "marshal_all f xs = Some js'" "js = v # js'"
      by (auto split: option.splits)
    with Cons.IH [of js'] Cons.prems(2) obtain ys where "decode_items d zero js' [] = Some ys" "length ys = length xs"
      by auto
    moreover obtain y where "d v zero = Some y" using Cons.prems(2) [of x] v(1) by (auto simp: reads_def)
    ultimately show ?case using v by simp
  qed simp
  with j show ?thesis by (simp add: into_list_def)
qed

text \<open>The folded names of the fields.\<close>

lemma folded:
  "fold_text ''id'' = ''id''" "fold_text ''kind'' = ''kind''" "fold_text ''capabilities'' = ''capabilities''"
  "fold_text ''targets'' = ''targets''" "fold_text ''total'' = ''total''" "fold_text ''ready'' = ''ready''"
  "fold_text ''unhealthy'' = ''unhealthy''" "fold_text ''code'' = ''code''" "fold_text ''count'' = ''count''"
  "fold_text ''target'' = ''target''" "fold_text ''observedAt'' = ''observedat''" "fold_text ''status'' = ''status''"
  "fold_text ''nodes'' = ''nodes''" "fold_text ''workloads'' = ''workloads''" "fold_text ''warnings'' = ''warnings''"
  "fold_text ''partial'' = ''partial''" "fold_text ''scope'' = ''scope''" "fold_text ''name'' = ''name''"
  "fold_text ''desired'' = ''desired''" "fold_text ''reasons'' = ''reasons''" "fold_text ''truncated'' = ''truncated''"
  "fold_text ''severity'' = ''severity''" "fold_text ''component'' = ''component''"
  "fold_text ''startedAt'' = ''startedat''" "fold_text ''alerts'' = ''alerts''" "fold_text ''state'' = ''state''"
  "fold_text ''sampledAt'' = ''sampledat''" "fold_text ''scrapes'' = ''scrapes''" "fold_text ''reason'' = ''reason''"
  "fold_text ''transitionedAt'' = ''transitionedat''" "fold_text ''reconciliations'' = ''reconciliations''"
  by code_simp+

subsection \<open>The outputs of the tools\<close>

datatype tool_output =
    Targets list_targets_output
  | Health cluster_health_output
  | Workloads list_unhealthy_workloads_output
  | Alerts list_active_alerts_output
  | Scrapes get_scrape_health_output
  | Reconciliations list_unhealthy_reconciliations_output

fun output_tool :: "tool_output \<Rightarrow> string" where
  "output_tool (Targets _) = tool_list_targets"
| "output_tool (Health _) = tool_get_cluster_health"
| "output_tool (Workloads _) = tool_list_unhealthy_workloads"
| "output_tool (Alerts _) = tool_list_active_alerts"
| "output_tool (Scrapes _) = tool_get_scrape_health"
| "output_tool (Reconciliations _) = tool_list_unhealthy_reconciliations"

fun marshal_output :: "tool_output \<Rightarrow> marshalled" where
  "marshal_output (Targets out) = marshal_list_targets_output out"
| "marshal_output (Health out) = marshal_cluster_health_output out"
| "marshal_output (Workloads out) = marshal_list_unhealthy_workloads_output out"
| "marshal_output (Alerts out) = marshal_list_active_alerts_output out"
| "marshal_output (Scrapes out) = marshal_get_scrape_health_output out"
| "marshal_output (Reconciliations out) = marshal_list_unhealthy_reconciliations_output out"

text \<open>What the event of a call with this output is documented to say.\<close>

fun annotate :: "tool_output \<Rightarrow> audit_event \<Rightarrow> audit_event" where
  "annotate (Targets out) e = e\<lparr>ae_item_count := Some (int (length (lto_targets out)))\<rparr>"
| "annotate (Health out) e = e\<lparr>ae_partial := Some (cho_partial out)\<rparr>"
| "annotate (Workloads out) e =
     e\<lparr>ae_item_count := Some (int (length (luwo_workloads out))), ae_truncated := Some (luwo_truncated out)\<rparr>"
| "annotate (Alerts out) e =
     e\<lparr>ae_item_count := Some (int (length (laao_alerts out))), ae_truncated := Some (laao_truncated out)\<rparr>"
| "annotate (Scrapes out) e =
     e\<lparr>ae_item_count := Some (int (length (gsho_scrapes out))), ae_partial := Some (gsho_partial out)\<rparr>"
| "annotate (Reconciliations out) e =
     e\<lparr>ae_item_count := Some (int (length (luro_reconciliations out))),
       ae_truncated := Some (luro_truncated out)\<rparr>"

text \<open>
  Outputs whose texts are ASCII, whose counts fit 64 bits and whose times the strict parser reads.
\<close>

definition readable :: "(string \<Rightarrow> time option) \<Rightarrow> time \<Rightarrow> bool" where
  "readable strict t \<longleftrightarrow> strict (rfc3339_nano t) \<noteq> None"

definition readable_target :: "target \<Rightarrow> bool" where
  "readable_target t \<longleftrightarrow> ascii (target_id t) \<and> ascii (target_kind t) \<and> list_all ascii (target_capabilities t)"

definition readable_workload :: "workload_health \<Rightarrow> bool" where
  "readable_workload w \<longleftrightarrow> ascii (wh_scope w) \<and> ascii (wh_name w) \<and> int64 (wh_ready w) \<and> int64 (wh_desired w)"

definition readable_alert :: "(string \<Rightarrow> time option) \<Rightarrow> active_alert \<Rightarrow> bool" where
  "readable_alert strict a \<longleftrightarrow>
     ascii (alert_name a) \<and> ascii (alert_component a) \<and> pred_option (readable strict) (alert_started_at a)"

definition readable_scrape :: "(string \<Rightarrow> time option) \<Rightarrow> scrape_health \<Rightarrow> bool" where
  "readable_scrape strict s \<longleftrightarrow> ascii (sh_id s) \<and> pred_option (readable strict) (sh_sampled_at s)"

definition readable_reconciliation :: "(string \<Rightarrow> time option) \<Rightarrow> unhealthy_reconciliation \<Rightarrow> bool" where
  "readable_reconciliation strict r \<longleftrightarrow>
     ascii (ur_scope r) \<and> ascii (ur_name r) \<and> pred_option (readable strict) (ur_transitioned_at r)"

fun readable_output :: "(string \<Rightarrow> time option) \<Rightarrow> tool_output \<Rightarrow> bool" where
  "readable_output strict (Targets out) \<longleftrightarrow> list_all readable_target (lto_targets out)"
| "readable_output strict (Health out) \<longleftrightarrow>
     ascii (cho_target out) \<and> readable strict (cho_observed_at out) \<and>
     int64 (nodes_total (cho_nodes out)) \<and> int64 (nodes_ready (cho_nodes out)) \<and>
     int64 (workloads_total (cho_workloads out)) \<and> int64 (workloads_ready (cho_workloads out)) \<and>
     int64 (workloads_unhealthy (cho_workloads out)) \<and> list_all (\<lambda>w. int64 (hw_count w)) (cho_warnings out)"
| "readable_output strict (Workloads out) \<longleftrightarrow>
     ascii (luwo_target out) \<and> readable strict (luwo_observed_at out) \<and>
     list_all readable_workload (luwo_workloads out)"
| "readable_output strict (Alerts out) \<longleftrightarrow>
     ascii (laao_target out) \<and> readable strict (laao_observed_at out) \<and>
     list_all (readable_alert strict) (laao_alerts out)"
| "readable_output strict (Scrapes out) \<longleftrightarrow>
     ascii (gsho_target out) \<and> readable strict (gsho_observed_at out) \<and>
     list_all (readable_scrape strict) (gsho_scrapes out)"
| "readable_output strict (Reconciliations out) \<longleftrightarrow>
     ascii (luro_target out) \<and> readable strict (luro_observed_at out) \<and>
     list_all (readable_reconciliation strict) (luro_reconciliations out)"

text \<open>The texts of the enumerations.\<close>

lemma enumeration_ascii:
  "ascii (health_status_text hs)" "ascii (warning_code_text wc)" "ascii (workload_kind_text wk)"
  "ascii (workload_reason_text wr)" "ascii (alert_severity_text sev)" "ascii (scrape_state_text ss)"
  "ascii (reconciliation_kind_text rk)" "ascii (readiness_state_text rs)" "ascii (reconciliation_reason_text rr)"
proof -
  show "ascii (health_status_text hs)" by (cases hs) (simp_all add: ascii_def byte_def)
  show "ascii (warning_code_text wc)" by (cases wc) (simp_all add: ascii_def byte_def)
  show "ascii (workload_kind_text wk)" by (cases wk) (simp_all add: ascii_def byte_def)
  show "ascii (workload_reason_text wr)" by (cases wr) (simp_all add: ascii_def byte_def)
  show "ascii (alert_severity_text sev)" by (cases sev) (simp_all add: ascii_def byte_def)
  show "ascii (scrape_state_text ss)" by (cases ss) (simp_all add: ascii_def byte_def)
  show "ascii (reconciliation_kind_text rk)" by (cases rk) (simp_all add: ascii_def byte_def)
  show "ascii (readiness_state_text rs)" by (cases rs) (simp_all add: ascii_def byte_def)
  show "ascii (reconciliation_reason_text rr)" by (cases rr) (simp_all add: ascii_def byte_def)
qed

lemma ascii_names:
  "ascii ''id''" "ascii ''kind''" "ascii ''capabilities''" "ascii ''targets''" "ascii ''total''"
  "ascii ''ready''" "ascii ''unhealthy''" "ascii ''code''" "ascii ''count''" "ascii ''target''"
  "ascii ''observedAt''" "ascii ''status''" "ascii ''nodes''" "ascii ''workloads''"
  "ascii ''warnings''" "ascii ''partial''" "ascii ''scope''" "ascii ''name''" "ascii ''desired''"
  "ascii ''reasons''" "ascii ''truncated''" "ascii ''severity''" "ascii ''component''"
  "ascii ''startedAt''" "ascii ''alerts''" "ascii ''state''" "ascii ''sampledAt''" "ascii ''scrapes''"
  "ascii ''reason''" "ascii ''transitionedAt''" "ascii ''reconciliations''"
  by (simp_all add: ascii_def byte_def)

declare fold_text.simps [simp del]

text \<open>\<open>read_back d zero n m\<close>: the value \<open>m\<close> nests at most \<open>n\<close> deep and is decoded without an error.\<close>

definition read_back :: "'b decoder \<Rightarrow> 'b \<Rightarrow> nat \<Rightarrow> marshalled \<Rightarrow> bool" where
  "read_back d zero n m \<longleftrightarrow> (\<forall>j. m = Some j \<longrightarrow> printable n j \<and> d j zero \<noteq> None)"

lemma read_back_list:
  assumes "marshal_list f xs = Some v" and "\<And>x. x \<in> set xs \<Longrightarrow> read_back d zero n (f x)"
  shows "printable (Suc n) v" and "\<exists>ys. into_list zero d v [] = Some ys \<and> length ys = length xs"
  using assms reads_list [of f xs v d zero] printable_list [OF assms(1)]
  by (simp_all add: read_back_def reads_def)

lemma read_back_strings: "list_all ascii xs \<Longrightarrow> x \<in> set xs \<Longrightarrow> read_back into_string zero n (marshal_string x)"
  by (simp add: read_back_def marshal_string_def into_string_def list_all_iff)

lemmas decoder_simps = into_struct_def into_field_def folded reads_atoms ascii_names enumeration_ascii

lemma marshal_time_Some: "marshal_time t = Some j \<longleftrightarrow> time_encodable t \<and> j = JString (rfc3339_nano t)"
  by (auto simp: marshal_time_def)

lemma rfc3339_ascii: "ascii (rfc3339_nano t)"
  by (rule plain_ascii [OF rfc3339_plain])

lemmas marshal_shapes = marshal_struct_Cons marshal_struct_Nil marshal_string_def marshal_int_def marshal_bool_def
  marshal_time_Some omit_empty_string_def omit_nil_def

lemma read_back_target:
  assumes "readable_target t"
  shows "read_back into_target_data zero_target_data 2 (marshal_target t)"
  unfolding read_back_def
proof (intro allI impI)
  fix j
  assume "marshal_target t = Some j"
  then obtain caps where j: "j = JObject [(''id'', JString (target_id t)), (''kind'', JString (target_kind t)), (''capabilities'', caps)]"
    and caps: "marshal_list marshal_string (target_capabilities t) = Some caps"
    by (auto simp: marshal_target_def marshal_shapes)
  have "list_all ascii (target_capabilities t)" using assms by (simp add: readable_target_def)
  note list_back = read_back_list [OF caps read_back_strings [OF this]]
  obtain ys where "into_list [] into_string caps [] = Some ys" using list_back(2) by blast
  then show "printable 2 j \<and> into_target_data j zero_target_data \<noteq> None"
    using assms list_back(1) [of 0] j
    by (simp add: readable_target_def numeral_2_eq_2 decoder_simps into_target_data_def zero_target_data_def)
qed

lemma read_back_warning:
  assumes "int64 (hw_count w)"
  shows "read_back into_warning_data zero_warning_data 1 (marshal_health_warning w)"
  using assms
  by (auto simp: read_back_def marshal_health_warning_def marshal_shapes decoder_simps into_warning_data_def
      zero_warning_data_def)

lemma read_back_workload:
  assumes "readable_workload w"
  shows "read_back into_workload_data zero_workload_data 2 (marshal_workload_health w)"
  unfolding read_back_def
proof (intro allI impI)
  fix j
  assume "marshal_workload_health w = Some j"
  then obtain reasons where j: "j = JObject [(''scope'', JString (wh_scope w)),
      (''kind'', JString (workload_kind_text (wh_kind w))), (''name'', JString (wh_name w)),
      (''ready'', JNumber (int_text (wh_ready w))), (''desired'', JNumber (int_text (wh_desired w))),
      (''reasons'', reasons)]"
    and reasons: "marshal_list (\<lambda>r. marshal_string (workload_reason_text r)) (wh_reasons w) = Some reasons"
    by (auto simp: marshal_workload_health_def marshal_shapes)
  have "read_back into_string [] 0 (marshal_string (workload_reason_text r))" for r
    by (simp add: read_back_def marshal_string_def into_string_def enumeration_ascii)
  note list_back = read_back_list [OF reasons this]
  obtain ys where "into_list [] into_string reasons [] = Some ys" using list_back(2) by blast
  then show "printable 2 j \<and> into_workload_data j zero_workload_data \<noteq> None"
    using assms list_back(1) j
    by (auto simp: readable_workload_def numeral_2_eq_2 decoder_simps into_workload_data_def zero_workload_data_def)
qed

lemma read_back_alert:
  assumes "readable_alert strict a"
  shows "read_back (into_alert_data strict) zero_alert_data 1 (marshal_active_alert a)"
  using assms
  by (cases "alert_component a = []"; cases "alert_started_at a")
    (auto simp: readable_alert_def readable_def read_back_def marshal_active_alert_def marshal_shapes decoder_simps
      into_alert_data_def zero_alert_data_def rfc3339_ascii)

lemma read_back_scrape:
  assumes "readable_scrape strict s"
  shows "read_back (into_scrape_data strict) zero_scrape_data 1 (marshal_scrape_health s)"
  using assms
  by (cases "sh_sampled_at s")
    (auto simp: readable_scrape_def readable_def read_back_def marshal_scrape_health_def marshal_shapes decoder_simps
      into_scrape_data_def zero_scrape_data_def rfc3339_ascii)

lemma read_back_reconciliation:
  assumes "readable_reconciliation strict r"
  shows "read_back (into_reconciliation_data strict) zero_reconciliation_data 1 (marshal_unhealthy_reconciliation r)"
  using assms
  by (cases "ur_transitioned_at r")
    (auto simp: readable_reconciliation_def readable_def read_back_def marshal_unhealthy_reconciliation_def marshal_shapes
      decoder_simps into_reconciliation_data_def zero_reconciliation_data_def rfc3339_ascii)

subsection \<open>Whole outputs\<close>

lemma numeral_depths: "(2 :: nat) = Suc 1" "(3 :: nat) = Suc 2" "(4 :: nat) = Suc 3"
  by simp_all

lemma read_workloads:
  assumes "marshal_list_unhealthy_workloads_output out = Some j" and "readable_output strict (Workloads out)"
  shows "printable 4 j \<and> (\<exists>d. into_workloads_data strict j zero_workloads_data = Some d \<and>
    length (luwd_workloads d) = length (luwo_workloads out) \<and> luwd_truncated d = luwo_truncated out)"
proof -
  obtain v where j: "j = JObject [(''target'', JString (luwo_target out)),
      (''observedAt'', JString (rfc3339_nano (luwo_observed_at out))), (''workloads'', v),
      (''truncated'', JBool (luwo_truncated out))]"
    and v: "marshal_list marshal_workload_health (luwo_workloads out) = Some v"
    using assms(1) by (auto simp: marshal_list_unhealthy_workloads_output_def marshal_shapes)
  have "read_back into_workload_data zero_workload_data 2 (marshal_workload_health x)" if "x \<in> set (luwo_workloads out)" for x
    using assms(2) that by (intro read_back_workload) (simp add: list_all_iff)
  note list_back = read_back_list [OF v this]
  obtain ys where "into_list zero_workload_data into_workload_data v [] = Some ys" "length ys = length (luwo_workloads out)"
    using list_back(2) by blast
  then show ?thesis
    using assms(2) list_back(1) j
    by (auto simp: readable_def numeral_depths decoder_simps into_workloads_data_def zero_workloads_data_def rfc3339_ascii)
qed

lemma read_alerts:
  assumes "marshal_list_active_alerts_output out = Some j" and "readable_output strict (Alerts out)"
  shows "printable 3 j \<and> (\<exists>d. into_alerts_data strict j zero_alerts_data = Some d \<and>
    length (laad_alerts d) = length (laao_alerts out) \<and> laad_truncated d = laao_truncated out)"
proof -
  obtain v where j: "j = JObject [(''target'', JString (laao_target out)),
      (''observedAt'', JString (rfc3339_nano (laao_observed_at out))), (''alerts'', v),
      (''truncated'', JBool (laao_truncated out))]"
    and v: "marshal_list marshal_active_alert (laao_alerts out) = Some v"
    using assms(1) by (auto simp: marshal_list_active_alerts_output_def marshal_shapes)
  have "read_back (into_alert_data strict) zero_alert_data 1 (marshal_active_alert x)" if "x \<in> set (laao_alerts out)" for x
    using assms(2) that by (intro read_back_alert) (simp add: list_all_iff)
  note list_back = read_back_list [OF v this]
  obtain ys where "into_list zero_alert_data (into_alert_data strict) v [] = Some ys" "length ys = length (laao_alerts out)"
    using list_back(2) by blast
  then show ?thesis
    using assms(2) list_back(1) j
    by (auto simp: readable_def numeral_depths decoder_simps into_alerts_data_def zero_alerts_data_def rfc3339_ascii)
qed

lemma read_scrapes:
  assumes "marshal_get_scrape_health_output out = Some j" and "readable_output strict (Scrapes out)"
  shows "printable 3 j \<and> (\<exists>d. into_scrapes_data strict j zero_scrapes_data = Some d \<and>
    length (gshd_scrapes d) = length (gsho_scrapes out) \<and> gshd_partial d = gsho_partial out)"
proof -
  obtain v where j: "j = JObject [(''target'', JString (gsho_target out)),
      (''observedAt'', JString (rfc3339_nano (gsho_observed_at out))), (''scrapes'', v),
      (''partial'', JBool (gsho_partial out))]"
    and v: "marshal_list marshal_scrape_health (gsho_scrapes out) = Some v"
    using assms(1) by (auto simp: marshal_get_scrape_health_output_def marshal_shapes)
  have "read_back (into_scrape_data strict) zero_scrape_data 1 (marshal_scrape_health x)" if "x \<in> set (gsho_scrapes out)" for x
    using assms(2) that by (intro read_back_scrape) (simp add: list_all_iff)
  note list_back = read_back_list [OF v this]
  obtain ys where "into_list zero_scrape_data (into_scrape_data strict) v [] = Some ys" "length ys = length (gsho_scrapes out)"
    using list_back(2) by blast
  then show ?thesis
    using assms(2) list_back(1) j
    by (auto simp: readable_def numeral_depths decoder_simps into_scrapes_data_def zero_scrapes_data_def rfc3339_ascii)
qed

lemma read_reconciliations:
  assumes "marshal_list_unhealthy_reconciliations_output out = Some j" and "readable_output strict (Reconciliations out)"
  shows "printable 3 j \<and> (\<exists>d. into_reconciliations_data strict j zero_reconciliations_data = Some d \<and>
    length (lurd_reconciliations d) = length (luro_reconciliations out) \<and> lurd_truncated d = luro_truncated out)"
proof -
  obtain v where j: "j = JObject [(''target'', JString (luro_target out)),
      (''observedAt'', JString (rfc3339_nano (luro_observed_at out))), (''reconciliations'', v),
      (''truncated'', JBool (luro_truncated out))]"
    and v: "marshal_list marshal_unhealthy_reconciliation (luro_reconciliations out) = Some v"
    using assms(1) by (auto simp: marshal_list_unhealthy_reconciliations_output_def marshal_shapes)
  have "read_back (into_reconciliation_data strict) zero_reconciliation_data 1 (marshal_unhealthy_reconciliation x)" if "x \<in> set (luro_reconciliations out)" for x
    using assms(2) that by (intro read_back_reconciliation) (simp add: list_all_iff)
  note list_back = read_back_list [OF v this]
  obtain ys where "into_list zero_reconciliation_data (into_reconciliation_data strict) v [] = Some ys" "length ys = length (luro_reconciliations out)"
    using list_back(2) by blast
  then show ?thesis
    using assms(2) list_back(1) j
    by (auto simp: readable_def numeral_depths decoder_simps into_reconciliations_data_def zero_reconciliations_data_def rfc3339_ascii)
qed

lemma read_targets:
  assumes "marshal_list_targets_output out = Some j" and "readable_output strict (Targets out)"
  shows "printable 4 j \<and> (\<exists>d. into_list_targets_data j zero_list_targets_data = Some d \<and>
    length (ltd_targets d) = length (lto_targets out))"
proof -
  obtain v where j: "j = JObject [(''targets'', v)]" and v: "marshal_list marshal_target (lto_targets out) = Some v"
    using assms(1) by (auto simp: marshal_list_targets_output_def marshal_shapes)
  have "read_back into_target_data zero_target_data 2 (marshal_target x)" if "x \<in> set (lto_targets out)" for x
    using assms(2) that by (intro read_back_target) (simp add: list_all_iff)
  note list_back = read_back_list [OF v this]
  obtain ys where "into_list zero_target_data into_target_data v [] = Some ys" "length ys = length (lto_targets out)"
    using list_back(2) by blast
  then show ?thesis
    using list_back(1) j
    by (auto simp: numeral_depths decoder_simps into_list_targets_data_def zero_list_targets_data_def)
qed

lemma read_health:
  assumes "marshal_cluster_health_output out = Some j" and "readable_output strict (Health out)"
  shows "printable 3 j \<and> (\<exists>d. into_cluster_health_data strict j zero_cluster_health_data = Some d \<and>
    chd_partial d = cho_partial out)"
proof -
  obtain v where j: "j = JObject [(''target'', JString (cho_target out)),
      (''observedAt'', JString (rfc3339_nano (cho_observed_at out))),
      (''status'', JString (health_status_text (cho_status out))),
      (''nodes'', JObject [(''total'', JNumber (int_text (nodes_total (cho_nodes out)))),
         (''ready'', JNumber (int_text (nodes_ready (cho_nodes out))))]),
      (''workloads'', JObject [(''total'', JNumber (int_text (workloads_total (cho_workloads out)))),
         (''ready'', JNumber (int_text (workloads_ready (cho_workloads out)))),
         (''unhealthy'', JNumber (int_text (workloads_unhealthy (cho_workloads out))))]),
      (''warnings'', v), (''partial'', JBool (cho_partial out))]"
    and v: "marshal_list marshal_health_warning (cho_warnings out) = Some v"
    using assms(1) by (auto simp: marshal_cluster_health_output_def marshal_shapes)
  have "read_back into_warning_data zero_warning_data 1 (marshal_health_warning x)" if "x \<in> set (cho_warnings out)" for x
    using assms(2) that by (intro read_back_warning) (simp add: list_all_iff)
  note list_back = read_back_list [OF v this]
  obtain ys where "into_list zero_warning_data into_warning_data v [] = Some ys"
    using list_back(2) by blast
  then show ?thesis
    using assms(2) list_back(1) j
    by (auto simp: readable_def numeral_depths decoder_simps into_cluster_health_data_def zero_cluster_health_data_def
        into_node_data_def zero_node_data_def into_workload_summary_data_def zero_workload_summary_data_def rfc3339_ascii)
qed

lemma tool_names_distinct:
  "distinct [tool_list_targets, tool_get_cluster_health, tool_list_unhealthy_workloads, tool_list_active_alerts,
     tool_get_scrape_health, tool_list_unhealthy_reconciliations]"
  by (simp add: tool_names)

text \<open>The middleware reads every output back: the event says how many items it has and its flags.\<close>

lemma result_read_back:
  assumes "readable_output strict out" and "marshal_output out = Some j" and "ae_tool e = output_tool out"
  shows "add_audit_result strict (CallToolResult err flag (Some (json_text j))) e = annotate out e"
proof (cases out)
  case (Targets x)
  with assms read_targets [of x j strict] tool_names_distinct show ?thesis
    by (auto simp: add_audit_result_def add_output_def unmarshal_into_text)
next
  case (Health x)
  with assms read_health [of x j strict] tool_names_distinct show ?thesis
    by (auto simp: add_audit_result_def add_output_def unmarshal_into_text)
next
  case (Workloads x)
  with assms read_workloads [of x j strict] tool_names_distinct show ?thesis
    by (auto simp: add_audit_result_def add_output_def unmarshal_into_text add_list_def)
next
  case (Alerts x)
  with assms read_alerts [of x j strict] tool_names_distinct show ?thesis
    by (auto simp: add_audit_result_def add_output_def unmarshal_into_text add_list_def)
next
  case (Scrapes x)
  with assms read_scrapes [of x j strict] tool_names_distinct show ?thesis
    by (auto simp: add_audit_result_def add_output_def unmarshal_into_text)
next
  case (Reconciliations x)
  with assms read_reconciliations [of x j strict] tool_names_distinct show ?thesis
    by (auto simp: add_audit_result_def add_output_def unmarshal_into_text add_list_def)
qed

end
