(* ===== verification/AuditProperties.thy ===== *)
theory AuditProperties
  imports AuditFacts
begin

section \<open>Properties of the audit log\<close>

text \<open>
  The middleware changes nothing a client sees, writes exactly one line for every tool call and
  nothing else, and an event only says what the documentation allows: no text of a caller or of a
  source reaches the log except a valid identifier.
\<close>

subsection \<open>The content of an event\<close>

definition identifier_or_empty :: "string \<Rightarrow> bool" where
  "identifier_or_empty s \<longleftrightarrow> s = [] \<or> valid_identifier s"

definition safe_event :: "audit_event \<Rightarrow> bool" where
  "safe_event e \<longleftrightarrow>
     ae_schema_version e = 1 \<and> (\<exists>t. ae_timestamp e = rfc3339_nano t) \<and>
     ae_tool e \<in> {''unknown'', tool_list_targets} \<union> set audited_tools \<and>
     identifier_or_empty (ae_target e) \<and> identifier_or_empty (ae_scope e) \<and>
     0 \<le> ae_duration_ms e \<and> ae_duration_ms e < 2 ^ 63 \<and>
     (\<exists>o'. ae_outcome e = audit_outcome_text o' \<and>
        (o' = AuditUnsupportedTool \<longrightarrow> ae_tool e = ''unknown'') \<and>
        (o' \<in> {AuditValidationError, AuditUnsupportedTool} \<longrightarrow> ae_target e = [] \<and> ae_scope e = []) \<and>
        (o' \<noteq> AuditSuccess \<longrightarrow> ae_item_count e = None \<and> ae_partial e = None \<and> ae_truncated e = None)) \<and>
     pred_option (\<lambda>n. 0 \<le> n) (ae_item_count e)"

lemma audit_request_safe:
  assumes "audit_request params = (e, known)"
  shows "ae_tool e \<in> {''unknown'', tool_list_targets} \<union> set audited_tools"
    and "known \<or> ae_tool e = ''unknown''" and "known \<Longrightarrow> ae_tool e \<in> insert tool_list_targets (set audited_tools)"
    and "identifier_or_empty (ae_target e)" and "identifier_or_empty (ae_scope e)"
    and "ae_item_count e = None" and "ae_partial e = None" and "ae_truncated e = None"
  using assms
  by (auto simp: audit_request_def unknown_event_def identifier_or_empty_def validate_identifier_None Let_def
      split: mcp_params.splits if_splits option.splits)

lemma add_audit_result_keeps:
  "ae_timestamp (add_audit_result strict result e) = ae_timestamp e"
  "ae_schema_version (add_audit_result strict result e) = ae_schema_version e"
  "ae_tool (add_audit_result strict result e) = ae_tool e"
  "ae_target (add_audit_result strict result e) = ae_target e"
  "ae_scope (add_audit_result strict result e) = ae_scope e"
  "ae_duration_ms (add_audit_result strict result e) = ae_duration_ms e"
  "ae_outcome (add_audit_result strict result e) = ae_outcome e"
  "pred_option (\<lambda>n. 0 \<le> n) (ae_item_count e) \<Longrightarrow>
     pred_option (\<lambda>n. 0 \<le> n) (ae_item_count (add_audit_result strict result e))"
  by (auto simp: add_audit_result_def add_output_def add_list_def split: mcp_result.split option.split)

lemma milliseconds_less:
  assumes "d < 2 ^ 63"
  shows "milliseconds d < 2 ^ 63"
proof (cases "0 \<le> d")
  case True
  with assms show ?thesis by (simp add: milliseconds_nonneg)
next
  case False
  with milliseconds_neg [of d] show ?thesis by simp
qed

text \<open>The outcome of a call of an unsupported tool is never a success or a validation error.\<close>

lemma outcome_unknown:
  "audit_outcome_of ctx_err False result call_err \<in> {AuditCanceled, AuditUnsupportedTool}"
  by (simp add: audit_outcome_of_def)

lemma outcome_known: "audit_outcome_of ctx_err True result call_err \<noteq> AuditUnsupportedTool"
  by (auto simp: audit_outcome_of_def split: mcp_result.split option.split)

lemma audit_call_safe: "safe_event (audit_call strict started_at finished_at ctx_err params reply)"
proof -
  obtain e known where r: "audit_request params = (e, known)" by (cases "audit_request params")
  obtain result call_err where reply: "reply = (result, call_err)" by (cases reply)
  define o' where "o' = audit_outcome_of ctx_err known result call_err"
  define e1 where "e1 = e\<lparr>ae_timestamp := rfc3339_nano finished_at, ae_schema_version := audit_schema_version,
      ae_duration_ms := max (milliseconds (time_sub finished_at started_at)) 0, ae_outcome := audit_outcome_text o'\<rparr>"
  define e2 where "e2 = (if o' = AuditValidationError \<or> o' = AuditUnsupportedTool
      then e1\<lparr>ae_target := [], ae_scope := []\<rparr> else e1)"
  have call: "audit_call strict started_at finished_at ctx_err params reply =
      (if o' = AuditSuccess then add_audit_result strict result e2 else e2)"
    by (simp add: audit_call_def r reply Let_def o'_def e1_def e2_def)
  note request = audit_request_safe [OF r]
  have unsupported: "o' = AuditUnsupportedTool \<Longrightarrow> ae_tool e = ''unknown''"
    using request(2) outcome_known [of ctx_err result call_err] by (cases known) (auto simp: o'_def)
  have duration: "max (milliseconds (time_sub finished_at started_at)) 0 < 2 ^ 63"
    using milliseconds_less time_sub_bounds [of finished_at started_at] by simp
  have e2: "ae_timestamp e2 = rfc3339_nano finished_at" "ae_schema_version e2 = 1" "ae_tool e2 = ae_tool e"
      "ae_duration_ms e2 = max (milliseconds (time_sub finished_at started_at)) 0"
      "ae_outcome e2 = audit_outcome_text o'" "ae_item_count e2 = None" "ae_partial e2 = None" "ae_truncated e2 = None"
      "identifier_or_empty (ae_target e2)" "identifier_or_empty (ae_scope e2)"
      "o' \<in> {AuditValidationError, AuditUnsupportedTool} \<Longrightarrow> ae_target e2 = [] \<and> ae_scope e2 = []"
    using request by (simp_all add: e2_def e1_def audit_schema_version_def identifier_or_empty_def)
  show ?thesis
    unfolding call safe_event_def
    using e2 request(1) unsupported duration add_audit_result_keeps [where strict = strict and result = result and e = e2]
    by (cases "o' = AuditSuccess") (auto intro!: exI [of _ o'])
qed

subsection \<open>One line per call\<close>

text \<open>The line of an event, without its newline.\<close>

definition event_line :: "audit_event \<Rightarrow> string" where
  "event_line e = (case marshal_audit_event e of None \<Rightarrow> [] | Some j \<Rightarrow> json_text j)"

lemma marshal_omitted:
  "marshal_fields (omit_empty_string k v) \<noteq> None" "marshal_fields (omit_nil k marshal_int i) \<noteq> None"
  "marshal_fields (omit_nil k marshal_bool b) \<noteq> None"
  by (simp_all add: omit_empty_string_def omit_nil_def marshal_string_def marshal_int_def marshal_bool_def
      split: option.split)

lemma marshal_audit_event_Some: "\<exists>j. marshal_audit_event e = Some j"
proof -
  have "marshal_fields (xs @ ys) \<noteq> None \<longleftrightarrow> marshal_fields xs \<noteq> None \<and> marshal_fields ys \<noteq> None" for xs ys
    by (induction xs rule: marshal_fields.induct) (auto split: option.split)
  with marshal_omitted have "marshal_fields
     ([(''timestamp'', marshal_string (ae_timestamp e)), (''schemaVersion'', marshal_int (ae_schema_version e)),
       (''tool'', marshal_string (ae_tool e))] @ omit_empty_string ''target'' (ae_target e) @
      omit_empty_string ''scope'' (ae_scope e) @ [(''durationMs'', marshal_int (ae_duration_ms e)),
       (''outcome'', marshal_string (ae_outcome e))] @ omit_nil ''itemCount'' marshal_int (ae_item_count e) @
      omit_nil ''partial'' marshal_bool (ae_partial e) @ omit_nil ''truncated'' marshal_bool (ae_truncated e)) \<noteq> None"
    by (simp add: marshal_string_def marshal_int_def marshal_bool_def)
  then show ?thesis unfolding marshal_audit_event_def marshal_struct_def by auto
qed

lemma audit_names_ascii:
  "ascii ''timestamp''" "ascii ''schemaVersion''" "ascii ''tool''" "ascii ''durationMs''" "ascii ''outcome''"
  "ascii ''itemCount''" "ascii ''unknown''" "ascii tool_list_targets" "list_all ascii audited_tools"
  by (simp_all add: ascii_def byte_def tool_names audited_tools_def)

lemma outcome_ascii: "ascii (audit_outcome_text o')"
  by (cases o') (simp_all add: ascii_def byte_def)

lemma identifier_ascii: "identifier_or_empty s \<Longrightarrow> ascii s"
  using plain_ascii valid_identifier_plain by (auto simp: identifier_or_empty_def ascii_def)

lemma safe_event_printable:
  assumes "safe_event e" and "marshal_audit_event e = Some j"
  shows "printable 1 j"
proof -
  obtain t o' where e: "ae_timestamp e = rfc3339_nano t" "ae_outcome e = audit_outcome_text o'"
      "ae_tool e \<in> {''unknown'', tool_list_targets} \<union> set audited_tools"
      "identifier_or_empty (ae_target e)" "identifier_or_empty (ae_scope e)"
    using assms(1) unfolding safe_event_def by blast
  have "ascii t'" if "t' \<in> {''unknown'', tool_list_targets} \<union> set audited_tools" for t'
    using that audit_names_ascii(7,8,9) by (auto simp only: list_all_iff Un_iff insert_iff empty_iff)
  then have "ascii (ae_tool e)" using e(3) by blast
  with e outcome_ascii rfc3339_ascii identifier_ascii
  have "ascii (ae_timestamp e)" "ascii (ae_tool e)" "ascii (ae_target e)" "ascii (ae_scope e)" "ascii (ae_outcome e)"
    by simp_all
  note texts = this
  have omits: "(k, Some v) \<in> set (omit_empty_string k' s) \<Longrightarrow> k = k' \<and> v = JString s"
    "(k, Some v) \<in> set (omit_nil k' marshal_int i) \<Longrightarrow> k = k' \<and> printable 0 v"
    "(k, Some v) \<in> set (omit_nil k' marshal_bool b) \<Longrightarrow> k = k' \<and> printable 0 v" for k v k' s i b
    by (auto simp: omit_empty_string_def omit_nil_def marshal_string_def marshal_int_def marshal_bool_def
        split: if_splits option.splits)
  show ?thesis
    unfolding One_nat_def
  proof (rule printable_struct [OF assms(2) [unfolded marshal_audit_event_def]])
    fix k v
    assume "(k, Some v) \<in> set ([(''timestamp'', marshal_string (ae_timestamp e)),
        (''schemaVersion'', marshal_int (ae_schema_version e)), (''tool'', marshal_string (ae_tool e))] @
      omit_empty_string ''target'' (ae_target e) @ omit_empty_string ''scope'' (ae_scope e) @
      [(''durationMs'', marshal_int (ae_duration_ms e)), (''outcome'', marshal_string (ae_outcome e))] @
      omit_nil ''itemCount'' marshal_int (ae_item_count e) @ omit_nil ''partial'' marshal_bool (ae_partial e) @
      omit_nil ''truncated'' marshal_bool (ae_truncated e))"
    then show "ascii k \<and> printable 0 v"
      using texts audit_names_ascii ascii_names
      by (auto simp: marshal_string_def marshal_int_def dest!: omits)
  qed
qed

text \<open>The JSON text of a printable value has no newline.\<close>

lemma quote_char_line: "CHR 0x0A \<notin> set (quote_char c)"
proof -
  have "\<forall>d \<in> set [0..15]. hex_char d \<noteq> CHR 0x0A" by code_simp
  then have "hex_char (byte c div 16) \<noteq> CHR 0x0A \<and> hex_char (byte c mod 16) \<noteq> CHR 0x0A" if "byte c < 0x80"
  proof -
    have "byte c div 16 \<in> set [0..15]" "byte c mod 16 \<in> set [0..15]" using that byte_nonneg [of c] by auto
    with \<open>\<forall>d \<in> set [0..15]. hex_char d \<noteq> CHR 0x0A\<close> show ?thesis by blast
  qed
  moreover have "byte (CHR 0x3E) < 0x80" "byte (CHR 0x3C) < 0x80" "byte (CHR 0x26) < 0x80" by (simp_all add: byte_def)
  ultimately show ?thesis by (auto simp: quote_char_def)
qed

lemma json_quote_line: "ascii s \<Longrightarrow> CHR 0x0A \<notin> set (json_quote s)"
proof -
  have "ascii s \<Longrightarrow> CHR 0x0A \<notin> set (quote_chars s)"
    by (induction s) (auto simp: ascii_def quote_chars_ascii quote_char_line simp del: quote_chars.simps(2))
  moreover assume "ascii s"
  ultimately show ?thesis by (simp add: json_quote_def)
qed

lemma comma_join_set: "x \<in> set (comma_join ss) \<Longrightarrow> x = CHR '','' \<or> (\<exists>s \<in> set ss. x \<in> set s)"
  by (induction ss rule: comma_join.induct) auto

lemma int_text_line: "CHR 0x0A \<notin> set (int_text i)"
proof -
  have "CHR 0x0A \<notin> set (nat_text n)" for n
    using nat_text_plain [of n] by (auto simp: list_all_iff plain_char_iff byte_def)
  then show ?thesis by (simp add: int_text_def)
qed

lemma json_text_line: "printable d j \<Longrightarrow> CHR 0x0A \<notin> set (json_text j)"
  by (induction d j rule: printable.induct)
    (fastforce simp: json_quote_line int_text_line list_all_iff dest!: comma_join_set split: if_splits)+

subsection \<open>A session\<close>

definition tool_calls :: "(string \<times> mcp_params) list \<Rightarrow> nat" where
  "tool_calls calls = length (filter (\<lambda>(meth, params). meth = ''tools/call'') calls)"

lemma middleware_call:
  "audit_middleware write strict ctx_err next meth params (s, l) =
     (let (reply, s') = next meth params s
      in (reply, s', if meth = ''tools/call''
            then audit_write write (audit_call strict (al_now l s) (al_now l s') (ctx_err s') params reply) l
            else l))"
  by (simp add: audit_middleware_def Let_def split: prod.split)

lemma audit_write_now: "al_now (audit_write write e l) = al_now l"
  by (simp add: audit_write_def Let_def split: option.split prod.split)

text \<open>The logger after a session has written the events of its tool calls in order.\<close>

lemma session_log:
  "\<exists>events. length events = tool_calls calls \<and> list_all safe_event events \<and>
     snd (snd (serve (audit_middleware write strict ctx_err next) calls (s, l))) = fold (audit_write write) events l"
proof (induction calls arbitrary: s l)
  case Nil
  show ?case by (simp add: tool_calls_def)
next
  case (Cons call calls)
  obtain meth params where call: "call = (meth, params)" by (cases call)
  obtain reply s' where step: "next meth params s = (reply, s')" by (cases "next meth params s")
  define e where "e = audit_call strict (al_now l s) (al_now l s') (ctx_err s') params reply"
  define l' where "l' = (if meth = ''tools/call'' then audit_write write e l else l)"
  have first: "audit_middleware write strict ctx_err next meth params (s, l) = (reply, s', l')"
    by (simp add: middleware_call step l'_def e_def)
  obtain events where events: "length events = tool_calls calls" "list_all safe_event events"
      "snd (snd (serve (audit_middleware write strict ctx_err next) calls (s', l'))) = fold (audit_write write) events l'"
    using Cons.IH by blast
  have last: "snd (snd (serve (audit_middleware write strict ctx_err next) (call # calls) (s, l))) =
      fold (audit_write write) events l'"
    using events(3) by (auto simp: call first split: prod.split)
  show ?case
  proof (cases "meth = ''tools/call''")
    case True
    with events last audit_call_safe show ?thesis
      by (intro exI [of _ "e # events"]) (simp add: call tool_calls_def l'_def e_def)
  next
    case False
    with events last show ?thesis by (intro exI [of _ events]) (simp add: call tool_calls_def l'_def)
  qed
qed

lemma fold_append_writer:
  "\<not> al_failed l \<Longrightarrow> al_writer (fold (audit_write append_writer) events l) =
     al_writer l @ concat (map (\<lambda>e. event_line e @ [CHR 0x0A]) events)"
proof (induction events arbitrary: l)
  case (Cons e events)
  obtain j where j: "marshal_audit_event e = Some j" using marshal_audit_event_Some by blast
  have "al_writer (audit_write append_writer e l) = al_writer l @ event_line e @ [CHR 0x0A]"
    "\<not> al_failed (audit_write append_writer e l)"
    using Cons.prems j by (simp_all add: audit_write_def append_writer_def event_line_def Let_def)
  with Cons.IH [of "audit_write append_writer e l"] show ?case by simp
qed simp

text \<open>Lines without newlines can be split again.\<close>

lemma split_on_line: "c \<notin> set s \<Longrightarrow> split_on c (s @ c # t) = s # split_on c t"
  by (induction s) (auto split: list.split)

lemma split_on_lines:
  "\<forall>s \<in> set ss. c \<notin> set s \<Longrightarrow> split_on c (concat (map (\<lambda>s. s @ [c]) ss)) = ss @ [[]]"
  by (induction ss) (simp_all add: split_on_line)

lemma safe_event_line:
  assumes "safe_event e"
  shows "CHR 0x0A \<notin> set (event_line e)" and "unmarshal_json (event_line e) = marshal_audit_event e"
proof -
  obtain j where j: "marshal_audit_event e = Some j" using marshal_audit_event_Some by blast
  have "printable 1 j" using safe_event_printable [OF assms j] .
  then show "CHR 0x0A \<notin> set (event_line e)" and "unmarshal_json (event_line e) = marshal_audit_event e"
    using j json_text_line unmarshal_json_text [of 1 j] by (simp_all add: event_line_def max_depth_def)
qed

text \<open>
  A writer that records every write and fails at the positions \<open>fails\<close>.
\<close>

definition recording_writer :: "(nat \<Rightarrow> bool) \<Rightarrow> string list \<Rightarrow> string \<Rightarrow> string list \<times> bool" where
  "recording_writer fails w text = (w @ [text], fails (length w))"

lemma fold_failed: "al_failed l \<Longrightarrow> fold (audit_write write) events l = l"
  by (induction events) (simp_all add: audit_write_def)

lemma fold_recording_writer:
  assumes "\<not> al_failed l"
  shows "\<exists>n. n \<le> length events \<and>
    al_writer (fold (audit_write (recording_writer fails)) events l) =
      al_writer l @ map (\<lambda>e. event_line e @ [CHR 0x0A]) (take n events) \<and>
    (\<forall>i < n - 1. \<not> fails (length (al_writer l) + i)) \<and>
    (n < length events \<longrightarrow> 0 < n \<and> fails (length (al_writer l) + (n - 1)))"
  using assms
proof (induction events arbitrary: l)
  case (Cons e events)
  obtain j where j: "marshal_audit_event e = Some j" using marshal_audit_event_Some by blast
  let ?l = "audit_write (recording_writer fails) e l"
  have l: "al_writer ?l = al_writer l @ [event_line e @ [CHR 0x0A]]" "al_failed ?l = fails (length (al_writer l))"
    using Cons.prems j by (simp_all add: audit_write_def recording_writer_def event_line_def Let_def)
  show ?case
  proof (cases "fails (length (al_writer l))")
    case True
    with l fold_failed [of ?l "recording_writer fails" events] show ?thesis
      by (intro exI [of _ 1]) simp
  next
    case False
    then obtain n where n: "n \<le> length events"
      "al_writer (fold (audit_write (recording_writer fails)) events ?l) =
        al_writer ?l @ map (\<lambda>e. event_line e @ [CHR 0x0A]) (take n events)"
      "\<forall>i < n - 1. \<not> fails (length (al_writer ?l) + i)"
      "n < length events \<longrightarrow> 0 < n \<and> fails (length (al_writer ?l) + (n - 1))"
      using Cons.IH [of ?l] l by auto
    have "\<not> fails (length (al_writer l) + i)" if "i < n" for i
    proof (cases i)
      case 0
      with False show ?thesis by simp
    next
      case (Suc k)
      with that n(3) l have "\<not> fails (length (al_writer ?l) + k)" by simp
      with Suc l show ?thesis by simp
    qed
    with n l show ?thesis by (intro exI [of _ "Suc n"]) (cases n; auto)
  qed
qed simp

subsection \<open>Outcomes\<close>

text \<open>The outcome the documentation gives to each error a tool can return.\<close>

fun source_outcome :: "source_error \<Rightarrow> audit_outcome" where
  "source_outcome SourceUnavailable = AuditSourceUnavailable"
| "source_outcome SourceTimeout = AuditSourceTimeout"
| "source_outcome SourceRejected = AuditSourceRejected"
| "source_outcome CredentialUnavailable = AuditCredentialUnavailable"
| "source_outcome InvalidSourceResponse = AuditInvalidSourceResponse"

fun error_outcome :: "go_error \<Rightarrow> audit_outcome" where
  "error_outcome (ValidationError _ _) = AuditValidationError"
| "error_outcome ErrTargetNotConfigured = AuditTargetNotConfigured"
| "error_outcome KubernetesUnknownScope = AuditScopeNotConfigured"
| "error_outcome FluxUnknownScope = AuditScopeNotConfigured"
| "error_outcome (KubernetesError k) = source_outcome k"
| "error_outcome (SourceHttpError k) = source_outcome k"
| "error_outcome ErrResultTooLarge = AuditResultTooLarge"
| "error_outcome ErrObservationCanceled = AuditCanceled"
| "error_outcome _ = AuditInternalError"

lemma tool_error_outcome:
  assumes "tool_error e"
  shows "audit_outcome_of None True (CallToolResult (Some e) flag content) None = error_outcome e"
proof (cases e)
  case (KubernetesError k)
  then show ?thesis by (cases k) (simp_all add: audit_outcome_of_def)
next
  case (SourceHttpError k)
  then show ?thesis by (cases k) (simp_all add: audit_outcome_of_def)
qed (use assms in \<open>auto simp: audit_outcome_of_def tool_error_def\<close>)

text \<open>
  How the SDK packs what a handler returns: an error becomes the error of the result, marked as such;
  an output becomes the structured content.
\<close>

definition packs :: "(string \<times> tool_output) result \<Rightarrow> mcp_reply \<Rightarrow> bool" where
  "packs res reply \<longleftrightarrow>
     (case res of
        Inl e \<Rightarrow> (\<exists>content. reply = (CallToolResult (Some e) True content, None))
      | Inr (_, out) \<Rightarrow>
          (\<exists>j. marshal_output out = Some j \<and> reply = (CallToolResult None False (Some (json_text j)), None)))"

text \<open>The event the documentation asks for.\<close>

definition expected_event :: "time \<Rightarrow> time \<Rightarrow> mcp_params \<Rightarrow> (string \<times> tool_output) result \<Rightarrow> audit_event" where
  "expected_event started_at finished_at params res =
     (let e = (fst (audit_request params))\<lparr>ae_timestamp := rfc3339_nano finished_at, ae_schema_version := 1,
            ae_duration_ms := max (milliseconds (time_sub finished_at started_at)) 0\<rparr>
      in case res of
           Inl err \<Rightarrow>
             (if error_outcome err = AuditValidationError
              then e\<lparr>ae_outcome := ''validation_error'', ae_target := [], ae_scope := []\<rparr>
              else e\<lparr>ae_outcome := audit_outcome_text (error_outcome err)\<rparr>)
         | Inr (_, out) \<Rightarrow> annotate out (e\<lparr>ae_outcome := ''success''\<rparr>))"

lemma error_outcome_not: "error_outcome e \<noteq> AuditSuccess" "error_outcome e \<noteq> AuditUnsupportedTool"
proof -
  have "source_outcome k \<noteq> AuditSuccess \<and> source_outcome k \<noteq> AuditUnsupportedTool" for k by (cases k) simp_all
  then show "error_outcome e \<noteq> AuditSuccess" "error_outcome e \<noteq> AuditUnsupportedTool" by (cases e; simp)+
qed

lemma known_tool: "name \<in> insert tool_list_targets (set audited_tools) \<Longrightarrow> snd (audit_request (CallToolParams name arguments))"
  by (auto simp: audit_request_def Let_def split: option.split)

lemma known_tool_name:
  "name \<in> insert tool_list_targets (set audited_tools) \<Longrightarrow> ae_tool (fst (audit_request (CallToolParams name arguments))) = name"
  by (auto simp: audit_request_def Let_def unknown_event_def split: option.split)

lemma audited_call:
  assumes "packs res reply"
    and "\<And>e. res = Inl e \<Longrightarrow> name \<in> insert tool_list_targets (set audited_tools) \<and> tool_error e"
    and "\<And>t out. res = Inr (t, out) \<Longrightarrow> name = output_tool out \<and> readable_output strict out"
  shows "audit_call strict started_at finished_at None (CallToolParams name arguments) reply =
    expected_event started_at finished_at (CallToolParams name arguments) res"
proof -
  obtain e known where r: "audit_request (CallToolParams name arguments) = (e, known)"
    by (cases "audit_request (CallToolParams name arguments)")
  have output_known: "output_tool out \<in> insert tool_list_targets (set audited_tools)" for out
    by (cases out) (simp_all add: audited_tools_def)
  show ?thesis
  proof (cases res)
    case (Inl err)
    with assms(1) obtain content where reply: "reply = (CallToolResult (Some err) True content, None)"
      by (auto simp: packs_def)
    have "known" using known_tool [of name arguments] assms(2) [OF Inl] r by simp
    with tool_error_outcome [of err True content] assms(2) [OF Inl] error_outcome_not [of err] Inl r reply
    show ?thesis by (simp add: audit_call_def expected_event_def Let_def audit_schema_version_def)
  next
    case (Inr ok)
    obtain t out where ok: "ok = (t, out)" by (cases ok)
    with assms(1) Inr obtain j where j: "marshal_output out = Some j"
      and reply: "reply = (CallToolResult None False (Some (json_text j)), None)"
      by (auto simp: packs_def)
    have out: "name = output_tool out" "readable_output strict out" using assms(3) Inr ok by auto
    have known: "known" and tool: "ae_tool e = output_tool out"
      using known_tool [of name arguments] known_tool_name [of name arguments] output_known [of out] out(1) r by auto
    have "audit_outcome_of None known (CallToolResult None False (Some (json_text j))) None = AuditSuccess"
      using known by (simp add: audit_outcome_of_def)
    with result_read_back [OF out(2) j] tool Inr ok r reply show ?thesis
      by (simp add: audit_call_def expected_event_def Let_def audit_schema_version_def)
  qed
qed

subsection \<open>The properties\<close>

text \<open>
  C27: an event of the audit log holds a fixed schema version and outcome, the UTC time, a tool name
  of the program or \<open>unknown\<close>, identifiers that are valid or empty (and empty after a validation
  error or for an unsupported tool), a non-negative 64-bit duration, and counts only after a
  success; this holds for every request and every reply, so no raw argument, tool name or error
  text can reach the log.
\<close>

theorem audit_events_safe:
  "safe_event (audit_call strict started_at finished_at ctx_err params reply)"
  by (rule audit_call_safe)

text \<open>
  C28: the middleware, installed or not, changes nothing for the clients: in every session every
  request gets the reply, and leaves the server in the state, that it would without the audit log.
\<close>

theorem audit_transparent:
  "fst (serve (receive write strict ctx_err next) calls (s, logger)) = fst (serve next calls s) \<and>
   fst (snd (serve (receive write strict ctx_err next) calls (s, logger))) = snd (serve next calls s)"
proof (induction calls arbitrary: s logger)
  case (Cons call calls)
  obtain meth params where call: "call = (meth, params)" by (cases call)
  obtain reply s' where step: "next meth params s = (reply, s')" by (cases "next meth params s")
  obtain logger' where "receive write strict ctx_err next meth params (s, logger) = (reply, s', logger')"
    by (cases logger) (simp_all add: receive_def middleware_call step)
  with Cons.IH [of s' logger'] step show ?case by (auto simp: call split: prod.split)
qed simp

text \<open>
  C29: with a writer that does not fail, the log of a session is one line for every tool call and
  nothing for any other request: splitting it at the newlines gives the lines back, and each line is
  a JSON text that reads back as the event it was written for, all of whose content is safe.
\<close>

theorem audit_log_lines:
  assumes "new_audit_logger time_now (Some []) now = Some l"
  shows "\<exists>events. length events = tool_calls calls \<and> list_all safe_event events \<and>
    split_on (CHR 0x0A) (al_writer (snd (snd (serve (audit_middleware append_writer strict ctx_err next) calls (s, l))))) =
      map event_line events @ [[]] \<and>
    list_all (\<lambda>e. unmarshal_json (event_line e) = marshal_audit_event e) events"
proof -
  obtain events where events: "length events = tool_calls calls" "list_all safe_event events"
    "snd (snd (serve (audit_middleware append_writer strict ctx_err next) calls (s, l))) =
      fold (audit_write append_writer) events l"
    using session_log [of calls append_writer strict ctx_err "next" s l] by blast
  have "al_writer l = []" "\<not> al_failed l" using assms by (auto simp: new_audit_logger_def)
  then have "al_writer (fold (audit_write append_writer) events l) =
      concat (map (\<lambda>s. s @ [CHR 0x0A]) (map event_line events))"
    by (simp add: fold_append_writer comp_def)
  moreover have "\<forall>line \<in> set (map event_line events). CHR 0x0A \<notin> set line"
    using events(2) safe_event_line(1) by (auto simp: list_all_iff)
  ultimately have "split_on (CHR 0x0A) (al_writer (fold (audit_write append_writer) events l)) =
      map event_line events @ [[]]"
    using split_on_lines by metis
  moreover have "list_all (\<lambda>e. unmarshal_json (event_line e) = marshal_audit_event e) events"
    using events(2) safe_event_line(2) by (auto simp: list_all_iff)
  ultimately show ?thesis using events by auto
qed

theorem audit_log_lines_witness:
  "\<exists>events. length events = 1 \<and> list_all safe_event events \<and>
    split_on (CHR 0x0A) (al_writer (snd (snd (serve (audit_middleware append_writer (\<lambda>_. None) (\<lambda>_. None)
      (\<lambda>_ _ s. ((OtherResult, None), s)))
      [(''tools/list'', OtherParams), (''tools/call'', CallToolParams ''rm'' ''{}'')]
      ((), the (new_audit_logger (\<lambda>_. example_instant) (Some []) None)))))) = map event_line events @ [[]]"
proof -
  have "new_audit_logger (\<lambda>_ :: unit. example_instant) (Some ([] :: string)) None =
      Some (the (new_audit_logger (\<lambda>_. example_instant) (Some []) None))"
    by (simp add: new_audit_logger_def)
  from audit_log_lines [OF this, of "[(''tools/list'', OtherParams), (''tools/call'', CallToolParams ''rm'' ''{}'')]"
      "\<lambda>_. None" "\<lambda>_. None" "\<lambda>_ _ s. ((OtherResult, None), s)" "()"]
  show ?thesis by (auto simp: tool_calls_def)
qed

text \<open>
  C30: when the writer fails, the log stops for good: the writer sees the lines of the first \<open>n\<close>
  events of the session, all writes before the last of them succeeded, and every event is written
  unless the last of these writes failed.
\<close>

theorem audit_log_until_failure:
  assumes "new_audit_logger time_now (Some []) now = Some l"
  shows "\<exists>events n. length events = tool_calls calls \<and> n \<le> length events \<and>
    al_writer (snd (snd (serve (audit_middleware (recording_writer fails) strict ctx_err next) calls (s, l)))) =
      map (\<lambda>e. event_line e @ [CHR 0x0A]) (take n events) \<and>
    {i. i < n - 1 \<and> fails i} = {} \<and> (n = length events \<or> 0 < n \<and> fails (n - 1))"
proof -
  obtain events where events: "length events = tool_calls calls"
    "snd (snd (serve (audit_middleware (recording_writer fails) strict ctx_err next) calls (s, l))) =
      fold (audit_write (recording_writer fails)) events l"
    using session_log [of calls "recording_writer fails" strict ctx_err "next" s l] by blast
  have "al_writer l = []" "\<not> al_failed l" using assms by (auto simp: new_audit_logger_def)
  with fold_recording_writer [of l events fails] obtain n where "n \<le> length events"
    "al_writer (fold (audit_write (recording_writer fails)) events l) =
      map (\<lambda>e. event_line e @ [CHR 0x0A]) (take n events)"
    "\<forall>i < n - 1. \<not> fails i" "n < length events \<longrightarrow> 0 < n \<and> fails (n - 1)"
    by auto
  with events show ?thesis by (intro exI [of _ events] exI [of _ n]) auto
qed

theorem audit_log_until_failure_witness:
  "\<exists>events n. length events = 3 \<and> n \<le> length events \<and>
    al_writer (snd (snd (serve (audit_middleware (recording_writer (\<lambda>i. i = 0)) (\<lambda>_. None) (\<lambda>_. None)
      (\<lambda>_ _ s. ((OtherResult, None), s))) (replicate 3 (''tools/call'', OtherParams))
      ((), the (new_audit_logger (\<lambda>_. example_instant) (Some []) None))))) =
      map (\<lambda>e. event_line e @ [CHR 0x0A]) (take n events) \<and> n = 1"
proof -
  have "new_audit_logger (\<lambda>_ :: unit. example_instant) (Some ([] :: string list)) None =
      Some (the (new_audit_logger (\<lambda>_. example_instant) (Some []) None))"
    by (simp add: new_audit_logger_def)
  note written = audit_log_until_failure [OF this, of "replicate 3 (''tools/call'', OtherParams)" "\<lambda>i. i = 0"
      "\<lambda>_. None" "\<lambda>_. None" "\<lambda>_ _ s. ((OtherResult, None), s)" "()"]
  have "tool_calls (replicate 3 (''tools/call'', OtherParams)) = 3" by (simp add: tool_calls_def)
  obtain events n where r: "length events = 3" "n \<le> length events"
    "al_writer (snd (snd (serve (audit_middleware (recording_writer (\<lambda>i. i = 0)) (\<lambda>_. None) (\<lambda>_. None)
      (\<lambda>_ _ s. ((OtherResult, None), s))) (replicate 3 (''tools/call'', OtherParams))
      ((), the (new_audit_logger (\<lambda>_. example_instant) (Some []) None))))) =
      map (\<lambda>e. event_line e @ [CHR 0x0A]) (take n events)"
    "{i. i < n - 1 \<and> i = 0} = {}" "n = length events \<or> 0 < n \<and> n - 1 = 0"
    using written unfolding \<open>tool_calls (replicate 3 (''tools/call'', OtherParams)) = 3\<close> by blast
  from r(4) have "n \<le> 1" by (cases n) auto
  with r(1,5) have "n = 1" by auto
  with r show ?thesis by blast
qed

text \<open>
  C31: what the documentation promises of an audited call whose context is not done: when the SDK packs the answer of a handler
  as it documents, the event has the name of the tool, the outcome that belongs to the error or
  \<open>success\<close>, and exactly the item count and flags of the output the client gets.
\<close>

theorem audited_calls_faithful:
  assumes "packs res reply"
    and "case res of Inl e \<Rightarrow> name \<in> insert tool_list_targets (set audited_tools) \<and> tool_error e
      | Inr (t, out) \<Rightarrow> name = output_tool out \<and> readable_output strict out"
  shows "audit_call strict started_at finished_at None (CallToolParams name arguments) reply =
    expected_event started_at finished_at (CallToolParams name arguments) res"
  using assms(2) by (intro audited_call assms(1)) (auto split: sum.splits)

definition example_strict :: "string \<Rightarrow> time option" where
  "example_strict = lib_parse_time example_lib"

lemma example_output_readable: "readable_output example_strict (Reconciliations flux_example_output)"
proof -
  have "rfc3339_nano example_instant = ''2026-08-03T00:00:00Z''" by code_simp
  then have "readable example_strict example_instant"
    by (simp add: readable_def example_strict_def example_lib_def)
  moreover have "ascii ''flux-a''" "ascii ''apps''" "ascii ''web''" by (simp_all add: ascii_def byte_def)
  ultimately show ?thesis
    by (simp add: flux_example_output_def flux_example_entry_def readable_reconciliation_def)
qed

theorem audited_calls_faithful_witness:
  "\<exists>j. marshal_output (Reconciliations flux_example_output) = Some j \<and>
     ae_item_count (audit_call example_strict example_instant example_instant None
       (CallToolParams ''flux_list_unhealthy_reconciliations'' ''{}'')
       (CallToolResult None False (Some (json_text j)), None)) = Some 1"
proof -
  have "\<not> Option.is_none (marshal_output (Reconciliations flux_example_output))" by code_simp
  then obtain j where j: "marshal_output (Reconciliations flux_example_output) = Some j"
    by (auto simp: Option.is_none_def)
  have "audit_call example_strict example_instant example_instant None
      (CallToolParams ''flux_list_unhealthy_reconciliations'' ''{}'')
      (CallToolResult None False (Some (json_text j)), None) =
    expected_event example_instant example_instant (CallToolParams ''flux_list_unhealthy_reconciliations'' ''{}'')
      (Inr (''ok'', Reconciliations flux_example_output))"
    by (rule audited_calls_faithful)
      (use j example_output_readable in \<open>simp_all add: packs_def tool_names\<close>)
  with j show ?thesis by (simp add: expected_event_def Let_def flux_example_output_def)
qed

end
