(* ===== verification/Config.thy ===== *)
theory Config
  imports Kubernetes Monitoring Flux
begin

section \<open>Runtime configuration (\<open>internal/config/load.go\<close>)\<close>

text \<open>
  Loading reads files one after the other: the configuration, then for every target its token file
  and its CA bundle. What a file holds when it is opened is a function of the files opened before
  and the path, so files may change between two reads; \<open>None\<close> is a file that cannot be opened. The
  parser of PEM bundles (\<open>AppendCertsFromPEM\<close>) is a parameter.
\<close>

subsection \<open>The schema\<close>

definition max_config_bytes :: int where
  "max_config_bytes = 64 * 1024"

definition max_credential_bytes :: int where
  "max_credential_bytes = 16 * 1024"

definition max_ca_bundle_bytes :: int where
  "max_ca_bundle_bytes = 1024 * 1024"

record config_scope =
  cscope_id :: string
  cscope_namespace :: string

record config_service =
  csvc_namespace :: string
  csvc_name :: string
  csvc_port :: string

record config_scrape =
  cscrape_id :: string
  cscrape_job :: string
  cscrape_instance :: string

record config_component =
  ccomp_alert_name :: string
  ccomp_component :: string

record config_target =
  ctgt_id :: string
  ctgt_kind :: string
  ctgt_endpoint :: string
  ctgt_bearer_token_file :: string
  ctgt_ca_bundle_file :: string
  ctgt_request_timeout :: string
  ctgt_scopes :: "config_scope list"
  ctgt_prometheus :: "config_service option"
  ctgt_alertmanager :: "config_service option"
  ctgt_scrapes :: "config_scrape list"
  ctgt_alert_components :: "config_component list"

record config_file =
  cfg_targets :: "config_target list"

record sources =
  src_kubernetes :: "kubernetes_client list"
  src_monitoring :: "monitoring_client list"
  src_flux :: "flux_client list"

subsection \<open>Strict decoding\<close>

text \<open>With \<open>DisallowUnknownFields\<close> a member without a field is an error of the whole call.\<close>

definition reject_member :: "'r decoder" where
  "reject_member j r = None"

definition zero_config_scope :: config_scope where
  "zero_config_scope = \<lparr>cscope_id = [], cscope_namespace = []\<rparr>"

definition into_config_scope :: "config_scope decoder" where
  "into_config_scope = into_struct (\<lambda>k.
     if k = ''id'' then into_field cscope_id (\<lambda>v r. r\<lparr>cscope_id := v\<rparr>) into_string
     else if k = ''namespace'' then into_field cscope_namespace (\<lambda>v r. r\<lparr>cscope_namespace := v\<rparr>) into_string
     else reject_member)"

definition zero_config_service :: config_service where
  "zero_config_service = \<lparr>csvc_namespace = [], csvc_name = [], csvc_port = []\<rparr>"

definition into_config_service :: "config_service decoder" where
  "into_config_service = into_struct (\<lambda>k.
     if k = ''namespace'' then into_field csvc_namespace (\<lambda>v r. r\<lparr>csvc_namespace := v\<rparr>) into_string
     else if k = ''name'' then into_field csvc_name (\<lambda>v r. r\<lparr>csvc_name := v\<rparr>) into_string
     else if k = ''port'' then into_field csvc_port (\<lambda>v r. r\<lparr>csvc_port := v\<rparr>) into_string
     else reject_member)"

definition zero_config_scrape :: config_scrape where
  "zero_config_scrape = \<lparr>cscrape_id = [], cscrape_job = [], cscrape_instance = []\<rparr>"

definition into_config_scrape :: "config_scrape decoder" where
  "into_config_scrape = into_struct (\<lambda>k.
     if k = ''id'' then into_field cscrape_id (\<lambda>v r. r\<lparr>cscrape_id := v\<rparr>) into_string
     else if k = ''job'' then into_field cscrape_job (\<lambda>v r. r\<lparr>cscrape_job := v\<rparr>) into_string
     else if k = ''instance'' then into_field cscrape_instance (\<lambda>v r. r\<lparr>cscrape_instance := v\<rparr>) into_string
     else reject_member)"

definition zero_config_component :: config_component where
  "zero_config_component = \<lparr>ccomp_alert_name = [], ccomp_component = []\<rparr>"

definition into_config_component :: "config_component decoder" where
  "into_config_component = into_struct (\<lambda>k.
     if k = ''alertname'' then into_field ccomp_alert_name (\<lambda>v r. r\<lparr>ccomp_alert_name := v\<rparr>) into_string
     else if k = ''component'' then into_field ccomp_component (\<lambda>v r. r\<lparr>ccomp_component := v\<rparr>) into_string
     else reject_member)"

definition zero_config_target :: config_target where
  "zero_config_target = \<lparr>ctgt_id = [], ctgt_kind = [], ctgt_endpoint = [], ctgt_bearer_token_file = [],
     ctgt_ca_bundle_file = [], ctgt_request_timeout = [], ctgt_scopes = [], ctgt_prometheus = None,
     ctgt_alertmanager = None, ctgt_scrapes = [], ctgt_alert_components = []\<rparr>"

definition into_config_target :: "config_target decoder" where
  "into_config_target = into_struct (\<lambda>k.
     if k = ''id'' then into_field ctgt_id (\<lambda>v r. r\<lparr>ctgt_id := v\<rparr>) into_string
     else if k = ''kind'' then into_field ctgt_kind (\<lambda>v r. r\<lparr>ctgt_kind := v\<rparr>) into_string
     else if k = ''endpoint'' then into_field ctgt_endpoint (\<lambda>v r. r\<lparr>ctgt_endpoint := v\<rparr>) into_string
     else if k = ''bearertokenfile''
       then into_field ctgt_bearer_token_file (\<lambda>v r. r\<lparr>ctgt_bearer_token_file := v\<rparr>) into_string
     else if k = ''cabundlefile''
       then into_field ctgt_ca_bundle_file (\<lambda>v r. r\<lparr>ctgt_ca_bundle_file := v\<rparr>) into_string
     else if k = ''requesttimeout''
       then into_field ctgt_request_timeout (\<lambda>v r. r\<lparr>ctgt_request_timeout := v\<rparr>) into_string
     else if k = ''scopes'' then into_field ctgt_scopes (\<lambda>v r. r\<lparr>ctgt_scopes := v\<rparr>)
       (into_list zero_config_scope into_config_scope)
     else if k = ''prometheus'' then into_field ctgt_prometheus (\<lambda>v r. r\<lparr>ctgt_prometheus := v\<rparr>)
       (into_pointer zero_config_service into_config_service)
     else if k = ''alertmanager'' then into_field ctgt_alertmanager (\<lambda>v r. r\<lparr>ctgt_alertmanager := v\<rparr>)
       (into_pointer zero_config_service into_config_service)
     else if k = ''scrapes'' then into_field ctgt_scrapes (\<lambda>v r. r\<lparr>ctgt_scrapes := v\<rparr>)
       (into_list zero_config_scrape into_config_scrape)
     else if k = ''alertcomponents'' then into_field ctgt_alert_components (\<lambda>v r. r\<lparr>ctgt_alert_components := v\<rparr>)
       (into_list zero_config_component into_config_component)
     else reject_member)"

definition into_config_file :: "config_file decoder" where
  "into_config_file = into_struct (\<lambda>k.
     if k = ''targets'' then into_field cfg_targets (\<lambda>v r. r\<lparr>cfg_targets := v\<rparr>)
       (into_list zero_config_target into_config_target)
     else reject_member)"

subsection \<open>Reading files\<close>

type_synonym files = "string list \<Rightarrow> string \<Rightarrow> stream option"
type_synonym 'a loading = "string list \<Rightarrow> 'a result \<times> string list"

definition load_return :: "'a result \<Rightarrow> 'a loading" where
  "load_return r h = (r, h)"

definition load_bind :: "'a loading \<Rightarrow> ('a \<Rightarrow> 'b loading) \<Rightarrow> 'b loading" where
  "load_bind m k h = (case m h of (Inl e, h') \<Rightarrow> (Inl e, h') | (Inr x, h') \<Rightarrow> k x h')"

text \<open>The body of a file within the limit; every caller replaces the error (\<open>None\<close>) by one of its own.\<close>

definition read_bounded_file :: "files \<Rightarrow> string \<Rightarrow> int \<Rightarrow> string list \<Rightarrow> string option \<times> string list" where
  "read_bounded_file files path limit h =
     ((case files h path of None \<Rightarrow> None
       | Some s \<Rightarrow>
           (case read_limited (limit + 1) s of None \<Rightarrow> None
            | Some body \<Rightarrow> if limit < int (length body) then None else Some body)),
      h @ [path])"

definition load_file :: "files \<Rightarrow> string \<Rightarrow> int \<Rightarrow> go_error \<Rightarrow> string loading" where
  "load_file files path limit err h =
     (case read_bounded_file files path limit h of
        (None, h') \<Rightarrow> (Inl err, h') | (Some body, h') \<Rightarrow> (Inr body, h'))"

text \<open>The encodings of the runes \<open>unicode.IsSpace\<close> accepts.\<close>

definition space_runes :: "string list" where
  "space_runes =
     [[CHR 0x09], [CHR 0x0A], [CHR 0x0B], [CHR 0x0C], [CHR 0x0D], [CHR 0x20],
      [CHR 0xC2, CHR 0x85], [CHR 0xC2, CHR 0xA0], [CHR 0xE1, CHR 0x9A, CHR 0x80],
      [CHR 0xE2, CHR 0x80, CHR 0x80], [CHR 0xE2, CHR 0x80, CHR 0x81], [CHR 0xE2, CHR 0x80, CHR 0x82],
      [CHR 0xE2, CHR 0x80, CHR 0x83], [CHR 0xE2, CHR 0x80, CHR 0x84], [CHR 0xE2, CHR 0x80, CHR 0x85],
      [CHR 0xE2, CHR 0x80, CHR 0x86], [CHR 0xE2, CHR 0x80, CHR 0x87], [CHR 0xE2, CHR 0x80, CHR 0x88],
      [CHR 0xE2, CHR 0x80, CHR 0x89], [CHR 0xE2, CHR 0x80, CHR 0x8A], [CHR 0xE2, CHR 0x80, CHR 0xA8],
      [CHR 0xE2, CHR 0x80, CHR 0xA9], [CHR 0xE2, CHR 0x80, CHR 0xAF], [CHR 0xE2, CHR 0x81, CHR 0x9F],
      [CHR 0xE3, CHR 0x80, CHR 0x80]]"

text \<open>Removing prefixes of a list as long as there are any; none of them is empty.\<close>

definition strip_one :: "string list \<Rightarrow> string \<Rightarrow> string" where
  "strip_one ps s =
     (case find (\<lambda>p. p \<noteq> [] \<and> take (length p) s = p) ps of None \<Rightarrow> s | Some p \<Rightarrow> drop (length p) s)"

lemma strip_one_shorter: "strip_one ps s \<noteq> s \<Longrightarrow> length (strip_one ps s) < length s"
  by (cases s) (auto simp: strip_one_def find_Some_iff split: option.splits)

function strip_all :: "string list \<Rightarrow> string \<Rightarrow> string" where
  "strip_all ps s = (if strip_one ps s = s then s else strip_all ps (strip_one ps s))"
  by pat_completeness auto

termination by (relation "measure (\<lambda>(ps, s). length s)") (use strip_one_shorter in auto)

declare strip_all.simps [simp del]

text \<open>\<open>strings.TrimSpace\<close>\<close>

definition trim_space :: "string \<Rightarrow> string" where
  "trim_space s = rev (strip_all (map rev space_runes) (rev (strip_all space_runes s)))"

subsection \<open>Credentials and the HTTP client\<close>

definition read_credential :: "files \<Rightarrow> string \<Rightarrow> string loading" where
  "read_credential files path =
     (if path = [] then load_return (Inr [])
      else load_bind (load_file files path max_credential_bytes (ErrorText ''read source credential failed''))
        (\<lambda>body.
          let token = trim_space body in
          if token = [] \<or> list_ex (\<lambda>c. c \<in> {CHR '' '', CHR 0x09, CHR 0x0D, CHR 0x0A}) token
            then load_return (Inl (ErrorText ''source credential is invalid''))
          else load_return (Inr token)))"

text \<open>
  A credential source reads the file again for every request; it is given by its path, and \<open>None\<close>
  is the nil source. The token read here is discarded.
\<close>

definition file_credential_source :: "files \<Rightarrow> string \<Rightarrow> string option loading" where
  "file_credential_source files path =
     (if path = [] then load_return (Inr None)
      else load_bind (read_credential files path) (\<lambda>_. load_return (Inr (Some path))))"

text \<open>The parts of the \<open>http.Client\<close> that are set: no proxy, TLS 1.2 at least, the roots, no redirects.\<close>

record tls_client = http_client +
  tls_proxy :: bool
  tls_min_version :: int
  tls_extra_roots :: "string option"

definition secure_http_client :: "(string \<Rightarrow> bool) \<Rightarrow> files \<Rightarrow> string \<Rightarrow> tls_client loading" where
  "secure_http_client pem files path =
     (let client = (\<lambda>roots. \<lparr>hc_follow_redirects = False, tls_proxy = False, tls_min_version = 0x0303,
            tls_extra_roots = roots\<rparr>)
      in if path = [] then load_return (Inr (client None))
         else load_bind (load_file files path max_ca_bundle_bytes (ErrorText ''read source CA bundle failed''))
           (\<lambda>bundle.
             if \<not> pem bundle then load_return (Inl (ErrorText ''source CA bundle is invalid''))
             else load_return (Inr (client (Some bundle)))))"

definition build_shared_target :: "stdlib \<Rightarrow> (string \<Rightarrow> bool) \<Rightarrow> files \<Rightarrow> config_target \<Rightarrow>
    (string option \<times> tls_client \<times> int) loading" where
  "build_shared_target lib pem files t =
     load_bind (file_credential_source files (ctgt_bearer_token_file t)) (\<lambda>credential.
     load_bind (secure_http_client pem files (ctgt_ca_bundle_file t)) (\<lambda>client.
       if ctgt_request_timeout t = [] then load_return (Inr (credential, client, 0))
       else case lib_parse_duration lib (ctgt_request_timeout t) of
         None \<Rightarrow> load_return (Inl (ErrorText ''runtime configuration contains an invalid request timeout''))
       | Some timeout \<Rightarrow> load_return (Inr (credential, client, timeout))))"

subsection \<open>Targets\<close>

definition target_invalid :: go_error where
  "target_invalid = ErrorText ''runtime target configuration is invalid''"

text \<open>The error of a constructor is replaced.\<close>

definition or_invalid :: "'a result \<Rightarrow> 'a result" where
  "or_invalid r = (case r of Inl _ \<Rightarrow> Inl target_invalid | Inr x \<Rightarrow> Inr x)"

definition config_scopes :: "config_target \<Rightarrow> scope list" where
  "config_scopes t = map (\<lambda>s. \<lparr>scope_id = cscope_id s, scope_namespace = cscope_namespace s\<rparr>) (ctgt_scopes t)"

definition build_kubernetes_target :: "stdlib \<Rightarrow> (string \<Rightarrow> bool) \<Rightarrow> files \<Rightarrow> config_target \<Rightarrow>
    kubernetes_client loading" where
  "build_kubernetes_target lib pem files t =
     (if ctgt_prometheus t \<noteq> None \<or> ctgt_alertmanager t \<noteq> None \<or> ctgt_scrapes t \<noteq> [] \<or>
         ctgt_alert_components t \<noteq> []
        then load_return (Inl target_invalid)
      else load_bind (build_shared_target lib pem files t) (\<lambda>(credential, client, timeout).
        load_return (or_invalid (kubernetes_new lib
          \<lparr>kcfg_target_id = ctgt_id t, kcfg_base_url = ctgt_endpoint t, kcfg_credential = credential \<noteq> None,
           kcfg_scopes = config_scopes t, kcfg_http_client = Some (http_client.truncate client),
           kcfg_request_timeout = timeout\<rparr>))))"

definition config_service_of :: "config_service \<Rightarrow> service" where
  "config_service_of s = \<lparr>svc_namespace = csvc_namespace s, svc_name = csvc_name s, svc_port = csvc_port s\<rparr>"

definition build_monitoring_target :: "stdlib \<Rightarrow> (string \<Rightarrow> bool) \<Rightarrow> files \<Rightarrow> config_target \<Rightarrow>
    monitoring_client loading" where
  "build_monitoring_target lib pem files t =
     (if ctgt_scopes t \<noteq> [] then load_return (Inl target_invalid)
      else case (ctgt_prometheus t, ctgt_alertmanager t) of
        (Some prometheus, Some alertmanager) \<Rightarrow>
          load_bind (build_shared_target lib pem files t) (\<lambda>(credential, client, timeout).
            load_return (or_invalid (monitoring_new lib
              \<lparr>mcfg_target_id = ctgt_id t, mcfg_base_url = ctgt_endpoint t, mcfg_credential = credential \<noteq> None,
               mcfg_http_client = Some (http_client.truncate client), mcfg_request_timeout = timeout,
               mcfg_prometheus = config_service_of prometheus,
               mcfg_alertmanager = config_service_of alertmanager,
               mcfg_scrapes = map (\<lambda>s. \<lparr>si_id = cscrape_id s, si_job = cscrape_job s,
                 si_instance = cscrape_instance s\<rparr>) (ctgt_scrapes t),
               mcfg_components = map (\<lambda>c. \<lparr>ac_alert_name = ccomp_alert_name c, ac_component = ccomp_component c\<rparr>)
                 (ctgt_alert_components t)\<rparr>)))
      | _ \<Rightarrow> load_return (Inl target_invalid))"

definition build_flux_target :: "stdlib \<Rightarrow> (string \<Rightarrow> bool) \<Rightarrow> files \<Rightarrow> config_target \<Rightarrow> flux_client loading" where
  "build_flux_target lib pem files t =
     (if ctgt_prometheus t \<noteq> None \<or> ctgt_alertmanager t \<noteq> None \<or> ctgt_scrapes t \<noteq> [] \<or>
         ctgt_alert_components t \<noteq> []
        then load_return (Inl target_invalid)
      else load_bind (build_shared_target lib pem files t) (\<lambda>(credential, client, timeout).
        load_return (or_invalid (flux_new lib
          \<lparr>fcfg_target_id = ctgt_id t, fcfg_base_url = ctgt_endpoint t, fcfg_credential = credential \<noteq> None,
           fcfg_scopes = config_scopes t, fcfg_http_client = Some (http_client.truncate client),
           fcfg_request_timeout = timeout\<rparr>))))"

subsection \<open>Load\<close>

definition build_target :: "stdlib \<Rightarrow> (string \<Rightarrow> bool) \<Rightarrow> files \<Rightarrow> config_target \<Rightarrow> sources \<Rightarrow> sources loading" where
  "build_target lib pem files t out =
     (if ctgt_kind t = target_kind_kubernetes then
        load_bind (build_kubernetes_target lib pem files t) (\<lambda>client.
          load_return (Inr (out\<lparr>src_kubernetes := src_kubernetes out @ [client]\<rparr>)))
      else if ctgt_kind t = target_kind_monitoring then
        load_bind (build_monitoring_target lib pem files t) (\<lambda>client.
          load_return (Inr (out\<lparr>src_monitoring := src_monitoring out @ [client]\<rparr>)))
      else if ctgt_kind t = target_kind_flux then
        load_bind (build_flux_target lib pem files t) (\<lambda>client.
          load_return (Inr (out\<lparr>src_flux := src_flux out @ [client]\<rparr>)))
      else load_return (Inl (ErrorText ''runtime configuration contains an unsupported target kind'')))"

fun build_targets :: "stdlib \<Rightarrow> (string \<Rightarrow> bool) \<Rightarrow> files \<Rightarrow> config_target list \<Rightarrow> sources \<Rightarrow> sources loading" where
  "build_targets lib pem files [] out = load_return (Inr out)"
| "build_targets lib pem files (t # ts) out =
     load_bind (build_target lib pem files t out) (build_targets lib pem files ts)"

text \<open>A second value, or anything but white space, after the first one is refused.\<close>

definition ensure_json_end :: "string \<Rightarrow> go_error option" where
  "ensure_json_end rest =
     (if skip_space rest = [] then None
      else Some (ErrorText ''runtime configuration must contain one JSON object''))"

text \<open>What the body of the configuration file says.\<close>

definition decode_config :: "string \<Rightarrow> config_file result" where
  "decode_config body =
     (case decode_next body of None \<Rightarrow> Inl (ErrorText ''decode runtime configuration failed'')
      | Some (j, rest) \<Rightarrow>
          (case into_config_file j \<lparr>cfg_targets = []\<rparr> of
             None \<Rightarrow> Inl (ErrorText ''decode runtime configuration failed'')
           | Some config \<Rightarrow>
               (case ensure_json_end rest of Some e \<Rightarrow> Inl e
                | None \<Rightarrow>
                    if max_targets < int (length (cfg_targets config))
                      then Inl (ErrorText ''runtime configuration has too many targets'')
                    else Inr config)))"

definition load_config :: "stdlib \<Rightarrow> (string \<Rightarrow> bool) \<Rightarrow> files \<Rightarrow> string \<Rightarrow> sources loading" where
  "load_config lib pem files path =
     load_bind (load_file files path max_config_bytes (ErrorText ''open runtime configuration failed'')) (\<lambda>body.
     load_bind (load_return (decode_config body)) (\<lambda>config.
       build_targets lib pem files (cfg_targets config)
         \<lparr>src_kubernetes = [], src_monitoring = [], src_flux = []\<rparr>))"

end
