(* ===== verification/HttpTransport.thy ===== *)
theory HttpTransport
  imports SourceHttp
begin

section \<open>HTTP transport and probes (\<open>internal/httptransport\<close>)\<close>

text \<open>
  The chain of handlers in front of the MCP handler of the SDK, the health endpoints, the life of the
  server and the probe. A handler turns a request into a response and may change a state of its own.
  Of \<open>net/http\<close> the model has \<open>http.Error\<close>, \<open>CrossOriginProtection\<close> without exemptions and the
  exact patterns of the mux; what the mux answers for any other path (a redirect to the cleaned path
  or 404) is the parameter \<open>miss\<close>. \<open>net.ParseIP\<close> is the parameter \<open>parse_ip\<close>, which yields the
  bytes of an address.
\<close>

subsection \<open>Constants and addresses\<close>

definition default_port :: int where
  "default_port = 8080"

definition loopback_address :: string where
  "loopback_address = ''127.0.0.1''"

definition max_mcp_request_bytes :: int where
  "max_mcp_request_bytes = 64 * 1024"

definition err_invalid_port :: go_error where
  "err_invalid_port = ErrorText ''HTTP port is invalid''"

definition err_non_loopback_listener :: go_error where
  "err_non_loopback_listener = ErrorText ''HTTP listener must use 127.0.0.1''"

type_synonym ip = "int list"
type_synonym ip_parser = "string \<Rightarrow> ip option"

text \<open>\<open>IP.To4\<close>: an IPv4 address, also one mapped into IPv6.\<close>

definition ip_to4 :: "ip \<Rightarrow> ip option" where
  "ip_to4 a =
     (if length a = 4 then Some a
      else if length a = 16 \<and> take 12 a = replicate 10 0 @ [255, 255] then Some (drop 12 a)
      else None)"

definition ip_equal :: "ip \<Rightarrow> ip \<Rightarrow> bool" where
  "ip_equal a b \<longleftrightarrow> a = b \<or> ip_to4 a \<noteq> None \<and> ip_to4 a = ip_to4 b"

definition ip_is_loopback :: "ip \<Rightarrow> bool" where
  "ip_is_loopback a \<longleftrightarrow>
     (case ip_to4 a of Some b \<Rightarrow> hd b = 127 | None \<Rightarrow> a = replicate 15 0 @ [1])"

text \<open>The address of a listener: that of a TCP listener, perhaps without an IP, or another one.\<close>

datatype net_addr = TCPAddr "ip option" | OtherAddr

text \<open>\<open>net.Listen\<close> on \<open>tcp4\<close> is a parameter.\<close>

definition listen :: "(string \<Rightarrow> net_addr result) \<Rightarrow> int \<Rightarrow> net_addr result" where
  "listen net_listen port =
     (if port < 0 \<or> 65535 < port then Inl err_invalid_port
      else net_listen (loopback_address @ '':'' @ int_text port))"

text \<open>The bytes of 127.0.0.1 as \<open>net.ParseIP\<close> returns them.\<close>

definition loopback_ip :: ip where
  "loopback_ip = replicate 10 0 @ [255, 255, 127, 0, 0, 1]"

definition validate_listener :: "net_addr option \<Rightarrow> go_error option" where
  "validate_listener listener =
     (case listener of
        None \<Rightarrow> Some err_non_loopback_listener
      | Some addr \<Rightarrow>
          (case addr of
             TCPAddr (Some a) \<Rightarrow> if ip_equal a loopback_ip then None else Some err_non_loopback_listener
           | _ \<Rightarrow> Some err_non_loopback_listener))"

subsection \<open>Requests and responses\<close>

text \<open>
  The content length is -1 when it is unknown. Headers are by their canonical names; an absent one is
  empty.
\<close>

record http_request =
  hr_method :: string
  hr_path :: string
  hr_host :: string
  hr_header :: "string \<Rightarrow> string"
  hr_content_length :: int
  hr_body :: stream

record http_result =
  hs_status :: int
  hs_header :: "(string \<times> string) list"
  hs_body :: string

type_synonym 's http_handler = "http_request \<Rightarrow> 's \<Rightarrow> http_result \<times> 's"

definition http_error :: "string \<Rightarrow> int \<Rightarrow> 's \<Rightarrow> http_result \<times> 's" where
  "http_error text code s =
     (\<lparr>hs_status = code,
       hs_header = [(''Content-Type'', ''text/plain; charset=utf-8''), (''X-Content-Type-Options'', ''nosniff'')],
       hs_body = text @ [CHR 0x0A]\<rparr>, s)"

subsection \<open>The chain of handlers\<close>

definition bounded_body :: "'s http_handler \<Rightarrow> 's http_handler" where
  "bounded_body next request s =
     (if hr_method request \<noteq> ''POST'' then next request s
      else if max_mcp_request_bytes < hr_content_length request
        then http_error ''request body is too large'' 413 s
      else case read_limited (max_mcp_request_bytes + 1) (hr_body request) of
        None \<Rightarrow> http_error ''request body is invalid'' 400 s
      | Some body \<Rightarrow>
          if max_mcp_request_bytes < int (length body) then http_error ''request body is too large'' 413 s
          else next (request\<lparr>hr_body := \<lparr>stream_bytes = body, stream_broken = False\<rparr>\<rparr>) s)"

text \<open>\<open>net.SplitHostPort\<close>; \<open>None\<close> is its error. A text is cut at its last colon.\<close>

definition cut_last :: "char \<Rightarrow> string \<Rightarrow> (string \<times> string) option" where
  "cut_last c s =
     (if c \<notin> set s then None
      else Some (rev (tl (dropWhile (\<lambda>x. x \<noteq> c) (rev s))), rev (takeWhile (\<lambda>x. x \<noteq> c) (rev s))))"

definition split_host_port :: "string \<Rightarrow> (string \<times> string) option" where
  "split_host_port hostport =
     (case cut_last (CHR '':'') hostport of None \<Rightarrow> None
      | Some (before, port) \<Rightarrow>
          (case before of
             [] \<Rightarrow> if CHR ''['' \<in> set port \<or> CHR '']'' \<in> set port then None else Some ([], port)
           | c # rest \<Rightarrow>
               if c = CHR ''['' then
                 (let host = takeWhile (\<lambda>x. x \<noteq> CHR '']'') rest in
                  if rest = host @ '']'' \<and> CHR ''['' \<notin> set host \<and> CHR ''['' \<notin> set port \<and> CHR '']'' \<notin> set port
                    then Some (host, port) else None)
               else if CHR '':'' \<in> set before \<or> CHR ''['' \<in> set hostport \<or> CHR '']'' \<in> set hostport then None
               else Some (before, port)))"

definition valid_loopback_host :: "ip_parser \<Rightarrow> string \<Rightarrow> bool" where
  "valid_loopback_host parse_ip host_port =
     (let check = (\<lambda>host. fold_text host = ''localhost'' \<or>
            (case parse_ip host of None \<Rightarrow> False | Some a \<Rightarrow> ip_is_loopback a))
      in case split_host_port host_port of
           Some (host, _) \<Rightarrow> check host
         | None \<Rightarrow> if CHR '':'' \<in> set host_port then False else check host_port)"

definition loopback_host_only :: "ip_parser \<Rightarrow> 's http_handler \<Rightarrow> 's http_handler" where
  "loopback_host_only parse_ip next request s =
     (if \<not> valid_loopback_host parse_ip (hr_host request) then http_error ''forbidden Host header'' 403 s
      else next request s)"

text \<open>\<open>CrossOriginProtection.Check\<close>: the error, if any.\<close>

definition cross_origin_check :: "stdlib \<Rightarrow> http_request \<Rightarrow> string option" where
  "cross_origin_check lib request =
     (if hr_method request \<in> {''GET'', ''HEAD'', ''OPTIONS''} then None
      else if hr_header request ''Sec-Fetch-Site'' \<in> {''same-origin'', ''none''} then None
      else if hr_header request ''Sec-Fetch-Site'' \<noteq> []
        then Some ''cross-origin request detected from Sec-Fetch-Site header''
      else if hr_header request ''Origin'' = [] then None
      else
        (case lib_parse_url lib (hr_header request ''Origin'') of
           Some u \<Rightarrow> if url_host u = hr_host request then None
             else Some ''cross-origin request detected, and/or browser is out of date: Sec-Fetch-Site is missing, and Origin does not match Host''
         | None \<Rightarrow> Some ''cross-origin request detected, and/or browser is out of date: Sec-Fetch-Site is missing, and Origin does not match Host''))"

definition cross_origin_protection :: "stdlib \<Rightarrow> 's http_handler \<Rightarrow> 's http_handler" where
  "cross_origin_protection lib next request s =
     (case cross_origin_check lib request of Some e \<Rightarrow> http_error e 403 s | None \<Rightarrow> next request s)"

definition health_handler :: "'s http_handler" where
  "health_handler request s =
     (if hr_method request \<noteq> ''GET'' then
        (let (response, s') = http_error ''method not allowed'' 405 s
         in (response\<lparr>hs_header := (''Allow'', ''GET'') # hs_header response\<rparr>, s'))
      else
        (\<lparr>hs_status = 200, hs_header = [(''Content-Type'', ''text/plain; charset=utf-8''), (''Cache-Control'', ''no-store'')],
          hs_body = ''ok'' @ [CHR 0x0A]\<rparr>, s))"

text \<open>\<open>NewHandler\<close>, around the streamable handler of the SDK.\<close>

definition new_handler :: "stdlib \<Rightarrow> ip_parser \<Rightarrow> 's http_handler \<Rightarrow> 's http_handler \<Rightarrow> 's http_handler" where
  "new_handler lib parse_ip miss streamable request =
     (let mcp_handler = cross_origin_protection lib (loopback_host_only parse_ip (bounded_body streamable))
      in if hr_path request = ''/mcp'' then mcp_handler request
         else if hr_path request = ''/livez'' then health_handler request
         else if hr_path request = ''/readyz'' then health_handler request
         else miss request)"

subsection \<open>The probe\<close>

definition err_probe_failed :: go_error where
  "err_probe_failed = ErrorText ''HTTP health probe failed''"

text \<open>The reply to the one request of the probe: its status and body, or \<open>None\<close> when it fails.\<close>

definition probe_path :: "string \<Rightarrow> string option" where
  "probe_path kind =
     (if kind = ''liveness'' then Some ''/livez''
      else if kind = ''readiness'' \<or> kind = ''startup'' then Some ''/readyz''
      else None)"

definition probe :: "(string \<Rightarrow> (int \<times> stream) option) \<Rightarrow> int \<Rightarrow> string \<Rightarrow> go_error option" where
  "probe client_do port kind =
     (if port < 1 \<or> 65535 < port then Some err_invalid_port
      else case probe_path kind of None \<Rightarrow> Some err_probe_failed
      | Some path \<Rightarrow>
          (case client_do (''http://'' @ loopback_address @ '':'' @ int_text port @ path) of
             None \<Rightarrow> Some err_probe_failed
           | Some (status, body) \<Rightarrow>
               (case read_limited 4 body of None \<Rightarrow> Some err_probe_failed
                | Some text \<Rightarrow>
                    if status \<noteq> 200 \<or> text \<noteq> ''ok'' @ [CHR 0x0A] then Some err_probe_failed else None)))"

subsection \<open>The life of the server\<close>

text \<open>
  \<open>Serve\<close> starts a goroutine that runs the HTTP server and sends its error into a channel with room
  for one value, and then waits: for that error, or for the context, after which it shuts the server
  down. The state has the phase of \<open>Serve\<close>, the content of the channel, whether the goroutine still
  runs, and whether the context is done.
\<close>

definition err_server_closed :: go_error where
  "err_server_closed = ErrorText ''http: Server closed''"

datatype serve_phase =
    Selecting
  | ShuttingDown
  | AwaitingResult
  | Returned "go_error option"

record serve_state =
  sv_phase :: serve_phase
  sv_channel :: "go_error option"
  sv_running :: bool
  sv_done :: bool

definition serve_start :: "net_addr option \<Rightarrow> bool \<Rightarrow> serve_state" where
  "serve_start listener server_nil =
     (case validate_listener listener of
        Some e \<Rightarrow> \<lparr>sv_phase = Returned (Some e), sv_channel = None, sv_running = False, sv_done = False\<rparr>
      | None \<Rightarrow>
          if server_nil then
            \<lparr>sv_phase = Returned (Some (ErrorText ''MCP server must not be nil'')), sv_channel = None,
             sv_running = False, sv_done = False\<rparr>
          else \<lparr>sv_phase = Selecting, sv_channel = None, sv_running = True, sv_done = False\<rparr>)"

definition serve_error :: "go_error \<Rightarrow> go_error option" where
  "serve_error e = (if error_is e err_server_closed then None else Some e)"

text \<open>
  \<open>httpServer.Serve\<close> always returns an error, and \<open>ErrServerClosed\<close> once \<open>Shutdown\<close> was called.
\<close>

inductive serve_step :: "serve_state \<Rightarrow> serve_state \<Rightarrow> bool" where
  context_done: "\<not> sv_done st \<Longrightarrow> serve_step st (st\<lparr>sv_done := True\<rparr>)"
| server_returns: "sv_running st \<Longrightarrow> sv_phase st = Selecting \<or> e = err_server_closed \<Longrightarrow>
    serve_step st (st\<lparr>sv_running := False, sv_channel := Some e\<rparr>)"
| select_result: "sv_phase st = Selecting \<Longrightarrow> sv_channel st = Some e \<Longrightarrow>
    serve_step st (st\<lparr>sv_phase := Returned (serve_error e), sv_channel := None\<rparr>)"
| select_done: "sv_phase st = Selecting \<Longrightarrow> sv_done st \<Longrightarrow> serve_step st (st\<lparr>sv_phase := ShuttingDown\<rparr>)"
| shutdown_ok: "sv_phase st = ShuttingDown \<Longrightarrow> serve_step st (st\<lparr>sv_phase := AwaitingResult\<rparr>)"
| shutdown_fails: "sv_phase st = ShuttingDown \<Longrightarrow>
    serve_step st (st\<lparr>sv_phase := Returned (Some (ErrorText ''HTTP server shutdown failed''))\<rparr>)"
| await_result: "sv_phase st = AwaitingResult \<Longrightarrow> sv_channel st = Some e \<Longrightarrow>
    serve_step st (st\<lparr>sv_phase := Returned (serve_error e), sv_channel := None\<rparr>)"

inductive_cases serve_stepE: "serve_step st st'"

end
