(* ===== verification/Command.thy ===== *)
theory Command
  imports Config HttpTransport Sources AuditEvents
begin

section \<open>The command line (\<open>cmd/cluster-observer-mcp/main.go\<close>)\<close>

text \<open>
  The subcommands, their flags (package \<open>flag\<close> with its messages and usage texts), the server they
  load, and what a process leaves behind: its exit code and its output. What the SDK does with a
  server, \<open>net.Listen\<close> and the probe's HTTP client are parameters.
\<close>

subsection \<open>Flags\<close>

datatype flag_kind = StringFlag | BoolFlag | IntFlag

text \<open>A flag and a set of flags: the default of a flag is the text its usage shows, if any.\<close>

record flag =
  flg_name :: string
  flg_kind :: flag_kind
  flg_usage :: string
  flg_default :: string

record flag_set =
  fls_name :: string
  fls_formal :: "flag list"

record flags =
  flag_config :: string
  flag_version :: bool
  flag_port :: int

definition config_flag :: flag where
  "config_flag = \<lparr>flg_name = ''config'', flg_kind = StringFlag,
     flg_usage = ''path to private runtime configuration'', flg_default = []\<rparr>"

definition version_flag :: flag where
  "version_flag = \<lparr>flg_name = ''version'', flg_kind = BoolFlag, flg_usage = ''print version and exit'', flg_default = []\<rparr>"

definition port_flag :: flag where
  "port_flag = \<lparr>flg_name = ''port'', flg_kind = IntFlag, flg_usage = ''IPv4 loopback port'',
     flg_default = int_text default_port\<rparr>"

definition default_flags :: flags where
  "default_flags = \<lparr>flag_config = [], flag_version = False, flag_port = default_port\<rparr>"

subsection \<open>Messages of package \<open>flag\<close>\<close>

text \<open>\<open>PrintDefaults\<close>: one entry for every flag, by name.\<close>

definition flag_entry :: "flag \<Rightarrow> string" where
  "flag_entry f =
     (let head = ''  -'' @ flg_name f @ (case flg_kind f of StringFlag \<Rightarrow> '' string'' | IntFlag \<Rightarrow> '' int'' | BoolFlag \<Rightarrow> [])
      in head @ (if length head \<le> 4 then [CHR 0x09] else CHR 0x0A # ''    '' @ [CHR 0x09]) @ flg_usage f @
         (if flg_default f = [] then [] else '' (default '' @ flg_default f @ '')'') @ [CHR 0x0A])"

definition usage_text :: "flag_set \<Rightarrow> string" where
  "usage_text fs =
     ''Usage of '' @ fls_name fs @ '':'' @ [CHR 0x0A] @
     concat (map flag_entry (sort_func (compare_by flg_name) (fls_formal fs)))"

text \<open>
  The functions of \<open>strconv\<close> a flag uses: \<open>ParseInt\<close> with base prefixes, which may find a syntax error
  or a value out of range, and \<open>Quote\<close>. Both are parameters; \<open>ParseBool\<close> is not.
\<close>

datatype parsed_int = ParsedInt int | BadSyntax | OutOfRange

record flag_lib =
  fll_parse_int :: "string \<Rightarrow> parsed_int"
  fll_quote :: "string \<Rightarrow> string"

definition parse_bool :: "string \<Rightarrow> bool option" where
  "parse_bool s =
     (if s \<in> {''1'', ''t'', ''T'', ''true'', ''TRUE'', ''True''} then Some True
      else if s \<in> {''0'', ''f'', ''F'', ''false'', ''FALSE'', ''False''} then Some False
      else None)"

text \<open>Setting a flag gives the new flags, or the reason of the error.\<close>

definition set_flag :: "flag_lib \<Rightarrow> flag_kind \<Rightarrow> string \<Rightarrow> flags \<Rightarrow> string + flags" where
  "set_flag lib kind value f =
     (case kind of
        StringFlag \<Rightarrow> Inr (f\<lparr>flag_config := value\<rparr>)
      | BoolFlag \<Rightarrow>
          (case parse_bool value of None \<Rightarrow> Inl ''parse error'' | Some b \<Rightarrow> Inr (f\<lparr>flag_version := b\<rparr>))
      | IntFlag \<Rightarrow>
          (case fll_parse_int lib value of
             ParsedInt i \<Rightarrow> Inr (f\<lparr>flag_port := i\<rparr>)
           | BadSyntax \<Rightarrow> Inl ''parse error''
           | OutOfRange \<Rightarrow> Inl ''value out of range''))"

text \<open>The name of a flag and the value after the first equals sign, which cannot be its first character.\<close>

definition split_flag :: "string \<Rightarrow> string \<times> string option" where
  "split_flag name =
     (case name of [] \<Rightarrow> ([], None)
      | c # rest \<Rightarrow>
          (case dropWhile (\<lambda>x. x \<noteq> CHR ''='') rest of
             [] \<Rightarrow> (name, None)
           | _ # value \<Rightarrow> (c # takeWhile (\<lambda>x. x \<noteq> CHR ''='') rest, Some value)))"

text \<open>
  \<open>parseOne\<close> takes one flag off the arguments, or stops at an argument that is none, or prints a text
  and returns an error: \<open>failf\<close> prints its message and the usage, a request of help only the usage.
\<close>

datatype flag_step = StopFlags "string list" | NextFlag flags "string list" | RefuseFlags string

definition failf :: "flag_set \<Rightarrow> string \<Rightarrow> flag_step" where
  "failf fs msg = RefuseFlags (msg @ CHR 0x0A # usage_text fs)"

text \<open>The value of a flag and the arguments after it, \<open>None\<close> where a value is missing.\<close>

definition flag_value :: "flag_kind \<Rightarrow> string option \<Rightarrow> string list \<Rightarrow> (string \<times> string list) option" where
  "flag_value kind value rest =
     (case value of Some v \<Rightarrow> Some (v, rest)
      | None \<Rightarrow>
          if kind = BoolFlag then Some (''true'', rest)
          else (case rest of [] \<Rightarrow> None | v # rest' \<Rightarrow> Some (v, rest')))"

definition invalid_value :: "flag_lib \<Rightarrow> flag \<Rightarrow> string \<Rightarrow> string \<Rightarrow> string" where
  "invalid_value lib g v reason =
     (if flg_kind g = BoolFlag then ''invalid boolean value '' @ fll_quote lib v @ '' for -''
      else ''invalid value '' @ fll_quote lib v @ '' for flag -'') @ flg_name g @ '': '' @ reason"

text \<open>A name, without its hyphens, that is looked up and set.\<close>

definition take_flag :: "flag_lib \<Rightarrow> flag_set \<Rightarrow> string \<times> string option \<Rightarrow> string list \<Rightarrow> flags \<Rightarrow> flag_step" where
  "take_flag lib fs nv rest f =
     (case find (\<lambda>g. flg_name g = fst nv) (fls_formal fs) of
        None \<Rightarrow>
          if fst nv = ''help'' \<or> fst nv = ''h'' then RefuseFlags (usage_text fs)
          else failf fs (''flag provided but not defined: -'' @ fst nv)
      | Some g \<Rightarrow>
          (case flag_value (flg_kind g) (snd nv) rest of
             None \<Rightarrow> failf fs (''flag needs an argument: -'' @ fst nv)
           | Some (v, rest') \<Rightarrow>
               (case set_flag lib (flg_kind g) v f of
                  Inl reason \<Rightarrow> failf fs (invalid_value lib g v reason)
                | Inr f' \<Rightarrow> NextFlag f' rest')))"

definition parse_one :: "flag_lib \<Rightarrow> flag_set \<Rightarrow> string list \<Rightarrow> flags \<Rightarrow> flag_step" where
  "parse_one lib fs args f =
     (case args of
        [] \<Rightarrow> StopFlags []
      | s # rest \<Rightarrow>
          if length s < 2 \<or> hd s \<noteq> CHR ''-'' then StopFlags args
          else if s = ''--'' then StopFlags rest
          else
            (let name = (if s ! 1 = CHR ''-'' then drop 2 s else tl s)
             in if hd name = CHR ''-'' \<or> hd name = CHR ''='' then failf fs (''bad flag syntax: '' @ s)
                else take_flag lib fs (split_flag name) rest f))"

lemma take_flag_shorter: "take_flag lib fs nv rest f = NextFlag f' rest' \<Longrightarrow> length rest' \<le> length rest"
  by (auto simp: take_flag_def flag_value_def failf_def split: option.splits if_splits sum.splits list.splits)

lemma parse_one_shorter: "parse_one lib fs args f = NextFlag f' rest' \<Longrightarrow> length rest' < length args"
  by (auto simp: parse_one_def failf_def Let_def split: list.splits if_splits dest!: take_flag_shorter)

text \<open>
  \<open>FlagSet.Parse\<close>: the flags and the arguments left over, or the text that was printed when it returned
  an error.
\<close>

datatype flag_outcome = FlagsParsed flags "string list" | FlagsRefused string

function parse_flags :: "flag_lib \<Rightarrow> flag_set \<Rightarrow> string list \<Rightarrow> flags \<Rightarrow> flag_outcome" where
  "parse_flags lib fs args f =
     (case parse_one lib fs args f of
        StopFlags rest \<Rightarrow> FlagsParsed f rest
      | NextFlag f' rest \<Rightarrow> parse_flags lib fs rest f'
      | RefuseFlags text \<Rightarrow> FlagsRefused text)"
  by pat_completeness auto

termination by (relation "measure (\<lambda>(lib, fs, args, f). length args)") (simp_all add: parse_one_shorter)

declare parse_flags.simps [simp del]

definition stdio_flags :: flag_set where
  "stdio_flags = \<lparr>fls_name = ''cluster-observer-mcp'', fls_formal = [config_flag, version_flag]\<rparr>"

definition http_flags :: flag_set where
  "http_flags = \<lparr>fls_name = ''cluster-observer-mcp serve-http'', fls_formal = [config_flag, port_flag]\<rparr>"

definition probe_flags :: flag_set where
  "probe_flags = \<lparr>fls_name = ''cluster-observer-mcp probe'', fls_formal = [port_flag]\<rparr>"

subsection \<open>The surroundings\<close>

text \<open>
  What a run of a server brings: the requests the SDK received, in the order in which they were
  answered, what it wrote to the standard output when that is its transport, and the error it ended
  with.
\<close>

record session =
  ses_calls :: "(string \<times> mcp_params) list"
  ses_protocol :: string
  ses_error :: "go_error option"

text \<open>
  What a process depends on: the parsers and files, the worlds of the clients and the clock, the SDK
  (how it answers the requests of a server, with a state of its own from which the time and the
  request context are read), the sessions over stdio and over a listener, \<open>net.Listen\<close>, and the
  probe's client. The standard error takes everything that is written to it.
\<close>

record 's surroundings =
  sur_lib :: stdlib
  sur_flag_lib :: flag_lib
  sur_pem :: "string \<Rightarrow> bool"
  sur_files :: files
  sur_worlds :: "string \<Rightarrow> world"
  sur_clock :: clock
  sur_sdk :: "mcp_server \<Rightarrow> 's mcp_handler"
  sur_sdk_state :: 's
  sur_time_now :: "'s \<Rightarrow> time"
  sur_ctx_err :: "'s \<Rightarrow> go_error option"
  sur_strict_time :: "string \<Rightarrow> time option"
  sur_run_stdio :: "mcp_server \<Rightarrow> session"
  sur_net_listen :: "string \<Rightarrow> net_addr result"
  sur_serve :: "net_addr \<Rightarrow> mcp_server \<Rightarrow> session"
  sur_client_do :: "string \<Rightarrow> (int \<times> stream) option"

text \<open>
  The output of a process, by its origin: a line of the program itself, the text of package \<open>flag\<close>, the
  audit log of a session, or the messages of the protocol.
\<close>

datatype printed = OwnLine string | FlagText string | AuditText string | ProtocolText string

record exit_status =
  ex_code :: int
  ex_stdout :: "printed list"
  ex_stderr :: "printed list"

definition exit_with :: "int \<Rightarrow> exit_status" where
  "exit_with code = \<lparr>ex_code = code, ex_stdout = [], ex_stderr = []\<rparr>"

definition exit_saying :: "int \<Rightarrow> string \<Rightarrow> exit_status" where
  "exit_saying code text = \<lparr>ex_code = code, ex_stdout = [], ex_stderr = [OwnLine (''cluster-observer-mcp: '' @ text)]\<rparr>"

definition exit_refused :: "string \<Rightarrow> exit_status" where
  "exit_refused text = \<lparr>ex_code = 2, ex_stdout = [], ex_stderr = [FlagText text]\<rparr>"

subsection \<open>Commands\<close>

definition loaded_set :: "'s surroundings \<Rightarrow> sources \<Rightarrow> source_set" where
  "loaded_set sur out =
     \<lparr>set_kubernetes = map (\<lambda>c. Some (kubernetes_source_of (sur_worlds sur) (sur_clock sur) c)) (src_kubernetes out),
      set_monitoring = map (\<lambda>c. Some (monitoring_source_of (sur_lib sur) (sur_worlds sur) (sur_clock sur) c)) (src_monitoring out),
      set_flux = map (\<lambda>c. Some (flux_source_of (sur_lib sur) (sur_worlds sur) (sur_clock sur) c)) (src_flux out)\<rparr>"

definition load_server :: "'s surroundings \<Rightarrow> string \<Rightarrow> string \<Rightarrow> mcp_server result" where
  "load_server sur version config_path =
     result_bind
       (if config_path = [] then Inr \<lparr>src_kubernetes = [], src_monitoring = [], src_flux = []\<rparr>
        else fst (load_config (sur_lib sur) (sur_pem sur) (sur_files sur) config_path []))
       (\<lambda>out. case new_with_source_set version (loaded_set sur out) True of
          Inl _ \<Rightarrow> Inl (ErrorText ''initialize server failed'')
        | Inr server \<Rightarrow> Inr server)"

text \<open>What the audit logger of a server, if it has one, writes to the standard error during a session.\<close>

definition audit_output :: "'s surroundings \<Rightarrow> mcp_server \<Rightarrow> session \<Rightarrow> string" where
  "audit_output sur server ses =
     (let logger = (if srv_audited server then new_audit_logger (sur_time_now sur) (Some []) None else None)
      in case snd (snd (serve (receive append_writer (sur_strict_time sur) (sur_ctx_err sur) (sur_sdk sur server))
             (ses_calls ses) (sur_sdk_state sur, logger))) of
           None \<Rightarrow> [] | Some l \<Rightarrow> al_writer l)"

text \<open>The end of a process that ran a server: code 1 and one more line after an error.\<close>

definition exit_after :: "string \<Rightarrow> string \<Rightarrow> printed list \<Rightarrow> session \<Rightarrow> exit_status" where
  "exit_after failure audit stdout ses =
     (case ses_error ses of
        None \<Rightarrow> \<lparr>ex_code = 0, ex_stdout = stdout, ex_stderr = [AuditText audit]\<rparr>
      | Some _ \<Rightarrow> \<lparr>ex_code = 1, ex_stdout = stdout,
          ex_stderr = [AuditText audit, OwnLine (''cluster-observer-mcp: '' @ failure)]\<rparr>)"

definition run_stdio :: "'s surroundings \<Rightarrow> string \<Rightarrow> string list \<Rightarrow> exit_status" where
  "run_stdio sur version arguments =
     (case parse_flags (sur_flag_lib sur) stdio_flags arguments default_flags of
        FlagsRefused text \<Rightarrow> exit_refused text
      | FlagsParsed f rest \<Rightarrow>
          if rest \<noteq> [] then exit_saying 2 ''positional arguments are not supported''
          else if flag_version f then (exit_with 0)\<lparr>ex_stdout := [OwnLine version]\<rparr>
          else
            (case load_server sur version (flag_config f) of
               Inl e \<Rightarrow> exit_saying 1 (error_text e)
             | Inr server \<Rightarrow>
                 (let ses = sur_run_stdio sur server
                  in exit_after ''stdio server failed'' (audit_output sur server ses) [ProtocolText (ses_protocol ses)] ses)))"

definition run_http :: "'s surroundings \<Rightarrow> string \<Rightarrow> string list \<Rightarrow> exit_status" where
  "run_http sur version arguments =
     (case parse_flags (sur_flag_lib sur) http_flags arguments default_flags of
        FlagsRefused text \<Rightarrow> exit_refused text
      | FlagsParsed f rest \<Rightarrow>
          if rest \<noteq> [] \<or> flag_config f = [] \<or> flag_port f < 1 \<or> 65535 < flag_port f
            then exit_saying 2 ''serve-http requires a config and valid port''
          else
            (case load_server sur version (flag_config f) of
               Inl e \<Rightarrow> exit_saying 1 (error_text e)
             | Inr server \<Rightarrow>
                 (case listen (sur_net_listen sur) (flag_port f) of
                    Inl _ \<Rightarrow> exit_saying 1 ''create HTTP listener failed''
                  | Inr listener \<Rightarrow>
                      (let ses = sur_serve sur listener server
                       in exit_after ''HTTP server failed'' (audit_output sur server ses) [] ses))))"

definition run_probe :: "'s surroundings \<Rightarrow> string list \<Rightarrow> string \<Rightarrow> exit_status" where
  "run_probe sur arguments kind =
     (case parse_flags (sur_flag_lib sur) probe_flags arguments default_flags of
        FlagsRefused text \<Rightarrow> exit_refused text
      | FlagsParsed f rest \<Rightarrow>
          if rest \<noteq> [] \<or> flag_port f < 1 \<or> 65535 < flag_port f
            then exit_saying 2 ''probe requires a valid port''
          else if probe (sur_client_do sur) (flag_port f) kind \<noteq> None
            then exit_saying 1 ''health probe failed''
          else exit_with 0)"

definition run_command :: "'s surroundings \<Rightarrow> string \<Rightarrow> string list \<Rightarrow> exit_status" where
  "run_command sur version arguments =
     (case arguments of
        [] \<Rightarrow> run_stdio sur version arguments
      | name # rest \<Rightarrow>
          if name = ''serve-http'' then run_http sur version rest
          else if name = ''probe-liveness'' then run_probe sur rest ''liveness''
          else if name = ''probe-readiness'' then run_probe sur rest ''readiness''
          else if name = ''probe-startup'' then run_probe sur rest ''startup''
          else run_stdio sur version arguments)"

end
