(* ===== verification/ConfigProperties.thy ===== *)
theory ConfigProperties
  imports Config ServerProperties
begin

section \<open>Properties of the runtime configuration\<close>

text \<open>
  Which bodies are accepted, what a loaded source satisfies, which files are opened, and what can be
  said about an error. \<open>accepts\<close> is compositional: it gives the exact set of JSON values a strict
  decoder takes.
\<close>

subsection \<open>Sequencing\<close>

lemma load_bind_Inr:
  "load_bind m k h = (Inr y, h'') \<longleftrightarrow> (\<exists>x h'. m h = (Inr x, h') \<and> k x h' = (Inr y, h''))"
  by (auto simp: load_bind_def split: prod.splits sum.splits)

lemma load_bind_Inl:
  "load_bind m k h = (Inl e, h'') \<longleftrightarrow>
     m h = (Inl e, h'') \<or> (\<exists>x h'. m h = (Inr x, h') \<and> k x h' = (Inl e, h''))"
  by (auto simp: load_bind_def split: prod.splits sum.splits)

lemma load_return_eq [simp]: "load_return r h = (r', h') \<longleftrightarrow> r = r' \<and> h = h'"
  by (simp add: load_return_def)

lemma load_file_Inr:
  "load_file files path limit err h = (Inr body, h') \<longleftrightarrow>
     h' = h @ [path] \<and> (\<exists>s. files h path = Some s \<and> read_limited (limit + 1) s = Some body \<and> int (length body) \<le> limit)"
  by (auto simp: load_file_def read_bounded_file_def split: option.splits)

lemma load_file_Inl: "load_file files path limit err h = (Inl e, h') \<Longrightarrow> e = err \<and> h' = h @ [path]"
  by (auto simp: load_file_def read_bounded_file_def split: option.splits)

lemmas loading = load_bind_Inr load_bind_Inl

subsection \<open>Credentials\<close>

lemma strip_one_length: "length (strip_one ps s) \<le> length s"
  by (simp add: strip_one_def split: option.split)

lemma strip_all_length: "length (strip_all ps s) \<le> length s"
proof (induction ps s rule: strip_all.induct)
  case (1 ps s)
  then show ?case
    using strip_one_length [of ps s] by (subst strip_all.simps) (auto intro: order_trans)
qed

lemma trim_space_length: "length (trim_space s) \<le> length s"
  using strip_all_length [of "map rev space_runes" "rev (strip_all space_runes s)"] strip_all_length [of space_runes s]
  by (simp add: trim_space_def)

lemma read_credential_Inr:
  assumes "read_credential files path h = (Inr token, h')"
  shows "(path = [] \<longrightarrow> token = [] \<and> h' = h) \<and> (path \<noteq> [] \<longrightarrow> valid_bearer_token token \<and> h' = h @ [path])"
proof (cases "path = []")
  case True
  with assms show ?thesis by (simp add: read_credential_def)
next
  case False
  with assms obtain body where "token = trim_space body" "int (length body) \<le> max_credential_bytes" "h' = h @ [path]"
    "token \<noteq> []" "\<not> list_ex (\<lambda>c. c \<in> {CHR '' '', CHR 0x09, CHR 0x0D, CHR 0x0A}) token"
    by (auto simp: read_credential_def loading load_file_Inr Let_def split: if_splits)
  with False trim_space_length [of body] show ?thesis
    by (simp add: valid_bearer_token_def max_bearer_token_bytes_def max_credential_bytes_def)
qed

subsection \<open>What is loaded\<close>

definition sources_ok :: "sources \<Rightarrow> bool" where
  "sources_ok out \<longleftrightarrow> list_all kubernetes_strict_client (src_kubernetes out) \<and>
     list_all monitoring_client_inv (src_monitoring out) \<and> list_all flux_client_inv (src_flux out)"

definition source_count :: "sources \<Rightarrow> nat" where
  "source_count out = length (src_kubernetes out) + length (src_monitoring out) + length (src_flux out)"

lemma or_invalid_Inr [simp]: "or_invalid r = Inr x \<longleftrightarrow> r = Inr x"
  by (simp add: or_invalid_def split: sum.split)

lemma or_invalid_Inl: "or_invalid r = Inl e \<Longrightarrow> e = target_invalid"
  by (simp add: or_invalid_def split: sum.splits)

lemma secure_http_client_strict:
  "secure_http_client pem files path h = (Inr client, h') \<Longrightarrow> \<not> hc_follow_redirects client"
  by (auto simp: secure_http_client_def loading Let_def split: if_splits)

lemma build_shared_target_strict:
  "build_shared_target lib pem files t h = (Inr (credential, client, timeout), h') \<Longrightarrow> \<not> hc_follow_redirects client"
  by (auto simp: build_shared_target_def loading dest: secure_http_client_strict split: if_splits option.splits)

lemma build_kubernetes_target_ok:
  assumes "build_kubernetes_target lib pem files t h = (Inr client, h')"
  shows "kubernetes_strict_client client"
proof -
  from assms obtain credential tls timeout h1 cfg where shared: "build_shared_target lib pem files t h = (Inr (credential, tls, timeout), h1)"
    and new: "kubernetes_new lib cfg = Inr client" "kcfg_http_client cfg = Some (http_client.truncate tls)"
    by (fastforce simp: build_kubernetes_target_def loading split: if_splits)
  from kubernetes_new_inv [OF new(1)] new(2) build_shared_target_strict [OF shared] show ?thesis
    by (simp add: kubernetes_strict_client_def http_client.truncate_def)
qed

lemma build_monitoring_target_ok:
  "build_monitoring_target lib pem files t h = (Inr client, h') \<Longrightarrow> monitoring_client_inv client"
  by (auto simp: build_monitoring_target_def loading dest!: monitoring_new_inv split: if_splits option.splits)

lemma build_flux_target_ok:
  "build_flux_target lib pem files t h = (Inr client, h') \<Longrightarrow> flux_client_inv client"
  by (auto simp: build_flux_target_def loading dest!: flux_new_inv split: if_splits)

lemma build_target_ok:
  "build_target lib pem files t out h = (Inr out', h') \<Longrightarrow> sources_ok out \<Longrightarrow>
     sources_ok out' \<and> source_count out' = Suc (source_count out)"
  by (auto simp: build_target_def loading sources_ok_def source_count_def
      dest: build_kubernetes_target_ok build_monitoring_target_ok build_flux_target_ok split: if_splits)

lemma build_targets_ok:
  "build_targets lib pem files ts out h = (Inr out', h') \<Longrightarrow> sources_ok out \<Longrightarrow>
     sources_ok out' \<and> source_count out' = source_count out + length ts"
  by (induction ts arbitrary: out h) (auto simp: loading dest!: build_target_ok)

lemma decode_config_Inr:
  "decode_config body = Inr config \<longleftrightarrow>
     (\<exists>j. unmarshal_json body = Some j \<and> into_config_file j \<lparr>cfg_targets = []\<rparr> = Some config \<and>
        int (length (cfg_targets config)) \<le> max_targets)"
  by (auto simp: decode_config_def unmarshal_json_def ensure_json_end_def split: option.splits prod.splits)

lemma load_config_ok:
  assumes "load_config lib pem files path h = (Inr out, h')"
  shows "sources_ok out \<and> source_count out \<le> 32"
proof -
  from assms obtain config :: config_file and h1 where "int (length (cfg_targets config)) \<le> max_targets"
    "build_targets lib pem files (cfg_targets config) \<lparr>src_kubernetes = [], src_monitoring = [], src_flux = []\<rparr> h1 = (Inr out, h')"
    unfolding load_config_def load_bind_Inr load_return_eq decode_config_Inr by blast
  with build_targets_ok [OF this(2)] show ?thesis
    by (simp add: sources_ok_def source_count_def max_targets_def)
qed

subsection \<open>Errors\<close>

definition load_errors :: "go_error set" where
  "load_errors = {ErrorText ''open runtime configuration failed'', ErrorText ''decode runtime configuration failed'',
     ErrorText ''runtime configuration must contain one JSON object'',
     ErrorText ''runtime configuration has too many targets'',
     ErrorText ''runtime configuration contains an unsupported target kind'', target_invalid,
     ErrorText ''read source credential failed'', ErrorText ''source credential is invalid'',
     ErrorText ''read source CA bundle failed'', ErrorText ''source CA bundle is invalid'',
     ErrorText ''runtime configuration contains an invalid request timeout''}"

lemma shared_target_errors:
  "build_shared_target lib pem files t h = (Inl e, h') \<Longrightarrow> e \<in> load_errors"
  by (auto simp: build_shared_target_def file_credential_source_def secure_http_client_def read_credential_def
      loading Let_def load_errors_def dest!: load_file_Inl split: if_splits option.splits)

lemma target_invalid_listed: "target_invalid \<in> load_errors"
  by (simp add: load_errors_def)

lemma build_target_errors:
  assumes "build_target lib pem files t out h = (Inl e, h')"
  shows "e \<in> load_errors"
proof -
  from assms consider "e = ErrorText ''runtime configuration contains an unsupported target kind''"
    | "build_kubernetes_target lib pem files t h = (Inl e, h')" | "build_monitoring_target lib pem files t h = (Inl e, h')"
    | "build_flux_target lib pem files t h = (Inl e, h')"
    by (auto simp: build_target_def loading split: if_splits)
  then show ?thesis
  proof cases
    case 1
    then show ?thesis by (simp add: load_errors_def)
  next
    case 2
    then show ?thesis
      by (auto simp: build_kubernetes_target_def loading target_invalid_listed split: if_splits
          dest: shared_target_errors or_invalid_Inl)
  next
    case 3
    then show ?thesis
      by (auto simp: build_monitoring_target_def loading target_invalid_listed split: if_splits option.splits
          dest: shared_target_errors or_invalid_Inl)
  next
    case 4
    then show ?thesis
      by (auto simp: build_flux_target_def loading target_invalid_listed split: if_splits
          dest: shared_target_errors or_invalid_Inl)
  qed
qed

lemma build_targets_errors: "build_targets lib pem files ts out h = (Inl e, h') \<Longrightarrow> e \<in> load_errors"
  by (induction ts arbitrary: out h) (auto simp: loading dest: build_target_errors)

lemma decode_config_errors: "decode_config body = Inl e \<Longrightarrow> e \<in> load_errors"
  by (auto simp: decode_config_def ensure_json_end_def load_errors_def split: option.splits prod.splits if_splits)

lemma load_config_errors: "load_config lib pem files path h = (Inl e, h') \<Longrightarrow> e \<in> load_errors"
  by (auto simp: load_config_def loading dest: build_targets_errors decode_config_errors load_file_Inl)
    (auto simp: load_errors_def dest: load_file_Inl)

subsection \<open>Which bodies are accepted\<close>

definition accepts :: "'a decoder \<Rightarrow> (json \<Rightarrow> bool) \<Rightarrow> bool" where
  "accepts d shape \<longleftrightarrow> (\<forall>j old. d j old \<noteq> None \<longleftrightarrow> shape j)"

definition string_shape :: "json \<Rightarrow> bool" where
  "string_shape j = (case j of JString _ \<Rightarrow> True | JNull \<Rightarrow> True | _ \<Rightarrow> False)"

definition struct_shape :: "(string \<Rightarrow> json \<Rightarrow> bool) \<Rightarrow> json \<Rightarrow> bool" where
  "struct_shape shape j =
     (case j of JObject ms \<Rightarrow> list_all (\<lambda>(k, v). shape (fold_text k) v) ms | JNull \<Rightarrow> True | _ \<Rightarrow> False)"

definition list_shape :: "(json \<Rightarrow> bool) \<Rightarrow> json \<Rightarrow> bool" where
  "list_shape shape j = (case j of JArray js \<Rightarrow> list_all shape js | JNull \<Rightarrow> True | _ \<Rightarrow> False)"

lemma acceptsD: "accepts d shape \<Longrightarrow> d j old \<noteq> None \<longleftrightarrow> shape j"
  by (simp add: accepts_def)

lemma accepts_string: "accepts into_string string_shape"
  by (auto simp: accepts_def into_string_def string_shape_def split: json.split)

lemma accepts_field: "accepts d shape \<Longrightarrow> accepts (into_field get put d) shape"
  by (simp add: accepts_def into_field_def)

lemma accepts_reject: "accepts reject_member (\<lambda>_. False)"
  by (simp add: accepts_def reject_member_def)

lemma accepts_struct:
  assumes "\<And>k. accepts (f k) (shape k)"
  shows "accepts (into_struct f) (struct_shape shape)"
proof -
  have "store_members f ms old \<noteq> None \<longleftrightarrow> list_all (\<lambda>(k, v). shape (fold_text k) v) ms" for ms old
  proof (induction ms arbitrary: old)
    case (Cons m ms)
    obtain k v where m: "m = (k, v)" by (cases m)
    have "f (fold_text k) v old \<noteq> None \<longleftrightarrow> shape (fold_text k) v" using acceptsD [OF assms] .
    with Cons.IH show ?case by (cases "f (fold_text k) v old") (auto simp: m)
  qed simp
  then show ?thesis by (auto simp: accepts_def into_struct_def struct_shape_def split: json.split)
qed

lemma decode_items_accepts:
  "accepts d shape \<Longrightarrow> decode_items d zero js old \<noteq> None \<longleftrightarrow> list_all shape js"
proof (induction js arbitrary: old)
  case (Cons j js)
  let ?old = "case old of [] \<Rightarrow> zero | x # _ \<Rightarrow> x"
  have "d j ?old \<noteq> None \<longleftrightarrow> shape j" using Cons.prems by (rule acceptsD)
  with Cons.IH [OF Cons.prems, of "tl old"] show ?case by (cases "d j ?old") auto
qed simp

lemma accepts_list: "accepts d shape \<Longrightarrow> accepts (into_list zero d) (list_shape shape)"
  using decode_items_accepts [of d shape zero]
  by (auto simp: accepts_def into_list_def list_shape_def split: json.split)

lemma accepts_pointer: "accepts d (struct_shape shape) \<Longrightarrow> accepts (into_pointer zero d) (struct_shape shape)"
  by (auto simp: accepts_def into_pointer_def struct_shape_def split: json.splits option.split)

lemma accepts_if: "accepts d A \<Longrightarrow> accepts e B \<Longrightarrow> accepts (if c then d else e) (\<lambda>j. if c then A j else B j)"
  by simp

text \<open>The members of the configuration, by their folded names.\<close>

definition string_members :: "string list \<Rightarrow> string \<Rightarrow> json \<Rightarrow> bool" where
  "string_members names k j \<longleftrightarrow> k \<in> set names \<and> string_shape j"

definition service_shape :: "json \<Rightarrow> bool" where
  "service_shape = struct_shape (string_members [''namespace'', ''name'', ''port''])"

definition target_member :: "string \<Rightarrow> json \<Rightarrow> bool" where
  "target_member k j \<longleftrightarrow>
     string_members [''id'', ''kind'', ''endpoint'', ''bearertokenfile'', ''cabundlefile'', ''requesttimeout''] k j \<or>
     k = ''scopes'' \<and> list_shape (struct_shape (string_members [''id'', ''namespace''])) j \<or>
     k \<in> {''prometheus'', ''alertmanager''} \<and> service_shape j \<or>
     k = ''scrapes'' \<and> list_shape (struct_shape (string_members [''id'', ''job'', ''instance''])) j \<or>
     k = ''alertcomponents'' \<and> list_shape (struct_shape (string_members [''alertname'', ''component''])) j"

definition config_shape :: "json \<Rightarrow> bool" where
  "config_shape = struct_shape (\<lambda>k j. k = ''targets'' \<and> list_shape (struct_shape target_member) j)"

lemmas accepts_rules = accepts_if accepts_field accepts_string accepts_reject accepts_list accepts_pointer

lemma accepts_eq: "accepts d shape \<Longrightarrow> shape = shape' \<Longrightarrow> accepts d shape'"
  by simp

lemma accepts_config_scope: "accepts into_config_scope (struct_shape (string_members [''id'', ''namespace'']))"
  unfolding into_config_scope_def
  by (rule accepts_struct, rule accepts_eq, (rule accepts_rules)+) (auto simp: string_members_def fun_eq_iff)

lemma accepts_config_service: "accepts into_config_service service_shape"
  unfolding into_config_service_def service_shape_def
  by (rule accepts_struct, rule accepts_eq, (rule accepts_rules)+) (auto simp: string_members_def fun_eq_iff)

lemma accepts_config_scrape: "accepts into_config_scrape (struct_shape (string_members [''id'', ''job'', ''instance'']))"
  unfolding into_config_scrape_def
  by (rule accepts_struct, rule accepts_eq, (rule accepts_rules)+) (auto simp: string_members_def fun_eq_iff)

lemma accepts_config_component:
  "accepts into_config_component (struct_shape (string_members [''alertname'', ''component'']))"
  unfolding into_config_component_def
  by (rule accepts_struct, rule accepts_eq, (rule accepts_rules)+) (auto simp: string_members_def fun_eq_iff)

lemma accepts_config_target: "accepts into_config_target (struct_shape target_member)"
  unfolding into_config_target_def
  by (rule accepts_struct, rule accepts_eq,
      (rule accepts_rules accepts_config_scope accepts_config_scrape accepts_config_component
        accepts_config_service [unfolded service_shape_def])+)
    (auto simp: target_member_def string_members_def service_shape_def fun_eq_iff)

lemma accepts_config_file: "accepts into_config_file config_shape"
  unfolding into_config_file_def config_shape_def
  by (rule accepts_struct, rule accepts_eq, (rule accepts_rules accepts_config_target)+) (auto simp: fun_eq_iff)

text \<open>The number of targets: a later member \<open>targets\<close> replaces an earlier one.\<close>

definition target_count :: "json \<Rightarrow> nat" where
  "target_count j =
     (case j of JObject ms \<Rightarrow> fold (\<lambda>(k, v) n. case v of JArray js \<Rightarrow> length js | _ \<Rightarrow> 0) ms 0 | _ \<Rightarrow> 0)"

lemma config_file_count:
  assumes "into_config_file j \<lparr>cfg_targets = []\<rparr> = Some config"
  shows "length (cfg_targets config) = target_count j"
proof -
  let ?f = "\<lambda>k. if k = ''targets'' then into_field cfg_targets (\<lambda>v r. r\<lparr>cfg_targets := v\<rparr>)
       (into_list zero_config_target into_config_target) else reject_member"
  have field: "length (cfg_targets r') = (case v of JArray js \<Rightarrow> length js | _ \<Rightarrow> 0)"
    if "?f k v r = Some r'" for k v and r r' :: config_file
    using that
    by (auto simp: into_field_def into_list_def reject_member_def dest!: decode_items_length
        split: if_splits json.splits)
  have "store_members ?f ms r = Some r' \<Longrightarrow>
      length (cfg_targets r') = fold (\<lambda>(k, v) n. case v of JArray js \<Rightarrow> length js | _ \<Rightarrow> 0) ms (length (cfg_targets r))"
    for ms and r r' :: config_file
  proof (induction ms arbitrary: r)
    case (Cons m ms)
    obtain k v where m: "m = (k, v)" by (cases m)
    with Cons.prems obtain r1 where r1: "?f (fold_text k) v r = Some r1" "store_members ?f ms r1 = Some r'"
      by (auto split: option.splits)
    from Cons.IH [OF r1(2)] field [OF r1(1)] show ?case by (simp add: m)
  qed simp
  from this [of _ "\<lparr>cfg_targets = []\<rparr>" config] assms show ?thesis
    by (auto simp: into_config_file_def into_struct_def target_count_def split: json.splits)
qed

subsection \<open>Which files are opened\<close>

definition target_paths :: "config_target \<Rightarrow> string list" where
  "target_paths t = filter (\<lambda>p. p \<noteq> []) [ctgt_bearer_token_file t, ctgt_ca_bundle_file t]"

text \<open>\<open>opens m ps\<close>: \<open>m\<close> opens the files \<open>ps\<close> in order, or stops with an error after some of them.\<close>

definition opens :: "'a loading \<Rightarrow> string list \<Rightarrow> bool" where
  "opens m ps \<longleftrightarrow> (\<forall>h. (\<exists>n. snd (m h) = h @ take n ps) \<and> (\<forall>x. fst (m h) = Inr x \<longrightarrow> snd (m h) = h @ ps))"

lemma opens_error: "opens (load_return (Inl e)) ps"
  by (auto simp: opens_def load_return_def intro: exI [of _ 0])

lemma opens_return: "opens (load_return r) []"
  by (auto simp: opens_def load_return_def)

lemma opens_file: "opens (load_file files path limit err) [path]"
  by (auto simp: opens_def load_file_def read_bounded_file_def split: option.split intro: exI [of _ 1])

lemma opens_bind:
  assumes "opens m ps" and "\<And>x. opens (k x) qs"
  shows "opens (load_bind m k) (ps @ qs)"
  unfolding opens_def
proof
  fix h
  obtain n where n: "snd (m h) = h @ take n ps" using assms(1) by (auto simp: opens_def)
  show "(\<exists>n. snd (load_bind m k h) = h @ take n (ps @ qs)) \<and>
      (\<forall>x. fst (load_bind m k h) = Inr x \<longrightarrow> snd (load_bind m k h) = h @ ps @ qs)"
  proof (cases "m h")
    case (Pair r h')
    show ?thesis
    proof (cases r)
      case (Inl e)
      with n Pair have "snd (load_bind m k h) = h @ take (min n (length ps)) (ps @ qs)"
        by (simp add: load_bind_def min_def)
      with Inl Pair show ?thesis by (auto simp: load_bind_def intro!: exI [of _ "min n (length ps)"])
    next
      case (Inr x)
      with assms(1) Pair have h': "h' = h @ ps" by (auto simp: opens_def) (metis fst_conv snd_conv)
      obtain i where i: "snd (k x h') = h' @ take i qs" using assms(2) [of x] by (auto simp: opens_def)
      have finished: "fst (k x h') = Inr y \<Longrightarrow> snd (k x h') = h' @ qs" for y using assms(2) [of x] by (auto simp: opens_def)
      have "snd (load_bind m k h) = h @ take (length ps + i) (ps @ qs)"
        using Pair Inr h' i by (simp add: load_bind_def)
      with Pair Inr h' finished show ?thesis by (auto simp: load_bind_def intro!: exI [of _ "length ps + i"])
    qed
  qed
qed

lemma opens_optional:
  assumes "path \<noteq> [] \<Longrightarrow> opens m [path]" and "path = [] \<Longrightarrow> opens m []"
  shows "opens m (filter (\<lambda>p. p \<noteq> []) [path])"
  using assms by (cases "path = []") simp_all

lemma opens_credential: "opens (file_credential_source files path) (filter (\<lambda>p. p \<noteq> []) [path])"
proof (rule opens_optional)
  assume "path \<noteq> []"
  have "opens (load_bind (load_file files path max_credential_bytes (ErrorText ''read source credential failed''))
      (\<lambda>body. let token = trim_space body in
        if token = [] \<or> list_ex (\<lambda>c. c \<in> {CHR '' '', CHR 0x09, CHR 0x0D, CHR 0x0A}) token
          then load_return (Inl (ErrorText ''source credential is invalid''))
        else load_return (Inr token))) ([path] @ [])"
    by (intro opens_bind opens_file) (simp add: Let_def opens_return)
  with \<open>path \<noteq> []\<close> have "opens (read_credential files path) [path]" by (simp add: read_credential_def)
  then have "opens (load_bind (read_credential files path) (\<lambda>_. load_return (Inr (Some path)))) ([path] @ [])"
    by (intro opens_bind opens_return)
  with \<open>path \<noteq> []\<close> show "opens (file_credential_source files path) [path]" by (simp add: file_credential_source_def)
qed (simp add: file_credential_source_def opens_return)

lemma opens_client: "opens (secure_http_client pem files path) (filter (\<lambda>p. p \<noteq> []) [path])"
proof (rule opens_optional)
  assume "path \<noteq> []"
  have "opens (load_bind (load_file files path max_ca_bundle_bytes (ErrorText ''read source CA bundle failed''))
      (\<lambda>bundle. if \<not> pem bundle then load_return (Inl (ErrorText ''source CA bundle is invalid''))
        else load_return (Inr \<lparr>hc_follow_redirects = False, tls_proxy = False, tls_min_version = 0x0303,
            tls_extra_roots = Some bundle\<rparr>))) ([path] @ [])"
    by (intro opens_bind opens_file) (simp add: opens_return)
  with \<open>path \<noteq> []\<close> show "opens (secure_http_client pem files path) [path]" by (simp add: secure_http_client_def)
qed (simp add: secure_http_client_def opens_return)

lemma opens_shared_target: "opens (build_shared_target lib pem files t) (target_paths t)"
proof -
  have "opens (build_shared_target lib pem files t)
     (filter (\<lambda>p. p \<noteq> []) [ctgt_bearer_token_file t] @ filter (\<lambda>p. p \<noteq> []) [ctgt_ca_bundle_file t] @ [])"
    unfolding build_shared_target_def
    by (intro opens_bind opens_credential opens_client) (simp add: opens_return split: option.split)
  then show ?thesis by (simp add: target_paths_def split: if_splits)
qed

lemma opens_then: "opens m ps \<Longrightarrow> (\<And>x. opens (k x) []) \<Longrightarrow> opens (load_bind m k) ps"
  using opens_bind [of m ps k "[]"] by simp

lemma opens_build_target: "opens (build_target lib pem files t out) (target_paths t)"
proof -
  have "opens (build_kubernetes_target lib pem files t) (target_paths t)"
    by (auto simp: build_kubernetes_target_def opens_error opens_return split: prod.split
        intro!: opens_then opens_shared_target)
  moreover have "opens (build_flux_target lib pem files t) (target_paths t)"
    by (auto simp: build_flux_target_def opens_error opens_return split: prod.split
        intro!: opens_then opens_shared_target)
  moreover have "opens (build_monitoring_target lib pem files t) (target_paths t)"
    by (auto simp: build_monitoring_target_def opens_error opens_return split: prod.split option.split
        intro!: opens_then opens_shared_target)
  ultimately show ?thesis by (auto simp: build_target_def opens_error opens_return intro!: opens_then)
qed

lemma opens_build_targets: "opens (build_targets lib pem files ts out) (concat (map target_paths ts))"
  by (induction ts arbitrary: out) (auto intro: opens_bind opens_build_target opens_return)

subsection \<open>An example\<close>

definition example_config_body :: string where
  "example_config_body = backquoted
     (''{`targets`:[{`id`:`flux-a`,`kind`:`flux`,`endpoint`:`https://k8s.example`,'' @
      ''`bearerTokenFile`:`/token`,`requestTimeout`:`2s`,`scopes`:[{`id`:`apps`,`namespace`:`apps-prod`}]}]} '')"

definition example_files :: files where
  "example_files h path =
     (if path = ''/config'' then Some \<lparr>stream_bytes = example_config_body, stream_broken = False\<rparr>
      else if path = ''/token'' then Some \<lparr>stream_bytes = ''secret'' @ [CHR 0x0A], stream_broken = False\<rparr>
      else None)"

definition example_sources :: sources where
  "example_sources = \<lparr>src_kubernetes = [], src_monitoring = [],
     src_flux = [\<lparr>flux_target_id = ''flux-a'',
       flux_http = \<lparr>src_base_url = example_url, src_credential = True, src_http_client = example_http_client,
         src_request_timeout = 2 * second\<rparr>,
       flux_scopes = [(''apps'', ''apps-prod'')]\<rparr>]\<rparr>"

lemma example_load:
  "load_config example_lib (\<lambda>_. False) example_files ''/config'' [] = (Inr example_sources, [''/config'', ''/token''])"
  by code_simp

subsection \<open>The properties\<close>

text \<open>
  Whatever the configuration says, every client that is loaded is well formed: valid
  identifiers and namespaces, an HTTPS origin, no redirects, a timeout from a millisecond to
  half a minute, and there are at most 32 of them.
\<close>

theorem loaded_sources_ok:
  assumes "load_config lib pem files path h = (Inr out, h')"
  shows "sources_ok out \<and> source_count out \<le> 32"
  by (rule load_config_ok [OF assms])

theorem loaded_sources_ok_witness:
  "sources_ok example_sources \<and> source_count example_sources \<le> 32"
  by (rule loaded_sources_ok [OF example_load])

text \<open>
  C32: a configuration body is accepted exactly when it is one JSON value, with nothing but white
  space after it, whose objects only have the members of the schema with values of their kinds,
  and which lists at most 32 targets.
\<close>

theorem config_accepted_iff:
  "(\<exists>config. decode_config body = Inr config) \<longleftrightarrow>
     (\<exists>j. unmarshal_json body = Some j \<and> config_shape j \<and> target_count j \<le> 32)"
proof -
  have "(\<exists>config. into_config_file j \<lparr>cfg_targets = []\<rparr> = Some config \<and> int (length (cfg_targets config)) \<le> max_targets)
      \<longleftrightarrow> config_shape j \<and> target_count j \<le> 32" for j
    using acceptsD [OF accepts_config_file, of j "\<lparr>cfg_targets = []\<rparr>"] config_file_count [of j]
    by (cases "into_config_file j \<lparr>cfg_targets = []\<rparr>") (auto simp: max_targets_def)
  then show ?thesis unfolding decode_config_Inr by blast
qed

text \<open>
  C33: loading opens the configuration file and then, in the order of the targets, their token and CA
  files, or a prefix of these; no other file, and none at all after a refused body.
\<close>

theorem load_opens_named_files:
  "\<exists>n. snd (load_config lib pem files path h) = h @ path # take n
     (case fst (load_bind (load_file files path max_config_bytes (ErrorText ''open runtime configuration failed''))
        (\<lambda>body. load_return (decode_config body)) h) of
       Inl e \<Rightarrow> [] | Inr config \<Rightarrow> concat (map target_paths (cfg_targets config)))"
proof (cases "load_file files path max_config_bytes (ErrorText ''open runtime configuration failed'') h")
  case (Pair r h1)
  show ?thesis
  proof (cases r)
    case (Inl e)
    with Pair load_file_Inl [of files path max_config_bytes _ h e h1] show ?thesis
      by (auto simp: load_config_def load_bind_def)
  next
    case (Inr body)
    with Pair have h1: "h1 = h @ [path]" by (auto simp: load_file_Inr)
    show ?thesis
    proof (cases "decode_config body")
      case (Inl e)
      with Pair Inr h1 show ?thesis by (simp add: load_config_def load_bind_def load_return_def)
    next
      case config: (Inr config)
      let ?build = "build_targets lib pem files (cfg_targets config)
        \<lparr>src_kubernetes = [], src_monitoring = [], src_flux = []\<rparr>"
      obtain n where "snd (?build h1) = h1 @ take n (concat (map target_paths (cfg_targets config)))"
        using opens_build_targets unfolding opens_def by blast
      with Pair Inr config h1 show ?thesis
        by (intro exI [of _ n]) (simp add: load_config_def load_bind_def load_return_def)
    qed
  qed
qed

text \<open>
  C34: the error of a refused configuration is one of eleven fixed texts, so no path, endpoint,
  credential or other value of the configuration is shown by it.
\<close>

theorem load_errors_fixed:
  assumes "fst (load_config lib pem files path h) = Inl e"
  shows "e \<in> load_errors"
  using assms load_config_errors by (metis prod.collapse)

theorem load_errors_fixed_witness:
  "fst (load_config example_lib (\<lambda>_. False) example_files ''/missing'' []) =
     Inl (ErrorText ''open runtime configuration failed'') \<and>
   ErrorText ''open runtime configuration failed'' \<in> load_errors"
proof -
  have "fst (load_config example_lib (\<lambda>_. False) example_files ''/missing'' []) =
      Inl (ErrorText ''open runtime configuration failed'')" by code_simp
  with load_errors_fixed show ?thesis by blast
qed

text \<open>
  C35: reading a credential opens its file once, every time it is called, and yields either one of
  two fixed errors or a token that every adapter accepts: not empty, at most 16 KiB long and
  without white space.
\<close>

theorem credential_valid:
  assumes "path \<noteq> []"
  shows "snd (read_credential files path h) = h @ [path] \<and>
    (case fst (read_credential files path h) of
       Inl e \<Rightarrow> e \<in> {ErrorText ''read source credential failed'', ErrorText ''source credential is invalid''}
     | Inr token \<Rightarrow> valid_bearer_token token \<and> kubernetes_valid_bearer_token token)"
proof (cases "read_credential files path h")
  case (Pair r h')
  show ?thesis
  proof (cases r)
    case (Inl e)
    with Pair have r: "read_credential files path h = (Inl e, h')" by simp
    then have "h' = h @ [path] \<and>
        e \<in> {ErrorText ''read source credential failed'', ErrorText ''source credential is invalid''}"
      using assms
      by (auto simp: read_credential_def loading load_file_Inr Let_def dest!: load_file_Inl split: if_splits)
    with r show ?thesis by simp
  next
    case (Inr token)
    with Pair assms read_credential_Inr [of files path h token h'] show ?thesis
      by (simp add: kubernetes_valid_bearer_token_eq)
  qed
qed

theorem credential_valid_witness:
  "fst (read_credential example_files ''/token'' []) = Inr ''secret'' \<and> valid_bearer_token ''secret''"
proof -
  have "fst (read_credential example_files ''/token'' []) = Inr ''secret''" by code_simp
  with credential_valid [of "''/token''" example_files "[]"] show ?thesis by simp
qed

end
