(* ===== verification/HttpProperties.thy ===== *)
theory HttpProperties
  imports HttpTransport Examples
begin

section \<open>Properties of the HTTP transport\<close>

text \<open>
  What reaches the MCP handler, how probe and health handler fit together, and that \<open>Serve\<close> always
  comes to an end once its context is done.
\<close>

subsection \<open>Admitted requests\<close>

definition whole_body :: "http_request \<Rightarrow> bool" where
  "whole_body request \<longleftrightarrow>
     hr_content_length request \<le> 65536 \<and> \<not> stream_broken (hr_body request) \<and>
     length (stream_bytes (hr_body request)) \<le> 65536"

text \<open>
  A request is from the same origin when the browser says so or does not speak at all, or, from a
  browser that only sends \<open>Origin\<close>, when that names the host of the request. The methods that must
  not change anything are exempt.
\<close>

definition same_origin :: "stdlib \<Rightarrow> http_request \<Rightarrow> bool" where
  "same_origin lib request \<longleftrightarrow>
     (if hr_header request ''Sec-Fetch-Site'' \<noteq> []
      then hr_header request ''Sec-Fetch-Site'' \<in> {''same-origin'', ''none''}
      else hr_header request ''Origin'' = [] \<or>
        (\<exists>u. lib_parse_url lib (hr_header request ''Origin'') = Some u \<and> url_host u = hr_host request))"

definition safe_method :: "http_request \<Rightarrow> bool" where
  "safe_method request \<longleftrightarrow> hr_method request \<in> {''GET'', ''HEAD'', ''OPTIONS''}"

lemma cross_origin_check_None:
  "cross_origin_check lib request = None \<longleftrightarrow> safe_method request \<or> same_origin lib request"
  by (auto simp: cross_origin_check_def safe_method_def same_origin_def split: option.split)

text \<open>
  A request the MCP handler may see: to its path, with the name or an address of the loopback
  interface as host, from the same origin unless its method is \<open>GET\<close>, \<open>HEAD\<close> or \<open>OPTIONS\<close>, and, when
  it is a \<open>POST\<close>, with a complete body of at most 64 KiB. The body of any other method is not looked
  at.
\<close>

definition admitted :: "stdlib \<Rightarrow> ip_parser \<Rightarrow> http_request \<Rightarrow> bool" where
  "admitted lib parse_ip request \<longleftrightarrow>
     hr_path request = ''/mcp'' \<and> (safe_method request \<or> same_origin lib request) \<and>
     valid_loopback_host parse_ip (hr_host request) \<and> (hr_method request = ''POST'' \<longrightarrow> whole_body request)"

definition handed_on :: "http_request \<Rightarrow> http_request" where
  "handed_on request =
     (if hr_method request = ''POST''
        then request\<lparr>hr_body := \<lparr>stream_bytes = stream_bytes (hr_body request), stream_broken = False\<rparr>\<rparr>
      else request)"

lemma read_whole_body:
  "read_limited (max_mcp_request_bytes + 1) s = Some body \<and> \<not> max_mcp_request_bytes < int (length body) \<longleftrightarrow>
     \<not> stream_broken s \<and> length (stream_bytes s) \<le> 65536 \<and> body = stream_bytes s"
  by (auto simp: read_limited_def max_mcp_request_bytes_def split: if_splits)

lemma bounded_body_admits:
  "hr_method request = ''POST'' \<Longrightarrow> whole_body request \<Longrightarrow> bounded_body next request s = next (handed_on request) s"
  using read_whole_body [of "hr_body request" "stream_bytes (hr_body request)"]
  by (auto simp: bounded_body_def whole_body_def handed_on_def max_mcp_request_bytes_def)

lemma bounded_body_refuses:
  "hr_method request = ''POST'' \<Longrightarrow> \<not> whole_body request \<Longrightarrow>
     \<exists>response. bounded_body next request s = (response, s) \<and> hs_status response \<in> {400, 413}"
  using read_whole_body [of "hr_body request"]
  by (auto simp: bounded_body_def whole_body_def http_error_def max_mcp_request_bytes_def split: option.split)

lemma new_handler_mcp:
  assumes "hr_path request = ''/mcp''"
  shows "if admitted lib parse_ip request
    then new_handler lib parse_ip miss streamable request s = streamable (handed_on request) s
    else \<exists>response. new_handler lib parse_ip miss streamable request s = (response, s) \<and>
      hs_status response \<in> {400, 403, 413}"
proof (cases "cross_origin_check lib request = None \<and> valid_loopback_host parse_ip (hr_host request)")
  case True
  then have chain: "new_handler lib parse_ip miss streamable request s = bounded_body streamable request s"
    using assms by (simp add: new_handler_def cross_origin_protection_def loopback_host_only_def)
  show ?thesis
  proof (cases "hr_method request = ''POST''")
    case post: True
    show ?thesis
      using True assms post bounded_body_admits [OF post, of streamable s] bounded_body_refuses [OF post, of streamable s]
      unfolding chain admitted_def cross_origin_check_None [symmetric] by auto
  next
    case False
    with True assms show ?thesis unfolding chain
      by (simp add: admitted_def cross_origin_check_None [symmetric] bounded_body_def handed_on_def)
  qed
next
  case False
  with assms show ?thesis
    by (auto simp: admitted_def cross_origin_check_None [symmetric] new_handler_def cross_origin_protection_def
        loopback_host_only_def http_error_def split: option.split)
qed

text \<open>An HTTP client of the server that answers with \<open>handler\<close> at a port of the loopback address.\<close>

definition loopback_client :: "unit http_handler \<Rightarrow> int \<Rightarrow> string \<Rightarrow> (int \<times> stream) option" where
  "loopback_client handler port url =
     (let origin = ''http://'' @ loopback_address @ '':'' @ int_text port in
      if take (length origin) url \<noteq> origin then None
      else
        (let request = \<lparr>hr_method = ''GET'', hr_path = drop (length origin) url,
               hr_host = loopback_address @ '':'' @ int_text port, hr_header = (\<lambda>_. []), hr_content_length = 0,
               hr_body = \<lparr>stream_bytes = [], stream_broken = False\<rparr>\<rparr>;
             response = fst (handler request ())
         in Some (hs_status response, \<lparr>stream_bytes = hs_body response, stream_broken = False\<rparr>)))"

subsection \<open>The life of the server\<close>

fun phase_rank :: "serve_phase \<Rightarrow> nat" where
  "phase_rank Selecting = 3"
| "phase_rank ShuttingDown = 2"
| "phase_rank AwaitingResult = 1"
| "phase_rank (Returned _) = 0"

definition serve_measure :: "serve_state \<Rightarrow> nat" where
  "serve_measure st = phase_rank (sv_phase st) + (if sv_running st then 1 else 0) + (if sv_done st then 0 else 1)"

lemma serve_step_decreases: "serve_step st st' \<Longrightarrow> serve_measure st' < serve_measure st"
  by (induction rule: serve_step.induct) (auto simp: serve_measure_def)

text \<open>
  The goroutine sends at most once, into an empty channel; while \<open>Serve\<close> still waits, the
  goroutine runs or its result is in the channel.
\<close>

definition serve_inv :: "serve_state \<Rightarrow> bool" where
  "serve_inv st \<longleftrightarrow>
     (sv_running st \<longrightarrow> sv_channel st = None) \<and>
     (sv_phase st \<in> {Selecting, ShuttingDown, AwaitingResult} \<longrightarrow> sv_running st \<or> sv_channel st \<noteq> None)"

lemma serve_start_inv: "serve_inv (serve_start listener server_nil)"
  by (simp add: serve_inv_def serve_start_def split: option.split)

lemma serve_step_inv: "serve_step st st' \<Longrightarrow> serve_inv st \<Longrightarrow> serve_inv st'"
  by (induction rule: serve_step.induct) (auto simp: serve_inv_def)

lemma serve_reachable_inv: "serve_step\<^sup>*\<^sup>* (serve_start listener server_nil) st \<Longrightarrow> serve_inv st"
  by (induction rule: rtranclp_induct) (auto intro: serve_start_inv serve_step_inv)

lemma serve_stuck:
  assumes "serve_inv st" and "\<nexists>st'. serve_step st st'"
  shows "\<exists>r. sv_phase st = Returned r"
proof (cases "sv_phase st")
  case Selecting
  then have "sv_done st" using assms(2) context_done by blast
  with Selecting assms(2) select_done show ?thesis by blast
next
  case ShuttingDown
  with assms(2) shutdown_ok show ?thesis by blast
next
  case AwaitingResult
  then have "sv_running st \<or> sv_channel st \<noteq> None" using assms(1) by (simp add: serve_inv_def)
  with AwaitingResult assms(2) server_returns [of st err_server_closed] await_result show ?thesis by blast
qed blast

text \<open>The results \<open>Serve\<close> can have after it started the server: the end of the server, or a failed shutdown.\<close>

lemma serve_start_Selecting:
  "sv_phase (serve_start listener server_nil) = Selecting \<longleftrightarrow>
     validate_listener listener = None \<and> \<not> server_nil"
  by (simp add: serve_start_def split: option.split)

subsection \<open>The properties\<close>

text \<open>
  C36: the MCP handler is handed exactly the admitted requests. A request to another path or for a
  host that is not the loopback interface never reaches it; a request from another origin only with
  the method \<open>GET\<close>, \<open>HEAD\<close> or \<open>OPTIONS\<close>; and a \<open>POST\<close>, the only method that carries a message, only with
  a body of at most 64 KiB that was read to its end, and with exactly that body. Requests of other
  methods are handed on as they are, whatever their body.
\<close>

theorem mcp_sees_admitted_only:
  "snd (new_handler lib parse_ip (\<lambda>r seen. (miss r, seen)) (\<lambda>r seen. (reply r, seen @ [r])) request seen) =
     seen @ (if admitted lib parse_ip request then [handed_on request] else [])"
proof (cases "hr_path request = ''/mcp''")
  case True
  then show ?thesis
    using new_handler_mcp [OF True, of lib parse_ip "\<lambda>r seen. (miss r, seen)" "\<lambda>r seen. (reply r, seen @ [r])" seen]
    by (auto split: if_splits)
next
  case False
  then show ?thesis
    by (simp add: admitted_def new_handler_def health_handler_def http_error_def Let_def split: prod.split)
qed

text \<open>
  C37: probes and health handler fit together: against the handler the server installs, whatever its
  MCP handler does, a probe succeeds for exactly the three kinds and the ports 1 to 65535.
\<close>

theorem probe_meets_health_handler:
  "probe (loopback_client (new_handler lib parse_ip miss streamable) port) port kind =
     (if port < 1 \<or> 65535 < port then Some err_invalid_port
      else if kind \<in> {''liveness'', ''readiness'', ''startup''} then None else Some err_probe_failed)"
proof -
  let ?handler = "new_handler lib parse_ip miss streamable"
  have "loopback_client ?handler port (''http://'' @ loopback_address @ '':'' @ int_text port @ path) =
      Some (200, \<lparr>stream_bytes = ''ok'' @ [CHR 0x0A], stream_broken = False\<rparr>)" if "path \<in> {''/livez'', ''/readyz''}" for path
    using that by (auto simp: loopback_client_def Let_def new_handler_def health_handler_def)
  then show ?thesis by (auto simp: probe_def probe_path_def read_limited_def)
qed

text \<open>
  C38: the life of the server ends: every run of \<open>Serve\<close> from its start is finite, it can only stop
  by returning, and the goroutine of the server always finds room for its result.
\<close>

theorem serve_terminates:
  assumes "serve_step\<^sup>*\<^sup>* (serve_start listener server_nil) st"
  shows "wfp (\<lambda>b a. serve_step a b) \<and> (sv_running st \<longrightarrow> sv_channel st = None) \<and>
    ((\<nexists>st'. serve_step st st') \<longrightarrow> (\<exists>r. sv_phase st = Returned r))"
proof -
  have "wfp (\<lambda>b a. serve_step a b)"
    by (rule wfp_if_convertible_to_nat [where f = serve_measure]) (rule serve_step_decreases)
  moreover have "serve_inv st" using serve_reachable_inv [OF assms] .
  ultimately show ?thesis using serve_stuck by (auto simp: serve_inv_def)
qed

theorem serve_terminates_witness:
  "\<exists>st. serve_step\<^sup>*\<^sup>* (serve_start (Some (TCPAddr (Some [127, 0, 0, 1]))) False) st \<and> sv_phase st = AwaitingResult \<and>
     sv_running st \<and> sv_channel st = None"
proof -
  let ?start = "serve_start (Some (TCPAddr (Some [127, 0, 0, 1]))) False"
  have start: "?start = \<lparr>sv_phase = Selecting, sv_channel = None, sv_running = True, sv_done = False\<rparr>" by code_simp
  let ?st = "\<lparr>sv_phase = AwaitingResult, sv_channel = None, sv_running = True, sv_done = True\<rparr>"
  have "serve_step ?start (?start\<lparr>sv_done := True\<rparr>)" by (rule context_done) (simp add: start)
  moreover have "serve_step (?start\<lparr>sv_done := True\<rparr>) (?start\<lparr>sv_done := True, sv_phase := ShuttingDown\<rparr>)"
    using select_done [of "?start\<lparr>sv_done := True\<rparr>"] by (simp add: start)
  moreover have "serve_step (?start\<lparr>sv_done := True, sv_phase := ShuttingDown\<rparr>) ?st"
    using shutdown_ok [of "?start\<lparr>sv_done := True, sv_phase := ShuttingDown\<rparr>"] by (simp add: start)
  ultimately have run: "serve_step\<^sup>*\<^sup>* ?start ?st" by (meson converse_rtranclp_into_rtranclp rtranclp.rtrancl_refl)
  with serve_terminates [OF run] show ?thesis by (intro exI [of _ ?st]) simp
qed

end
