(* ===== verification/CommandProperties.thy ===== *)
theory CommandProperties
  imports Command ConfigProperties HttpProperties AuditProperties
begin

section \<open>Properties of the command line\<close>

text \<open>
  Every server a process starts is a deployed server, so everything proved of deployed servers holds
  of it; and whatever happens, a process ends with one of three exit codes, and of what it prints each
  part is accounted for.
\<close>

lemma loaded_set_families:
  "loaded_set sur out = set_of (deployed_families (sur_lib sur) (sur_worlds sur) (sur_clock sur)
     (src_kubernetes out) (src_monitoring out) (src_flux out))"
  by (simp add: loaded_set_def set_of_def deployed_families_def comp_def)

lemma load_server_Inr:
  assumes "load_server sur version config_path = Inr server"
  shows "\<exists>out. sources_ok out \<and> source_count out \<le> 32 \<and>
    new_with_source_set version (loaded_set sur out) True = Inr server"
proof -
  from assms obtain out where new: "new_with_source_set version (loaded_set sur out) True = Inr server"
    and loaded: "config_path = [] \<and> out = \<lparr>src_kubernetes = [], src_monitoring = [], src_flux = []\<rparr> \<or>
      fst (load_config (sur_lib sur) (sur_pem sur) (sur_files sur) config_path []) = Inr out"
  proof -
    from assms obtain out where read: "(if config_path = [] then Inr \<lparr>src_kubernetes = [], src_monitoring = [], src_flux = []\<rparr>
        else fst (load_config (sur_lib sur) (sur_pem sur) (sur_files sur) config_path [])) = Inr out"
      and made: "(case new_with_source_set version (loaded_set sur out) True of
          Inl _ \<Rightarrow> Inl (ErrorText ''initialize server failed'') | Inr server \<Rightarrow> Inr server) = Inr server"
      unfolding load_server_def result_bind_Inr by blast
    from made have "new_with_source_set version (loaded_set sur out) True = Inr server"
      by (cases "new_with_source_set version (loaded_set sur out) True") auto
    with read show thesis by (intro that [of out]) (auto split: if_splits)
  qed
  from loaded have "sources_ok out \<and> source_count out \<le> 32"
  proof
    assume "fst (load_config (sur_lib sur) (sur_pem sur) (sur_files sur) config_path []) = Inr out"
    then show ?thesis using load_config_ok by (metis prod.collapse)
  qed (simp add: sources_ok_def source_count_def)
  with new show ?thesis by blast
qed

lemma load_server_deployed:
  assumes "load_server sur version config_path = Inr server"
  shows "\<exists>ks ms fs. length ks + length ms + length fs \<le> 32 \<and>
    deployed (sur_lib sur) (sur_worlds sur) (sur_clock sur) ks ms fs server"
proof -
  obtain out where "sources_ok out" "source_count out \<le> 32"
    "new_with_source_set version (loaded_set sur out) True = Inr server"
    using load_server_Inr [OF assms] by blast
  then show ?thesis
    by (intro exI [of _ "src_kubernetes out"] exI [of _ "src_monitoring out"] exI [of _ "src_flux out"])
      (auto simp: deployed_def sources_ok_def source_count_def loaded_set_families)
qed

lemma load_server_Inl:
  assumes "load_server sur version config_path = Inl e"
  shows "e \<in> insert (ErrorText ''initialize server failed'') load_errors"
proof (cases "if config_path = [] then Inr \<lparr>src_kubernetes = [], src_monitoring = [], src_flux = []\<rparr>
      else fst (load_config (sur_lib sur) (sur_pem sur) (sur_files sur) config_path [])")
  case (Inl e')
  then have "e = e'" and "fst (load_config (sur_lib sur) (sur_pem sur) (sur_files sur) config_path []) = Inl e'"
    using assms by (auto simp: load_server_def split: if_splits)
  then show ?thesis using load_config_errors by (metis insertCI prod.collapse)
next
  case (Inr out)
  with assms show ?thesis by (auto simp: load_server_def split: sum.splits)
qed

text \<open>The lines a process can print to its standard error.\<close>

definition fixed_lines :: "string set" where
  "fixed_lines = (\<lambda>text. ''cluster-observer-mcp: '' @ text) `
     ({''positional arguments are not supported'', ''stdio server failed'',
       ''serve-http requires a config and valid port'', ''create HTTP listener failed'', ''HTTP server failed'',
       ''probe requires a valid port'', ''health probe failed''} \<union>
      error_text ` insert (ErrorText ''initialize server failed'') load_errors)"

text \<open>What the audit log of a process consists of: lines of events that are safe.\<close>

definition audit_text :: "string \<Rightarrow> bool" where
  "audit_text t \<longleftrightarrow>
     (\<exists>events. list_all safe_event events \<and> t = concat (map (\<lambda>e. event_line e @ [CHR 0x0A]) events))"

text \<open>What package \<open>flag\<close> prints about refused arguments ends with the usage of one of three sets of flags.\<close>

definition refusal_text :: "string \<Rightarrow> bool" where
  "refusal_text t \<longleftrightarrow> (\<exists>msg. \<exists>fs \<in> {stdio_flags, http_flags, probe_flags}. t = msg @ usage_text fs)"

definition fixed_exit :: "string \<Rightarrow> exit_status \<Rightarrow> bool" where
  "fixed_exit version x \<longleftrightarrow>
     ex_code x \<in> {0, 1, 2} \<and> set (ex_stdout x) \<subseteq> insert (OwnLine version) (range ProtocolText) \<and>
     (\<forall>out \<in> set (ex_stderr x). case out of
        OwnLine l \<Rightarrow> l \<in> fixed_lines \<and> ex_code x \<noteq> 0
      | FlagText t \<Rightarrow> refusal_text t \<and> ex_code x = 2 \<and> ex_stdout x = []
      | AuditText t \<Rightarrow> audit_text t \<and> ex_code x \<noteq> 2
      | ProtocolText _ \<Rightarrow> False)"

lemma fixed_exit_with: "code \<in> {0, 1, 2} \<Longrightarrow> fixed_exit version (exit_with code)"
  by (auto simp: fixed_exit_def exit_with_def)

lemma fixed_exit_saying:
  "code \<in> {1, 2} \<Longrightarrow> ''cluster-observer-mcp: '' @ text \<in> fixed_lines \<Longrightarrow> fixed_exit version (exit_saying code text)"
  by (auto simp: fixed_exit_def exit_saying_def)

lemma take_flag_refused: "take_flag lib fs nv rest f = RefuseFlags text \<Longrightarrow> \<exists>msg. text = msg @ usage_text fs"
  by (auto simp: take_flag_def failf_def split: option.splits if_splits sum.splits prod.splits)

lemma parse_one_refused: "parse_one lib fs args f = RefuseFlags text \<Longrightarrow> \<exists>msg. text = msg @ usage_text fs"
  by (auto simp: parse_one_def failf_def Let_def dest: take_flag_refused split: list.splits if_splits)

lemma parse_flags_refused: "parse_flags lib fs args f = FlagsRefused text \<Longrightarrow> \<exists>msg. text = msg @ usage_text fs"
proof (induction lib fs args f rule: parse_flags.induct)
  case (1 lib fs args f)
  then show ?case
    by (subst (asm) parse_flags.simps) (auto split: flag_step.splits dest: parse_one_refused)
qed

lemma fixed_exit_refused:
  assumes "parse_flags lib fs arguments f = FlagsRefused text" and "fs \<in> {stdio_flags, http_flags, probe_flags}"
  shows "fixed_exit version (exit_refused text)"
  using parse_flags_refused [OF assms(1)] assms(2) by (auto simp: fixed_exit_def exit_refused_def refusal_text_def)

lemma serve_receive:
  "snd (snd (serve (receive write strict ctx_err next) calls (s, Some l))) =
     Some (snd (snd (serve (audit_middleware write strict ctx_err next) calls (s, l))))"
proof (induction calls arbitrary: s l)
  case (Cons call calls)
  obtain meth params where call: "call = (meth, params)" by (cases call)
  obtain reply s' l' where step: "audit_middleware write strict ctx_err next meth params (s, l) = (reply, s', l')"
    by (cases "audit_middleware write strict ctx_err next meth params (s, l)") auto
  then have "receive write strict ctx_err next meth params (s, Some l) = (reply, s', Some l')"
    by (simp add: receive_def)
  with step show ?case using Cons.IH [of s' l'] by (simp add: call case_prod_beta)
qed simp

lemma serve_unaudited:
  "snd (snd (serve (receive write strict ctx_err next) calls (s, None))) = None"
proof (induction calls arbitrary: s)
  case (Cons call calls)
  obtain meth params where call: "call = (meth, params)" by (cases call)
  obtain reply s' where "next meth params s = (reply, s')" by (cases "next meth params s")
  then have "receive write strict ctx_err next meth params (s, None) = (reply, s', None)"
    by (simp add: receive_def)
  then show ?case using Cons.IH [of s'] by (simp add: call case_prod_beta)
qed simp

lemma audit_output_safe: "audit_text (audit_output sur server ses)"
proof (cases "srv_audited server")
  case True
  define l where "l = the (new_audit_logger (sur_time_now sur) (Some ([] :: string)) None)"
  have l: "new_audit_logger (sur_time_now sur) (Some []) None = Some l" "al_writer l = []" "\<not> al_failed l"
    by (simp_all add: l_def new_audit_logger_def)
  obtain events where "list_all safe_event events"
    and "snd (snd (serve (audit_middleware append_writer (sur_strict_time sur) (sur_ctx_err sur) (sur_sdk sur server))
      (ses_calls ses) (sur_sdk_state sur, l))) = fold (audit_write append_writer) events l"
    using session_log [of "ses_calls ses" append_writer "sur_strict_time sur" "sur_ctx_err sur" "sur_sdk sur server"
        "sur_sdk_state sur" l] by blast
  with True l fold_append_writer [of l events] show ?thesis
    by (auto simp: audit_output_def audit_text_def serve_receive intro!: exI [of _ events])
next
  case False
  then show ?thesis by (auto simp: audit_output_def audit_text_def serve_unaudited intro!: exI [of _ "[]"])
qed

lemma fixed_exit_after:
  assumes "''cluster-observer-mcp: '' @ failure \<in> fixed_lines" and "audit_text audit" and "set stdout \<subseteq> range ProtocolText"
  shows "fixed_exit version (exit_after failure audit stdout ses)"
  using assms by (auto simp: fixed_exit_def exit_after_def split: option.split)

lemma fixed_texts:
  "''cluster-observer-mcp: '' @ ''positional arguments are not supported'' \<in> fixed_lines"
  "''cluster-observer-mcp: '' @ ''stdio server failed'' \<in> fixed_lines"
  "''cluster-observer-mcp: '' @ ''serve-http requires a config and valid port'' \<in> fixed_lines"
  "''cluster-observer-mcp: '' @ ''create HTTP listener failed'' \<in> fixed_lines"
  "''cluster-observer-mcp: '' @ ''HTTP server failed'' \<in> fixed_lines"
  "''cluster-observer-mcp: '' @ ''probe requires a valid port'' \<in> fixed_lines"
  "''cluster-observer-mcp: '' @ ''health probe failed'' \<in> fixed_lines"
  unfolding fixed_lines_def by (rule imageI, simp)+

lemma load_error_line:
  "load_server sur version config_path = Inl e \<Longrightarrow> ''cluster-observer-mcp: '' @ error_text e \<in> fixed_lines"
  unfolding fixed_lines_def using load_server_Inl by blast

lemma fixed_version: "fixed_exit version ((exit_with 0)\<lparr>ex_stdout := [OwnLine version]\<rparr>)"
  by (simp add: fixed_exit_def exit_with_def)

lemmas fixed_exits = fixed_exit_with fixed_exit_saying fixed_exit_refused fixed_exit_after fixed_version fixed_texts
  load_error_line audit_output_safe

lemma run_stdio_fixed: "fixed_exit version (run_stdio sur version arguments)"
  unfolding run_stdio_def Let_def by (auto split: flag_outcome.split sum.split intro!: fixed_exits intro: fixed_exit_refused)

lemma run_http_fixed: "fixed_exit version (run_http sur version arguments)"
  unfolding run_http_def Let_def by (auto split: flag_outcome.split sum.split intro!: fixed_exits intro: fixed_exit_refused)

lemma run_probe_fixed: "fixed_exit version (run_probe sur arguments kind)"
  unfolding run_probe_def by (auto split: flag_outcome.split intro!: fixed_exits intro: fixed_exit_refused)

text \<open>Refused arguments are reported before anything else is looked at.\<close>

definition refuses :: "exit_status \<Rightarrow> bool" where
  "refuses x \<longleftrightarrow> (\<exists>t. FlagText t \<in> set (ex_stderr x))"

lemma refuses_exits [simp]:
  "\<not> refuses (exit_with code)" "\<not> refuses (exit_saying code text)" "refuses (exit_refused text)"
  "\<not> refuses (exit_after failure audit stdout ses)" "\<not> refuses ((exit_with code)\<lparr>ex_stdout := outs\<rparr>)"
  by (auto simp: refuses_def exit_with_def exit_saying_def exit_refused_def exit_after_def split: option.splits)

lemma run_refuses:
  "refuses (run_stdio sur version arguments) \<Longrightarrow> sur_flag_lib sur' = sur_flag_lib sur \<Longrightarrow>
     run_stdio sur' version arguments = run_stdio sur version arguments"
  "refuses (run_http sur version arguments) \<Longrightarrow> sur_flag_lib sur' = sur_flag_lib sur \<Longrightarrow>
     run_http sur' version arguments = run_http sur version arguments"
  "refuses (run_probe sur arguments kind) \<Longrightarrow> sur_flag_lib sur' = sur_flag_lib sur \<Longrightarrow>
     run_probe sur' arguments kind = run_probe sur arguments kind"
  by (auto simp: run_stdio_def run_http_def run_probe_def Let_def split: flag_outcome.splits if_splits sum.splits)

subsection \<open>An example process\<close>

definition example_surroundings :: "unit surroundings" where
  "example_surroundings = \<lparr>sur_lib = example_lib,
     sur_flag_lib = \<lparr>fll_parse_int = (\<lambda>s. case parse_int s of None \<Rightarrow> BadSyntax | Some i \<Rightarrow> ParsedInt i),
       fll_quote = json_quote\<rparr>,
     sur_pem = (\<lambda>_. False), sur_files = example_files, sur_worlds = example_worlds, sur_clock = example_clock,
     sur_sdk = (\<lambda>_ _ _ s. ((OtherResult, None), s)), sur_sdk_state = (), sur_time_now = (\<lambda>_. example_instant),
     sur_ctx_err = (\<lambda>_. None), sur_strict_time = (\<lambda>_. None),
     sur_run_stdio = (\<lambda>_. \<lparr>ses_calls = [(''tools/call'', CallToolParams ''rm'' ''{}'')], ses_protocol = [], ses_error = None\<rparr>),
     sur_net_listen = (\<lambda>_. Inr (TCPAddr (Some [127, 0, 0, 1]))),
     sur_serve = (\<lambda>_ _. \<lparr>ses_calls = [], ses_protocol = [], ses_error = None\<rparr>),
     sur_client_do = loopback_client (new_handler example_lib (\<lambda>_. None) (\<lambda>_. http_error ''404 page not found'' 404)
       (\<lambda>_. http_error ''unavailable'' 500)) 8080\<rparr>"

lemma example_load_server: "\<exists>server. load_server example_surroundings ''dev'' ''/config'' = Inr server"
proof -
  have "\<not> (case load_server example_surroundings ''dev'' ''/config'' of Inl _ \<Rightarrow> True | Inr _ \<Rightarrow> False)"
    by code_simp
  then show ?thesis by (auto split: sum.splits)
qed

subsection \<open>The properties\<close>

text \<open>
  C39: a server that is loaded, with or without a configuration file, is a deployed server of at most
  32 well-formed clients, each behind the target identifier it was configured with.
\<close>

theorem loaded_server_deployed:
  assumes "load_server sur version config_path = Inr server"
  shows "\<exists>ks ms fs. length ks + length ms + length fs \<le> 32 \<and>
    deployed (sur_lib sur) (sur_worlds sur) (sur_clock sur) ks ms fs server"
  by (rule load_server_deployed [OF assms])

theorem loaded_server_deployed_witness:
  "\<exists>server ks ms fs. load_server example_surroundings ''dev'' ''/config'' = Inr server \<and>
     deployed example_lib example_worlds example_clock ks ms fs server"
proof -
  obtain server where "load_server example_surroundings ''dev'' ''/config'' = Inr server"
    using example_load_server by blast
  with loaded_server_deployed [OF this] show ?thesis by (auto simp: example_surroundings_def)
qed

text \<open>
  C40: for all arguments and surroundings a process ends with the exit code 0, 1 or 2. To the standard
  output it prints nothing but its version or the messages of the protocol. On the standard error
  there are only fixed lines of its own, and those only when the code is not 0; the log of its
  sessions, which consists of lines of safe events; and, with the code 2 and nothing else, what package
  \<open>flag\<close> says about refused arguments, which ends with a fixed usage and depends on the arguments alone:
  not on a file, a source or a session.
\<close>

theorem exit_codes_fixed:
  "fixed_exit version (run_command sur version arguments) \<and>
   (refuses (run_command sur version arguments) \<and> sur_flag_lib sur' = sur_flag_lib sur \<longrightarrow>
      run_command sur' version arguments = run_command sur version arguments)"
  unfolding run_command_def
  by (auto simp: run_stdio_fixed run_http_fixed run_probe_fixed run_refuses split: list.split)

theorem exit_codes_fixed_witness:
  "ex_stderr (run_command example_surroundings ''dev'' [''--port=x'']) =
     [FlagText (''flag provided but not defined: -port'' @ [CHR 0x0A] @ ''Usage of cluster-observer-mcp:'' @ [CHR 0x0A] @
        ''  -config string'' @ [CHR 0x0A] @ ''    '' @ [CHR 0x09] @ ''path to private runtime configuration'' @ [CHR 0x0A] @
        ''  -version'' @ [CHR 0x0A] @ ''    '' @ [CHR 0x09] @ ''print version and exit'' @ [CHR 0x0A])] \<and>
   run_command (example_surroundings\<lparr>sur_files := \<lambda>_ _. None\<rparr>) ''dev'' [''--port=x''] =
     run_command example_surroundings ''dev'' [''--port=x''] \<and>
   fixed_exit ''dev'' (run_command example_surroundings ''dev'' [])"
proof -
  have run: "ex_stderr (run_command example_surroundings ''dev'' [''--port=x'']) =
     [FlagText (''flag provided but not defined: -port'' @ [CHR 0x0A] @ ''Usage of cluster-observer-mcp:'' @ [CHR 0x0A] @
        ''  -config string'' @ [CHR 0x0A] @ ''    '' @ [CHR 0x09] @ ''path to private runtime configuration'' @ [CHR 0x0A] @
        ''  -version'' @ [CHR 0x0A] @ ''    '' @ [CHR 0x09] @ ''print version and exit'' @ [CHR 0x0A])]"
    by code_simp
  then have "refuses (run_command example_surroundings ''dev'' [''--port=x''])" by (auto simp: refuses_def)
  with run show ?thesis
    using exit_codes_fixed [of "''dev''" example_surroundings "[''--port=x'']"
        "example_surroundings\<lparr>sur_files := \<lambda>_ _. None\<rparr>"]
      exit_codes_fixed [of "''dev''" example_surroundings "[]" example_surroundings]
    by simp
qed

end
