(* ===== verification/Spec2Isabelle.thy ===== *)
theory Spec2Isabelle
  imports Slots AuditProperties CommandProperties
begin

section \<open>The cluster observer\<close>

text \<open>
  A verification library for cluster-observer-mcp, a read-only MCP server. A model asks one of six tools
  about a configured target; the server asks the Kubernetes API, an Alertmanager, a Prometheus or the
  Flux objects of that target and answers with a small normalized summary. The program promises that
  it only sends a fixed set of \<open>GET\<close> requests to configured places, that nothing but bounded, redacted
  text comes back, and that a summary which is not complete says so.

  \<^bold>\<open>How the parts fit together.\<close> \<open>cmd/cluster-observer-mcp/main.go\<close> reads the flags and loads the
  configuration (\<open>internal/config/load.go\<close>), which makes one client per target (\<open>internal/kubernetes\<close>,
  \<open>internal/monitoring\<close>, \<open>internal/flux\<close>; the last two over \<open>internal/sourcehttp\<close>). The clients are
  the sources of a server (\<open>internal/mcpserver/server.go\<close>), which enters them in its catalog
  (\<open>internal/observer/catalog.go\<close>) and in one map per tool. The inputs, outputs and their limits are
  in \<open>internal/observer/contracts.go\<close> and \<open>policy.go\<close>. Every call goes through the audit middleware
  (\<open>internal/mcpserver/audit.go\<close>). The server is run over stdio or over HTTP on the loopback interface
  (\<open>internal/httptransport\<close>).

  \<^bold>\<open>Theories.\<close> In the order of their imports:

  \<^item> \<open>Prelude\<close>: patterns for the regular expressions of the program, Go's text functions, sorting with
    a comparison function and the locale \<open>comparison\<close>, decimal numerals. \<open>Clock\<close>: instants, RFC 3339
    texts, durations. \<open>Json\<close>, \<open>JsonRead\<close>, \<open>JsonRoundTrip\<close>: values, \<open>json.Marshal\<close>, the reader and the
    decoding into structures, and that what is written reads back. \<open>Errors\<close>: error values with
    \<open>errors.Is\<close> and \<open>errors.As\<close>. \<open>Effects\<close>: computations over the history of requests.
  \<^item> \<open>Contracts\<close>, \<open>Policy\<close>, \<open>Sizes\<close>: \<open>contracts.go\<close> and \<open>policy.go\<close>, with bounds on the length of encoded
    values. \<open>Catalog\<close>: \<open>catalog.go\<close> and its properties.
  \<^item> \<open>SourceHttp\<close>: \<open>internal/sourcehttp/client.go\<close>; \<open>Slots\<close>: the channel of request slots as a step
    relation. \<open>Listing\<close>: what the adapters share (scopes, sorting by scope, kind and name, truncation, the
    nested loop over scopes and resources) with the locales \<open>keyed_listing\<close> and \<open>bounded_source\<close>.
  \<^item> \<open>Kubernetes\<close>, \<open>KubernetesObserve\<close>, \<open>KubernetesProperties\<close>; \<open>Monitoring\<close>, \<open>MonitoringFacts\<close>,
    \<open>MonitoringProperties\<close>; \<open>Flux\<close>, \<open>FluxProperties\<close>: the three adapters. \<open>Examples\<close>: a concrete instance
    of the parameters, on which the witnesses run.
  \<^item> \<open>McpServer\<close>, \<open>ServerFacts\<close>, \<open>Sources\<close>, \<open>ServerProperties\<close>: the server, its tools and handlers, and
    the locale \<open>observation\<close> for a source behind a tool. \<open>Outputs\<close>, \<open>AuditEvents\<close>, \<open>AuditFacts\<close>,
    \<open>AuditProperties\<close>: the audit log. \<open>Config\<close>, \<open>ConfigProperties\<close>; \<open>HttpTransport\<close>, \<open>HttpProperties\<close>;
    \<open>Command\<close>, \<open>CommandProperties\<close>: configuration, transport and command line.

  Definitions have the names of the code in lower case with underscores; a field of a record has a
  short prefix for its structure. Errors are values of a sum type, \<open>Inl\<close> being the error. A Go map is
  a list of pairs in the order of insertion or a partial function. Go's integers are unbounded where
  the code only compares and counts what fits a list in memory, and are read from JSON with the
  bounds of 64 bits. Text is the list of its bytes.
\<close>

text \<open>
  \<^bold>\<open>State and effects.\<close> An operation of a client takes the history of the requests so far and returns
  its result with the new history. What the surroundings do is a \<open>world\<close>: a function from the history
  and the requested path and query to an \<open>exchange\<close> (whether a slot was free before the deadline, the
  token, the reply). Every theorem holds for all worlds, so also for surroundings that change while
  an operation runs. \<open>load_config\<close> has the history of the opened files in the same way. The audit
  middleware passes on the state of the SDK and that of the logger. The request slots and the life
  of \<open>Serve\<close>, where goroutines meet, are inductive step relations.

  \<^bold>\<open>What the lemmas show.\<close>

  \<^item> Adapters: a nested loop with a mutable output is one collecting pass followed by a pure report
    (C3); a listing is bounded and sorted and, unless it is marked truncated, complete (C1, C2, C7); the
    order of alerts (C10, C11); one faithful entry per scrape identity (C12); the totals of the cluster
    health agree (C6); only fixed requests are sent, a bounded number of them, and none for a refused
    input (C4, C5, C8, C13); exactly when an operation fails (C9, C14, C15).
  \<^item> Catalog and slots: acceptance, lookup and order (C16 to C18); at most four requests in flight, and no
    deadlock (C19, C20).
  \<^item> Server: which sources are accepted (C21), that dispatch and catalog agree (C22), the size limit (C23),
    that a tool of a deployed server is the observation of the client it names (C24), what it may send
    (C25) and which errors a client can see (C26).
  \<^item> Audit: events are safe (C27), the middleware is transparent (C28), the log can be split and read back
    (C29), it ends with the first failed write (C30), and events say what happened (C31).
  \<^item> Configuration, transport, command line: accepted bodies (C32), opened files (C33), errors (C34),
    credentials (C35); what reaches the MCP handler (C36), probes (C37), termination of \<open>Serve\<close> (C38);
    loaded servers are deployed servers (C39), so that C24 to C26 hold of them; exit codes and the output
    of a process by origin (C40).

  \<^bold>\<open>Interfaces.\<close> The laws shared by several components are locales, each interpreted on the model:
  \<open>comparison\<close> (a total preorder given by a comparison function; all sorting rests on it),
  \<open>keyed_listing\<close> (lists sorted by scope, kind and name; workloads and reconciliations),
  \<open>bounded_source\<close> (one request per query, confined to a set of events; controllers and Flux
  resources), and \<open>observation\<close> (what a server may rely on of a client; the five tools).

  \<^bold>\<open>Bounds and fuel.\<close> The JSON reader runs on fuel, twice the length of the text and two more; lemma
  \<open>read_value_bound\<close> shows that this is always enough. A listing sends at most 96 requests (32 scopes, three
  resources), a cluster health summary 97, a monitoring operation one. A result has at most 64 KiB, a
  report at most 60000 bytes, so that the check of the size never fails by itself. \<open>Serve\<close> terminates
  by a measure of its phase; \<open>parse_flags\<close> and \<open>strip_all\<close> by the length of what is left.
\<close>

text \<open>
  \<^bold>\<open>Parameters.\<close> The record \<open>stdlib\<close> holds the parsers of Go's library whose exact behaviour the proofs do
  not need (URLs, media types, RFC 3339 times, floats, durations); \<open>sane_clock\<close>, \<open>sane_times\<close> and
  \<open>sane_rounding\<close> state what is documented of the clock, of parsed times and of rounding, where a theorem
  needs it. The go-sdk is a parameter: it decodes the arguments of a call, calls a handler and packs its
  answer (\<open>packs\<close>). So are the file system, the PEM parser, \<open>net.ParseIP\<close>, \<open>net.Listen\<close>, what the mux
  answers to an unknown path, and of \<open>strconv\<close> what flags use.

  \<^bold>\<open>Not modelled.\<close> Signals, sockets and timeouts of the HTTP server; the pool of system certificates; what
  the SDK prints, if anything. \<open>slices.SortFunc\<close> may order equal elements in any way, the model keeps them
  in order: the theorems on sorted results only use that they are sorted and what they contain, and C11
  requires that alerts which compare equal are equal. A slice that is decoded again over a longer earlier
  one, and then again over a longer one, shows what its capacity still holds. A client of package
  \<open>kubernetes\<close> made without an HTTP client of its own would follow redirects; its confinement (C4) is
  stated for clients that follow none, which are all that \<open>load_config\<close> makes (C39).
\<close>

end
